(* ===== verification/Gateway_Prelude.thy ===== *)
theory Gateway_Prelude
  imports Complex_Main
begin

text \<open>
  Shared vocabulary of the development: Python exceptions as values, the outside world of the
  gateway as a clock and a trace of external actions, the answers of that world as a record of
  functions, and the effect type in which every method of the program is written, with its
  combinators and the weakest-precondition calculus that the component proofs run on.

  The program is read as Python 2.7, the version of its Docker image: \<open>IOError\<close> and \<open>OSError\<close>
  are different classes and both are an \<open>EnvironmentError\<close>.  Log messages have no effect here;
  adding and removing the handler of the user log has one and is modelled.
\<close>

section \<open>Collections\<close>

named_theorems wp_simps \<open>weakest preconditions of the effect combinators\<close>
named_theorems silent_rules \<open>calls that send no control node command\<close>
named_theorems keeps_rules \<open>preservation rules of the effect combinators\<close>

section \<open>Exceptions\<close>

text \<open>
  \<open>Blocked\<close> is not a Python exception: it stands for a call that never returns (a blocking queue
  read that nothing will answer).  No handler catches it and no \<open>finally\<close> block runs after it.
\<close>

datatype exc =
    EnvironmentErr int
  | IOErr int
  | OSErr int
  | ValueErr
  | TypeErr
  | AssertionErr
  | AttributeErr
  | KeyErr
  | IndexErr
  | RuntimeErr
  | NotImplementedErr
  | SerialErr
  | TermiosErr
  | CalledProcessErr
  | ElfErr
  | FatalErr                 \<comment> \<open>of the autotests\<close>
  | LinuxConnectionErr string \<comment> \<open>of the autotests, with its \<open>err_msg\<close>\<close>
  | KeyboardInterrupt
  | Blocked

text \<open>\<open>except EnvironmentError\<close> catches its two subclasses too.\<close>

fun environment_errno :: "exc \<Rightarrow> int option" where
  "environment_errno (EnvironmentErr n) = Some n"
| "environment_errno (IOErr n) = Some n"
| "environment_errno (OSErr n) = Some n"
| "environment_errno _ = None"

definition EWOULDBLOCK :: int where
  "EWOULDBLOCK = 11"

text \<open>
  The values that come out of a JSON document or a query string.  Floating point numbers do not
  occur in the profiles of the platform and are left out.  A dict keeps the order of its keys.
\<close>

datatype pyval =
    PNone
  | PBool bool
  | PInt int
  | PStr string
  | PList "pyval list"
  | PDict "(string \<times> pyval) list"

section \<open>The outside world\<close>

text \<open>
  External actions, in the order in which the program performs them.
\<close>

datatype event =
    Call "string list"            \<comment> \<open>\<open>subprocess.call(args)\<close>\<close>
  | Spawn "string list"           \<comment> \<open>\<open>subprocess.Popen(args)\<close>\<close>
  | Terminate nat                 \<comment> \<open>\<open>Popen.terminate()\<close> on a process\<close>
  | Kill nat                      \<comment> \<open>\<open>Popen.kill()\<close> on a process\<close>
  | Signal nat int                \<comment> \<open>\<open>Popen.send_signal(sig)\<close> on a process\<close>
  | Sleep int                     \<comment> \<open>\<open>time.sleep\<close>, in milliseconds\<close>
  | CnWrite string                \<comment> \<open>text written to the control node serial program\<close>
  | CnCommand "string list" "string list option"
      \<comment> \<open>a \<open>ControlNodeSerial.send_command\<close> that ended, with the answer it gave back\<close>
  | SerialOpen string             \<comment> \<open>a serial port was opened (and is closed again)\<close>
  | SerialFlush string            \<comment> \<open>its input buffer was reset\<close>
  | SerialDtr string bool         \<comment> \<open>the DTR line was set\<close>
  | SerialAttrs string            \<comment> \<open>hang up on close was turned off for the terminal\<close>
  | SerialWrite string string     \<comment> \<open>text written to a serial port\<close>
  | SerialRead string string      \<comment> \<open>bytes read from a serial port\<close>
  | Connect string int            \<comment> \<open>a TCP connection was made\<close>
  | SockWrite string              \<comment> \<open>a line written to the serial redirection of the open node\<close>
  | SockRead "string option"      \<comment> \<open>a \<open>readline()\<close> on it; None is a timeout or an IOError\<close>
  | CnMeasures                    \<comment> \<open>the measures of the control node are looked at\<close>
  | CreateFile string             \<comment> \<open>a file was created or truncated\<close>
  | Chmod string                  \<comment> \<open>its mode was set to 0666\<close>
  | MakeDirs string               \<comment> \<open>\<open>os.makedirs\<close>\<close>
  | RemoveFile string             \<comment> \<open>\<open>os.remove\<close>\<close>
  | RemoveTree string             \<comment> \<open>\<open>shutil.rmtree\<close>\<close>
  | ThreadStart string            \<comment> \<open>a helper thread was started\<close>
  | TimerStart int                \<comment> \<open>\<open>threading.Timer(timeout).start()\<close>, in seconds\<close>
  | TimerCancel                   \<comment> \<open>\<open>Timer.cancel()\<close>\<close>

record world =
  now :: int             \<comment> \<open>\<open>time.time()\<close> in milliseconds\<close>
  trace :: "event list"  \<comment> \<open>external actions so far, oldest first\<close>

datatype call_outcome = CallExit int | CallTimeout | CallFails int

datatype popen_outcome = Started nat | PopenFails int

datatype output_outcome = Output string | OutputStatus | OutputFails int

datatype elf_outcome =
    ElfUnreadable int            \<comment> \<open>\<open>open\<close> raises \<open>IOError\<close>\<close>
  | ElfInvalid                   \<comment> \<open>\<open>ELFFile\<close> raises \<open>ELFError\<close>\<close>
  | ElfHeader string string string \<comment> \<open>\<open>e_type\<close>, \<open>EI_CLASS\<close>, \<open>e_machine\<close>\<close>

text \<open>
  Floating point numbers: a double is a rational number, an infinity (with its sign) or not a
  number, which is equal to nothing and less than nothing.
\<close>

datatype pyfloat = Finite rat | Infinite bool | NaN

fun flt_eq :: "pyfloat \<Rightarrow> pyfloat \<Rightarrow> bool" where
  "flt_eq (Finite a) (Finite b) = (a = b)"
| "flt_eq (Infinite p) (Infinite q) = (p = q)"
| "flt_eq _ _ = False"

fun flt_less :: "pyfloat \<Rightarrow> pyfloat \<Rightarrow> bool" where
  "flt_less (Finite a) (Finite b) = (a < b)"
| "flt_less (Finite _) (Infinite q) = q"
| "flt_less (Infinite p) (Finite _) = (\<not> p)"
| "flt_less (Infinite p) (Infinite q) = (\<not> p \<and> q)"
| "flt_less _ _ = False"

text \<open>
  What the reader thread of the control node serial interface sees in one turn of its loop.
\<close>

datatype reader_obs =
    ProcessExited      \<comment> \<open>\<open>poll()\<close> is not None\<close>
  | EndOfFile          \<comment> \<open>\<open>poll()\<close> is None and \<open>readline()\<close> returns the empty string\<close>
  | ReadLine string    \<comment> \<open>\<open>poll()\<close> is None and \<open>readline()\<close> returns a line\<close>

text \<open>
  The answers of everything that is not code of the repository: programs, devices, files, the
  clock.  Every answer may depend on the whole history, which \<open>world\<close> holds.
\<close>

record env =
  e_dur :: "world \<Rightarrow> event \<Rightarrow> nat"                 \<comment> \<open>how long an action takes, in ms\<close>
  e_call :: "world \<Rightarrow> string list \<Rightarrow> call_outcome"  \<comment> \<open>\<open>subprocess.call\<close>\<close>
  e_popen :: "world \<Rightarrow> string list \<Rightarrow> popen_outcome" \<comment> \<open>\<open>subprocess.Popen\<close>\<close>
  e_terminate :: "world \<Rightarrow> nat \<Rightarrow> int option"       \<comment> \<open>errno of a failing \<open>terminate()\<close>\<close>
  e_kill :: "world \<Rightarrow> nat \<Rightarrow> int option"            \<comment> \<open>errno of a failing \<open>kill()\<close>\<close>
  e_signal :: "world \<Rightarrow> nat \<Rightarrow> int \<Rightarrow> int option"   \<comment> \<open>errno of a failing \<open>send_signal()\<close>\<close>
  e_wait :: "world \<Rightarrow> nat \<Rightarrow> bool"                  \<comment> \<open>\<open>wait(timeout)\<close> sees the end in time\<close>
  e_alive :: "world \<Rightarrow> string list \<Rightarrow> bool"         \<comment> \<open>\<open>Thread.is_alive()\<close> of the thread of a command\<close>
  e_current :: "world \<Rightarrow> string list \<Rightarrow> nat option" \<comment> \<open>\<open>process\<close> as that thread last set it\<close>
  e_started :: "world \<Rightarrow> string list \<Rightarrow> bool"       \<comment> \<open>its \<open>_started\<close> event is set in time\<close>
  e_output :: "world \<Rightarrow> string list \<Rightarrow> output_outcome" \<comment> \<open>\<open>subprocess.check_output\<close>\<close>
  e_exists :: "world \<Rightarrow> string \<Rightarrow> bool"             \<comment> \<open>\<open>os.path.exists\<close>\<close>
  e_isfile :: "world \<Rightarrow> string \<Rightarrow> bool"             \<comment> \<open>\<open>os.path.isfile\<close>\<close>
  e_abspath :: "string \<Rightarrow> string"                  \<comment> \<open>\<open>os.path.abspath\<close>\<close>
  e_open :: "world \<Rightarrow> string \<Rightarrow> int option"         \<comment> \<open>errno of a failing \<open>open(path, 'rb')\<close>\<close>
  e_read :: "world \<Rightarrow> string \<Rightarrow> string option"      \<comment> \<open>text of a readable file\<close>
  e_create :: "world \<Rightarrow> string \<Rightarrow> int option"       \<comment> \<open>errno of a failing \<open>open\<close> for writing\<close>
  e_chmod :: "world \<Rightarrow> string \<Rightarrow> int option"        \<comment> \<open>errno of a failing \<open>os.chmod\<close>\<close>
  e_makedirs :: "world \<Rightarrow> string \<Rightarrow> bool"           \<comment> \<open>\<open>os.makedirs\<close> succeeds\<close>
  e_size :: "world \<Rightarrow> string \<Rightarrow> nat option"         \<comment> \<open>\<open>os.path.getsize\<close>, None on \<open>OSError\<close>\<close>
  e_remove :: "world \<Rightarrow> string \<Rightarrow> bool"             \<comment> \<open>\<open>os.remove\<close> succeeds\<close>
  e_rmtree :: "world \<Rightarrow> string \<Rightarrow> bool"             \<comment> \<open>\<open>shutil.rmtree\<close> succeeds\<close>
  e_elf :: "world \<Rightarrow> string \<Rightarrow> elf_outcome"         \<comment> \<open>header of a firmware, by pyelftools\<close>
  e_load_addr :: "world \<Rightarrow> string \<Rightarrow> nat option"    \<comment> \<open>address of its first executable section\<close>
  e_serial :: "world \<Rightarrow> string \<Rightarrow> exc option"       \<comment> \<open>exception of \<open>serial.Serial(tty)\<close>\<close>
  e_serial_io :: "world \<Rightarrow> string \<Rightarrow> exc option"    \<comment> \<open>exception of a use of an open port\<close>
  e_termios :: "world \<Rightarrow> string \<Rightarrow> exc option"      \<comment> \<open>exception of \<open>tcgetattr\<close>, \<open>tcsetattr\<close>\<close>
  e_cn_idle :: "world \<Rightarrow> reader_obs list"          \<comment> \<open>what the reader sees between two commands\<close>
  e_cn_reply :: "world \<Rightarrow> reader_obs list"         \<comment> \<open>what it sees while an answer is awaited\<close>
  e_cn_write :: "world \<Rightarrow> string \<Rightarrow> int option"     \<comment> \<open>errno of a failing write to its stdin\<close>
  e_connect :: "world \<Rightarrow> string \<Rightarrow> int \<Rightarrow> int option" \<comment> \<open>errno of a failing \<open>create_connection\<close>\<close>
  e_sock_write :: "world \<Rightarrow> string \<Rightarrow> int option"   \<comment> \<open>errno of a failing write to the connection\<close>
  e_sock_read :: "world \<Rightarrow> string option"          \<comment> \<open>its \<open>readline()\<close>, None on a timeout or IOError\<close>
  e_port_read :: "world \<Rightarrow> string \<Rightarrow> string option" \<comment> \<open>\<open>read(16)\<close> of a port, None on SerialException\<close>
  e_booting :: "world \<Rightarrow> bool"                     \<comment> \<open>the boot log thread has connected to the console\<close>
  e_pause :: "world \<Rightarrow> bool"                       \<comment> \<open>\<open>signal.pause()\<close> raises KeyboardInterrupt\<close>
  e_getenv :: "string \<Rightarrow> string option"            \<comment> \<open>\<open>os.getenv\<close>\<close>
  e_float :: "string \<Rightarrow> pyfloat option"            \<comment> \<open>\<open>float(s)\<close>, None on ValueError\<close>
  e_json :: "string \<Rightarrow> pyval option"               \<comment> \<open>\<open>json.loads(s)\<close>, None on ValueError\<close>
  e_float_ok :: "string \<Rightarrow> bool"                   \<comment> \<open>\<open>int(1000000 * float(s))\<close> is defined\<close>
  e_tempname :: "world \<Rightarrow> string \<Rightarrow> string"         \<comment> \<open>name of a \<open>NamedTemporaryFile(suffix)\<close>\<close>
  e_maxint :: int                                  \<comment> \<open>\<open>sys.maxint\<close>\<close>
  e_static_dir :: string                           \<comment> \<open>\<open>STATIC_DIR\<close>, where the package is installed\<close>
  e_config_dir :: string                           \<comment> \<open>\<open>GATEWAY_CONFIG_PATH\<close>\<close>
  e_users_dir :: string                            \<comment> \<open>\<open>IOTLAB_USERS\<close>\<close>
  e_set_iter :: "string list \<Rightarrow> string list"        \<comment> \<open>iteration order of a set or dict literal\<close>

definition log_event :: "env \<Rightarrow> event \<Rightarrow> world \<Rightarrow> world" where
  "log_event E ev w =
     w\<lparr>now := now w + int (e_dur E w ev) + (case ev of Sleep ms \<Rightarrow> max 0 ms | _ \<Rightarrow> 0),
       trace := trace w @ [ev]\<rparr>"

section \<open>Effects\<close>

text \<open>
  A method of an object with state \<open>'s\<close> that returns an \<open>'a\<close> or raises.  The state after an
  exception is kept, as in Python.
\<close>

type_synonym ('s, 'a) act = "'s \<Rightarrow> world \<Rightarrow> (exc + 'a) \<times> 's \<times> world"

definition retE :: "'a \<Rightarrow> ('s, 'a) act" where
  "retE a = (\<lambda>s w. (Inr a, s, w))"

definition raiseE :: "exc \<Rightarrow> ('s, 'a) act" where
  "raiseE e = (\<lambda>s w. (Inl e, s, w))"

definition bindE :: "('s, 'a) act \<Rightarrow> ('a \<Rightarrow> ('s, 'b) act) \<Rightarrow> ('s, 'b) act" where
  "bindE m f = (\<lambda>s w. case m s w of
      (Inl e, s', w') \<Rightarrow> (Inl e, s', w')
    | (Inr a, s', w') \<Rightarrow> f a s' w')"

definition thenE :: "('s, 'a) act \<Rightarrow> ('s, 'b) act \<Rightarrow> ('s, 'b) act" where
  "thenE m n = bindE m (\<lambda>_. n)"

definition getE :: "('s \<Rightarrow> 'a) \<Rightarrow> ('s, 'a) act" where
  "getE f = (\<lambda>s w. (Inr (f s), s, w))"

definition putE :: "('s \<Rightarrow> 's) \<Rightarrow> ('s, unit) act" where
  "putE f = (\<lambda>s w. (Inr (), f s, w))"

definition askE :: "(world \<Rightarrow> 'a) \<Rightarrow> ('s, 'a) act" where
  "askE f = (\<lambda>s w. (Inr (f w), s, w))"

definition emitE :: "env \<Rightarrow> event \<Rightarrow> ('s, unit) act" where
  "emitE E ev = (\<lambda>s w. (Inr (), s, log_event E ev w))"

text \<open>\<open>try: m / except ...: h\<close>; the handler is None for exceptions it does not name.\<close>

definition tryE :: "('s, 'a) act \<Rightarrow> (exc \<Rightarrow> ('s, 'a) act option) \<Rightarrow> ('s, 'a) act" where
  "tryE m h = (\<lambda>s w. case m s w of
      (Inl e, s', w') \<Rightarrow>
        (if e = Blocked then (Inl e, s', w')
         else case h e of None \<Rightarrow> (Inl e, s', w') | Some k \<Rightarrow> k s' w')
    | (Inr a, s', w') \<Rightarrow> (Inr a, s', w'))"

text \<open>\<open>try: m / finally: f\<close>; an exception of \<open>f\<close> replaces the outcome of \<open>m\<close>.\<close>

definition finallyE :: "('s, 'a) act \<Rightarrow> ('s, unit) act \<Rightarrow> ('s, 'a) act" where
  "finallyE m f = (\<lambda>s w. case m s w of
      (r, s', w') \<Rightarrow>
        (if r = Inl Blocked then (r, s', w')
         else case f s' w' of
             (Inl e, s'', w'') \<Rightarrow> (Inl e, s'', w'')
           | (Inr _, s'', w'') \<Rightarrow> (r, s'', w'')))"

text \<open>A call on an attribute object: \<open>self.attr.method(...)\<close>.\<close>

definition zoomE :: "('s \<Rightarrow> 'c) \<Rightarrow> (('c \<Rightarrow> 'c) \<Rightarrow> 's \<Rightarrow> 's) \<Rightarrow> ('c, 'a) act \<Rightarrow> ('s, 'a) act" where
  "zoomE sel upd m = (\<lambda>s w. case m (sel s) w of (r, c', w') \<Rightarrow> (r, upd (\<lambda>_. c') s, w'))"

text \<open>A call on an object of which the state is a constructor (a subclass) of a datatype.\<close>

definition liftE :: "('c \<Rightarrow> 's) \<Rightarrow> ('c, 'a) act \<Rightarrow> 'c \<Rightarrow> world \<Rightarrow> (exc + 'a) \<times> 's \<times> world" where
  "liftE C m c w = (case m c w of (r, c', w') \<Rightarrow> (r, C c', w'))"

text \<open>\<open>ret_val = 0; ret_val += a(); ret_val += b(); ...; return ret_val\<close>\<close>

fun sum_rets :: "('s, int) act list \<Rightarrow> ('s, int) act" where
  "sum_rets [] = retE 0"
| "sum_rets (m # ms) = bindE m (\<lambda>r. bindE (sum_rets ms) (\<lambda>t. retE (r + t)))"

text \<open>A call of which the return value is not looked at, inside a sum of return values.\<close>

definition ignoreE :: "('s, 'a) act \<Rightarrow> ('s, int) act" where
  "ignoreE m = bindE m (\<lambda>_. retE 0)"

text \<open>\<open>time.sleep\<close>\<close>

definition py_sleep :: "env \<Rightarrow> int \<Rightarrow> ('s, unit) act" where
  "py_sleep E ms = emitE E (Sleep ms)"

text \<open>\<open>subprocess.call(args, timeout)\<close>; a timeout is handled by every caller and given as None.\<close>

definition py_call :: "env \<Rightarrow> string list \<Rightarrow> ('s, int option) act" where
  "py_call E args = bindE (askE (\<lambda>w. e_call E w args)) (\<lambda>r.
     case r of
       CallExit n \<Rightarrow> thenE (emitE E (Call args)) (retE (Some n))
     | CallTimeout \<Rightarrow> thenE (emitE E (Call args)) (retE None)
     | CallFails n \<Rightarrow> raiseE (OSErr n))"

section \<open>Weakest preconditions\<close>

definition wp :: "('s, 'a) act \<Rightarrow> ('a \<Rightarrow> 's \<Rightarrow> world \<Rightarrow> bool) \<Rightarrow> (exc \<Rightarrow> 's \<Rightarrow> world \<Rightarrow> bool)
    \<Rightarrow> 's \<Rightarrow> world \<Rightarrow> bool" where
  "wp m Q R s w = (case m s w of (Inr a, s', w') \<Rightarrow> Q a s' w' | (Inl e, s', w') \<Rightarrow> R e s' w')"

text \<open>A predicate that a call keeps, whether it returns or raises.\<close>

definition keeps :: "('s \<Rightarrow> world \<Rightarrow> bool) \<Rightarrow> ('s, 'a) act \<Rightarrow> bool" where
  "keeps I m \<longleftrightarrow> (\<forall>s w. I s w \<longrightarrow> wp m (\<lambda>_. I) (\<lambda>_. I) s w)"

lemma wp_retE [wp_simps]: "wp (retE a) Q R = Q a"
  by (simp add: fun_eq_iff wp_def retE_def)

lemma wp_raiseE [wp_simps]: "wp (raiseE e) Q R = R e"
  by (simp add: fun_eq_iff wp_def raiseE_def)

lemma wp_bindE [wp_simps]: "wp (bindE m f) Q R = wp m (\<lambda>a. wp (f a) Q R) R"
  by (auto simp: fun_eq_iff wp_def bindE_def split: prod.splits sum.splits)

lemma wp_thenE [wp_simps]: "wp (thenE m n) Q R = wp m (\<lambda>_. wp n Q R) R"
  by (simp add: thenE_def wp_bindE)

lemma wp_getE [wp_simps]: "wp (getE f) Q R = (\<lambda>s. Q (f s) s)"
  by (simp add: fun_eq_iff wp_def getE_def)

lemma wp_putE [wp_simps]: "wp (putE f) Q R = (\<lambda>s. Q () (f s))"
  by (simp add: fun_eq_iff wp_def putE_def)

lemma wp_askE [wp_simps]: "wp (askE f) Q R = (\<lambda>s w. Q (f w) s w)"
  by (simp add: fun_eq_iff wp_def askE_def)

lemma wp_emitE [wp_simps]: "wp (emitE E ev) Q R = (\<lambda>s w. Q () s (log_event E ev w))"
  by (simp add: fun_eq_iff wp_def emitE_def)

lemma wp_tryE [wp_simps]:
  "wp (tryE m h) Q R =
     wp m Q (\<lambda>e s' w'. if e = Blocked then R e s' w'
        else case h e of None \<Rightarrow> R e s' w' | Some k \<Rightarrow> wp k Q R s' w')"
  by (auto simp: fun_eq_iff wp_def tryE_def split: prod.splits sum.splits option.splits)

lemma wp_finallyE [wp_simps]:
  "wp (finallyE m f) Q R =
     wp m (\<lambda>a. wp f (\<lambda>_. Q a) R)
          (\<lambda>e s' w'. if e = Blocked then R e s' w' else wp f (\<lambda>_. R e) R s' w')"
  by (auto simp: fun_eq_iff wp_def finallyE_def split: prod.splits sum.splits)

lemma wp_zoomE [wp_simps]:
  "wp (zoomE sel upd m) Q R =
     (\<lambda>s. wp m (\<lambda>a c'. Q a (upd (\<lambda>_. c') s)) (\<lambda>e c'. R e (upd (\<lambda>_. c') s)) (sel s))"
  by (auto simp: fun_eq_iff wp_def zoomE_def split: prod.splits sum.splits)

lemma wp_if [wp_simps]: "wp (if b then m else n) Q R = (if b then wp m Q R else wp n Q R)"
  by simp

lemma wp_case_option [wp_simps]:
  "wp (case x of None \<Rightarrow> m | Some a \<Rightarrow> f a) Q R
   = (case x of None \<Rightarrow> wp m Q R | Some a \<Rightarrow> wp (f a) Q R)"
  by (cases x) simp_all

lemma wp_ignoreE [wp_simps]: "wp (ignoreE m) Q R = wp m (\<lambda>_. Q 0) R"
  by (simp add: ignoreE_def wp_simps)

lemma wp_sum_rets_Nil [wp_simps]: "wp (sum_rets []) Q R = Q 0"
  by (simp add: wp_simps)

lemma wp_sum_rets_Cons [wp_simps]:
  "wp (sum_rets (m # ms)) Q R = wp m (\<lambda>r. wp (sum_rets ms) (\<lambda>t. Q (r + t)) R) R"
  by (simp add: wp_simps)

declare sum_rets.simps [simp del]

lemma wp_py_sleep [wp_simps]: "wp (py_sleep E ms) Q R = (\<lambda>s w. Q () s (log_event E (Sleep ms) w))"
  by (simp add: py_sleep_def wp_simps)

lemma wp_py_call [wp_simps]:
  "wp (py_call E args) Q R =
     (\<lambda>s w. case e_call E w args of
        CallExit n \<Rightarrow> Q (Some n) s (log_event E (Call args) w)
      | CallTimeout \<Rightarrow> Q None s (log_event E (Call args) w)
      | CallFails n \<Rightarrow> R (OSErr n) s w)"
  by (auto simp: fun_eq_iff py_call_def wp_simps split: call_outcome.split)

lemma wp_liftE:
  "(case liftE C m c w of (Inr a, s', w') \<Rightarrow> Q a s' w' | (Inl e, s', w') \<Rightarrow> R e s' w')
   = wp m (\<lambda>a c'. Q a (C c')) (\<lambda>e c'. R e (C c')) c w"
  by (auto simp: wp_def liftE_def split: prod.splits sum.splits)

lemma wp_conseq:
  "wp m Q R s w \<Longrightarrow> (\<And>a s' w'. Q a s' w' \<Longrightarrow> Q' a s' w') \<Longrightarrow> (\<And>e s' w'. R e s' w' \<Longrightarrow> R' e s' w')
   \<Longrightarrow> wp m Q' R' s w"
  by (auto simp: wp_def split: prod.splits sum.splits)

lemma wp_conj:
  "wp m Q R s w \<Longrightarrow> wp m Q' R' s w
   \<Longrightarrow> wp m (\<lambda>a s' w'. Q a s' w' \<and> Q' a s' w') (\<lambda>e s' w'. R e s' w' \<and> R' e s' w') s w"
  by (auto simp: wp_def split: prod.splits sum.splits)

text \<open>From a weakest precondition to the outcome of a run.\<close>

lemma wp_Inr: "wp m Q R s w \<Longrightarrow> m s w = (Inr a, s', w') \<Longrightarrow> Q a s' w'"
  by (simp add: wp_def)

lemma wp_Inl: "wp m Q R s w \<Longrightarrow> m s w = (Inl e, s', w') \<Longrightarrow> R e s' w'"
  by (simp add: wp_def)

lemma wpI:
  assumes "\<And>a s' w'. m s w = (Inr a, s', w') \<Longrightarrow> Q a s' w'"
    and "\<And>e s' w'. m s w = (Inl e, s', w') \<Longrightarrow> R e s' w'"
  shows "wp m Q R s w"
  using assms by (auto simp: wp_def split: prod.splits sum.splits)

section \<open>Preservation\<close>

lemma keepsI: "(\<And>s w. I s w \<Longrightarrow> wp m (\<lambda>_. I) (\<lambda>_. I) s w) \<Longrightarrow> keeps I m"
  by (simp add: keeps_def)

lemma keepsD: "keeps I m \<Longrightarrow> I s w \<Longrightarrow> wp m (\<lambda>_. I) (\<lambda>_. I) s w"
  by (simp add: keeps_def)

lemma keeps_run: "keeps I m \<Longrightarrow> I s w \<Longrightarrow> m s w = (r, s', w') \<Longrightarrow> I s' w'"
  by (cases r) (auto dest!: keepsD dest: wp_Inl wp_Inr)

lemma keeps_retE [keeps_rules]: "keeps I (retE a)"
  by (simp add: keeps_def wp_simps)

lemma keeps_raiseE [keeps_rules]: "keeps I (raiseE e)"
  by (simp add: keeps_def wp_simps)

lemma keeps_getE [keeps_rules]: "keeps I (getE f)"
  by (simp add: keeps_def wp_simps)

lemma keeps_askE [keeps_rules]: "keeps I (askE f)"
  by (simp add: keeps_def wp_simps)

lemma keeps_bindE [keeps_rules]:
  assumes "keeps I m" and "\<And>a. keeps I (f a)"
  shows "keeps I (bindE m f)"
proof (rule keepsI)
  fix s w assume "I s w"
  with assms(1) have "wp m (\<lambda>_. I) (\<lambda>_. I) s w" by (rule keepsD)
  then show "wp (bindE m f) (\<lambda>_. I) (\<lambda>_. I) s w"
    unfolding wp_bindE by (rule wp_conseq) (auto intro: assms(2) [THEN keepsD])
qed

lemma keeps_thenE [keeps_rules]: "keeps I m \<Longrightarrow> keeps I n \<Longrightarrow> keeps I (thenE m n)"
  unfolding thenE_def by (rule keeps_bindE)

lemma keeps_tryE [keeps_rules]:
  assumes "keeps I m" and "\<And>e k. h e = Some k \<Longrightarrow> keeps I k"
  shows "keeps I (tryE m h)"
proof (rule keepsI)
  fix s w assume "I s w"
  with assms(1) have "wp m (\<lambda>_. I) (\<lambda>_. I) s w" by (rule keepsD)
  then show "wp (tryE m h) (\<lambda>_. I) (\<lambda>_. I) s w"
    unfolding wp_tryE
    by (rule wp_conseq) (auto intro: assms(2) [THEN keepsD] split: option.splits)
qed

lemma keeps_finallyE [keeps_rules]:
  assumes "keeps I m" and "keeps I f"
  shows "keeps I (finallyE m f)"
proof (rule keepsI)
  fix s w assume "I s w"
  with assms(1) have "wp m (\<lambda>_. I) (\<lambda>_. I) s w" by (rule keepsD)
  then show "wp (finallyE m f) (\<lambda>_. I) (\<lambda>_. I) s w"
    unfolding wp_finallyE
    by (rule wp_conseq) (auto intro!: assms(2) [THEN keepsD])
qed

lemma keeps_if [keeps_rules]: "keeps I m \<Longrightarrow> keeps I n \<Longrightarrow> keeps I (if b then m else n)"
  by simp

lemma keeps_case_option [keeps_rules]:
  "keeps I n \<Longrightarrow> (\<And>a. keeps I (f a)) \<Longrightarrow> keeps I (case x of None \<Rightarrow> n | Some a \<Rightarrow> f a)"
  by (cases x) auto

lemma keeps_case_sum [keeps_rules]:
  "(\<And>a. keeps I (f a)) \<Longrightarrow> (\<And>b. keeps I (g b)) \<Longrightarrow> keeps I (case x of Inl a \<Rightarrow> f a | Inr b \<Rightarrow> g b)"
  by (cases x) auto

lemma keeps_ignoreE [keeps_rules]: "keeps I m \<Longrightarrow> keeps I (ignoreE m)"
  unfolding ignoreE_def by (intro keeps_rules)

lemma keeps_sum_rets_Nil [keeps_rules]: "keeps I (sum_rets [])"
  by (simp add: sum_rets.simps keeps_retE)

lemma keeps_sum_rets_Cons [keeps_rules]:
  "keeps I m \<Longrightarrow> keeps I (sum_rets ms) \<Longrightarrow> keeps I (sum_rets (m # ms))"
  unfolding sum_rets.simps by (intro keeps_rules)

section \<open>Sums of return values\<close>

text \<open>
  Every call of a sum is made, and with non-negative return values the sum is zero only when
  every call returned zero.
\<close>

definition nonneg :: "('s, int) act \<Rightarrow> bool" where
  "nonneg m \<longleftrightarrow> (\<forall>s w. wp m (\<lambda>r _ _. 0 \<le> r) (\<lambda>_ _ _. True) s w)"

lemma nonneg_run: "nonneg m \<Longrightarrow> m s w = (Inr r, s', w') \<Longrightarrow> 0 \<le> r"
  by (auto simp: nonneg_def dest: wp_Inr)

lemma nonneg_sum_rets: "(\<And>m. m \<in> set ms \<Longrightarrow> nonneg m) \<Longrightarrow> nonneg (sum_rets ms)"
proof (induction ms)
  case Nil
  show ?case by (simp add: nonneg_def wp_simps)
next
  case (Cons m ms)
  then have m: "nonneg m" and ms: "nonneg (sum_rets ms)" by simp_all
  show ?case
    unfolding nonneg_def wp_sum_rets_Cons
  proof (intro allI)
    fix s w
    have "wp m (\<lambda>r _ _. 0 \<le> r) (\<lambda>_ _ _. True) s w" using m by (simp add: nonneg_def)
    then show "wp m (\<lambda>r. wp (sum_rets ms) (\<lambda>t _ _. 0 \<le> r + t) (\<lambda>_ _ _. True)) (\<lambda>_ _ _. True) s w"
    proof (rule wp_conseq)
      fix r s' w' assume "0 \<le> (r :: int)"
      moreover have "wp (sum_rets ms) (\<lambda>t _ _. 0 \<le> t) (\<lambda>_ _ _. True) s' w'"
        using ms by (simp add: nonneg_def)
      ultimately show "wp (sum_rets ms) (\<lambda>t _ _. 0 \<le> r + t) (\<lambda>_ _ _. True) s' w'"
        by (auto elim: wp_conseq)
    qed simp
  qed
qed

end
