(* ===== verification/Py_Strings.thy ===== *)
theory Py_Strings
  imports Main
begin

text \<open>
  The string operations of Python that the program uses, on \<open>string\<close> (byte strings of Python 2):
  \<open>split\<close>, \<open>join\<close>, \<open>replace\<close>, \<open>lower\<close>, \<open>strip\<close>, \<open>isdigit\<close>, \<open>str\<close> and \<open>int\<close> of integers,
  \<open>hex\<close> and \<open>shlex.split\<close>, with the round trips the component proofs rest on.
\<close>

section \<open>split and join\<close>

text \<open>\<open>s.split(c)\<close> for a one-character separator\<close>

fun py_split :: "char \<Rightarrow> string \<Rightarrow> string list" where
  "py_split c [] = [[]]"
| "py_split c (x # xs) =
     (if x = c then [] # py_split c xs
      else case py_split c xs of [] \<Rightarrow> [[x]] | y # ys \<Rightarrow> (x # y) # ys)"

text \<open>\<open>sep.join(xs)\<close>\<close>

fun py_join :: "string \<Rightarrow> string list \<Rightarrow> string" where
  "py_join sep [] = []"
| "py_join sep [x] = x"
| "py_join sep (x # y # ys) = x @ sep @ py_join sep (y # ys)"

text \<open>\<open>s.replace(a, b)\<close> for one-character \<open>a\<close> and \<open>b\<close>\<close>

definition py_replace :: "char \<Rightarrow> char \<Rightarrow> string \<Rightarrow> string" where
  "py_replace a b s = map (\<lambda>c. if c = a then b else c) s"

section \<open>Characters\<close>

definition is_digit :: "char \<Rightarrow> bool" where
  "is_digit c \<longleftrightarrow> c \<in> set ''0123456789''"

definition is_space :: "char \<Rightarrow> bool" where
  "is_space c \<longleftrightarrow> of_char c \<in> {9, 10, 11, 12, 13, 32 :: nat}"

definition py_lower :: "string \<Rightarrow> string" where
  "py_lower s = map (\<lambda>c. let n = (of_char c :: nat) in if 65 \<le> n \<and> n \<le> 90 then char_of (n + 32) else c) s"

definition py_strip :: "string \<Rightarrow> string" where
  "py_strip s = rev (dropWhile is_space (rev (dropWhile is_space s)))"

text \<open>\<open>s.isdigit()\<close>\<close>

definition py_isdigit :: "string \<Rightarrow> bool" where
  "py_isdigit s \<longleftrightarrow> s \<noteq> [] \<and> list_all is_digit s"

section \<open>Integers as text\<close>

definition digit_char :: "nat \<Rightarrow> char" where
  "digit_char d = ''0123456789abcdef'' ! d"

fun str_base :: "nat \<Rightarrow> nat \<Rightarrow> string" where
  "str_base b n =
     (if n < b \<or> b < 2 then [digit_char n] else str_base b (n div b) @ [digit_char (n mod b)])"

declare str_base.simps [simp del]

text \<open>\<open>str(n)\<close>\<close>

definition str_nat :: "nat \<Rightarrow> string" where
  "str_nat n = str_base 10 n"

definition str_int :: "int \<Rightarrow> string" where
  "str_int i = (if i < 0 then CHR ''-'' # str_nat (nat (- i)) else str_nat (nat i))"

text \<open>\<open>hex(n)\<close>; a value outside the machine integers is a long and is printed with an \<open>L\<close>\<close>

definition py_hex :: "int \<Rightarrow> int \<Rightarrow> string" where
  "py_hex maxint i =
     (if i < 0 then ''-'' else '''') @ ''0x'' @ str_base 16 (nat \<bar>i\<bar>) @
     (if i > maxint \<or> i < - maxint - 1 then ''L'' else '''')"

definition digit_val :: "char \<Rightarrow> nat" where
  "digit_val c = of_char c - 48"

definition nat_of_digits :: "string \<Rightarrow> nat" where
  "nat_of_digits s = foldl (\<lambda>n c. 10 * n + digit_val c) 0 s"

definition parse_nat :: "string \<Rightarrow> nat option" where
  "parse_nat s = (if py_isdigit s then Some (nat_of_digits s) else None)"

text \<open>\<open>int(s)\<close>: surrounding white space, an optional sign, decimal digits; None is ValueError\<close>

definition py_int :: "string \<Rightarrow> int option" where
  "py_int s = (case py_strip s of
      [] \<Rightarrow> None
    | c # cs \<Rightarrow>
        (if c = CHR ''-'' then map_option (\<lambda>n. - int n) (parse_nat cs)
         else if c = CHR ''+'' then map_option int (parse_nat cs)
         else map_option int (parse_nat (c # cs))))"

section \<open>shlex.split\<close>

text \<open>
  The state of the tokenizer in POSIX mode with \<open>whitespace_split\<close>: between words, in a word,
  in a quoted part, after a backslash (with the state to go back to).  None is ValueError.
\<close>

datatype shlex_state = ShSpace | ShWord | ShQuote char | ShEsc "char option"

definition sh_space :: "char \<Rightarrow> bool" where
  "sh_space c \<longleftrightarrow> of_char c \<in> {9, 10, 13, 32 :: nat}"

abbreviation backslash :: char where
  "backslash \<equiv> CHR 0x5C"

abbreviation dquote :: char where
  "dquote \<equiv> CHR 0x22"

abbreviation squote :: char where
  "squote \<equiv> CHR 0x27"

fun shlex_go :: "shlex_state \<Rightarrow> string \<Rightarrow> bool \<Rightarrow> string \<Rightarrow> string list option" where
  "shlex_go ShSpace tok q [] = Some []"
| "shlex_go ShWord tok q [] = (if tok \<noteq> [] \<or> q then Some [tok] else Some [])"
| "shlex_go (ShQuote d) tok q [] = None"
| "shlex_go (ShEsc d) tok q [] = None"
| "shlex_go ShSpace tok q (c # cs) =
     (if sh_space c then shlex_go ShSpace [] False cs
      else if c = backslash then shlex_go (ShEsc None) [] False cs
      else if c = dquote \<or> c = squote then shlex_go (ShQuote c) [] False cs
      else shlex_go ShWord [c] False cs)"
| "shlex_go ShWord tok q (c # cs) =
     (if sh_space c then
        (if tok \<noteq> [] \<or> q then map_option ((#) tok) (shlex_go ShSpace [] False cs)
         else shlex_go ShSpace [] False cs)
      else if c = dquote \<or> c = squote then shlex_go (ShQuote c) tok q cs
      else if c = backslash then shlex_go (ShEsc None) tok q cs
      else shlex_go ShWord (tok @ [c]) q cs)"
| "shlex_go (ShQuote d) tok q (c # cs) =
     (if c = d then shlex_go ShWord tok True cs
      else if c = backslash \<and> d = dquote then shlex_go (ShEsc (Some d)) tok True cs
      else shlex_go (ShQuote d) (tok @ [c]) True cs)"
| "shlex_go (ShEsc None) tok q (c # cs) = shlex_go ShWord (tok @ [c]) q cs"
| "shlex_go (ShEsc (Some d)) tok q (c # cs) =
     shlex_go (ShQuote d) (if c \<noteq> backslash \<and> c \<noteq> d then tok @ [backslash, c] else tok @ [c]) q cs"

definition shlex_split :: "string \<Rightarrow> string list option" where
  "shlex_split s = shlex_go ShSpace [] False s"

section \<open>Lemmas on split and join\<close>

lemma py_split_not_Nil [simp]: "py_split c s \<noteq> []"
  by (induction s) (auto split: list.splits)

lemma py_join_Cons: "ys \<noteq> [] \<Longrightarrow> py_join sep (x # ys) = x @ sep @ py_join sep ys"
  by (cases ys) simp_all

lemma py_join_split [simp]: "py_join [c] (py_split c s) = s"
proof (induction s)
  case (Cons x xs)
  then show ?case
    by (cases "py_split c xs"; cases "tl (py_split c xs)") (auto simp: py_join_Cons)
qed simp

lemma py_split_notin: "c \<notin> set s \<Longrightarrow> py_split c s = [s]"
  by (induction s) auto

lemma py_split_append_sep: "c \<notin> set x \<Longrightarrow> py_split c (x @ c # s) = x # py_split c s"
  by (induction x) auto

lemma py_split_append: "py_split c (s @ c # t) = py_split c s @ py_split c t"
  by (induction s) (auto split: list.splits)

lemma py_split_join:
  assumes "xs \<noteq> []" and "\<And>x. x \<in> set xs \<Longrightarrow> c \<notin> set x"
  shows "py_split c (py_join [c] xs) = xs"
  using assms
proof (induction xs)
  case (Cons x xs)
  then show ?case
    by (cases xs) (auto simp: py_split_notin py_split_append_sep py_join_Cons)
qed simp

lemma set_py_join: "set (py_join sep xs) \<subseteq> set sep \<union> (\<Union>x\<in>set xs. set x)"
  by (induction sep xs rule: py_join.induct) auto

section \<open>Lemmas on integers as text\<close>

lemma digit_char_digits: "\<forall>d\<in>set [0..<10]. is_digit (digit_char d) \<and> digit_val (digit_char d) = d"
  by code_simp

lemma is_digit_digit_char: "d < 10 \<Longrightarrow> is_digit (digit_char d)"
  using digit_char_digits by simp

lemma digit_val_digit_char: "d < 10 \<Longrightarrow> digit_val (digit_char d) = d"
  using digit_char_digits by simp

lemma str_nat_rec:
  "str_nat n = (if n < 10 then [digit_char n] else str_nat (n div 10) @ [digit_char (n mod 10)])"
  unfolding str_nat_def by (subst str_base.simps) simp

lemma str_nat_digits: "list_all is_digit (str_nat n)"
proof (induction n rule: less_induct)
  case (less n)
  then show ?case
    by (subst str_nat_rec) (simp add: is_digit_digit_char)
qed

lemma str_nat_not_Nil [simp]: "str_nat n \<noteq> []"
  by (subst str_nat_rec) simp

lemma nat_of_digits_snoc: "nat_of_digits (s @ [c]) = 10 * nat_of_digits s + digit_val c"
  by (simp add: nat_of_digits_def)

lemma nat_of_digits_str_nat [simp]: "nat_of_digits (str_nat n) = n"
proof (induction n rule: less_induct)
  case (less n)
  show ?case
  proof (cases "n < 10")
    case True
    then show ?thesis
      by (subst str_nat_rec) (simp add: nat_of_digits_def digit_val_digit_char)
  next
    case False
    then have "nat_of_digits (str_nat (n div 10)) = n div 10" by (intro less) simp
    with False show ?thesis
      by (subst str_nat_rec) (simp add: nat_of_digits_snoc digit_val_digit_char)
  qed
qed

lemma parse_nat_str_nat [simp]: "parse_nat (str_nat n) = Some n"
  by (simp add: parse_nat_def py_isdigit_def str_nat_digits)

lemma str_nat_inj [simp]: "str_nat m = str_nat n \<longleftrightarrow> m = n"
  by (metis nat_of_digits_str_nat)

lemma is_digit_not_space: "is_digit c \<Longrightarrow> \<not> is_space c"
  by (auto simp: is_digit_def is_space_def)

lemma py_strip_id: "(\<And>c. c \<in> set s \<Longrightarrow> \<not> is_space c) \<Longrightarrow> py_strip s = s"
proof -
  assume s: "\<And>c. c \<in> set s \<Longrightarrow> \<not> is_space c"
  have drop: "dropWhile is_space t = t" if "\<And>c. c \<in> set t \<Longrightarrow> \<not> is_space c" for t
    using that by (cases t) auto
  have "dropWhile is_space s = s" by (rule drop) (rule s)
  moreover have "dropWhile is_space (rev s) = rev s" by (rule drop) (simp add: s)
  ultimately show ?thesis by (simp add: py_strip_def)
qed

lemma str_nat_set: "c \<in> set (str_nat n) \<Longrightarrow> is_digit c"
  using str_nat_digits [of n] by (simp add: list_all_iff)

lemma str_int_set: "c \<in> set (str_int i) \<Longrightarrow> is_digit c \<or> c = CHR ''-''"
  by (auto simp: str_int_def dest: str_nat_set split: if_splits)

lemma not_space_minus: "\<not> is_space CHR ''-''"
  by (simp add: is_space_def)

lemma py_int_digits:
  assumes "py_isdigit s"
  shows "py_int s = Some (int (nat_of_digits s))"
proof -
  from assms obtain c cs where s: "s = c # cs" "is_digit c"
    by (cases s) (auto simp: py_isdigit_def)
  then have "c \<noteq> CHR ''-''" "c \<noteq> CHR ''+''" by (auto simp: is_digit_def)
  moreover have "py_strip s = s"
    using assms by (intro py_strip_id) (auto simp: py_isdigit_def list_all_iff is_digit_not_space)
  ultimately show ?thesis using assms s by (simp add: py_int_def parse_nat_def)
qed

text \<open>\<open>int(str(i)) == i\<close>\<close>

lemma py_int_str_int [simp]: "py_int (str_int i) = Some i"
proof (cases "i < 0")
  case True
  have "py_strip (str_int i) = str_int i"
    by (rule py_strip_id) (auto dest!: str_int_set simp: is_digit_not_space not_space_minus)
  with True show ?thesis by (simp add: py_int_def str_int_def)
next
  case False
  then show ?thesis
    by (simp add: str_int_def py_int_digits py_isdigit_def str_nat_digits)
qed

lemma str_int_inj [simp]: "str_int i = str_int j \<longleftrightarrow> i = j"
  by (metis option.inject py_int_str_int)

lemma str_int_no_space: "CHR '' '' \<notin> set (str_int i)"
  by (auto dest!: str_int_set simp: is_digit_def)

lemma str_int_no_comma: "CHR '','' \<notin> set (str_int i)"
  by (auto dest!: str_int_set simp: is_digit_def)

lemma py_isdigit_str_nat [simp]: "py_isdigit (str_nat n)"
  by (simp add: py_isdigit_def str_nat_digits)

lemma py_replace_id: "a \<notin> set s \<Longrightarrow> py_replace a b s = s"
  by (induction s) (auto simp: py_replace_def)

lemma py_replace_append [simp]: "py_replace a b (s @ t) = py_replace a b s @ py_replace a b t"
  by (simp add: py_replace_def)

lemma py_replace_back: "b \<notin> set s \<Longrightarrow> py_replace b a (py_replace a b s) = s"
  by (induction s) (auto simp: py_replace_def)

section \<open>Lemmas on shlex.split\<close>

text \<open>
  Characters a shell word keeps as they are, and characters a double-quoted part keeps as they
  are.
\<close>

definition sh_plain :: "string \<Rightarrow> bool" where
  "sh_plain s \<longleftrightarrow> (\<forall>c\<in>set s. \<not> sh_space c \<and> c \<noteq> backslash \<and> c \<noteq> dquote \<and> c \<noteq> squote)"

definition sh_quotable :: "string \<Rightarrow> bool" where
  "sh_quotable s \<longleftrightarrow> (\<forall>c\<in>set s. c \<noteq> backslash \<and> c \<noteq> dquote)"

lemma sh_quotable_append [simp]: "sh_quotable (s @ t) \<longleftrightarrow> sh_quotable s \<and> sh_quotable t"
  by (auto simp: sh_quotable_def)

lemma sh_quotable_Nil [simp]: "sh_quotable []"
  by (simp add: sh_quotable_def)

lemma sh_quotable_Cons [simp]: "sh_quotable (c # s) \<longleftrightarrow> c \<noteq> backslash \<and> c \<noteq> dquote \<and> sh_quotable s"
  by (auto simp: sh_quotable_def)

lemma sh_plain_Nil [simp]: "sh_plain []"
  by (simp add: sh_plain_def)

lemma sh_plain_Cons [simp]:
  "sh_plain (c # s) \<longleftrightarrow> \<not> sh_space c \<and> c \<noteq> backslash \<and> c \<noteq> dquote \<and> c \<noteq> squote \<and> sh_plain s"
  by (auto simp: sh_plain_def)

lemma sh_plain_append [simp]: "sh_plain (s @ t) \<longleftrightarrow> sh_plain s \<and> sh_plain t"
  by (auto simp: sh_plain_def)

lemma shlex_go_word_plain:
  "sh_plain s \<Longrightarrow> shlex_go ShWord tok q (s @ rest) = shlex_go ShWord (tok @ s) q rest"
  by (induction s arbitrary: tok) (auto simp: sh_plain_def)

lemma shlex_go_quote:
  "sh_quotable s \<Longrightarrow>
   shlex_go (ShQuote dquote) tok q (s @ dquote # rest) = shlex_go ShWord (tok @ s) True rest"
  by (induction s arbitrary: tok q) (auto simp: sh_quotable_def)

text \<open>A plain word, followed by a space or by the end.\<close>

lemma shlex_plain_space:
  assumes "sh_plain s" and "s \<noteq> []"
  shows "shlex_go ShSpace [] False (s @ CHR '' '' # rest)
         = map_option ((#) s) (shlex_go ShSpace [] False rest)"
proof -
  from assms obtain c cs where s: "s = c # cs" by (cases s) auto
  with assms have "sh_plain cs" by (simp add: sh_plain_def)
  then show ?thesis using assms s
    by (simp add: shlex_go_word_plain sh_plain_def sh_space_def)
qed

lemma shlex_plain_end:
  assumes "sh_plain s" and "s \<noteq> []"
  shows "shlex_go ShSpace [] False s = Some [s]"
proof -
  from assms obtain c cs where s: "s = c # cs" by (cases s) auto
  with assms have "sh_plain cs" by (simp add: sh_plain_def)
  then show ?thesis using assms s shlex_go_word_plain [of cs "[c]" False "[]"]
    by (simp add: sh_plain_def)
qed

text \<open>A double-quoted word, followed by a space or by the end.\<close>

lemma shlex_quoted_space:
  "sh_quotable s \<Longrightarrow> shlex_go ShSpace [] False (dquote # s @ dquote # CHR '' '' # rest)
   = map_option ((#) s) (shlex_go ShSpace [] False rest)"
  by (simp add: shlex_go_quote sh_space_def)

lemma shlex_quoted_end:
  "sh_quotable s \<Longrightarrow> shlex_go ShSpace [] False (dquote # s @ [dquote]) = Some [s]"
  using shlex_go_quote [of s "[]" False "[]"] by (simp add: sh_space_def)

lemma shlex_skip_space [simp]: "shlex_go ShSpace tok q (CHR '' '' # s) = shlex_go ShSpace [] False s"
  by (simp add: sh_space_def)

end
