(* ===== verification/Common.thy ===== *)
theory Common
  imports Gateway_Prelude Py_Strings
begin

text \<open>
  Model of \<^verbatim>\<open>gateway_code/common.py\<close>: Python values, the polling loop \<open>wait_cond\<close> and the tty
  waits built on it, the non-blocking re-entrant lock of the \<open>synchronous\<close> decorator, \<open>abspath\<close>,
  the feature checks and \<open>booleanize\<close>.  The lock is stated as a locale over the object that owns
  it, so that the decorated methods of the gateway manager get the lock laws by interpretation.
\<close>

section \<open>Python values\<close>

text \<open>\<open>bool(x)\<close>\<close>

fun truthy :: "pyval \<Rightarrow> bool" where
  "truthy PNone = False"
| "truthy (PBool b) = b"
| "truthy (PInt i) = (i \<noteq> 0)"
| "truthy (PStr s) = (s \<noteq> [])"
| "truthy (PList xs) = (xs \<noteq> [])"
| "truthy (PDict d) = (d \<noteq> [])"

text \<open>The number a value is equal to under \<open>==\<close>: a bool is an int.\<close>

fun num_of :: "pyval \<Rightarrow> int option" where
  "num_of (PBool b) = Some (if b then 1 else 0)"
| "num_of (PInt i) = Some i"
| "num_of _ = None"

text \<open>\<open>int(x)\<close>\<close>

fun int_of :: "pyval \<Rightarrow> exc + int" where
  "int_of (PBool b) = Inr (if b then 1 else 0)"
| "int_of (PInt i) = Inr i"
| "int_of (PStr s) = (case py_int s of None \<Rightarrow> Inl ValueErr | Some i \<Rightarrow> Inr i)"
| "int_of _ = Inl TypeErr"

section \<open>Queues\<close>

text \<open>\<open>empty_queue\<close>: take items until the queue is empty.\<close>

fun empty_queue :: "'a list \<Rightarrow> 'a list" where
  "empty_queue [] = []"
| "empty_queue (x # xs) = empty_queue xs"

section \<open>Waiting for a condition\<close>

text \<open>
  The loop of \<open>wait_cond\<close>: poll, give up when the time is over, sleep 0.1 second.  The clock
  advances by at least the time slept, so the loop ends.
\<close>

function wait_loop :: "env \<Rightarrow> int \<Rightarrow> 'v \<Rightarrow> (world \<Rightarrow> 'v) \<Rightarrow> world \<Rightarrow> bool \<times> world" where
  "wait_loop E deadline value fct w =
     (if value = fct w then (True, w)
      else if now w > deadline then (False, w)
      else wait_loop E deadline value fct (log_event E (Sleep 100) w))"
  by pat_completeness auto
termination
  by (relation "measure (\<lambda>(E, deadline, value, fct, w). nat (deadline + 1 - now w))")
     (auto simp: log_event_def)

declare wait_loop.simps [simp del]

definition wait_cond :: "env \<Rightarrow> int \<Rightarrow> 'v \<Rightarrow> (world \<Rightarrow> 'v) \<Rightarrow> ('s, bool) act" where
  "wait_cond E timeout value fct =
     (\<lambda>s w. case wait_loop E (now w + 1000 * timeout) value fct w of (b, w') \<Rightarrow> (Inr b, s, w'))"

definition TTY_DETECT_TIME :: int where
  "TTY_DETECT_TIME = 3"

definition wait_tty :: "env \<Rightarrow> string \<Rightarrow> int \<Rightarrow> ('s, int) act" where
  "wait_tty E dev_tty timeout =
     bindE (wait_cond E timeout True (\<lambda>w. e_exists E w dev_tty)) (\<lambda>b. retE (if b then 0 else 1))"

definition wait_no_tty :: "env \<Rightarrow> string \<Rightarrow> int \<Rightarrow> ('s, int) act" where
  "wait_no_tty E dev_tty timeout =
     bindE (wait_cond E timeout False (\<lambda>w. e_exists E w dev_tty)) (\<lambda>b. retE (if b then 0 else 1))"

section \<open>The synchronous decorator\<close>

text \<open>A re-entrant lock: free, or owned by a thread that entered it a number of times.\<close>

type_synonym thread = nat

type_synonym rlock = "(thread \<times> nat) option"

text \<open>\<open>RLock.acquire(blocking=False)\<close>: None when another thread owns the lock.\<close>

fun rlock_acquire :: "thread \<Rightarrow> rlock \<Rightarrow> rlock option" where
  "rlock_acquire t None = Some (Some (t, 1))"
| "rlock_acquire t (Some (t', n)) = (if t' = t then Some (Some (t, n + 1)) else None)"

text \<open>\<open>RLock.release()\<close>: None (RuntimeError) when the caller does not own the lock.\<close>

fun rlock_release :: "thread \<Rightarrow> rlock \<Rightarrow> rlock option" where
  "rlock_release t None = None"
| "rlock_release t (Some (t', n)) =
     (if t' \<noteq> t then None else if n \<le> 1 then Some None else Some (Some (t, n - 1)))"

definition release_lock ::
  "('s \<Rightarrow> rlock) \<Rightarrow> ((rlock \<Rightarrow> rlock) \<Rightarrow> 's \<Rightarrow> 's) \<Rightarrow> thread \<Rightarrow> ('s, unit) act" where
  "release_lock tlock tlock_update t =
     bindE (getE tlock) (\<lambda>l. case rlock_release t l of
         None \<Rightarrow> raiseE RuntimeErr
       | Some l' \<Rightarrow> putE (tlock_update (\<lambda>_. l')))"

definition synchronous ::
  "('s \<Rightarrow> rlock) \<Rightarrow> ((rlock \<Rightarrow> rlock) \<Rightarrow> 's \<Rightarrow> 's) \<Rightarrow> thread \<Rightarrow> ('s, 'a) act \<Rightarrow> ('s, 'a) act" where
  "synchronous tlock tlock_update t func =
     bindE (getE tlock) (\<lambda>l. case rlock_acquire t l of
         None \<Rightarrow> raiseE (EnvironmentErr EWOULDBLOCK)
       | Some l' \<Rightarrow>
           thenE (putE (tlock_update (\<lambda>_. l')))
                 (finallyE func (release_lock tlock tlock_update t)))"

section \<open>Files, features and truth values\<close>

text \<open>\<open>abspath\<close>: the absolute path of a file that this user can open.\<close>

definition abspath :: "env \<Rightarrow> string \<Rightarrow> ('s, string) act" where
  "abspath E path =
     (let abs_path = e_abspath E path in
      bindE (askE (\<lambda>w. e_open E w abs_path)) (\<lambda>r.
        case r of Some n \<Rightarrow> raiseE (IOErr n) | None \<Rightarrow> retE abs_path))"

definition object_attr_has :: "string list \<Rightarrow> string list \<Rightarrow> bool" where
  "object_attr_has available required = list_all (\<lambda>r. r \<in> set available) required"

text \<open>\<open>class_attr_has\<close>: run the method only when the feature list has what it requires.\<close>

definition class_attr_has ::
  "('s \<Rightarrow> string list) \<Rightarrow> string list \<Rightarrow> ('s, int) act \<Rightarrow> ('s, int) act" where
  "class_attr_has features_attr required_list func =
     bindE (getE features_attr) (\<lambda>available.
       if object_attr_has available required_list then func else retE 0)"

text \<open>\<open>booleanize\<close>\<close>

definition true_words :: "string list" where
  "true_words = [''y'', ''yes'', ''t'', ''true'', ''on'', ''1'']"

definition false_words :: "string list" where
  "false_words = [''n'', ''no'', ''f'', ''false'', ''off'', ''0'']"

fun booleanize :: "pyval \<Rightarrow> exc + bool" where
  "booleanize (PBool b) = Inr b"
| "booleanize (PStr s) =
     (let value = py_lower s in
      if value \<in> set true_words then Inr True
      else if value \<in> set false_words then Inr False
      else Inl ValueErr)"
| "booleanize (PInt i) = (if i = 1 then Inr True else if i = 0 then Inr False else Inl ValueErr)"
| "booleanize PNone = Inr False"
| "booleanize _ = Inl ValueErr"

section \<open>Lemmas: queues and waiting\<close>

lemma empty_queue_Nil: "empty_queue xs = []"
  by (induction xs) simp_all

lemma empty_queue_const [simp]: "empty_queue = (\<lambda>_. [])"
  by (rule ext) (rule empty_queue_Nil)

text \<open>
  The outcome of the loop: True means the last poll saw the value; False means it did not and the
  deadline is past.  Only sleeps happen, and time never runs backwards.
\<close>

lemma wait_loop_result:
  "wait_loop E d v f w = (b, w') \<Longrightarrow> (b \<longleftrightarrow> v = f w') \<and> (\<not> b \<longrightarrow> d < now w')"
proof (induction E d v f w rule: wait_loop.induct)
  case (1 E d v f w)
  then show ?case
    by (auto simp: wait_loop.simps [of E d v f w] split: if_splits)
qed

text \<open>A stretch of time in which the program only slept.\<close>

definition slept :: "world \<Rightarrow> world \<Rightarrow> bool" where
  "slept w w' \<longleftrightarrow>
     (\<exists>n. trace w' = trace w @ replicate n (Sleep 100) \<and> now w + 100 * int n \<le> now w')"

lemma slept_refl [simp]: "slept w w"
  unfolding slept_def by (rule exI [of _ 0]) simp

lemma slept_step: "slept (log_event E (Sleep 100) w) w' \<Longrightarrow> slept w w'"
  unfolding slept_def
proof (elim exE conjE)
  fix n
  assume "trace w' = trace (log_event E (Sleep 100) w) @ replicate n (Sleep 100)"
    and "now (log_event E (Sleep 100) w) + 100 * int n \<le> now w'"
  then show "\<exists>n. trace w' = trace w @ replicate n (Sleep 100) \<and> now w + 100 * int n \<le> now w'"
    by (intro exI [of _ "Suc n"]) (auto simp: log_event_def algebra_simps)
qed

lemma wait_loop_slept: "wait_loop E d v f w = (b, w') \<Longrightarrow> slept w w'"
proof (induction E d v f w rule: wait_loop.induct)
  case (1 E d v f w)
  then show ?case
    by (auto simp: wait_loop.simps [of E d v f w] split: if_splits intro: slept_step)
qed

text \<open>When sleeping takes no longer than asked for, the loop overruns its deadline by one sleep.\<close>

lemma wait_loop_bound:
  "wait_loop E d v f w = (b, w') \<Longrightarrow> (\<forall>w. e_dur E w (Sleep 100) = 0) \<Longrightarrow> now w \<le> d + 100
   \<Longrightarrow> now w' \<le> d + 100"
proof (induction E d v f w rule: wait_loop.induct)
  case (1 E d v f w)
  moreover have "now (log_event E (Sleep 100) w) = now w + 100"
    using 1 by (simp add: log_event_def)
  ultimately show ?case
    by (auto simp: wait_loop.simps [of E d v f w] split: if_splits)
qed

lemma wp_wait_cond:
  assumes "\<And>b w'. slept w w' \<Longrightarrow> (b \<longleftrightarrow> v = f w') \<Longrightarrow> Q b s w'"
  shows "wp (wait_cond E timeout v f) Q R s w"
proof -
  obtain b w' where l: "wait_loop E (now w + 1000 * timeout) v f w = (b, w')"
    by (cases "wait_loop E (now w + 1000 * timeout) v f w")
  with assms wait_loop_slept [OF l] wait_loop_result [OF l] show ?thesis
    by (simp add: wp_def wait_cond_def)
qed

lemma wp_wait_tty:
  assumes "\<And>r w'. slept w w' \<Longrightarrow> r = (if e_exists E w' tty then 0 else 1) \<Longrightarrow> Q r s w'"
  shows "wp (wait_tty E tty timeout) Q R s w"
  unfolding wait_tty_def wp_simps by (rule wp_wait_cond) (auto intro: assms)

lemma wp_wait_no_tty:
  assumes "\<And>r w'. slept w w' \<Longrightarrow> r = (if e_exists E w' tty then 1 else 0) \<Longrightarrow> Q r s w'"
  shows "wp (wait_no_tty E tty timeout) Q R s w"
  unfolding wait_no_tty_def wp_simps by (rule wp_wait_cond) (auto intro: assms)

text \<open>Predicates that do not look at the clock and at sleeps survive every wait.\<close>

definition sleep_stable :: "('s \<Rightarrow> world \<Rightarrow> bool) \<Rightarrow> bool" where
  "sleep_stable I \<longleftrightarrow> (\<forall>s w w'. slept w w' \<longrightarrow> I s w \<longrightarrow> I s w')"

lemma keeps_wait_cond: "sleep_stable I \<Longrightarrow> keeps I (wait_cond E timeout v f)"
  by (intro keepsI wp_wait_cond) (auto simp: sleep_stable_def)

lemma keeps_wait_tty: "sleep_stable I \<Longrightarrow> keeps I (wait_tty E tty timeout)"
  unfolding wait_tty_def by (intro keeps_rules keeps_wait_cond)

lemma keeps_wait_no_tty: "sleep_stable I \<Longrightarrow> keeps I (wait_no_tty E tty timeout)"
  unfolding wait_no_tty_def by (intro keeps_rules keeps_wait_cond)

lemma nonneg_wait_tty: "nonneg (wait_tty E tty timeout)"
  unfolding nonneg_def by (intro allI wp_wait_tty) simp

section \<open>The lock laws\<close>

text \<open>An object that owns a lock: what the decorator relies on.\<close>

locale lockable =
  fixes tlock :: "'s \<Rightarrow> rlock"
    and tlock_update :: "(rlock \<Rightarrow> rlock) \<Rightarrow> 's \<Rightarrow> 's"
  assumes tlock_upd: "tlock (tlock_update f s) = f (tlock s)"
    and tlock_upd_upd: "tlock_update f (tlock_update g s) = tlock_update (\<lambda>l. f (g l)) s"
    and tlock_upd_id: "tlock_update (\<lambda>_. tlock s) s = s"
begin

text \<open>A method called while another thread is in one raises and changes nothing.\<close>

lemma synchronous_busy:
  "tlock s = Some (t', n) \<Longrightarrow> t' \<noteq> t
   \<Longrightarrow> synchronous tlock tlock_update t m s w = (Inl (EnvironmentErr EWOULDBLOCK), s, w)"
  by (simp add: synchronous_def bindE_def getE_def raiseE_def)

text \<open>
  The decorated method runs with the lock taken; when the body leaves the lock as it found it,
  the decorated method does too, also when the body raises.
\<close>

lemma release_after_acquire:
  "rlock_acquire t l = Some l' \<Longrightarrow> rlock_release t l' = Some (case l of Some (_, 0) \<Rightarrow> None | _ \<Rightarrow> l)"
  by (cases "(t, l)" rule: rlock_acquire.cases) (auto split: if_splits nat.splits)

lemma wp_synchronous:
  assumes "rlock_acquire t (tlock s) = Some l'"
    and "tlock s \<noteq> Some (t, 0)"
    and "wp m (\<lambda>a s' w'. tlock s' = l' \<and> Q a (tlock_update (\<lambda>_. tlock s) s') w')
              (\<lambda>e s' w'. if e = Blocked then R e s' w'
                 else tlock s' = l' \<and> R e (tlock_update (\<lambda>_. tlock s) s') w')
              (tlock_update (\<lambda>_. l') s) w"
  shows "wp (synchronous tlock tlock_update t m) Q R s w"
proof -
  have rel: "rlock_release t l' = Some (tlock s)"
    using release_after_acquire [OF assms(1)] assms(1,2)
    by (cases "(t, tlock s)" rule: rlock_acquire.cases) (auto split: if_splits nat.splits)
  show ?thesis
    using assms(3) unfolding synchronous_def wp_simps assms(1) option.case
    by (rule wp_conseq) (auto simp: release_lock_def wp_simps rel)
qed

text \<open>The free lock is free again after a call that returns or raises.\<close>

lemma synchronous_free:
  assumes "tlock s = None"
    and "wp m (\<lambda>_ s' _. tlock s' = Some (t, 1)) (\<lambda>e s' _. e = Blocked \<or> tlock s' = Some (t, 1))
           (tlock_update (\<lambda>_. Some (t, 1)) s) w"
  shows "wp (synchronous tlock tlock_update t m) (\<lambda>_ s' _. tlock s' = None)
           (\<lambda>e s' _. e = Blocked \<or> tlock s' = None) s w"
proof (rule wp_synchronous)
  show "rlock_acquire t (tlock s) = Some (Some (t, 1))" using assms(1) by simp
  show "tlock s \<noteq> Some (t, 0)" using assms(1) by simp
  show "wp m (\<lambda>a s' w'. tlock s' = Some (t, 1) \<and> tlock (tlock_update (\<lambda>_. tlock s) s') = None)
     (\<lambda>e s' w'. if e = Blocked then e = Blocked \<or> tlock s' = None
        else tlock s' = Some (t, 1) \<and> (e = Blocked \<or> tlock (tlock_update (\<lambda>_. tlock s) s') = None))
     (tlock_update (\<lambda>_. Some (t, 1)) s) w"
    using assms(2) by (rule wp_conseq) (auto simp: tlock_upd assms(1))
qed

end

section \<open>Lemmas: truth values\<close>

lemma py_lower_idem [simp]: "py_lower (py_lower s) = py_lower s"
  by (auto simp: py_lower_def Let_def of_char_of)

text \<open>
  Case does not matter, exactly the listed words are accepted, and a converted value converts to
  itself.
\<close>

lemma booleanize_lower: "booleanize (PStr (py_lower s)) = booleanize (PStr s)"
  by simp

lemma booleanize_str_iff:
  "booleanize (PStr s) = Inr b \<longleftrightarrow> py_lower s \<in> set (if b then true_words else false_words)"
  by (cases b) (auto simp: Let_def true_words_def false_words_def)

section \<open>An environment in which everything works\<close>

text \<open>
  The concrete outside world of the witnesses: programs exit with 0, devices are there, the
  control node serial program says it is ready and acknowledges every command.
\<close>

definition working_env :: env where
  "working_env =
     \<lparr>e_dur = (\<lambda>_ _. 0), e_call = (\<lambda>_ _. CallExit 0), e_popen = (\<lambda>_ _. Started 1),
      e_terminate = (\<lambda>_ _. None), e_kill = (\<lambda>_ _. None), e_signal = (\<lambda>_ _ _. None),
      e_wait = (\<lambda>_ _. True), e_alive = (\<lambda>_ _. False), e_current = (\<lambda>_ _. None), e_started = (\<lambda>_ _. True),
      e_output = (\<lambda>_ _. Output []),
      e_exists = (\<lambda>_ _. True), e_isfile = (\<lambda>_ _. False), e_abspath = id,
      e_open = (\<lambda>_ _. None), e_read = (\<lambda>_ _. None), e_create = (\<lambda>_ _. None), e_chmod = (\<lambda>_ _. None),
      e_makedirs = (\<lambda>_ _. True), e_size = (\<lambda>_ _. Some 0), e_remove = (\<lambda>_ _. True), e_rmtree = (\<lambda>_ _. True),
      e_elf = (\<lambda>_ _. ElfHeader ''ET_EXEC'' ''ELFCLASS32'' ''EM_ARM''),
      e_load_addr = (\<lambda>_ _. Some 0), e_serial = (\<lambda>_ _. None),
      e_serial_io = (\<lambda>_ _. None), e_termios = (\<lambda>_ _. None),
      e_cn_idle = (\<lambda>_. []),
      e_cn_reply = (\<lambda>w. case rev (trace w) of
          CnWrite s # _ \<Rightarrow> [ReadLine (hd (py_split CHR '' '' (py_strip s)) @ '' ACK'')]
        | ThreadStart _ # _ \<Rightarrow> [ReadLine ''cn_serial_ready'']
        | _ \<Rightarrow> []),
      e_cn_write = (\<lambda>_ _. None), e_connect = (\<lambda>_ _ _. None), e_sock_write = (\<lambda>_ _. None), e_sock_read = (\<lambda>_. None),
      e_port_read = (\<lambda>_ _. None), e_booting = (\<lambda>_. False), e_pause = (\<lambda>_. True), e_getenv = (\<lambda>_. None),
      e_float = (\<lambda>_. None), e_json = (\<lambda>_. None), e_float_ok = (\<lambda>_. True),
      e_tempname = (\<lambda>_ suffix. ''/tmp/x'' @ suffix), e_maxint = 2 ^ 63 - 1,
      e_static_dir = ''/static'', e_config_dir = ''/config'', e_users_dir = ''/iotlab/users'', e_set_iter = id\<rparr>"

definition world0 :: world where
  "world0 = \<lparr>now = 0, trace = []\<rparr>"

section \<open>Properties\<close>

text \<open>C23: waiting for a condition.  The wait ends, does nothing but sleep, and reports whether the
  condition holds at its end; it gives up only after the timeout, and by at most one polling
  interval later when sleeping takes no longer than asked for.\<close>

theorem wait_cond_outcome:
  assumes "wait_cond E timeout v f s w = (r, s', w')"
  shows "s' = s \<and> slept w w' \<and> r = Inr (v = f w')
       \<and> (v \<noteq> f w' \<longrightarrow> now w + 1000 * timeout < now w')
       \<and> ((\<forall>w. e_dur E w (Sleep 100) = 0) \<longrightarrow> 0 \<le> timeout \<longrightarrow> now w' \<le> now w + 1000 * timeout + 100)"
proof -
  obtain b where l: "wait_loop E (now w + 1000 * timeout) v f w = (b, w')" "r = Inr b" "s' = s"
    using assms by (auto simp: wait_cond_def split: prod.splits)
  with wait_loop_slept [OF l(1)] wait_loop_result [OF l(1)] wait_loop_bound [OF l(1)]
  show ?thesis by auto
qed

theorem wait_cond_outcome_witness:
  "fst (wait_cond (working_env\<lparr>e_exists := (\<lambda>w _. 250 \<le> now w)\<rparr>) 3 True
      (\<lambda>w. 250 \<le> now w) (0 :: nat) world0) = Inr True"
proof -
  let ?E = "working_env\<lparr>e_exists := (\<lambda>w _. 250 \<le> now w)\<rparr>"
  let ?run = "wait_cond ?E 3 True (\<lambda>w. 250 \<le> now w) (0 :: nat) world0"
  have run: "?run = (fst ?run, fst (snd ?run), snd (snd ?run))" by simp
  have "now (snd (snd ?run)) = 300" by code_simp
  with wait_cond_outcome [OF run] show ?thesis by simp
qed

end
