(* ===== verification/Cn_Interface.thy ===== *)
theory Cn_Interface
  imports Common
begin

text \<open>
  Model of \<^verbatim>\<open>gateway_code/control_nodes/cn_iotlab/cn_interface.py\<close>: the object that runs the
  control node serial program, reads its lines in a thread and pairs commands with answers over
  a queue of capacity one.

  The reader thread is a function over what it observes; the observations of a stretch of time
  (between two commands, while an answer is awaited) come from the environment.  A queue read
  that nothing will answer is \<open>Blocked\<close>.
\<close>

section \<open>State\<close>

datatype reader_status =
    Running      \<comment> \<open>in its loop\<close>
  | Finished     \<comment> \<open>returned\<close>
  | Died exc     \<comment> \<open>ended by an exception\<close>
  | Stuck        \<comment> \<open>waits for room in \<open>_wait_ready\<close>\<close>

record cn_serial =
  cs_tty :: string
  cs_process :: "nat option"
  cs_reader :: "reader_status option"
  cs_msgs :: "string list list"
  cs_measures_debug :: bool
  cs_measures :: "string list"
  cs_wait_ready :: "int list"
  cs_oml_cfg_file :: "string option"

definition ControlNodeSerial_init :: "string \<Rightarrow> cn_serial" where
  "ControlNodeSerial_init tty =
     \<lparr>cs_tty = tty, cs_process = None, cs_reader = None, cs_msgs = [], cs_measures_debug = False,
      cs_measures = [], cs_wait_ready = [], cs_oml_cfg_file = None\<rparr>"

section \<open>The reader thread\<close>

text \<open>\<open>Queue(1).put_nowait\<close>: a full queue drops the item (it is only logged).\<close>

definition put_nowait :: "'a \<Rightarrow> 'a list \<Rightarrow> 'a list" where
  "put_nowait x q = (if q = [] then [x] else q)"

text \<open>\<open>measures_handler\<close>: the handler, when there is one, gets the line.\<close>

definition measures_handler :: "string \<Rightarrow> cn_serial \<Rightarrow> cn_serial" where
  "measures_handler line s =
     (if cs_measures_debug s then s\<lparr>cs_measures := cs_measures s @ [line]\<rparr> else s)"

text \<open>
  \<open>_handle_answer\<close>.  Inl is an exception that ends the thread; \<open>Blocked\<close> is a put on the full
  queue \<open>_wait_ready\<close>.
\<close>

definition handle_answer :: "env \<Rightarrow> string \<Rightarrow> cn_serial \<Rightarrow> (exc + unit) \<times> cn_serial" where
  "handle_answer E line s =
     (let answer = py_split CHR '' '' line in
      if hd answer = ''config_ack'' then
        (if length answer < 2 then (Inl IndexErr, s)
         else if answer ! 1 = ''set_time'' then
           (if length answer < 3 then (Inl IndexErr, s)
            else if \<not> e_float_ok E (answer ! 2) then (Inl ValueErr, s)
            else (Inr (), s))
         else (Inr (), s))
      else if hd answer = ''error'' then
        (if length answer < 2 then (Inl IndexErr, s) else (Inr (), s))
      else if hd answer = ''cn_serial_error:'' then (Inr (), s)
      else if hd answer = ''measures_debug:'' then (Inr (), measures_handler line s)
      else if hd answer = ''cn_serial_ready'' then
        (if cs_wait_ready s = [] then (Inr (), s\<lparr>cs_wait_ready := [0]\<rparr>) else (Inl Blocked, s))
      else (Inr (), s\<lparr>cs_msgs := put_nowait answer (cs_msgs s)\<rparr>))"

text \<open>\<open>_reader\<close>: the \<open>else\<close> of the loop runs when the process ended, not after the \<open>break\<close>.\<close>

fun reader_loop :: "env \<Rightarrow> reader_obs list \<Rightarrow> cn_serial \<Rightarrow> cn_serial" where
  "reader_loop E [] s = s"
| "reader_loop E (ProcessExited # obs) s =
     (if cs_wait_ready s = [] then s\<lparr>cs_wait_ready := [1], cs_reader := Some Finished\<rparr>
      else s\<lparr>cs_reader := Some Stuck\<rparr>)"
| "reader_loop E (EndOfFile # obs) s = s\<lparr>cs_reader := Some Finished\<rparr>"
| "reader_loop E (ReadLine line # obs) s =
     (case handle_answer E (py_strip line) s of
        (Inr _, s') \<Rightarrow> reader_loop E obs s'
      | (Inl e, s') \<Rightarrow> s'\<lparr>cs_reader := Some (if e = Blocked then Stuck else Died e)\<rparr>)"

text \<open>The thread makes progress only while it is in its loop.\<close>

definition reader_step :: "env \<Rightarrow> reader_obs list \<Rightarrow> cn_serial \<Rightarrow> cn_serial" where
  "reader_step E obs s = (if cs_reader s = Some Running then reader_loop E obs s else s)"

definition reader_runs :: "env \<Rightarrow> (world \<Rightarrow> reader_obs list) \<Rightarrow> (cn_serial, unit) act" where
  "reader_runs E obs = (\<lambda>s w. (Inr (), reader_step E (obs w) s, w))"

section \<open>Starting\<close>

definition CONTROL_NODE_SERIAL_INTERFACE :: string where
  "CONTROL_NODE_SERIAL_INTERFACE = ''control_node_serial_interface''"

text \<open>\<open>_oml_config_file\<close>: the configuration is written to a named temporary file.\<close>

definition oml_config_file :: "env \<Rightarrow> string option \<Rightarrow> (cn_serial, string option) act" where
  "oml_config_file E oml_xml_config =
     (case oml_xml_config of
        None \<Rightarrow> retE None
      | Some cfg \<Rightarrow>
          bindE (askE (\<lambda>w. e_tempname E w ''--oml.config'')) (\<lambda>name.
            thenE (emitE E (CreateFile name)) (retE (Some name))))"

text \<open>\<open>_cn_interface_args\<close>\<close>

definition cn_interface_args :: "env \<Rightarrow> string option \<Rightarrow> (cn_serial, string list) act" where
  "cn_interface_args E oml_xml_config =
     bindE (oml_config_file E oml_xml_config) (\<lambda>cfg.
     thenE (putE (cs_oml_cfg_file_update (\<lambda>_. cfg)))
     (bindE (getE id) (\<lambda>s.
        retE ([CONTROL_NODE_SERIAL_INTERFACE, ''-t'', cs_tty s] @
              (case cfg of None \<Rightarrow> [] | Some name \<Rightarrow> [''-c'', name]) @
              (if cs_measures_debug s then [''-d''] else [])))))"

text \<open>\<open>start\<close>: run the program and wait, without a time limit, until it is ready.\<close>

definition cn_serial_start :: "env \<Rightarrow> string option \<Rightarrow> (cn_serial, int) act" where
  "cn_serial_start E oml_xml_config =
     thenE (putE (cs_wait_ready_update empty_queue))
     (bindE (cn_interface_args E oml_xml_config) (\<lambda>args.
      bindE (askE (\<lambda>w. e_popen E w args)) (\<lambda>r.
        case r of
          PopenFails n \<Rightarrow> raiseE (OSErr n)
        | Started pid \<Rightarrow>
            thenE (emitE E (Spawn args))
            (thenE (putE (\<lambda>s. s\<lparr>cs_process := Some pid, cs_reader := Some Running\<rparr>))
            (thenE (emitE E (ThreadStart ''cn_serial_reader''))
            (thenE (reader_runs E (e_cn_reply E))
            (bindE (getE cs_wait_ready) (\<lambda>q.
               case q of
                 [] \<Rightarrow> raiseE Blocked
               | ret # q' \<Rightarrow> thenE (putE (cs_wait_ready_update (\<lambda>_. q'))) (retE ret)))))))))"

section \<open>The OML configuration\<close>

definition oml_collect :: "string \<Rightarrow> string \<Rightarrow> string" where
  "oml_collect mp path =
     ''  <collect url='' @ [squote] @ ''file:'' @ path @ [squote] @
     '' encoding='' @ [squote] @ ''text'' @ [squote] @ ''>'' @ [CHR 0x0A] @
     ''    <stream name='' @ [dquote] @ mp @ [dquote] @ '' mp='' @ [dquote] @ mp @ [dquote] @
     '' samples='' @ [squote] @ ''1'' @ [squote] @ '' />'' @ [CHR 0x0A] @
     ''  </collect>'' @ [CHR 0x0A]"

text \<open>
  \<open>oml_xml_config\<close>; the keys of the experiment files the template names must be there
  (KeyError).  Stripping takes off the first and the last line break of the template.
\<close>

definition oml_xml_config :: "string \<Rightarrow> int \<Rightarrow> (string \<times> string) list \<Rightarrow> exc + string option" where
  "oml_xml_config node_id exp_id exp_files =
     (if exp_files = [] then Inr None
      else case (map_of exp_files ''consumption'', map_of exp_files ''radio'',
                 map_of exp_files ''event'', map_of exp_files ''sniffer'') of
        (Some c, Some r, Some ev, Some sn) \<Rightarrow>
          Inr (Some (''<omlc id='' @ [squote] @ node_id @ [squote] @
            '' exp_id='' @ [squote] @ str_int exp_id @ [squote] @ ''>'' @ [CHR 0x0A] @
            oml_collect ''consumption'' c @ oml_collect ''radio'' r @
            oml_collect ''event'' ev @ oml_collect ''sniffer'' sn @ ''</omlc>''))
      | _ \<Rightarrow> Inl KeyErr)"

section \<open>Stopping\<close>

text \<open>
  \<open>_process_stop\<close>: terminate, wait five seconds, kill.  A process that is None raises
  AttributeError, which is ignored; an OSError of a process that is gone is passed on.
\<close>

definition process_stop :: "env \<Rightarrow> (cn_serial, unit) act" where
  "process_stop E =
     bindE (getE cs_process) (\<lambda>p.
       case p of
         None \<Rightarrow> retE ()
       | Some pid \<Rightarrow>
           bindE (askE (\<lambda>w. e_terminate E w pid)) (\<lambda>r.
             case r of
               Some n \<Rightarrow> raiseE (OSErr n)
             | None \<Rightarrow>
                 thenE (emitE E (Terminate pid))
                 (bindE (askE (\<lambda>w. e_wait E w pid)) (\<lambda>ended.
                    if ended then retE ()
                    else bindE (askE (\<lambda>w. e_kill E w pid)) (\<lambda>k.
                      case k of Some n \<Rightarrow> raiseE (OSErr n) | None \<Rightarrow> emitE E (Kill pid))))))"

text \<open>
  \<open>reader_thread.join()\<close>: the reader sees the rest of the output and then the end of its input;
  a reader that is stuck never ends.
\<close>

definition join_reader :: "env \<Rightarrow> (cn_serial, unit) act" where
  "join_reader E =
     thenE (reader_runs E (\<lambda>w. e_cn_idle E w @ [EndOfFile]))
     (bindE (getE cs_reader) (\<lambda>r. if r = Some Stuck then raiseE Blocked else retE ()))"

definition cn_serial_stop :: "env \<Rightarrow> (cn_serial, int) act" where
  "cn_serial_stop E =
     thenE (tryE (process_stop E) (\<lambda>e. case e of OSErr _ \<Rightarrow> Some (retE ()) | _ \<Rightarrow> None))
     (thenE (join_reader E)
     (thenE (putE (\<lambda>s. s\<lparr>cs_process := None, cs_measures_debug := False, cs_oml_cfg_file := None\<rparr>))
     (retE 0)))"

section \<open>Commands\<close>

text \<open>
  \<open>send_command\<close>: forget old answers, write the command, wait at most one second for an answer.
  None stands for a timeout, a process that is not there and a process that is gone.
\<close>

definition send_command :: "env \<Rightarrow> string list \<Rightarrow> (cn_serial, string list option) act" where
  "send_command E command_args =
     (let command_str = py_join '' '' command_args @ [CHR 0x0A] in
      thenE (reader_runs E (e_cn_idle E))
      (thenE (putE (cs_msgs_update empty_queue))
      (bindE (getE cs_process) (\<lambda>p.
       bindE
         (case p of
            None \<Rightarrow> retE None
          | Some pid \<Rightarrow>
              bindE (askE (\<lambda>w. e_cn_write E w command_str)) (\<lambda>r.
                case r of
                  Some n \<Rightarrow> retE None
                | None \<Rightarrow>
                    thenE (emitE E (CnWrite command_str))
                    (thenE (reader_runs E (e_cn_reply E))
                    (bindE (getE cs_msgs) (\<lambda>q.
                       case q of
                         [] \<Rightarrow> retE None
                       | m # q' \<Rightarrow> thenE (putE (cs_msgs_update (\<lambda>_. q'))) (retE (Some m)))))))
         (\<lambda>answer_cn. thenE (emitE E (CnCommand command_args answer_cn)) (retE answer_cn))))))"

section \<open>What a line means\<close>

text \<open>
  The contract of the line protocol: a line answers a command, reports a measure, says the
  program is ready, is only logged, or ends the reader.
\<close>

datatype line_class = LAnswer "string list" | LMeasure | LReady | LLogged | LFatal exc

definition classify :: "env \<Rightarrow> string \<Rightarrow> line_class" where
  "classify E line =
     (case py_split CHR '' '' line of
        [] \<Rightarrow> LLogged
      | key # args \<Rightarrow>
          (if key = ''config_ack'' then
             (case args of
                [] \<Rightarrow> LFatal IndexErr
              | what # vals \<Rightarrow>
                  (if what \<noteq> ''set_time'' then LLogged
                   else case vals of
                     [] \<Rightarrow> LFatal IndexErr
                   | v # _ \<Rightarrow> (if e_float_ok E v then LLogged else LFatal ValueErr)))
           else if key = ''error'' then (if args = [] then LFatal IndexErr else LLogged)
           else if key = ''cn_serial_error:'' then LLogged
           else if key = ''measures_debug:'' then LMeasure
           else if key = ''cn_serial_ready'' then LReady
           else LAnswer (key # args)))"

lemma handle_answer_classify:
  "handle_answer E line s =
     (case classify E line of
        LAnswer a \<Rightarrow> (Inr (), s\<lparr>cs_msgs := put_nowait a (cs_msgs s)\<rparr>)
      | LMeasure \<Rightarrow> (Inr (), measures_handler line s)
      | LReady \<Rightarrow> (if cs_wait_ready s = [] then (Inr (), s\<lparr>cs_wait_ready := [0]\<rparr>) else (Inl Blocked, s))
      | LLogged \<Rightarrow> (Inr (), s)
      | LFatal e \<Rightarrow> (Inl e, s))"
proof -
  obtain key args where sp: "py_split CHR '' '' line = key # args"
    using py_split_not_Nil by (metis list.exhaust)
  show ?thesis
  proof (cases args)
    case Nil
    then show ?thesis
      unfolding handle_answer_def classify_def Let_def sp by simp
  next
    case (Cons a1 args1)
    then show ?thesis
      unfolding handle_answer_def classify_def Let_def sp by (cases args1) simp_all
  qed
qed

section \<open>The reader keeps the queues short\<close>

definition cn_serial_inv :: "cn_serial \<Rightarrow> bool" where
  "cn_serial_inv s \<longleftrightarrow> length (cs_msgs s) \<le> 1 \<and> length (cs_wait_ready s) \<le> 1"

lemma measures_handler_fields [simp]:
  "cs_msgs (measures_handler l s) = cs_msgs s" "cs_wait_ready (measures_handler l s) = cs_wait_ready s"
  "cs_reader (measures_handler l s) = cs_reader s" "cs_process (measures_handler l s) = cs_process s"
  by (simp_all add: measures_handler_def)

lemma handle_answer_inv:
  "cn_serial_inv s \<Longrightarrow> handle_answer E line s = (r, s') \<Longrightarrow> cn_serial_inv s'"
  by (auto simp: handle_answer_classify cn_serial_inv_def put_nowait_def
           split: line_class.splits if_splits)

lemma handle_answer_frame:
  "handle_answer E line s = (r, s')
   \<Longrightarrow> cs_process s' = cs_process s \<and> cs_reader s' = cs_reader s"
  by (auto simp: handle_answer_classify split: line_class.splits if_splits)

lemma reader_loop_inv: "cn_serial_inv s \<Longrightarrow> cn_serial_inv (reader_loop E obs s)"
proof (induction E obs s rule: reader_loop.induct)
  case (4 E line obs s)
  obtain r s' where h: "handle_answer E (py_strip line) s = (r, s')" by (cases "handle_answer E (py_strip line) s")
  with 4(2) have "cn_serial_inv s'" by (rule handle_answer_inv)
  with 4(1) h show ?case by (cases r) (auto simp: cn_serial_inv_def)
qed (auto simp: cn_serial_inv_def)

lemma reader_loop_process [simp]: "cs_process (reader_loop E obs s) = cs_process s"
proof (induction E obs s rule: reader_loop.induct)
  case (4 E line obs s)
  then show ?case
    by (auto split: prod.splits sum.splits dest: handle_answer_frame)
qed auto

text \<open>
  An answer in the queue comes from a line that was read, unless it was there before.
\<close>

definition answer_lines :: "env \<Rightarrow> reader_obs list \<Rightarrow> string list set" where
  "answer_lines E obs = {a. \<exists>l. ReadLine l \<in> set obs \<and> classify E (py_strip l) = LAnswer a}"

lemma handle_answer_msgs:
  "handle_answer E (py_strip line) s = (r, s')
   \<Longrightarrow> set (cs_msgs s') \<subseteq> set (cs_msgs s) \<union> answer_lines E [ReadLine line]"
  by (auto simp: handle_answer_classify answer_lines_def put_nowait_def
           split: line_class.splits if_splits)

lemma answer_lines_Cons: "answer_lines E (ob # obs) = answer_lines E [ob] \<union> answer_lines E obs"
  by (auto simp: answer_lines_def)

lemma reader_loop_msgs: "set (cs_msgs (reader_loop E obs s)) \<subseteq> set (cs_msgs s) \<union> answer_lines E obs"
proof (induction E obs s rule: reader_loop.induct)
  case (4 E line obs s)
  obtain r s' where h: "handle_answer E (py_strip line) s = (r, s')"
    by (cases "handle_answer E (py_strip line) s")
  note * = handle_answer_msgs [OF h]
  show ?case
  proof (cases r)
    case (Inl e)
    with h * show ?thesis by (auto simp: answer_lines_Cons [of E "ReadLine line" obs])
  next
    case (Inr u)
    with h 4 have "set (cs_msgs (reader_loop E obs s')) \<subseteq> set (cs_msgs s') \<union> answer_lines E obs" by simp
    with h * Inr show ?thesis by (auto simp: answer_lines_Cons [of E "ReadLine line" obs])
  qed
qed auto

text \<open>Lines that leave the queues and the loop alone.\<close>

definition quiet_line :: "env \<Rightarrow> string \<Rightarrow> bool" where
  "quiet_line E l \<longleftrightarrow> classify E (py_strip l) \<in> {LMeasure, LLogged}"

lemma reader_loop_quiet:
  "list_all (quiet_line E) ls \<Longrightarrow>
   \<exists>ms. reader_loop E (map ReadLine ls @ obs) s = reader_loop E obs (s\<lparr>cs_measures := ms\<rparr>)"
proof (induction ls arbitrary: s)
  case Nil
  have "s\<lparr>cs_measures := cs_measures s\<rparr> = s" by simp
  then show ?case by (metis append_Nil list.map(1))
next
  case (Cons l ls)
  then have ls: "list_all (quiet_line E) ls" and "quiet_line E l" by simp_all
  then have q: "classify E (py_strip l) \<in> {LMeasure, LLogged}" by (simp add: quiet_line_def)
  obtain ms0 where s0: "handle_answer E (py_strip l) s = (Inr (), s\<lparr>cs_measures := ms0\<rparr>)"
  proof (cases "classify E (py_strip l) = LMeasure \<and> cs_measures_debug s")
    case True
    then show thesis
      by (intro that [of "cs_measures s @ [py_strip l]"])
         (simp add: handle_answer_classify measures_handler_def)
  next
    case False
    with q show thesis
      by (intro that [of "cs_measures s"]) (auto simp: handle_answer_classify measures_handler_def)
  qed
  obtain ms where "reader_loop E (map ReadLine ls @ obs) (s\<lparr>cs_measures := ms0\<rparr>)
      = reader_loop E obs (s\<lparr>cs_measures := ms0\<rparr>\<lparr>cs_measures := ms\<rparr>)"
    using Cons.IH [OF ls] by blast
  with s0 show ?case by (intro exI [of _ ms]) simp
qed

text \<open>The first answer stays in the queue, whatever comes after it.\<close>

lemma reader_loop_keeps_answer: "cs_msgs s = [a] \<Longrightarrow> cs_msgs (reader_loop E obs s) = [a]"
proof (induction E obs s rule: reader_loop.induct)
  case (4 E line obs s)
  show ?case
  proof (cases "handle_answer E (py_strip line) s")
    case (Pair r s')
    then have "cs_msgs s' = [a]"
      using 4(2) by (auto simp: handle_answer_classify put_nowait_def split: line_class.splits if_splits)
    with 4(1) Pair show ?thesis by (cases r) auto
  qed
qed auto

lemma reader_loop_first_answer:
  assumes "list_all (quiet_line E) ls" and "classify E (py_strip l) = LAnswer a" and "cs_msgs s = []"
  shows "cs_msgs (reader_loop E (map ReadLine ls @ ReadLine l # obs) s) = [a]"
proof -
  obtain ms where "reader_loop E (map ReadLine ls @ ReadLine l # obs) s
      = reader_loop E (ReadLine l # obs) (s\<lparr>cs_measures := ms\<rparr>)"
    using reader_loop_quiet [OF assms(1)] by blast
  with assms(2,3) show ?thesis
    by (simp add: handle_answer_classify put_nowait_def reader_loop_keeps_answer)
qed

lemma reader_step_inv: "cn_serial_inv s \<Longrightarrow> cn_serial_inv (reader_step E obs s)"
  by (simp add: reader_step_def reader_loop_inv)

lemma reader_step_process [simp]: "cs_process (reader_step E obs s) = cs_process s"
  by (simp add: reader_step_def)

lemma reader_step_msgs: "set (cs_msgs (reader_step E obs s)) \<subseteq> set (cs_msgs s) \<union> answer_lines E obs"
  using reader_loop_msgs by (simp add: reader_step_def)

lemma reader_step_fresh:
  "cs_msgs (reader_step E obs (s\<lparr>cs_msgs := []\<rparr>)) = a # q \<Longrightarrow> a \<in> answer_lines E obs"
  using reader_step_msgs [of E obs "s\<lparr>cs_msgs := []\<rparr>"] by simp

lemma cn_serial_inv_emptied: "cn_serial_inv s \<Longrightarrow> cn_serial_inv (s\<lparr>cs_msgs := []\<rparr>)"
  by (simp add: cn_serial_inv_def)

lemma cn_serial_inv_popped:
  "cn_serial_inv s \<Longrightarrow> cs_msgs s = m # q \<Longrightarrow> cn_serial_inv (s\<lparr>cs_msgs := q\<rparr>)"
  by (simp add: cn_serial_inv_def)

section \<open>Weakest preconditions of the operations\<close>

lemma wp_reader_runs [wp_simps]:
  "wp (reader_runs E obs) Q R =
     (\<lambda>s w. Q () (reader_step E (obs w) s) w)"
  by (simp add: fun_eq_iff wp_def reader_runs_def)

lemma wp_case_list [wp_simps]:
  "wp (case x of [] \<Rightarrow> m | a # as \<Rightarrow> f a as) Q R
   = (case x of [] \<Rightarrow> wp m Q R | a # as \<Rightarrow> wp (f a as) Q R)"
  by (cases x) simp_all

lemma wp_case_popen [wp_simps]:
  "wp (case x of Started p \<Rightarrow> f p | PopenFails n \<Rightarrow> g n) Q R
   = (case x of Started p \<Rightarrow> wp (f p) Q R | PopenFails n \<Rightarrow> wp (g n) Q R)"
  by (cases x) simp_all

text \<open>The commands and answers so far.\<close>

fun cn_cmds :: "event list \<Rightarrow> (string list \<times> string list option) list" where
  "cn_cmds [] = []"
| "cn_cmds (CnCommand c a # evs) = (c, a) # cn_cmds evs"
| "cn_cmds (_ # evs) = cn_cmds evs"

abbreviation cn_log :: "world \<Rightarrow> (string list \<times> string list option) list" where
  "cn_log w \<equiv> cn_cmds (trace w)"

lemma cn_cmds_append [simp]: "cn_cmds (xs @ ys) = cn_cmds xs @ cn_cmds ys"
  by (induction xs rule: cn_cmds.induct) auto

lemma trace_log_event [simp]: "trace (log_event E ev w) = trace w @ [ev]"
  by (simp add: log_event_def)


lemma wp_fst: "wp m (\<lambda>a _ _. P (Inr a)) (\<lambda>e _ _. P (Inl e)) s w \<longleftrightarrow> P (fst (m s w))"
  by (auto simp: wp_def split: prod.splits sum.splits)

text \<open>The first item of \<open>_wait_ready\<close> stays, whatever the reader sees after it.\<close>

lemma reader_loop_keeps_ready: "cs_wait_ready s = [x] \<Longrightarrow> cs_wait_ready (reader_loop E obs s) = [x]"
proof (induction E obs s rule: reader_loop.induct)
  case (4 E line obs s)
  obtain r s' where h: "handle_answer E (py_strip line) s = (r, s')"
    by (cases "handle_answer E (py_strip line) s")
  then have "cs_wait_ready s' = [x]"
    using 4(2) by (auto simp: handle_answer_classify split: line_class.splits if_splits)
  with 4(1) h show ?case by (cases r) auto
qed auto

text \<open>What \<open>_wait_ready\<close> holds after the first observation that matters.\<close>

fun ready_item :: "env \<Rightarrow> reader_obs \<Rightarrow> int option" where
  "ready_item E ProcessExited = Some 1"
| "ready_item E EndOfFile = None"
| "ready_item E (ReadLine l) = (if classify E (py_strip l) = LReady then Some 0 else None)"

definition decisive :: "env \<Rightarrow> reader_obs \<Rightarrow> bool" where
  "decisive E ob \<longleftrightarrow> (\<forall>l. ob = ReadLine l \<longrightarrow> classify E (py_strip l) = LReady)"

lemma reader_loop_ready:
  assumes "list_all (quiet_line E) ls" and "decisive E ob" and "cs_wait_ready s = []"
  shows "cs_wait_ready (reader_loop E (map ReadLine ls @ ob # obs) s)
         = (case ready_item E ob of None \<Rightarrow> [] | Some r \<Rightarrow> [r])"
proof -
  obtain ms where "reader_loop E (map ReadLine ls @ ob # obs) s
      = reader_loop E (ob # obs) (s\<lparr>cs_measures := ms\<rparr>)"
    using reader_loop_quiet [OF assms(1)] by blast
  with assms(2,3) show ?thesis
    by (cases ob) (auto simp: decisive_def handle_answer_classify reader_loop_keeps_ready)
qed

lemma cn_serial_start_result:
  assumes popen: "\<And>w' args. \<exists>pid. e_popen E w' args = Started pid"
    and reply: "\<And>w'. e_cn_reply E w' = obs"
    and q: "\<And>s1. cs_wait_ready s1 = [] \<Longrightarrow> cs_wait_ready (reader_loop E obs s1) = q"
  shows "fst (cn_serial_start E oml s w) = (case q of [] \<Rightarrow> Inl Blocked | r # _ \<Rightarrow> Inr r)"
proof -
  have "wp (cn_serial_start E oml) (\<lambda>r _ _. Inr r = (case q of [] \<Rightarrow> Inl Blocked | r # _ \<Rightarrow> Inr r))
          (\<lambda>e _ _. Inl e = (case q of [] \<Rightarrow> Inl Blocked | r # _ \<Rightarrow> Inr r)) s w"
    using popen
    by (auto simp: cn_serial_start_def cn_interface_args_def oml_config_file_def wp_simps reply
          reader_step_def q split: option.split list.split popen_outcome.split)
       (metis popen_outcome.distinct(1))+
  then show ?thesis by (simp add: wp_fst [where P = "\<lambda>x. x = _"])
qed

section \<open>The interface of the command sender\<close>

text \<open>
  What the protocol layer relies on: a sender always comes back with an answer or None, every
  command is logged with its answer, in order, and the state of the sender changes only within
  a frame.
\<close>

locale cn_sender =
  fixes send :: "string list \<Rightarrow> ('s, string list option) act"
    and frame :: "'s \<Rightarrow> 's \<Rightarrow> bool"
  assumes send_logged:
    "wp (send cmd) (\<lambda>ans s' w'. cn_log w' = cn_log w @ [(cmd, ans)] \<and> frame s s') (\<lambda>_ _ _. False) s w"
    and frame_refl: "frame s s"

lemma send_command_logged:
  "wp (send_command E cmd)
     (\<lambda>ans s' w'. cn_log w' = cn_log w @ [(cmd, ans)] \<and> cs_process s' = cs_process s) (\<lambda>_ _ _. False) s w"
  by (simp add: send_command_def Let_def wp_simps split: option.split list.split)

interpretation cs: cn_sender "send_command E" "\<lambda>s s'. cs_process s' = cs_process s" for E
  by unfold_locales (rule send_command_logged, rule refl)

section \<open>Calls that send no command\<close>

definition silent :: "('s, 'a) act \<Rightarrow> bool" where
  "silent m \<longleftrightarrow> (\<forall>L. keeps (\<lambda>_ w. cn_log w = L) m)"

lemma silentI: "(\<And>L. keeps (\<lambda>_ w. cn_log w = L) m) \<Longrightarrow> silent m"
  by (simp add: silent_def)

lemma silentD: "silent m \<Longrightarrow> keeps (\<lambda>_ w. cn_log w = L) m"
  by (simp add: silent_def)

lemma silent_run: "silent m \<Longrightarrow> m s w = (r, s', w') \<Longrightarrow> cn_log w' = cn_log w"
  by (auto dest!: silentD dest: keeps_run [where I = "\<lambda>_ w'. cn_log w' = cn_log w"])

lemma wp_silent:
  "silent m \<Longrightarrow> wp m (\<lambda>_ _ w'. cn_log w' = cn_log w) (\<lambda>_ _ w'. cn_log w' = cn_log w) s w"
  by (simp add: silent_def keeps_def)

lemma silent_retE [silent_rules]: "silent (retE a)"
  by (intro silentI keeps_rules)

lemma silent_raiseE [silent_rules]: "silent (raiseE e)"
  by (intro silentI keeps_rules)

lemma silent_getE [silent_rules]: "silent (getE f)"
  by (intro silentI keeps_rules)

lemma silent_putE [silent_rules]: "silent (putE f)"
  by (simp add: silent_def keeps_def wp_simps)

lemma silent_askE [silent_rules]: "silent (askE f)"
  by (intro silentI keeps_rules)

lemma silent_bindE [silent_rules]: "silent m \<Longrightarrow> (\<And>a. silent (f a)) \<Longrightarrow> silent (bindE m f)"
  by (simp add: silent_def keeps_bindE)

lemma silent_thenE [silent_rules]: "silent m \<Longrightarrow> silent n \<Longrightarrow> silent (thenE m n)"
  by (simp add: silent_def keeps_thenE)

lemma silent_tryE [silent_rules]:
  "silent m \<Longrightarrow> (\<And>e k. h e = Some k \<Longrightarrow> silent k) \<Longrightarrow> silent (tryE m h)"
  unfolding silent_def by (auto intro: keeps_tryE)

lemma silent_finallyE [silent_rules]: "silent m \<Longrightarrow> silent f \<Longrightarrow> silent (finallyE m f)"
  by (simp add: silent_def keeps_finallyE)

lemma silent_if [silent_rules]: "silent m \<Longrightarrow> silent n \<Longrightarrow> silent (if b then m else n)"
  by simp

lemma silent_case_option [silent_rules]:
  "silent n \<Longrightarrow> (\<And>a. silent (f a)) \<Longrightarrow> silent (case x of None \<Rightarrow> n | Some a \<Rightarrow> f a)"
  by (cases x) auto

lemma silent_case_popen [silent_rules]:
  "(\<And>p. silent (f p)) \<Longrightarrow> (\<And>n. silent (g n)) \<Longrightarrow> silent (case x of Started p \<Rightarrow> f p | PopenFails n \<Rightarrow> g n)"
  by (cases x) auto

lemma silent_case_sum [silent_rules]:
  "(\<And>a. silent (f a)) \<Longrightarrow> (\<And>b. silent (g b)) \<Longrightarrow> silent (case x of Inl a \<Rightarrow> f a | Inr b \<Rightarrow> g b)"
  by (cases x) auto

lemma silent_ignoreE [silent_rules]: "silent m \<Longrightarrow> silent (ignoreE m)"
  by (simp add: silent_def keeps_ignoreE)

lemma silent_sum_rets_Nil [silent_rules]: "silent (sum_rets [])"
  by (intro silentI keeps_rules)

lemma silent_sum_rets_Cons [silent_rules]: "silent m \<Longrightarrow> silent (sum_rets ms) \<Longrightarrow> silent (sum_rets (m # ms))"
  by (simp add: silent_def keeps_sum_rets_Cons)

lemma silent_zoomE [silent_rules]: "silent m \<Longrightarrow> silent (zoomE sel upd m)"
  by (simp add: silent_def keeps_def wp_simps)

lemma silent_emitE: "cn_cmds [ev] = [] \<Longrightarrow> silent (emitE E ev)"
  by (simp add: silent_def keeps_def wp_simps)

lemma silent_py_sleep [silent_rules]: "silent (py_sleep E ms)"
  by (simp add: silent_def keeps_def wp_simps)

lemma silent_py_call [silent_rules]: "silent (py_call E args)"
  by (auto simp: silent_def keeps_def wp_simps split: call_outcome.split)

lemma silent_abspath [silent_rules]: "silent (abspath E path)"
  unfolding abspath_def Let_def by (intro silent_rules)

lemma cn_cmds_sleeps [simp]: "cn_cmds (replicate n (Sleep ms)) = []"
  by (induction n) auto

lemma slept_stable: "sleep_stable (\<lambda>_ w. cn_log w = L)"
  by (auto simp: sleep_stable_def slept_def)

lemma silent_wait_tty [silent_rules]: "silent (wait_tty E tty timeout)"
  by (intro silentI keeps_wait_tty slept_stable)

lemma silent_wait_no_tty [silent_rules]: "silent (wait_no_tty E tty timeout)"
  by (intro silentI keeps_wait_no_tty slept_stable)

section \<open>Preservation of the queue bounds\<close>

abbreviation cn_serial_invw :: "cn_serial \<Rightarrow> world \<Rightarrow> bool" where
  "cn_serial_invw s w \<equiv> cn_serial_inv s"

lemma keeps_send_command: "keeps cn_serial_invw (send_command E cmd)"
  by (rule keepsI)
     (auto simp: send_command_def Let_def wp_simps split: option.split list.split
           intro!: reader_step_inv cn_serial_inv_emptied cn_serial_inv_popped)

section \<open>Properties\<close>


text \<open>C19: when the process runs, its reader is in its loop and the command can be written, the first
  line that is an answer is what \<open>send_command\<close> gives back, whatever measures, acknowledgements
  and errors are printed before it and whatever comes after it.\<close>

theorem send_command_answers:
  assumes run: "cs_process s = Some pid" "cs_reader (reader_step E (e_cn_idle E w) s) = Some Running"
    and written: "e_cn_write E w (py_join '' '' cmd @ [CHR 0x0A]) = None"
    and reply: "e_cn_reply E (log_event E (CnWrite (py_join '' '' cmd @ [CHR 0x0A])) w)
                = map ReadLine ls @ ReadLine l # obs"
    and quiet: "list_all (quiet_line E) ls"
    and answer: "classify E (py_strip l) = LAnswer a"
  shows "fst (send_command E cmd s w) = Inr (Some a)"
proof -
  have "wp (send_command E cmd) (\<lambda>r _ _. r = Some a) (\<lambda>_ _ _. False) s w"
    using run reader_loop_first_answer
      [OF quiet answer, of "reader_step E (e_cn_idle E w) s\<lparr>cs_msgs := []\<rparr>" obs]
    by (simp add: send_command_def Let_def wp_simps written reply
        reader_step_def [of _ _ "cs_msgs_update _ _"])
  then show ?thesis
    by (auto simp: wp_def split: prod.splits sum.splits)
qed

theorem send_command_answers_witness:
  "fst (send_command working_env [''set_time'']
      (ControlNodeSerial_init ''/dev/ttyCN''\<lparr>cs_process := Some 1, cs_reader := Some Running\<rparr>) world0)
   = Inr (Some [''set_time'', ''ACK''])"
proof (rule send_command_answers [where pid = 1 and ls = "[]" and l = "''set_time ACK''" and obs = "[]"])
  show "cs_reader (reader_step working_env (e_cn_idle working_env world0)
      (ControlNodeSerial_init ''/dev/ttyCN''\<lparr>cs_process := Some 1, cs_reader := Some Running\<rparr>)) = Some Running"
    by (simp add: working_env_def reader_step_def)
  show "e_cn_reply working_env (log_event working_env (CnWrite (py_join '' '' [''set_time''] @ [CHR 0x0A])) world0)
      = map ReadLine [] @ ReadLine ''set_time ACK'' # []"
    by (simp add: working_env_def world0_def log_event_def py_strip_def is_space_def)
  show "classify working_env (py_strip ''set_time ACK'') = LAnswer [''set_time'', ''ACK'']"
    by (simp add: classify_def py_strip_def is_space_def)
qed (simp_all add: ControlNodeSerial_init_def working_env_def)


text \<open>C20: the outcome of starting the serial program, by the first thing its reader sees that matters.
  The program says it is ready: 0.  \<open>poll()\<close> finds that it exited: 1.  Its output ends while
  \<open>poll()\<close> still finds it running: the reader leaves its loop by \<open>break\<close>, the failure is not
  reported, and \<open>start\<close> never returns.\<close>

theorem cn_serial_start_outcome:
  assumes popen: "\<And>w' args. \<exists>pid. e_popen E w' args = Started pid"
    and reply: "\<And>w'. e_cn_reply E w' = map ReadLine ls @ ob # obs"
    and quiet: "list_all (quiet_line E) ls"
  shows "(\<forall>l. ob = ReadLine l \<longrightarrow> classify E (py_strip l) = LReady
              \<longrightarrow> fst (cn_serial_start E oml s w) = Inr 0)
       \<and> (ob = ProcessExited \<longrightarrow> fst (cn_serial_start E oml s w) = Inr 1)
       \<and> (ob = EndOfFile \<longrightarrow> fst (cn_serial_start E oml s w) = Inl Blocked)"
proof -
  have *: "fst (cn_serial_start E oml s w)
      = (case (case ready_item E ob of None \<Rightarrow> [] | Some r \<Rightarrow> [r]) of [] \<Rightarrow> Inl Blocked | r # _ \<Rightarrow> Inr r)"
    if "decisive E ob"
    by (rule cn_serial_start_result [OF popen reply]) (rule reader_loop_ready [OF quiet that])
  show ?thesis
  proof (cases ob)
    case (ReadLine l)
    with * show ?thesis by (auto simp: decisive_def)
  qed (use * in \<open>simp_all add: decisive_def\<close>)
qed

theorem cn_serial_start_outcome_witness:
  "fst (cn_serial_start (working_env\<lparr>e_cn_reply := (\<lambda>_. [EndOfFile])\<rparr>) None
      (ControlNodeSerial_init ''/dev/ttyCN'') world0) = Inl Blocked"
  using cn_serial_start_outcome [of "working_env\<lparr>e_cn_reply := (\<lambda>_. [EndOfFile])\<rparr>" "[]" EndOfFile "[]"]
  by (simp add: working_env_def)

end
