(* ===== verification/Profile.thy ===== *)
theory Profile
  imports Common
begin

text \<open>
  Model of \<^verbatim>\<open>gateway_code/profile.py\<close>: the monitoring profile and its checks, from the JSON
  document of a request to a \<open>Profile\<close> object.  Passing a dict as keyword arguments raises
  TypeError on unknown, missing and duplicate arguments, as in Python.
\<close>

section \<open>Data\<close>

text \<open>A number that passed a range check: an int or a bool.\<close>

datatype pynum = NInt int | NBool bool

fun num_val :: "pynum \<Rightarrow> int" where
  "num_val (NInt i) = i"
| "num_val (NBool b) = (if b then 1 else 0)"

text \<open>\<open>str\<close> of such a number\<close>

fun num_str :: "pynum \<Rightarrow> string" where
  "num_str (NInt i) = str_int i"
| "num_str (NBool b) = (if b then ''True'' else ''False'')"

fun as_num :: "pyval \<Rightarrow> pynum option" where
  "as_num (PInt i) = Some (NInt i)"
| "as_num (PBool b) = Some (NBool b)"
| "as_num _ = None"

fun val_of_num :: "pynum \<Rightarrow> pyval" where
  "val_of_num (NInt i) = PInt i"
| "val_of_num (NBool b) = PBool b"

record consumption =
  c_source :: string
  c_period :: int
  c_average :: int
  c_power :: pyval
  c_voltage :: pyval
  c_current :: pyval

record radio =
  r_mode :: string
  r_channels :: "int list"
  r_period :: pynum
  r_num_per_channel :: "pynum option"

record profile =
  profilename :: pyval
  p_power :: pyval
  p_consumption :: "consumption option"
  p_radio :: "radio option"

section \<open>Consumption\<close>

definition consumption_periods :: "int list" where
  "consumption_periods = [140, 204, 332, 588, 1100, 2116, 4156, 8244]"

definition consumption_averages :: "int list" where
  "consumption_averages = [1, 4, 16, 64, 128, 256, 512, 1024]"

definition alim_choices :: "string list" where
  "alim_choices = [''3.3V'', ''5V'']"

text \<open>\<open>Consumption.__init__\<close>\<close>

definition Consumption_init ::
  "string \<Rightarrow> pyval \<Rightarrow> pyval \<Rightarrow> pyval \<Rightarrow> pyval \<Rightarrow> pyval \<Rightarrow> pyval \<Rightarrow> exc + consumption" where
  "Consumption_init alim source period average pwr voltage current =
     (if period = PNone \<or> average = PNone then Inl AssertionErr
      else case int_of period of Inl e \<Rightarrow> Inl e | Inr p \<Rightarrow>
      (case int_of average of Inl e \<Rightarrow> Inl e | Inr a \<Rightarrow>
         if p \<notin> set consumption_periods then Inl AssertionErr
         else if a \<notin> set consumption_averages then Inl AssertionErr
         else if alim \<notin> set alim_choices then Inl AssertionErr
         else Inr \<lparr>c_source = (if source = PStr ''dc'' then alim else ''BATT''),
                   c_period = p, c_average = a,
                   c_power = pwr, c_voltage = voltage, c_current = current\<rparr>))"

text \<open>A keyword argument with a default.\<close>

definition kwarg :: "(string \<times> pyval) list \<Rightarrow> string \<Rightarrow> pyval \<Rightarrow> pyval" where
  "kwarg kv k d = (case map_of kv k of None \<Rightarrow> d | Some v \<Rightarrow> v)"

text \<open>
  Which keyword arguments a call takes: all keys known, all required ones there.
\<close>

definition kwargs_fit :: "string list \<Rightarrow> string list \<Rightarrow> (string \<times> pyval) list \<Rightarrow> bool" where
  "kwargs_fit known required kv \<longleftrightarrow>
     list_all (\<lambda>(k, _). k \<in> set known) kv \<and> list_all (\<lambda>k. k \<in> fst ` set kv) required"

text \<open>\<open>Consumption(open_node_type.ALIM, source=power, **consumption)\<close>\<close>

definition call_Consumption :: "string option \<Rightarrow> pyval \<Rightarrow> pyval \<Rightarrow> exc + consumption" where
  "call_Consumption ALIM supply d =
     (case ALIM of None \<Rightarrow> Inl AttributeErr | Some alim \<Rightarrow>
      (case d of
         PDict kv \<Rightarrow>
           (if kwargs_fit [''period'', ''average'', ''power'', ''voltage'', ''current'']
                          [''period'', ''average''] kv
            then Consumption_init alim supply (kwarg kv ''period'' PNone) (kwarg kv ''average'' PNone)
                   (kwarg kv ''power'' (PBool False)) (kwarg kv ''voltage'' (PBool False))
                   (kwarg kv ''current'' (PBool False))
            else Inl TypeErr)
       | _ \<Rightarrow> Inl TypeErr))"

section \<open>Radio\<close>

text \<open>\<open>x in range(lo, hi)\<close>\<close>

definition in_range :: "int \<Rightarrow> int \<Rightarrow> pyval \<Rightarrow> bool" where
  "in_range lo hi x = (case num_of x of None \<Rightarrow> False | Some n \<Rightarrow> lo \<le> n \<and> n < hi)"

text \<open>\<open>Radio._is_valid\<close>, which also normalises the period of a sniffer\<close>

definition Radio_is_valid :: "pyval \<Rightarrow> pyval list \<Rightarrow> pyval \<Rightarrow> pyval \<Rightarrow> exc + radio" where
  "Radio_is_valid mode channels period num_per_channel =
     (if mode = PStr ''rssi'' then
        (if period = PNone then Inl AssertionErr
         else if \<not> (length channels = 1 \<or> num_of num_per_channel \<noteq> Some 0) then Inl AssertionErr
         else if \<not> in_range 1 (2 ^ 16) period then Inl AssertionErr
         else if \<not> in_range 0 256 num_per_channel then Inl AssertionErr
         else Inr \<lparr>r_mode = ''rssi'', r_channels = map (the \<circ> num_of) channels,
                   r_period = the (as_num period), r_num_per_channel = as_num num_per_channel\<rparr>)
      else if mode = PStr ''sniffer'' then
        (let period' = (if truthy period then period else PInt 0) in
         if \<not> in_range 0 (2 ^ 16) period' then Inl AssertionErr
         else if truthy period' \<noteq> (length channels \<noteq> 1) then Inl AssertionErr
         else if num_per_channel \<noteq> PNone then Inl AssertionErr
         else Inr \<lparr>r_mode = ''sniffer'', r_channels = map (the \<circ> num_of) channels,
                   r_period = the (as_num period'), r_num_per_channel = None\<rparr>)
      else Inl AssertionErr)"

text \<open>
  \<open>Radio.__init__\<close>.  The loop over the channels raises TypeError on a number; the items of a
  non-empty string and the keys of a non-empty dict are strings and fail the channel check.
\<close>

definition Radio_init :: "pyval \<Rightarrow> pyval \<Rightarrow> pyval \<Rightarrow> pyval \<Rightarrow> exc + radio" where
  "Radio_init mode channels period num_per_channel =
     (if \<not> truthy channels then Inl AssertionErr
      else case channels of
        PList xs \<Rightarrow>
          (if list_all (in_range 11 27) xs
           then Radio_is_valid mode xs period num_per_channel
           else Inl AssertionErr)
      | PStr _ \<Rightarrow> Inl AssertionErr
      | PDict _ \<Rightarrow> Inl AssertionErr
      | _ \<Rightarrow> Inl TypeErr)"

text \<open>\<open>Radio(**radio)\<close>\<close>

definition call_Radio :: "pyval \<Rightarrow> exc + radio" where
  "call_Radio d =
     (case d of
        PDict kv \<Rightarrow>
          (if kwargs_fit [''mode'', ''channels'', ''period'', ''num_per_channel'']
                         [''mode'', ''channels''] kv
           then Radio_init (kwarg kv ''mode'' PNone) (kwarg kv ''channels'' PNone)
                  (kwarg kv ''period'' PNone) (kwarg kv ''num_per_channel'' PNone)
           else Inl TypeErr)
      | _ \<Rightarrow> Inl TypeErr)"

section \<open>Profile\<close>

text \<open>The TypeError handler of \<open>Profile.__init__\<close>\<close>

definition type_to_value :: "exc + 'a \<Rightarrow> exc + 'a" where
  "type_to_value r = (case r of Inl TypeErr \<Rightarrow> Inl ValueErr | _ \<Rightarrow> r)"

text \<open>\<open>Profile.__init__\<close>, with the dict passed as keyword arguments; unknown keys are ignored\<close>

definition Profile_init :: "string option \<Rightarrow> (string \<times> pyval) list \<Rightarrow> exc + profile" where
  "Profile_init ALIM kv =
     (if ''self'' \<in> fst ` set kv \<or> ''open_node_type'' \<in> fst ` set kv then Inl TypeErr
      else case (map_of kv ''profilename'', map_of kv ''power'') of
        (Some name, Some supply) \<Rightarrow>
          (let consumption = kwarg kv ''consumption'' PNone; radio = kwarg kv ''radio'' PNone in
           case (if consumption = PNone then Inr None
                 else map_sum id Some (type_to_value (call_Consumption ALIM supply consumption))) of
             Inl e \<Rightarrow> Inl e
           | Inr c \<Rightarrow>
               (case (if radio = PNone then Inr None
                      else map_sum id Some (type_to_value (call_Radio radio))) of
                  Inl e \<Rightarrow> Inl e
                | Inr r \<Rightarrow>
                    Inr \<lparr>profilename = name, p_power = supply, p_consumption = c, p_radio = r\<rparr>))
      | _ \<Rightarrow> Inl TypeErr)"

text \<open>\<open>Profile.from_dict\<close>\<close>

definition from_dict :: "string option \<Rightarrow> pyval \<Rightarrow> exc + profile option" where
  "from_dict ALIM profile_dict =
     (case profile_dict of
        PNone \<Rightarrow> Inr None
      | PDict kv \<Rightarrow>
          (case Profile_init ALIM kv of
             Inr p \<Rightarrow> Inr (Some p)
           | Inl e \<Rightarrow> (if e \<in> {ValueErr, TypeErr, AssertionErr} then Inl ValueErr else Inl e))
      | _ \<Rightarrow> Inl ValueErr)"

text \<open>\<^verbatim>\<open>static/default_profile.json\<close>\<close>

definition default_profile_dict :: pyval where
  "default_profile_dict = PDict [(''power'', PStr ''dc''), (''profilename'', PStr ''_default_profile'')]"

definition default_profile :: profile where
  "default_profile = \<lparr>profilename = PStr ''_default_profile'', p_power = PStr ''dc'',
     p_consumption = None, p_radio = None\<rparr>"

section \<open>What a profile promises\<close>

text \<open>The specification the control node relies on, independent of how a profile is checked.\<close>

definition consumption_ok :: "string \<Rightarrow> pyval \<Rightarrow> consumption \<Rightarrow> bool" where
  "consumption_ok alim supply c \<longleftrightarrow>
     alim \<in> set alim_choices \<and>
     c_source c = (if supply = PStr ''dc'' then alim else ''BATT'') \<and>
     c_period c \<in> set consumption_periods \<and> c_average c \<in> set consumption_averages"

definition radio_ok :: "radio \<Rightarrow> bool" where
  "radio_ok r \<longleftrightarrow>
     r_channels r \<noteq> [] \<and> (\<forall>c\<in>set (r_channels r). 11 \<le> c \<and> c \<le> 26) \<and>
     (r_mode r = ''rssi'' \<and>
        1 \<le> num_val (r_period r) \<and> num_val (r_period r) \<le> 65535 \<and>
        (\<exists>n. r_num_per_channel r = Some n \<and> 0 \<le> num_val n \<and> num_val n \<le> 255 \<and>
             (length (r_channels r) = 1 \<or> num_val n \<noteq> 0)) \<or>
      r_mode r = ''sniffer'' \<and>
        0 \<le> num_val (r_period r) \<and> num_val (r_period r) \<le> 65535 \<and>
        (num_val (r_period r) = 0 \<longleftrightarrow> length (r_channels r) = 1) \<and>
        r_period r \<noteq> NBool False \<and> r_num_per_channel r = None)"

definition profile_ok :: "string option \<Rightarrow> profile \<Rightarrow> bool" where
  "profile_ok ALIM p \<longleftrightarrow>
     (\<forall>c. p_consumption p = Some c \<longrightarrow> (\<exists>alim. ALIM = Some alim \<and> consumption_ok alim (p_power p) c)) \<and>
     (\<forall>r. p_radio p = Some r \<longrightarrow> radio_ok r)"

text \<open>The JSON document that describes a profile.\<close>

definition consumption_dict :: "consumption \<Rightarrow> pyval" where
  "consumption_dict c = PDict [(''period'', PInt (c_period c)), (''average'', PInt (c_average c)),
     (''power'', c_power c), (''voltage'', c_voltage c), (''current'', c_current c)]"

definition radio_dict :: "radio \<Rightarrow> pyval" where
  "radio_dict r = PDict ([(''mode'', PStr (r_mode r)), (''channels'', PList (map PInt (r_channels r))),
     (''period'', val_of_num (r_period r))] @
     (case r_num_per_channel r of None \<Rightarrow> [] | Some n \<Rightarrow> [(''num_per_channel'', val_of_num n)]))"

definition profile_dict :: "profile \<Rightarrow> pyval" where
  "profile_dict p = PDict ([(''profilename'', profilename p), (''power'', p_power p)] @
     (case p_consumption p of None \<Rightarrow> [] | Some c \<Rightarrow> [(''consumption'', consumption_dict c)]) @
     (case p_radio p of None \<Rightarrow> [] | Some r \<Rightarrow> [(''radio'', radio_dict r)]))"

section \<open>Lemmas\<close>

lemma num_of_val_of_num [simp]: "num_of (val_of_num n) = Some (num_val n)"
  by (cases n) simp_all

lemma as_num_val_of_num [simp]: "as_num (val_of_num n) = Some n"
  by (cases n) simp_all

lemma val_of_num_not_None [simp]: "val_of_num n \<noteq> PNone"
  by (cases n) simp_all

lemma truthy_val_of_num [simp]: "truthy (val_of_num n) \<longleftrightarrow> num_val n \<noteq> 0"
  by (cases n) simp_all

lemma in_range_as_num:
  "in_range lo hi x \<Longrightarrow> \<exists>n. as_num x = Some n \<and> num_of x = Some (num_val n) \<and> lo \<le> num_val n \<and> num_val n < hi"
  by (cases x) (auto simp: in_range_def)

lemma truthy_as_num: "as_num x = Some n \<Longrightarrow> truthy x \<longleftrightarrow> num_val n \<noteq> 0"
  by (cases x) (auto split: if_splits)

lemma Consumption_init_ok:
  "Consumption_init alim supply p a w v c = Inr conso \<Longrightarrow> consumption_ok alim supply conso"
  by (auto simp: Consumption_init_def consumption_ok_def split: if_splits sum.splits)

lemma call_Consumption_ok:
  assumes "call_Consumption ALIM supply d = Inr c"
  shows "\<exists>alim. ALIM = Some alim \<and> consumption_ok alim supply c"
proof (cases ALIM)
  case (Some alim)
  with assms show ?thesis
    by (cases d) (auto simp: call_Consumption_def split: if_splits dest: Consumption_init_ok)
qed (use assms in \<open>simp add: call_Consumption_def\<close>)

lemma channels_ok:
  "list_all (in_range 11 27) xs \<Longrightarrow> c \<in> set (map (the \<circ> num_of) xs) \<Longrightarrow> 11 \<le> c \<and> c \<le> 26"
  by (auto simp: list_all_iff in_range_def split: option.splits)

lemma Radio_is_valid_ok:
  assumes xs: "list_all (in_range 11 27) xs" "xs \<noteq> []"
    and r: "Radio_is_valid mode xs period num = Inr r"
  shows "radio_ok r"
proof (cases "mode = PStr ''rssi''")
  case True
  with r have *: "length xs = 1 \<or> num_of num \<noteq> Some 0" "in_range 1 (2 ^ 16) period" "in_range 0 256 num"
    and req: "r = \<lparr>r_mode = ''rssi'', r_channels = map (the \<circ> num_of) xs,
                   r_period = the (as_num period), r_num_per_channel = as_num num\<rparr>"
    by (auto simp: Radio_is_valid_def split: if_splits)
  from in_range_as_num [OF *(2)] in_range_as_num [OF *(3)] *(1) show ?thesis
    using xs(2) channels_ok [OF xs(1)] unfolding radio_ok_def req by fastforce
next
  case False
  let ?p = "if truthy period then period else PInt 0"
  from False r have *: "in_range 0 (2 ^ 16) ?p" "truthy ?p = (length xs \<noteq> 1)"
    and req: "r = \<lparr>r_mode = ''sniffer'', r_channels = map (the \<circ> num_of) xs,
                   r_period = the (as_num ?p), r_num_per_channel = None\<rparr>"
    by (auto simp: Radio_is_valid_def Let_def simp del: truthy.simps split: if_splits)
  from in_range_as_num [OF *(1)] obtain n where n: "as_num ?p = Some n" "0 \<le> num_val n" "num_val n < 65536"
    by auto
  have "n \<noteq> NBool False" using n(1) by (cases period) (auto split: if_splits)
  with n *(2) truthy_as_num [OF n(1)] show ?thesis
    using xs(2) channels_ok [OF xs(1)] unfolding radio_ok_def req by auto
qed

lemma call_Radio_ok: "call_Radio d = Inr r \<Longrightarrow> radio_ok r"
  by (auto simp: call_Radio_def Radio_init_def split: pyval.splits if_splits intro: Radio_is_valid_ok)

lemma type_to_value_Inr [simp]: "type_to_value r = Inr a \<longleftrightarrow> r = Inr a"
  by (auto simp: type_to_value_def split: sum.splits exc.splits)

lemma map_sum_Inr: "map_sum id f r = Inr b \<longleftrightarrow> (\<exists>a. r = Inr a \<and> b = f a)"
  by (cases r) auto

lemma Profile_init_ok:
  assumes "Profile_init ALIM kv = Inr p"
  shows "profile_ok ALIM p"
  using assms
  by (auto simp: Profile_init_def profile_ok_def Let_def map_sum_Inr
           split: if_splits option.splits sum.splits dest: call_Consumption_ok call_Radio_ok)

lemma Consumption_init_dict:
  "consumption_ok alim supply c \<Longrightarrow> call_Consumption (Some alim) supply (consumption_dict c) = Inr c"
  by (auto simp: call_Consumption_def consumption_dict_def kwargs_fit_def kwarg_def
           Consumption_init_def consumption_ok_def)

lemma in_range_PInt [simp]: "in_range lo hi (PInt c) \<longleftrightarrow> lo \<le> c \<and> c < hi"
  by (simp add: in_range_def)

lemma in_range_val_of_num [simp]: "in_range lo hi (val_of_num n) \<longleftrightarrow> lo \<le> num_val n \<and> num_val n < hi"
  by (simp add: in_range_def)

lemma the_num_of_PInt [simp]: "map (the \<circ> num_of) (map PInt xs) = xs"
  by (induction xs) simp_all

lemma num_zero: "num_val n = 0 \<Longrightarrow> n \<noteq> NBool False \<Longrightarrow> n = NInt 0"
  by (cases n) (auto split: if_splits)

lemma Radio_is_valid_dict:
  assumes "radio_ok r"
  shows "Radio_is_valid (PStr (r_mode r)) (map PInt (r_channels r)) (val_of_num (r_period r))
           (case r_num_per_channel r of None \<Rightarrow> PNone | Some n \<Rightarrow> val_of_num n) = Inr r"
proof (cases "r_mode r = ''rssi''")
  case True
  with assms obtain n where "r_num_per_channel r = Some n" by (auto simp: radio_ok_def)
  with True assms show ?thesis
    by (auto simp: radio_ok_def Radio_is_valid_def simp del: map_map)
next
  case False
  with assms have r: "r_mode r = ''sniffer''" "r_num_per_channel r = None" "r_period r \<noteq> NBool False"
    "0 \<le> num_val (r_period r)" "num_val (r_period r) \<le> 65535"
    "num_val (r_period r) = 0 \<longleftrightarrow> length (r_channels r) = 1"
    by (auto simp: radio_ok_def)
  show ?thesis
  proof (cases "num_val (r_period r) = 0")
    case True
    with r have "r_period r = NInt 0" by (simp add: num_zero)
    with r True show ?thesis by (auto simp: Radio_is_valid_def Let_def simp del: map_map)
  next
    case False
    with r show ?thesis by (auto simp: Radio_is_valid_def Let_def simp del: map_map)
  qed
qed

lemma call_Radio_dict:
  assumes "radio_ok r"
  shows "call_Radio (radio_dict r) = Inr r"
proof -
  have ch: "list_all (in_range 11 27) (map PInt (r_channels r))" "r_channels r \<noteq> []"
    using assms by (auto simp: radio_ok_def list_all_iff)
  let ?kv = "[(''mode'', PStr (r_mode r)), (''channels'', PList (map PInt (r_channels r))),
     (''period'', val_of_num (r_period r))] @
     (case r_num_per_channel r of None \<Rightarrow> [] | Some n \<Rightarrow> [(''num_per_channel'', val_of_num n)])"
  have "kwargs_fit [''mode'', ''channels'', ''period'', ''num_per_channel''] [''mode'', ''channels''] ?kv"
    by (auto simp: kwargs_fit_def split: option.splits)
  moreover have "kwarg ?kv ''num_per_channel'' PNone =
      (case r_num_per_channel r of None \<Rightarrow> PNone | Some n \<Rightarrow> val_of_num n)"
    by (simp add: kwarg_def split: option.splits)
  moreover have "kwarg ?kv ''mode'' PNone = PStr (r_mode r)"
    "kwarg ?kv ''channels'' PNone = PList (map PInt (r_channels r))"
    "kwarg ?kv ''period'' PNone = val_of_num (r_period r)"
    by (simp_all add: kwarg_def)
  ultimately show ?thesis
    using ch Radio_is_valid_dict [OF assms]
    unfolding call_Radio_def radio_dict_def pyval.case Radio_init_def by simp
qed

lemma consumption_dict_not_None [simp]: "consumption_dict c \<noteq> PNone"
  by (simp add: consumption_dict_def)

lemma radio_dict_not_None [simp]: "radio_dict r \<noteq> PNone"
  by (simp add: radio_dict_def)

text \<open>The exceptions of the parts.\<close>

lemma int_of_errors: "int_of x = Inl e \<Longrightarrow> e = ValueErr \<or> e = TypeErr"
  by (cases x) (auto split: option.splits)

lemma Consumption_init_errors:
  "Consumption_init alim supply p a w v c = Inl e \<Longrightarrow> e = ValueErr \<or> e = TypeErr \<or> e = AssertionErr"
  by (auto simp: Consumption_init_def split: if_splits sum.splits dest: int_of_errors)

lemma call_Consumption_errors:
  "call_Consumption ALIM supply d = Inl e
   \<Longrightarrow> e = ValueErr \<or> e = TypeErr \<or> e = AssertionErr \<or> e = AttributeErr \<and> ALIM = None"
  by (cases d) (auto simp: call_Consumption_def split: if_splits option.splits
      dest: Consumption_init_errors)

lemma call_Radio_errors: "call_Radio d = Inl e \<Longrightarrow> e = TypeErr \<or> e = AssertionErr"
  by (auto simp: call_Radio_def Radio_init_def Radio_is_valid_def Let_def split: pyval.splits if_splits)

lemma type_to_value_Inl: "type_to_value r = Inl e \<Longrightarrow> r = Inl e \<or> e = ValueErr"
  by (auto simp: type_to_value_def split: sum.splits exc.splits)

lemma map_sum_Inl: "map_sum id f r = Inl e \<longleftrightarrow> r = Inl e"
  by (cases r) auto

lemma Profile_init_errors:
  assumes "Profile_init ALIM kv = Inl e"
  shows "e \<in> {ValueErr, TypeErr, AssertionErr} \<or>
     e = AttributeErr \<and> ALIM = None \<and> kwarg kv ''consumption'' PNone \<noteq> PNone"
  using assms
  by (auto simp: Profile_init_def Let_def map_sum_Inl
           split: if_splits option.splits sum.splits
           dest!: type_to_value_Inl call_Consumption_errors call_Radio_errors)

lemma kwarg_not_None: "kwarg kv k PNone \<noteq> PNone \<Longrightarrow> \<exists>c. map_of kv k = Some c \<and> c \<noteq> PNone"
  by (auto simp: kwarg_def split: option.splits)

section \<open>Properties\<close>

text \<open>C4: a profile that \<open>from_dict\<close> accepts keeps every promise the control node relies on: the
  consumption period and average are ones the firmware knows and its source fits the power
  supply, the channels are in 11..26, and the radio period and count are in range and go
  together with the number of channels.\<close>

theorem from_dict_sound:
  "from_dict ALIM d = Inr (Some p) \<Longrightarrow> profile_ok ALIM p"
  by (auto simp: from_dict_def intro: Profile_init_ok split: pyval.splits sum.splits if_splits)

theorem from_dict_sound_witness:
  "profile_ok (Some ''5V'') default_profile"
proof (rule from_dict_sound)
  show "from_dict (Some ''5V'') default_profile_dict = Inr (Some default_profile)"
    by (simp add: from_dict_def default_profile_dict_def Profile_init_def kwarg_def
        default_profile_def)
qed

text \<open>C15: every profile that keeps these promises has a JSON document that \<open>from_dict\<close> turns back
  into exactly that profile: the checks reject no valid profile.\<close>

theorem from_dict_complete:
  assumes "profile_ok ALIM p"
  shows "from_dict ALIM (profile_dict p) = Inr (Some p)"
proof -
  let ?c = "case p_consumption p of None \<Rightarrow> [] | Some c \<Rightarrow> [(''consumption'', consumption_dict c)]"
  let ?r = "case p_radio p of None \<Rightarrow> [] | Some r \<Rightarrow> [(''radio'', radio_dict r)]"
  let ?kv = "[(''profilename'', profilename p), (''power'', p_power p)] @ ?c @ ?r"
  have c: "kwarg ?kv ''consumption'' PNone = (case p_consumption p of None \<Rightarrow> PNone | Some c \<Rightarrow> consumption_dict c)"
    and r: "kwarg ?kv ''radio'' PNone = (case p_radio p of None \<Rightarrow> PNone | Some r \<Rightarrow> radio_dict r)"
    and keys: "''self'' \<notin> fst ` set ?kv" "''open_node_type'' \<notin> fst ` set ?kv"
    and req: "map_of ?kv ''profilename'' = Some (profilename p)" "map_of ?kv ''power'' = Some (p_power p)"
    by (auto simp: kwarg_def split: option.splits)
  have cons: "(case p_consumption p of None \<Rightarrow> True
     | Some c \<Rightarrow> call_Consumption ALIM (p_power p) (consumption_dict c) = Inr c)"
    using assms by (auto simp: profile_ok_def Consumption_init_dict split: option.splits)
  have rad: "(case p_radio p of None \<Rightarrow> True | Some r \<Rightarrow> call_Radio (radio_dict r) = Inr r)"
    using assms by (auto simp: profile_ok_def call_Radio_dict split: option.splits)
  have "Profile_init ALIM ?kv = Inr p"
    using keys cons rad
    by (simp add: Profile_init_def c r req type_to_value_def del: append.simps
             split: option.splits)
  then show ?thesis by (simp add: from_dict_def profile_dict_def)
qed

theorem from_dict_complete_witness:
  "from_dict (Some ''3.3V'')
     (profile_dict \<lparr>profilename = PStr ''sniff'', p_power = PStr ''dc'', p_consumption = None,
        p_radio = Some \<lparr>r_mode = ''sniffer'', r_channels = [11, 26], r_period = NInt 100,
                       r_num_per_channel = None\<rparr>\<rparr>)
   = Inr (Some \<lparr>profilename = PStr ''sniff'', p_power = PStr ''dc'', p_consumption = None,
        p_radio = Some \<lparr>r_mode = ''sniffer'', r_channels = [11, 26], r_period = NInt 100,
                       r_num_per_channel = None\<rparr>\<rparr>)"
  by (rule from_dict_complete) (simp add: profile_ok_def radio_ok_def)



end
