(* ===== verification/Protocol.thy ===== *)
theory Protocol
  imports Cn_Interface Profile
begin

text \<open>
  Model of \<^verbatim>\<open>gateway_code/control_nodes/cn_iotlab/cn_protocol.py\<close>: the commands of the control
  node.  The methods are over any sender; what they promise is proved once for every sender that
  keeps the contract of the locale \<open>cn_sender\<close>.
\<close>

section \<open>Commands\<close>

text \<open>\<open>send_cmd\<close>: 0 when the answer is the command followed by ACK\<close>

definition send_cmd :: "(string list \<Rightarrow> ('s, string list option) act) \<Rightarrow> string list \<Rightarrow> ('s, int) act" where
  "send_cmd sender command_list =
     bindE (sender command_list) (\<lambda>answer.
       retE (if answer = Some [hd command_list, ''ACK''] then 0 else 1))"

text \<open>
  \<open>start_stop\<close>.  The power supply of a profile is any JSON value; joining the command words raises
  TypeError when it is not a string, before anything is written.
\<close>

definition start_stop ::
  "(string list \<Rightarrow> ('s, string list option) act) \<Rightarrow> string \<Rightarrow> pyval \<Rightarrow> ('s, int) act" where
  "start_stop sender command alim =
     (case alim of PStr a \<Rightarrow> send_cmd sender [command, a] | _ \<Rightarrow> raiseE TypeErr)"

definition set_time :: "(string list \<Rightarrow> ('s, string list option) act) \<Rightarrow> ('s, int) act" where
  "set_time sender = send_cmd sender [''set_time'']"

text \<open>\<open>_set_node_id_args\<close>; None is the ValueError of \<open>int\<close>\<close>

definition set_node_id_args :: "string \<Rightarrow> (string \<times> string) option" where
  "set_node_id_args node_id =
     (let parts = py_split CHR ''-'' (py_replace CHR ''_'' CHR ''-'' node_id) in
      map_option (\<lambda>num. (py_join ''-'' (butlast parts), str_int num)) (py_int (last parts)))"

definition set_node_id :: "(string list \<Rightarrow> ('s, string list option) act) \<Rightarrow> string \<Rightarrow> ('s, int) act" where
  "set_node_id sender node_id =
     (case set_node_id_args node_id of
        None \<Rightarrow> raiseE ValueErr
      | Some (archi, num) \<Rightarrow>
          (if archi \<notin> {''m3'', ''a8''} then retE 0
           else send_cmd sender [''set_node_id'', archi, num]))"

definition green_led_blink :: "(string list \<Rightarrow> ('s, string list option) act) \<Rightarrow> ('s, int) act" where
  "green_led_blink sender = send_cmd sender [''green_led_blink'']"

definition green_led_on :: "(string list \<Rightarrow> ('s, string list option) act) \<Rightarrow> ('s, int) act" where
  "green_led_on sender = send_cmd sender [''green_led_on'']"

section \<open>Consumption\<close>

text \<open>The command list that \<open>config_consumption\<close> builds; Inl is an exception of \<open>int\<close>\<close>

definition consumption_cmd :: "consumption option \<Rightarrow> exc + string list" where
  "consumption_cmd conso =
     (case conso of
        None \<Rightarrow> Inr [''config_consumption_measure'', ''stop'']
      | Some c \<Rightarrow>
          (if \<not> (truthy (c_power c) \<or> truthy (c_voltage c) \<or> truthy (c_current c))
           then Inr [''config_consumption_measure'', ''stop'']
           else case int_of (c_power c) of Inl e \<Rightarrow> Inl e | Inr p \<Rightarrow>
             (case int_of (c_voltage c) of Inl e \<Rightarrow> Inl e | Inr v \<Rightarrow>
             (case int_of (c_current c) of Inl e \<Rightarrow> Inl e | Inr i \<Rightarrow>
                Inr [''config_consumption_measure'', ''start'', c_source c,
                     ''p'', str_int p, ''v'', str_int v, ''c'', str_int i,
                     ''-p'', str_int (c_period c), ''-a'', str_int (c_average c)]))))"

definition config_consumption ::
  "(string list \<Rightarrow> ('s, string list option) act) \<Rightarrow> consumption option \<Rightarrow> ('s, int) act" where
  "config_consumption sender conso =
     (case consumption_cmd conso of Inl e \<Rightarrow> raiseE e | Inr cmd \<Rightarrow> send_cmd sender cmd)"

section \<open>Radio\<close>

definition sorted_channels :: "radio \<Rightarrow> int list" where
  "sorted_channels r = sort (remdups (r_channels r))"

definition channels_arg :: "radio \<Rightarrow> string" where
  "channels_arg r = py_join '','' (map str_int (sorted_channels r))"

definition config_radio_measure ::
  "(string list \<Rightarrow> ('s, string list option) act) \<Rightarrow> radio \<Rightarrow> ('s, int) act" where
  "config_radio_measure sender r =
     send_cmd sender [''config_radio_measure'', channels_arg r, num_str (r_period r),
       (case r_num_per_channel r of None \<Rightarrow> ''None'' | Some n \<Rightarrow> num_str n)]"

definition config_radio_sniffer ::
  "(string list \<Rightarrow> ('s, string list option) act) \<Rightarrow> radio \<Rightarrow> ('s, int) act" where
  "config_radio_sniffer sender r =
     send_cmd sender [''config_radio_sniffer'', channels_arg r, num_str (r_period r)]"

definition stop_radio :: "(string list \<Rightarrow> ('s, string list option) act) \<Rightarrow> ('s, int) act" where
  "stop_radio sender = send_cmd sender [''config_radio_stop'']"

definition config_radio ::
  "(string list \<Rightarrow> ('s, string list option) act) \<Rightarrow> radio option \<Rightarrow> ('s, int) act" where
  "config_radio sender r =
     (case r of
        None \<Rightarrow> stop_radio sender
      | Some r' \<Rightarrow>
          (if r_mode r' = ''rssi'' then config_radio_measure sender r'
           else if r_mode r' = ''sniffer'' then config_radio_sniffer sender r'
           else raiseE NotImplementedErr))"

section \<open>What a command does to the log\<close>

text \<open>The return value of a command, from the answer it got.\<close>

definition cmd_ret :: "string list \<Rightarrow> string list option \<Rightarrow> int" where
  "cmd_ret cmd ans = (if ans = Some [hd cmd, ''ACK''] then 0 else 1)"

lemma cmd_ret_nonneg [simp]: "0 \<le> cmd_ret cmd ans"
  by (simp add: cmd_ret_def)

text \<open>The command a radio configuration is sent as.\<close>

definition radio_cmd :: "radio option \<Rightarrow> string list" where
  "radio_cmd r =
     (case r of
        None \<Rightarrow> [''config_radio_stop'']
      | Some r' \<Rightarrow>
          (if r_mode r' = ''rssi''
           then [''config_radio_measure'', channels_arg r', num_str (r_period r'),
                 (case r_num_per_channel r' of None \<Rightarrow> ''None'' | Some n \<Rightarrow> num_str n)]
           else [''config_radio_sniffer'', channels_arg r', num_str (r_period r')]))"

context cn_sender
begin

lemma wp_send_cmd:
  assumes "\<And>ans s' w'. cn_log w' = cn_log w @ [(cmd, ans)] \<Longrightarrow> frame s s' \<Longrightarrow> Q (cmd_ret cmd ans) s' w'"
  shows "wp (send_cmd send cmd) Q R s w"
  unfolding send_cmd_def wp_simps
  by (rule wp_conseq [OF send_logged]) (auto simp: cmd_ret_def [symmetric] intro: assms)

lemma wp_start_stop:
  assumes "\<And>a ans s' w'. alim = PStr a \<Longrightarrow> cn_log w' = cn_log w @ [([command, a], ans)] \<Longrightarrow> frame s s'
      \<Longrightarrow> Q (cmd_ret [command, a] ans) s' w'"
    and "(\<And>a. alim \<noteq> PStr a) \<Longrightarrow> R TypeErr s w"
  shows "wp (start_stop send command alim) Q R s w"
  unfolding start_stop_def using assms
  by (cases alim) (auto simp: wp_simps intro!: wp_send_cmd)

lemma wp_config_radio:
  assumes Q: "\<And>ans s' w'. cn_log w' = cn_log w @ [(radio_cmd r, ans)] \<Longrightarrow> frame s s'
      \<Longrightarrow> Q (cmd_ret (radio_cmd r) ans) s' w'"
    and R: "\<And>r'. r = Some r' \<Longrightarrow> \<not> radio_ok r' \<Longrightarrow> R NotImplementedErr s w"
  shows "wp (config_radio send r) Q R s w"
proof (cases r)
  case None
  with Q show ?thesis
    by (simp add: config_radio_def stop_radio_def radio_cmd_def) (rule wp_send_cmd, auto)
next
  case (Some r')
  show ?thesis
  proof (cases "r_mode r' = ''rssi'' \<or> r_mode r' = ''sniffer''")
    case False
    with Some R show ?thesis by (simp add: config_radio_def wp_simps radio_ok_def)
  next
    case True
    then show ?thesis
    proof
      assume "r_mode r' = ''rssi''"
      with Some Q show ?thesis
        by (simp add: config_radio_def config_radio_measure_def radio_cmd_def) (rule wp_send_cmd, auto)
    next
      assume "r_mode r' = ''sniffer''"
      with Some Q show ?thesis
        by (simp add: config_radio_def config_radio_sniffer_def radio_cmd_def) (rule wp_send_cmd, auto)
    qed
  qed
qed

lemma wp_config_consumption:
  assumes "\<And>cmd ans s' w'. consumption_cmd c = Inr cmd \<Longrightarrow> cn_log w' = cn_log w @ [(cmd, ans)] \<Longrightarrow> frame s s'
      \<Longrightarrow> Q (cmd_ret cmd ans) s' w'"
    and "\<And>e. consumption_cmd c = Inl e \<Longrightarrow> R e s w"
  shows "wp (config_consumption send c) Q R s w"
  unfolding config_consumption_def
  by (cases "consumption_cmd c") (auto simp: wp_simps assms(2) intro: wp_send_cmd assms(1))

lemma wp_set_node_id:
  assumes "\<And>archi num ans s' w'. set_node_id_args node_id = Some (archi, num) \<Longrightarrow>
             cn_log w' = cn_log w @ [([''set_node_id'', archi, num], ans)] \<Longrightarrow> frame s s' \<Longrightarrow>
             Q (cmd_ret [''set_node_id'', archi, num] ans) s' w'"
    and "set_node_id_args node_id \<noteq> None \<Longrightarrow> Q 0 s w"
    and "set_node_id_args node_id = None \<Longrightarrow> R ValueErr s w"
  shows "wp (set_node_id send node_id) Q R s w"
  using assms unfolding set_node_id_def
  by (auto simp: wp_simps split: option.split intro: wp_send_cmd)

end

section \<open>The text on the wire\<close>

text \<open>
  A reading of the command lines that follows the format comments of the source, independent of
  how the commands are built: mode, channels, period, measures per channel.
\<close>

definition decode_channels :: "string \<Rightarrow> int list option" where
  "decode_channels arg = those (map py_int (py_split CHR '','' arg))"

fun decode_radio :: "string list \<Rightarrow> (string \<times> int list \<times> int \<times> int option) option" where
  "decode_radio [cmd, chans, period, num] =
     (if cmd = ''config_radio_measure'' then
        (case (decode_channels chans, py_int period, py_int num) of
           (Some cs, Some p, Some n) \<Rightarrow> Some (''rssi'', cs, p, Some n) | _ \<Rightarrow> None)
      else None)"
| "decode_radio [cmd, chans, period] =
     (if cmd = ''config_radio_sniffer'' then
        (case (decode_channels chans, py_int period) of
           (Some cs, Some p) \<Rightarrow> Some (''sniffer'', cs, p, None) | _ \<Rightarrow> None)
      else None)"
| "decode_radio _ = None"

text \<open>source, flags for power, voltage and current, period, average\<close>

fun decode_consumption :: "string list \<Rightarrow> (string \<times> bool \<times> bool \<times> bool \<times> int \<times> int) option" where
  "decode_consumption [cmd, start, src, p, pv, v, vv, c, cv, dp, period, da, average] =
     (if cmd = ''config_consumption_measure'' \<and> start = ''start'' \<and> p = ''p'' \<and> v = ''v'' \<and> c = ''c''
         \<and> dp = ''-p'' \<and> da = ''-a'' \<and> {pv, vv, cv} \<subseteq> {''0'', ''1''}
      then (case (py_int period, py_int average) of
              (Some n, Some a) \<Rightarrow> Some (src, pv = ''1'', vv = ''1'', cv = ''1'', n, a) | _ \<Rightarrow> None)
      else None)"
| "decode_consumption _ = None"

lemma those_map_Some [simp]: "those (map Some xs) = Some xs"
  by (induction xs) simp_all

lemma sorted_channels_props:
  "sorted (sorted_channels r)" "distinct (sorted_channels r)" "set (sorted_channels r) = set (r_channels r)"
  by (simp_all add: sorted_channels_def)

lemma sorted_channels_not_Nil: "radio_ok r \<Longrightarrow> sorted_channels r \<noteq> []"
  using sorted_channels_props(3) [of r] by (auto simp: radio_ok_def)

lemma decode_channels_arg: "radio_ok r \<Longrightarrow> decode_channels (channels_arg r) = Some (sorted_channels r)"
proof -
  assume "radio_ok r"
  then have "py_split CHR '','' (channels_arg r) = map str_int (sorted_channels r)"
    unfolding channels_arg_def
    by (intro py_split_join) (auto simp: sorted_channels_not_Nil str_int_no_comma)
  then show ?thesis by (simp add: decode_channels_def comp_def)
qed

lemma channels_arg_no_space: "CHR '' '' \<notin> set (channels_arg r)"
  using set_py_join [of "'',''" "map str_int (sorted_channels r)"]
  by (auto simp: channels_arg_def str_int_no_space)

lemma split_wire: "cmd \<noteq> [] \<Longrightarrow> (\<And>x. x \<in> set cmd \<Longrightarrow> CHR '' '' \<notin> set x) \<Longrightarrow>
  py_split CHR '' '' (py_join '' '' cmd) = cmd"
  by (rule py_split_join) auto

text \<open>The texts written to the control node program.\<close>

fun cn_texts :: "event list \<Rightarrow> string list" where
  "cn_texts [] = []"
| "cn_texts (CnWrite s # evs) = s # cn_texts evs"
| "cn_texts (_ # evs) = cn_texts evs"

lemma cn_texts_append [simp]: "cn_texts (xs @ ys) = cn_texts xs @ cn_texts ys"
  by (induction xs rule: cn_texts.induct) auto

section \<open>Properties\<close>

text \<open>C21: a checked radio configuration with integer parameters is sent as one command.  Its words,
  read back from the line, are the mode, the channels in ascending order without repetition,
  the period and, for rssi, the number of measures per channel; the return value is 0 exactly
  when the answer is the acknowledgement of this command.\<close>

theorem config_radio_wire:
  assumes ok: "radio_ok r" and p: "r_period r = NInt p"
    and n: "r_num_per_channel r = map_option NInt n"
    and run: "config_radio (send_command E) (Some r) s w = (Inr ret, s', w')"
  shows "\<exists>cmd ans. cn_log w' = cn_log w @ [(cmd, ans)]
      \<and> decode_radio (py_split CHR '' '' (py_join '' '' cmd)) = Some (r_mode r, sorted_channels r, p, n)
      \<and> sorted (sorted_channels r) \<and> distinct (sorted_channels r)
      \<and> set (sorted_channels r) = set (r_channels r)
      \<and> (ret = 0 \<longleftrightarrow> ans = Some [hd cmd, ''ACK''])"
proof -
  let ?cmd = "radio_cmd (Some r)"
  have "wp (config_radio (send_command E) (Some r))
      (\<lambda>ret _ w'. \<exists>ans. cn_log w' = cn_log w @ [(?cmd, ans)] \<and> ret = cmd_ret ?cmd ans) (\<lambda>_ _ _. True) s w"
    by (rule cs.wp_config_radio) (use ok in auto)
  from wp_Inr [OF this run] obtain ans where
    ans: "cn_log w' = cn_log w @ [(?cmd, ans)]" "ret = cmd_ret ?cmd ans" by blast
  have mode: "r_mode r = ''rssi'' \<and> n \<noteq> None \<or> r_mode r = ''sniffer'' \<and> n = None"
    using ok n by (auto simp: radio_ok_def)
  have "py_split CHR '' '' (py_join '' '' ?cmd) = ?cmd"
    using mode p n
    by (intro split_wire) (auto simp: radio_cmd_def channels_arg_no_space str_int_no_space)
  moreover have "decode_radio ?cmd = Some (r_mode r, sorted_channels r, p, n)"
    using mode p n by (auto simp: radio_cmd_def decode_channels_arg [OF ok])
  ultimately show ?thesis
    using ans sorted_channels_props [of r]
    by (intro exI [of _ ?cmd] exI [of _ ans]) (simp add: cmd_ret_def)
qed

text \<open>C22: a checked consumption configuration with boolean flags, at least one of them set, is sent as
  one command that reads back as the source, the flags, the period and the average; with no
  flag set the measures are stopped.\<close>

theorem config_consumption_wire:
  assumes c: "c_source c \<in> {''3.3V'', ''5V'', ''BATT''}"
    and flags: "c_power c = PBool bp" "c_voltage c = PBool bv" "c_current c = PBool bc"
    and run: "config_consumption (send_command E) (Some c) s w = (Inr ret, s', w')"
  shows "\<exists>cmd ans. cn_log w' = cn_log w @ [(cmd, ans)]
      \<and> (if bp \<or> bv \<or> bc
         then decode_consumption (py_split CHR '' '' (py_join '' '' cmd))
              = Some (c_source c, bp, bv, bc, c_period c, c_average c)
         else cmd = [''config_consumption_measure'', ''stop''])
      \<and> (ret = 0 \<longleftrightarrow> ans = Some [hd cmd, ''ACK''])"
proof -
  have "wp (config_consumption (send_command E) (Some c))
      (\<lambda>ret _ w'. \<exists>cmd ans. consumption_cmd (Some c) = Inr cmd
          \<and> cn_log w' = cn_log w @ [(cmd, ans)] \<and> ret = cmd_ret cmd ans) (\<lambda>_ _ _. True) s w"
    by (rule cs.wp_config_consumption) auto
  from wp_Inr [OF this run] obtain cmd ans where
    cmd: "consumption_cmd (Some c) = Inr cmd" and ans: "cn_log w' = cn_log w @ [(cmd, ans)]" "ret = cmd_ret cmd ans"
    by blast
  show ?thesis
  proof (cases "bp \<or> bv \<or> bc")
    case True
    have f: "str_int (if b then 1 else 0) = (if b then ''1'' else ''0'')" for b
      by (simp add: str_int_def str_nat_def str_base.simps digit_char_def)
    from True cmd flags have
      words: "cmd = [''config_consumption_measure'', ''start'', c_source c,
        ''p'', if bp then ''1'' else ''0'', ''v'', if bv then ''1'' else ''0'', ''c'', if bc then ''1'' else ''0'',
        ''-p'', str_int (c_period c), ''-a'', str_int (c_average c)]"
      by (auto simp: consumption_cmd_def f)
    have "py_split CHR '' '' (py_join '' '' cmd) = cmd"
      by (rule split_wire) (use c in \<open>auto simp: words str_int_no_space split: if_splits\<close>)
    moreover have "decode_consumption cmd = Some (c_source c, bp, bv, bc, c_period c, c_average c)"
      by (simp add: words)
    ultimately show ?thesis using ans True
      by (intro exI [of _ cmd] exI [of _ ans]) (simp add: cmd_ret_def)
  next
    case False
    with cmd flags have "cmd = [''config_consumption_measure'', ''stop'']" by (simp add: consumption_cmd_def)
    with ans False show ?thesis by (intro exI [of _ cmd] exI [of _ ans]) (simp add: cmd_ret_def)
  qed
qed

definition cn_serial_running :: cn_serial where
  "cn_serial_running = ControlNodeSerial_init ''/dev/ttyCN''\<lparr>cs_process := Some 1, cs_reader := Some Running\<rparr>"

theorem config_radio_wire_witness:
  "let r = \<lparr>r_mode = ''rssi'', r_channels = [21, 11, 21], r_period = NInt 10, r_num_per_channel = Some (NInt 5)\<rparr>;
       w' = snd (snd (config_radio (send_command working_env) (Some r) cn_serial_running world0))
   in \<exists>cmd ans. cn_log w' = [(cmd, ans)]
        \<and> decode_radio (py_split CHR '' '' (py_join '' '' cmd)) = Some (''rssi'', [11, 21], 10, Some 5)"
proof -
  let ?r = "\<lparr>r_mode = ''rssi'', r_channels = [21, 11, 21], r_period = NInt 10, r_num_per_channel = Some (NInt 5)\<rparr>"
  let ?run = "config_radio (send_command working_env) (Some ?r) cn_serial_running world0"
  have "fst ?run = Inr 0" by code_simp
  then have run: "?run = (Inr 0, fst (snd ?run), snd (snd ?run))" by (simp add: prod_eq_iff)
  have ok: "radio_ok ?r" by (simp add: radio_ok_def)
  have log: "cn_log world0 = []" by (simp add: world0_def)
  have sorted: "sorted_channels ?r = [11, 21]" by (simp add: sorted_channels_def)
  show ?thesis
    using config_radio_wire [OF ok _ _ run, of 10 "Some 5"] unfolding Let_def log sorted by auto
qed

theorem config_consumption_wire_witness:
  "let c = \<lparr>c_source = ''3.3V'', c_period = 140, c_average = 4, c_power = PBool True, c_voltage = PBool False,
            c_current = PBool True\<rparr>;
       w' = snd (snd (config_consumption (send_command working_env) (Some c) cn_serial_running world0))
   in \<exists>cmd ans. cn_log w' = [(cmd, ans)]
        \<and> decode_consumption (py_split CHR '' '' (py_join '' '' cmd)) = Some (''3.3V'', True, False, True, 140, 4)"
proof -
  let ?c = "\<lparr>c_source = ''3.3V'', c_period = 140, c_average = 4, c_power = PBool True, c_voltage = PBool False,
            c_current = PBool True\<rparr>"
  let ?run = "config_consumption (send_command working_env) (Some ?c) cn_serial_running world0"
  have "fst ?run = Inr 0" by code_simp
  then have run: "?run = (Inr 0, fst (snd ?run), snd (snd ?run))" by (simp add: prod_eq_iff)
  have log: "cn_log world0 = []" by (simp add: world0_def)
  show ?thesis
    using config_consumption_wire [OF _ _ _ _ run, of True False True] unfolding Let_def log by auto
qed

text \<open>The identifier of a node splits into its architecture and its number: for an architecture name
  without separators other than \<open>-\<close> and a number, both the host name \<open>archi-num\<close> and the spelling
  with underscores give the two parts back; a name without a number at its end raises
  ValueError, also for the architectures the command is not sent for.\<close>

theorem set_node_id_args_split:
  assumes "CHR ''_'' \<notin> set archi"
  shows "set_node_id_args (archi @ ''-'' @ str_nat n) = Some (archi, str_nat n)
       \<and> set_node_id_args (py_replace CHR ''-'' CHR ''_'' (archi @ ''-'' @ str_nat n)) = Some (archi, str_nat n)
       \<and> (CHR ''-'' \<notin> set archi \<longrightarrow> py_int archi = None \<longrightarrow>
            set_node_id send archi s w = (Inl ValueErr, s, w))"
proof -
  have n: "CHR ''-'' \<notin> set (str_nat n)" "CHR ''_'' \<notin> set (str_nat n)"
    by (auto dest: str_nat_set simp: is_digit_def)
  have num: "py_int (str_nat n) = Some (int n)" "str_int (int n) = str_nat n"
    using py_int_str_int [of "int n"] by (auto simp: str_int_def)
  have id: "py_replace CHR ''_'' CHR ''-'' (archi @ ''-'' @ str_nat n) = archi @ ''-'' @ str_nat n"
    by (rule py_replace_id) (use assms n in auto)
  have undo: "py_replace CHR ''_'' CHR ''-'' (py_replace CHR ''-'' CHR ''_'' (archi @ ''-'' @ str_nat n))
      = archi @ ''-'' @ str_nat n"
    by (rule py_replace_back) (use assms n in auto)
  have split: "py_split CHR ''-'' (archi @ ''-'' @ str_nat n) = py_split CHR ''-'' archi @ [str_nat n]"
    using py_split_append [of "CHR ''-''" archi "str_nat n"] by (simp add: py_split_notin n)
  have "set_node_id send archi s w = (Inl ValueErr, s, w)"
    if "CHR ''-'' \<notin> set archi" "py_int archi = None"
    using that assms
    by (simp add: set_node_id_def set_node_id_args_def py_replace_id py_split_notin raiseE_def)
  then show ?thesis
    unfolding set_node_id_args_def id undo split Let_def by (simp add: num py_join_split)
qed

theorem set_node_id_args_split_witness:
  "set_node_id_args ''samr21-xpro-12'' = Some (''samr21-xpro'', ''12'')
   \<and> set_node_id_args ''samr21_xpro_12'' = Some (''samr21-xpro'', ''12'')
   \<and> set_node_id (send_command working_env) ''pycom'' cn_serial_running world0
      = (Inl ValueErr, cn_serial_running, world0)"
proof -
  have n: "str_nat 12 = ''12''" by code_simp
  have u: "py_replace CHR ''-'' CHR ''_'' ''samr21-xpro-12'' = ''samr21_xpro_12''" by code_simp
  have p: "py_int ''pycom'' = None" by code_simp
  show ?thesis
    using set_node_id_args_split [of "''samr21-xpro''" 12, unfolded n]
      set_node_id_args_split [of "''pycom''" _ "send_command working_env" cn_serial_running world0]
    by (simp add: u p)
qed

text \<open>The power supply of a profile is not checked when the profile is made.  A value that is not a
  string raises TypeError when the open node is started or stopped, before anything is written;
  a string with a line break writes more than one command line to the control node.\<close>

theorem start_stop_unchecked:
  assumes "cs_process s = Some pid" and "\<And>w' text. e_cn_write E w' text = None"
  shows "(\<exists>p. from_dict ALIM (PDict [(''profilename'', PStr name), (''power'', v)]) = Inr (Some p) \<and> p_power p = v)
       \<and> ((\<forall>a. v \<noteq> PStr a) \<longrightarrow> start_stop (send_command E) command v s w = (Inl TypeErr, s, w))
       \<and> (\<forall>a b. v = PStr (a @ CHR 0x0A # b) \<longrightarrow>
            (case start_stop (send_command E) command v s w of (_, _, w') \<Rightarrow>
               cn_texts (trace w') = cn_texts (trace w) @ [command @ '' '' @ a @ [CHR 0x0A] @ b @ [CHR 0x0A]]))"
proof (intro conjI impI allI)
  show "\<exists>p. from_dict ALIM (PDict [(''profilename'', PStr name), (''power'', v)]) = Inr (Some p) \<and> p_power p = v"
    by (simp add: from_dict_def Profile_init_def kwargs_fit_def kwarg_def)
next
  assume "\<forall>a. v \<noteq> PStr a"
  then show "start_stop (send_command E) command v s w = (Inl TypeErr, s, w)"
    by (cases v) (auto simp: start_stop_def raiseE_def)
next
  fix a b assume v: "v = PStr (a @ CHR 0x0A # b)"
  have "wp (send_cmd (send_command E) [command, a @ CHR 0x0A # b])
      (\<lambda>_ _ w'. cn_texts (trace w') = cn_texts (trace w) @ [command @ '' '' @ a @ [CHR 0x0A] @ b @ [CHR 0x0A]])
      (\<lambda>_ _ w'. cn_texts (trace w') = cn_texts (trace w) @ [command @ '' '' @ a @ [CHR 0x0A] @ b @ [CHR 0x0A]]) s w"
    using assms by (simp add: send_cmd_def send_command_def Let_def wp_simps split: list.split)
  then show "case start_stop (send_command E) command v s w of (_, _, w') \<Rightarrow>
      cn_texts (trace w') = cn_texts (trace w) @ [command @ '' '' @ a @ [CHR 0x0A] @ b @ [CHR 0x0A]]"
    by (simp add: v start_stop_def wp_def split: prod.splits sum.splits)
qed

theorem start_stop_unchecked_witness:
  "start_stop (send_command working_env) ''start'' (PInt 7) cn_serial_running world0
     = (Inl TypeErr, cn_serial_running, world0)
   \<and> (case start_stop (send_command working_env) ''start'' (PStr (''dc'' @ CHR 0x0A # ''stop dc'')) cn_serial_running world0
      of (_, _, w') \<Rightarrow> cn_texts (trace w') = [''start dc'' @ [CHR 0x0A] @ ''stop dc'' @ [CHR 0x0A]])"
proof -
  have p: "cs_process cn_serial_running = Some 1" by (simp add: cn_serial_running_def)
  have e: "e_cn_write working_env w' x = None" for w' x by (simp add: working_env_def)
  have t: "cn_texts (trace world0) = []" by (simp add: world0_def)
  show ?thesis
    using start_stop_unchecked [OF p e, of None "''x''" "PInt 7" "''start''" world0]
      start_stop_unchecked [OF p e, of None "''x''" "PStr (''dc'' @ CHR 0x0A # ''stop dc'')" "''start''" world0,
        THEN conjunct2, THEN conjunct2, THEN spec [of _ "''dc''"], THEN spec [of _ "''stop dc''"]]
    unfolding t by auto
qed

end
