(* ===== verification/Programmers.thy ===== *)
theory Programmers
  imports Cn_Interface
begin

text \<open>
  Model of the programs that write firmwares: \<^verbatim>\<open>gateway_code/utils/openocd.py\<close>, \<^verbatim>\<open>avrdude.py\<close>,
  \<^verbatim>\<open>edbg.py\<close>, \<^verbatim>\<open>cc2538.py\<close>, and the reading of ELF files of \<^verbatim>\<open>elftarget.py\<close>.  A programmer is an
  argument list for an external program; what is proved is which list, and what happens when the
  program or the file is not there.  The locale \<open>programmer\<close> is what the nodes rely on.
\<close>

section \<open>elftarget\<close>

text \<open>\<open>elf_target\<close>\<close>

definition elf_target :: "env \<Rightarrow> string \<Rightarrow> ('s, string \<times> string) act" where
  "elf_target E filepath =
     bindE (askE (\<lambda>w. e_elf E w filepath)) (\<lambda>r.
       case r of
         ElfUnreadable n \<Rightarrow> raiseE (IOErr n)
       | ElfInvalid \<Rightarrow> raiseE ValueErr
       | ElfHeader e_type e_class e_machine \<Rightarrow>
           (if e_type \<noteq> ''ET_EXEC'' then raiseE ValueErr else retE (e_class, e_machine)))"

text \<open>\<open>is_compatible_with_node\<close>, for a node class with or without \<open>ELF_TARGET\<close>\<close>

definition is_compatible_with_node ::
  "env \<Rightarrow> string option \<Rightarrow> (string \<times> string) option \<Rightarrow> ('s, bool) act" where
  "is_compatible_with_node E firmware_path ELF_TARGET =
     (case firmware_path of
        None \<Rightarrow> retE True
      | Some path \<Rightarrow>
          (case ELF_TARGET of
             None \<Rightarrow> raiseE AttributeErr
           | Some node_elf_target \<Rightarrow>
               tryE (bindE (elf_target E path) (\<lambda>t. retE (t = node_elf_target)))
                    (\<lambda>e. if e = ValueErr then Some (retE False) else None)))"

text \<open>\<open>get_elf_load_addr\<close>\<close>

definition get_elf_load_addr :: "env \<Rightarrow> string \<Rightarrow> ('s, nat option) act" where
  "get_elf_load_addr E firmware_path =
     bindE (askE (\<lambda>w. e_elf E w firmware_path)) (\<lambda>r.
       case r of
         ElfUnreadable n \<Rightarrow> raiseE (IOErr n)
       | ElfInvalid \<Rightarrow> raiseE ElfErr
       | ElfHeader _ _ _ \<Rightarrow> askE (\<lambda>w. e_load_addr E w firmware_path))"

section \<open>Running a command line\<close>

text \<open>
  The body that the \<open>_call_cmd\<close> methods share: a timeout is return code 1; a program that is not
  there is an OSError; unbalanced quotes are the ValueError of \<open>shlex\<close>.
\<close>

definition run_args :: "env \<Rightarrow> string list option \<Rightarrow> ('s, int) act" where
  "run_args E args =
     (case args of
        None \<Rightarrow> raiseE ValueErr
      | Some a \<Rightarrow> bindE (py_call E a) (\<lambda>r. case r of None \<Rightarrow> retE 1 | Some n \<Rightarrow> retE n))"

text \<open>\<open>except IOError: return 1\<close>\<close>

definition ioerror_is_1 :: "('s, int) act \<Rightarrow> ('s, int) act" where
  "ioerror_is_1 m = tryE m (\<lambda>e. case e of IOErr _ \<Rightarrow> Some (retE 1) | _ \<Rightarrow> None)"

section \<open>OpenOCD\<close>

record openocd =
  oo_path :: string
  oo_config :: string
  oo_debug :: "nat option"
  oo_RESET :: string      \<comment> \<open>class attribute \<open>RESET\<close>, overridden by a subclass\<close>

definition sh_c :: "string \<Rightarrow> string" where
  "sh_c cmd = '' -c '' @ [dquote] @ cmd @ [dquote]"

definition OPENOCD_RESET :: string where
  "OPENOCD_RESET = sh_c ''reset run'' @ sh_c ''shutdown''"

text \<open>\<open>OpenOCDCustomReset.RESET\<close> of the micro:bit\<close>

definition MICROBIT_RESET :: string where
  "MICROBIT_RESET = ''-c '' @ [dquote] @ ''reset halt'' @ [dquote] @ '' -c '' @ [dquote] @ ''reset run'' @ [dquote]
     @ '' -c '' @ [dquote] @ ''shutdown'' @ [dquote]"

definition OPENOCD_FLASH :: "string \<Rightarrow> string" where
  "OPENOCD_FLASH path = sh_c ''reset halt'' @ sh_c ''reset init''
     @ sh_c (''flash write_image erase '' @ path) @ sh_c (''verify_image '' @ path)
     @ sh_c ''reset run'' @ sh_c ''shutdown''"

definition OPENOCD_FLASH_BIN :: "string \<Rightarrow> string \<Rightarrow> string" where
  "OPENOCD_FLASH_BIN path offset = sh_c ''reset halt'' @ sh_c ''reset init''
     @ sh_c (''program '' @ path @ '' verify '' @ offset)
     @ sh_c ''reset run'' @ sh_c ''shutdown''"

definition OPENOCD_DEBUG :: string where
  "OPENOCD_DEBUG = sh_c ''reset halt''"

text \<open>\<open>_config\<close>\<close>

definition quote_f :: "string \<Rightarrow> string" where
  "quote_f opt = ''-f '' @ [dquote] @ opt @ [dquote]"

definition openocd_config :: "env \<Rightarrow> string \<Rightarrow> string list \<Rightarrow> ('s, string) act" where
  "openocd_config E config_file opts =
     bindE (abspath E config_file) (\<lambda>cfg_file.
       retE (py_join '' '' (map quote_f (cfg_file # opts))))"

definition OpenOCD_init :: "env \<Rightarrow> string \<Rightarrow> string \<Rightarrow> string \<Rightarrow> string list \<Rightarrow> ('s, openocd) act" where
  "OpenOCD_init E reset_cmd path config_file opts =
     bindE (openocd_config E config_file opts) (\<lambda>config.
       retE \<lparr>oo_path = path, oo_config = config, oo_debug = None, oo_RESET = reset_cmd\<rparr>)"

text \<open>\<open>_openocd_args\<close>\<close>

definition openocd_args :: "openocd \<Rightarrow> string \<Rightarrow> string list option" where
  "openocd_args oo command_str =
     shlex_split (oo_path oo @ '' --debug=0'' @ '' '' @ oo_config oo @ sh_c ''init'' @ sh_c ''targets''
                  @ '' '' @ command_str)"

text \<open>\<open>_call_cmd\<close>\<close>

definition openocd_call_cmd :: "env \<Rightarrow> string \<Rightarrow> (openocd, int) act" where
  "openocd_call_cmd E command_str =
     bindE (getE oo_debug) (\<lambda>d.
       if d \<noteq> None then retE 1
       else bindE (getE (\<lambda>oo. openocd_args oo command_str)) (run_args E))"

definition openocd_reset :: "env \<Rightarrow> (openocd, int) act" where
  "openocd_reset E = bindE (getE oo_RESET) (openocd_call_cmd E)"

definition openocd_flash :: "env \<Rightarrow> string \<Rightarrow> bool \<Rightarrow> int \<Rightarrow> (openocd, int) act" where
  "openocd_flash E fw_file binary offset =
     ioerror_is_1 (bindE (abspath E fw_file) (\<lambda>path.
       if binary then openocd_call_cmd E (OPENOCD_FLASH_BIN path (py_hex (e_maxint E) offset))
       else openocd_call_cmd E (OPENOCD_FLASH path)))"

text \<open>\<open>debug_stop\<close>: the \<open>finally\<close> block forgets the process on every path\<close>

definition openocd_debug_stop :: "env \<Rightarrow> (openocd, int) act" where
  "openocd_debug_stop E =
     finallyE
       (bindE (getE oo_debug) (\<lambda>d.
          case d of
            None \<Rightarrow> retE 0
          | Some pid \<Rightarrow>
              bindE (askE (\<lambda>w. e_terminate E w pid)) (\<lambda>r.
                case r of
                  Some n \<Rightarrow> retE 1
                | None \<Rightarrow> thenE (emitE E (Terminate pid)) (retE 0))))
       (putE (oo_debug_update (\<lambda>_. None)))"

definition openocd_debug_start :: "env \<Rightarrow> (openocd, int) act" where
  "openocd_debug_start E =
     thenE (openocd_debug_stop E)
     (bindE (getE (\<lambda>oo. openocd_args oo OPENOCD_DEBUG)) (\<lambda>args.
        case args of
          None \<Rightarrow> raiseE ValueErr
        | Some a \<Rightarrow>
            bindE (askE (\<lambda>w. e_popen E w a)) (\<lambda>r.
              case r of
                PopenFails n \<Rightarrow> raiseE (OSErr n)
              | Started pid \<Rightarrow>
                  thenE (emitE E (Spawn a))
                  (thenE (putE (oo_debug_update (\<lambda>_. Some pid))) (retE 0)))))"

section \<open>avrdude\<close>

record avrdude =
  av_tty :: string
  av_baudrate :: int
  av_model :: string
  av_programmer :: string

definition avrdude_args :: "avrdude \<Rightarrow> string \<Rightarrow> string list option" where
  "avrdude_args av command_str =
     shlex_split (''avrdude -p '' @ av_model av @ '' -P '' @ av_tty av @ '' -c '' @ av_programmer av
       @ '' -b '' @ str_int (av_baudrate av) @ '' '' @ command_str)"

definition avrdude_call_cmd :: "env \<Rightarrow> string \<Rightarrow> (avrdude, int) act" where
  "avrdude_call_cmd E command_str = bindE (getE (\<lambda>av. avrdude_args av command_str)) (run_args E)"

definition avrdude_flash :: "env \<Rightarrow> string \<Rightarrow> (avrdude, int) act" where
  "avrdude_flash E hex_file =
     ioerror_is_1 (bindE (abspath E hex_file) (\<lambda>hex_path. avrdude_call_cmd E ('' -D -U '' @ hex_path)))"

text \<open>\<open>trigger_bootloader\<close>: open and close the port at 1200 baud, then wait for the other tty\<close>

definition trigger_bootloader :: "env \<Rightarrow> string \<Rightarrow> string \<Rightarrow> int \<Rightarrow> ('s, int) act" where
  "trigger_bootloader E tty tty_prog timeout =
     bindE (askE (\<lambda>w. e_serial E w tty)) (\<lambda>r.
       case r of
         None \<Rightarrow> thenE (emitE E (SerialOpen tty)) (wait_tty E tty_prog timeout)
       | Some e \<Rightarrow> (case e of OSErr _ \<Rightarrow> retE 1 | SerialErr \<Rightarrow> retE 1 | _ \<Rightarrow> raiseE e))"

section \<open>edbg\<close>

definition EDBG_FLASH :: "string \<Rightarrow> string \<Rightarrow> string" where
  "EDBG_FLASH bin offset = '' -t atmel_cm0p -b -e -v -p -f '' @ bin @ '' -o '' @ offset"

definition edbg_cmd :: "string \<Rightarrow> string" where
  "edbg_cmd cmd = ''/usr/bin/edbg '' @ cmd"

definition edbg_call_cmd :: "env \<Rightarrow> string \<Rightarrow> ('s, int) act" where
  "edbg_call_cmd E command_str = run_args E (shlex_split command_str)"

text \<open>A named temporary file: made, used, and removed when it is closed.\<close>

definition with_tempfile :: "env \<Rightarrow> string \<Rightarrow> (string \<Rightarrow> ('s, int) act) \<Rightarrow> ('s, int) act" where
  "with_tempfile E suffix body =
     bindE (askE (\<lambda>w. e_tempname E w suffix)) (\<lambda>name.
       thenE (emitE E (CreateFile name))
       (finallyE (body name) (emitE E (RemoveFile name))))"

definition edbg_flash :: "env \<Rightarrow> string \<Rightarrow> bool \<Rightarrow> int \<Rightarrow> ('s, int) act" where
  "edbg_flash E fw_file binary offset =
     ioerror_is_1 (bindE (abspath E fw_file) (\<lambda>fw_path.
       if binary then edbg_call_cmd E (edbg_cmd (EDBG_FLASH fw_path (py_hex (e_maxint E) offset)))
       else with_tempfile E ''.bin'' (\<lambda>bin_path.
         sum_rets
           [edbg_call_cmd E (''objcopy -I elf32-big -O binary '' @ fw_path @ '' '' @ bin_path),
            edbg_call_cmd E (edbg_cmd (EDBG_FLASH bin_path (py_hex (e_maxint E) 0)))])))"

section \<open>cc2538\<close>

record cc2538 =
  cc_port :: string
  cc_baud :: int

text \<open>The format \<open>08x\<close>.\<close>

definition hex08 :: "nat \<Rightarrow> string" where
  "hex08 n = (let d = str_base 16 n in replicate (8 - length d) CHR ''0'' @ d)"

definition cc2538_cmd :: "cc2538 \<Rightarrow> string \<Rightarrow> string" where
  "cc2538_cmd cc cmd = ''/usr/bin/cc2538-bsl.py -p '' @ cc_port cc @ '' '' @ cmd"

definition CC2538_FLASH :: "cc2538 \<Rightarrow> string \<Rightarrow> nat \<Rightarrow> string" where
  "CC2538_FLASH cc hex_path addr =
     ''-b '' @ str_int (cc_baud cc) @ '' -e -w -a 0x'' @ hex08 addr @ '' -v '' @ hex_path"

definition cc2538_call_cmd :: "env \<Rightarrow> string \<Rightarrow> (cc2538, int) act" where
  "cc2538_call_cmd E command_str = run_args E (shlex_split command_str)"

definition cc2538_reset :: "env \<Rightarrow> (cc2538, int) act" where
  "cc2538_reset E = bindE (getE (\<lambda>cc. cc2538_cmd cc [])) (cc2538_call_cmd E)"

text \<open>
  \<open>flash\<close>: an ELF file with no executable section has no load address; formatting None as a
  hexadecimal number raises ValueError.
\<close>

definition cc2538_flash :: "env \<Rightarrow> string \<Rightarrow> (cc2538, int) act" where
  "cc2538_flash E elf_file =
     ioerror_is_1 (bindE (abspath E elf_file) (\<lambda>elf_path.
       with_tempfile E ''.hex'' (\<lambda>hex_path.
         sum_rets
           [cc2538_call_cmd E (''objcopy -I elf32-big -O ihex '' @ elf_path @ '' '' @ hex_path),
            bindE (get_elf_load_addr E elf_path) (\<lambda>address.
              case address of
                None \<Rightarrow> raiseE ValueErr
              | Some a \<Rightarrow>
                  bindE (getE (\<lambda>cc. cc2538_cmd cc (CC2538_FLASH cc hex_path a))) (cc2538_call_cmd E))])))"

section \<open>Argument lists\<close>

text \<open>The argument list a sequence of commands becomes.\<close>

definition argv_c :: "string list \<Rightarrow> string list" where
  "argv_c cs = concat (map (\<lambda>c. [''-c'', c]) cs)"

definition argv_f :: "string list \<Rightarrow> string list" where
  "argv_f opts = concat (map (\<lambda>opt. [''-f'', opt]) opts)"

lemma shlex_dash_c: "sh_quotable c \<Longrightarrow>
  shlex_go ShSpace [] False (CHR ''-'' # CHR ''c'' # CHR '' '' # dquote # c @ dquote # CHR '' '' # rest)
  = map_option (\<lambda>ws. ''-c'' # c # ws) (shlex_go ShSpace [] False rest)"
  using shlex_plain_space [of "''-c''" "dquote # c @ dquote # CHR '' '' # rest"]
  by (simp add: shlex_quoted_space option.map_comp comp_def sh_space_def del: shlex_go.simps)

lemma shlex_dash_f: "sh_quotable c \<Longrightarrow>
  shlex_go ShSpace [] False (CHR ''-'' # CHR ''f'' # CHR '' '' # dquote # c @ dquote # CHR '' '' # rest)
  = map_option (\<lambda>ws. ''-f'' # c # ws) (shlex_go ShSpace [] False rest)"
  using shlex_plain_space [of "''-f''" "dquote # c @ dquote # CHR '' '' # rest"]
  by (simp add: shlex_quoted_space option.map_comp comp_def sh_space_def del: shlex_go.simps)

lemma shlex_dash_c_end: "sh_quotable c \<Longrightarrow>
  shlex_go ShSpace [] False (CHR ''-'' # CHR ''c'' # CHR '' '' # dquote # c @ [dquote]) = Some [''-c'', c]"
  using shlex_plain_space [of "''-c''" "dquote # c @ [dquote]"]
  by (simp add: shlex_quoted_end sh_space_def del: shlex_go.simps)

lemma shlex_commands:
  assumes "list_all sh_quotable cs"
  shows "shlex_split (concat (map sh_c cs)) = Some (argv_c cs)"
  using assms
proof (induction cs rule: induct_list012)
  case (2 c)
  then show ?case by (simp add: shlex_split_def sh_c_def argv_c_def shlex_dash_c_end del: shlex_go.simps)
next
  case (3 c d cs)
  then show ?case
    by (simp add: shlex_split_def sh_c_def [of c] sh_c_def [of d] argv_c_def shlex_dash_c del: shlex_go.simps)
qed (simp add: shlex_split_def argv_c_def)

lemma shlex_config:
  assumes "list_all sh_quotable opts" and "opts \<noteq> []"
  shows "shlex_split (py_join '' '' (map quote_f opts) @ CHR '' '' # rest)
       = map_option ((@) (argv_f opts)) (shlex_split rest)"
  using assms
proof (induction opts rule: induct_list012)
  case (2 c)
  then show ?case
    by (simp add: shlex_split_def quote_f_def argv_f_def shlex_dash_f del: shlex_go.simps)
next
  case (3 c d cs)
  then show ?case
    by (simp add: shlex_split_def quote_f_def [of c] argv_f_def shlex_dash_f
          option.map_comp comp_def del: shlex_go.simps)
qed simp

text \<open>
  An OpenOCD object as its constructor makes it: the path of the program is one shell word and
  the configuration files can be quoted.
\<close>

definition openocd_ok :: "openocd \<Rightarrow> string list \<Rightarrow> bool" where
  "openocd_ok oo opts \<longleftrightarrow>
     sh_plain (oo_path oo) \<and> oo_path oo \<noteq> [] \<and> opts \<noteq> [] \<and> list_all sh_quotable opts
     \<and> oo_config oo = py_join '' '' (map quote_f opts)"

definition openocd_argv :: "openocd \<Rightarrow> string list \<Rightarrow> string list \<Rightarrow> string list" where
  "openocd_argv oo opts cs = [oo_path oo, ''--debug=0''] @ argv_f opts @ argv_c ([''init'', ''targets''] @ cs)"

lemma openocd_args_exact:
  assumes ok: "openocd_ok oo opts" and cs: "list_all sh_quotable cs"
  shows "openocd_args oo (concat (map sh_c cs)) = Some (openocd_argv oo opts cs)"
proof -
  have p: "sh_plain (oo_path oo)" "oo_path oo \<noteq> []" and opts: "opts \<noteq> []" "list_all sh_quotable opts"
    and c: "oo_config oo = py_join '' '' (map quote_f opts)"
    using ok by (auto simp: openocd_ok_def)
  have tail: "shlex_split (tl (sh_c ''init'') @ sh_c ''targets'' @ CHR '' '' # concat (map sh_c cs))
      = Some (argv_c ([''init'', ''targets''] @ cs))"
    using shlex_commands [OF cs]
    by (simp add: sh_c_def [of "''init''"] sh_c_def [of "''targets''"] argv_c_def shlex_split_def
          sh_space_def)
  have "openocd_args oo (concat (map sh_c cs))
      = shlex_split (oo_path oo @ CHR '' '' # ''--debug=0'' @ CHR '' '' # oo_config oo
          @ CHR '' '' # tl (sh_c ''init'') @ sh_c ''targets'' @ CHR '' '' # concat (map sh_c cs))"
    by (simp add: openocd_args_def sh_c_def [of "''init''"])
  also have "\<dots> = Some (openocd_argv oo opts cs)"
    unfolding c openocd_argv_def
    using shlex_plain_space [OF p] shlex_plain_space [of "''--debug=0''"]
      shlex_config [OF opts(2,1)] tail
    by (simp add: shlex_split_def sh_space_def del: shlex_go.simps)
  finally show ?thesis .
qed

section \<open>Outcomes\<close>

text \<open>What a call of an external program gives back, as a function of its argument list.\<close>

definition call_result :: "env \<Rightarrow> string list \<Rightarrow> world \<Rightarrow> (exc + int) \<times> world" where
  "call_result E args w =
     (case e_call E w args of
        CallExit n \<Rightarrow> (Inr n, log_event E (Call args) w)
      | CallTimeout \<Rightarrow> (Inr 1, log_event E (Call args) w)
      | CallFails n \<Rightarrow> (Inl (OSErr n), w))"

lemma run_args_Some:
  "run_args E (Some args) s w = (case call_result E args w of (r, w') \<Rightarrow> (r, s, w'))"
  by (simp add: run_args_def py_call_def call_result_def bindE_def askE_def thenE_def emitE_def retE_def
        raiseE_def split: call_outcome.split)

lemma wp_run_args [wp_simps]:
  "wp (run_args E (Some args)) Q R =
     (\<lambda>s w. case call_result E args w of (Inr n, w') \<Rightarrow> Q n s w' | (Inl e, w') \<Rightarrow> R e s w')"
  by (auto simp: fun_eq_iff wp_def run_args_Some split: prod.splits sum.splits)

lemma silent_run_args [silent_rules]: "silent (run_args E args)"
  unfolding run_args_def by (intro silent_rules)

lemma silent_ioerror_is_1 [silent_rules]: "silent m \<Longrightarrow> silent (ioerror_is_1 m)"
  unfolding ioerror_is_1_def by (rule silent_tryE) (auto split: exc.splits intro: silent_rules)

lemma silent_elf_target [silent_rules]: "silent (elf_target E path)"
  by (auto simp: silent_def keeps_def elf_target_def wp_simps split: elf_outcome.split)

lemma silent_is_compatible_with_node [silent_rules]: "silent (is_compatible_with_node E fw target)"
  unfolding is_compatible_with_node_def
  by (intro silent_rules) (auto split: if_splits intro: silent_rules)

lemma silent_get_elf_load_addr [silent_rules]: "silent (get_elf_load_addr E path)"
  by (auto simp: silent_def keeps_def get_elf_load_addr_def wp_simps split: elf_outcome.split)

lemma silent_with_tempfile [silent_rules]: "(\<And>n. silent (body n)) \<Longrightarrow> silent (with_tempfile E suffix body)"
  unfolding with_tempfile_def by (intro silent_rules) (simp_all add: silent_emitE)

lemma silent_openocd_call_cmd [silent_rules]: "silent (openocd_call_cmd E cmd)"
  unfolding openocd_call_cmd_def by (intro silent_rules)

lemma silent_openocd_reset [silent_rules]: "silent (openocd_reset E)"
  unfolding openocd_reset_def by (intro silent_rules)

lemma silent_openocd_flash [silent_rules]: "silent (openocd_flash E fw binary offset)"
  unfolding openocd_flash_def by (intro silent_rules)

lemma silent_openocd_debug_stop [silent_rules]: "silent (openocd_debug_stop E)"
  unfolding openocd_debug_stop_def by (intro silent_rules) (simp add: silent_emitE)

lemma silent_openocd_debug_start [silent_rules]: "silent (openocd_debug_start E)"
  unfolding openocd_debug_start_def by (intro silent_rules) (simp add: silent_emitE)

lemma silent_avrdude_flash [silent_rules]: "silent (avrdude_flash E fw)"
  unfolding avrdude_flash_def avrdude_call_cmd_def by (intro silent_rules)

lemma silent_trigger_bootloader [silent_rules]: "silent (trigger_bootloader E tty tty_prog timeout)"
  unfolding trigger_bootloader_def
  by (intro silent_rules) (auto simp: silent_emitE split: exc.split intro: silent_rules)

lemma silent_edbg_flash [silent_rules]: "silent (edbg_flash E fw binary offset)"
  unfolding edbg_flash_def edbg_call_cmd_def by (intro silent_rules)

lemma silent_cc2538_reset [silent_rules]: "silent (cc2538_reset E)"
  unfolding cc2538_reset_def cc2538_call_cmd_def by (intro silent_rules)

lemma silent_cc2538_flash [silent_rules]: "silent (cc2538_flash E fw)"
  unfolding cc2538_flash_def cc2538_call_cmd_def by (intro silent_rules)

section \<open>The interface of a programmer\<close>

text \<open>
  What a node relies on: flashing sends no control node command, and a firmware file that can
  not be opened is return code 1 with nothing done.
\<close>

locale programmer =
  fixes E :: env
    and prog_flash :: "string \<Rightarrow> ('s, int) act"
  assumes flash_silent: "silent (prog_flash fw)"
    and flash_unreadable: "e_open E w (e_abspath E fw) = Some n \<Longrightarrow> prog_flash fw s w = (Inr 1, s, w)"
begin

lemma flash_ok_readable:
  "prog_flash fw s w = (Inr 0, s', w') \<Longrightarrow> e_open E w (e_abspath E fw) = None"
  by (cases "e_open E w (e_abspath E fw)") (auto simp: flash_unreadable)

lemma flash_cn_log: "prog_flash fw s w = (r, s', w') \<Longrightarrow> cn_log w' = cn_log w"
  by (rule silent_run [OF flash_silent])

end

lemma abspath_unreadable:
  "e_open E w (e_abspath E fw) = Some n \<Longrightarrow> ioerror_is_1 (bindE (abspath E fw) f) s w = (Inr 1, s, w)"
  by (simp add: ioerror_is_1_def abspath_def Let_def tryE_def bindE_def askE_def raiseE_def retE_def)

lemma abspath_readable:
  "e_open E w (e_abspath E fw) = None \<Longrightarrow>
   ioerror_is_1 (bindE (abspath E fw) f) s w = ioerror_is_1 (f (e_abspath E fw)) s w"
  by (simp add: ioerror_is_1_def abspath_def Let_def tryE_def bindE_def askE_def raiseE_def retE_def)

interpretation openocd_prog: programmer E "\<lambda>fw. openocd_flash E fw binary offset" for E binary offset
  by unfold_locales (rule silent_openocd_flash, simp add: openocd_flash_def abspath_unreadable)

interpretation avrdude_prog: programmer E "avrdude_flash E" for E
  by unfold_locales (rule silent_avrdude_flash, simp add: avrdude_flash_def abspath_unreadable)

interpretation edbg_prog: programmer E "\<lambda>fw. edbg_flash E fw binary offset" for E binary offset
  by unfold_locales (rule silent_edbg_flash, simp add: edbg_flash_def abspath_unreadable)

interpretation cc2538_prog: programmer E "cc2538_flash E" for E
  by unfold_locales (rule silent_cc2538_flash, simp add: cc2538_flash_def abspath_unreadable)

section \<open>Properties\<close>

definition flash_cmds :: "env \<Rightarrow> string \<Rightarrow> bool \<Rightarrow> int \<Rightarrow> string list" where
  "flash_cmds E path binary offset =
     [''reset halt'', ''reset init'']
     @ (if binary then [''program '' @ path @ '' verify '' @ py_hex (e_maxint E) offset]
        else [''flash write_image erase '' @ path, ''verify_image '' @ path])
     @ [''reset run'', ''shutdown'']"

lemma str_base_digits: "list_all (\<lambda>c. \<exists>d<b. c = digit_char d) (str_base b n)" if "2 \<le> b"
  using that
proof (induction b n rule: str_base.induct)
  case (1 b n)
  then show ?case by (simp add: str_base.simps [of b n]) (metis mod_less_divisor less_le_trans zero_less_numeral)
qed

text \<open>The number a string of hexadecimal digits stands for.\<close>

definition hex_digit_val :: "char \<Rightarrow> nat" where
  "hex_digit_val c = (if is_digit c then of_char c - 48 else of_char c - 87)"

definition hex_val :: "string \<Rightarrow> nat" where
  "hex_val ds = foldl (\<lambda>a c. 16 * a + hex_digit_val c) 0 ds"

lemma hex_digits: "\<forall>d\<in>set [0..<16]. hex_digit_val (digit_char d) = d \<and> digit_char d \<noteq> dquote
    \<and> digit_char d \<noteq> backslash \<and> digit_char d \<noteq> squote \<and> \<not> sh_space (digit_char d)"
  by code_simp

lemma hex_digit: "d < 16 \<Longrightarrow> hex_digit_val (digit_char d) = d"
  using hex_digits by simp

lemma hex_val_str_base [simp]: "hex_val (str_base 16 n) = n"
proof (induction n rule: less_induct)
  case (less n)
  show ?case
  proof (cases "n < 16")
    case True
    then show ?thesis by (simp add: str_base.simps [of 16 n] hex_val_def hex_digit)
  next
    case False
    with less have "hex_val (str_base 16 (n div 16)) = n div 16" by simp
    with False show ?thesis by (simp add: str_base.simps [of 16 n] hex_val_def hex_digit)
  qed
qed

lemma str_base_quotable: "sh_quotable (str_base 16 n)"
  using str_base_digits [of 16 n] hex_digits by (fastforce simp: sh_quotable_def list_all_iff)

lemma str_base_plain: "sh_plain (str_base 16 n)"
  using str_base_digits [of 16 n] hex_digits by (fastforce simp: sh_plain_def list_all_iff)

lemma py_hex_quotable: "sh_quotable (py_hex m i)"
  unfolding py_hex_def by (simp add: str_base_quotable)

lemma flash_cmds_quotable: "sh_quotable path \<Longrightarrow> list_all sh_quotable (flash_cmds E path binary offset)"
  by (simp add: flash_cmds_def py_hex_quotable)

lemma openocd_flash_text:
  "(if binary then OPENOCD_FLASH_BIN path (py_hex (e_maxint E) offset) else OPENOCD_FLASH path)
   = concat (map sh_c (flash_cmds E path binary offset))"
  by (simp add: flash_cmds_def OPENOCD_FLASH_def OPENOCD_FLASH_BIN_def)

lemma openocd_flash_run:
  assumes "openocd_ok oo opts" and "oo_debug oo = None" and "e_open E w (e_abspath E fw) = None"
    and "sh_quotable (e_abspath E fw)"
  shows "openocd_flash E fw binary offset oo w
       = (case call_result E (openocd_argv oo opts (flash_cmds E (e_abspath E fw) binary offset)) w of
            (r, w') \<Rightarrow> (r, oo, w'))"
proof -
  let ?cmd = "concat (map sh_c (flash_cmds E (e_abspath E fw) binary offset))"
  have "openocd_flash E fw binary offset oo w = ioerror_is_1 (openocd_call_cmd E ?cmd) oo w"
    using assms(3) openocd_flash_text [of binary "e_abspath E fw" E offset]
    unfolding openocd_flash_def by (subst abspath_readable) (auto split: if_splits)
  moreover have "openocd_call_cmd E ?cmd oo w = run_args E (openocd_args oo ?cmd) oo w"
    using assms(2) by (simp add: openocd_call_cmd_def bindE_def getE_def)
  moreover have "openocd_args oo ?cmd
      = Some (openocd_argv oo opts (flash_cmds E (e_abspath E fw) binary offset))"
    using assms(1,4) by (intro openocd_args_exact flash_cmds_quotable)
  ultimately show ?thesis
    by (auto simp: ioerror_is_1_def tryE_def run_args_Some call_result_def split: call_outcome.split)
qed

text \<open>C9: flashing with OpenOCD, outside of a debug session, runs the program exactly once, with the
  argument list that sets up the target, writes and verifies the given file and restarts: an ELF
  file is written as an image; a binary file is written at the hexadecimal spelling of the
  offset, which reads back as the offset.  The return code is that of the program, 1 on a timeout.\<close>

theorem openocd_flash_exact:
  assumes "openocd_ok oo opts" and "oo_debug oo = None" and "e_open E w (e_abspath E fw) = None"
    and "sh_quotable (e_abspath E fw)" and "0 \<le> offset" and "offset \<le> e_maxint E"
  shows "openocd_flash E fw binary offset oo w
       = (case call_result E (openocd_argv oo opts (flash_cmds E (e_abspath E fw) binary offset)) w of
            (r, w') \<Rightarrow> (r, oo, w'))
     \<and> (binary \<longrightarrow> (\<exists>ds. ''program '' @ e_abspath E fw @ '' verify 0x'' @ ds
                          \<in> set (flash_cmds E (e_abspath E fw) binary offset) \<and> hex_val ds = nat offset))"
  using openocd_flash_run [OF assms(1-4)] assms(5,6)
  by (auto simp: flash_cmds_def py_hex_def intro!: exI [of _ "str_base 16 (nat offset)"])

definition m3_openocd :: openocd where
  "m3_openocd = \<lparr>oo_path = ''/opt/openocd-dev/bin/openocd'',
     oo_config = py_join '' '' (map quote_f [''/static/iot-lab.cfg'', ''/static/iot-lab-m3.cfg'']),
     oo_debug = None, oo_RESET = OPENOCD_RESET\<rparr>"

theorem openocd_flash_exact_witness:
  "openocd_flash working_env ''/tmp/fw.bin'' True 0x08000400 m3_openocd world0
   = (Inr 0, m3_openocd, log_event working_env (Call
       [''/opt/openocd-dev/bin/openocd'', ''--debug=0'', ''-f'', ''/static/iot-lab.cfg'', ''-f'', ''/static/iot-lab-m3.cfg'',
        ''-c'', ''init'', ''-c'', ''targets'', ''-c'', ''reset halt'', ''-c'', ''reset init'',
        ''-c'', ''program /tmp/fw.bin verify 0x8000400'', ''-c'', ''reset run'', ''-c'', ''shutdown'']) world0)"
proof -
  let ?opts = "[''/static/iot-lab.cfg'', ''/static/iot-lab-m3.cfg'']"
  have ok: "openocd_ok m3_openocd ?opts" "oo_debug m3_openocd = None"
    by (simp_all add: openocd_ok_def m3_openocd_def sh_space_def)
  have hex: "py_hex 9223372036854775807 134218752 = ''0x8000400''"
    by (simp add: py_hex_def str_base.simps digit_char_def)
  have path: "e_abspath working_env ''/tmp/fw.bin'' = ''/tmp/fw.bin''" "e_open working_env world0 ''/tmp/fw.bin'' = None"
    "e_maxint working_env = 2 ^ 63 - 1" "e_call working_env world0 args = CallExit 0" for args
    by (simp_all add: working_env_def)
  show ?thesis
    using openocd_flash_exact [OF ok, of working_env world0 "''/tmp/fw.bin''" "0x08000400" True]
    by (simp add: path call_result_def flash_cmds_def hex openocd_argv_def argv_c_def argv_f_def)
       (simp add: m3_openocd_def)
qed

lemma openocd_debug_stop_run:
  "openocd_debug_stop E oo w =
     (case oo_debug oo of
        None \<Rightarrow> (Inr 0, oo\<lparr>oo_debug := None\<rparr>, w)
      | Some pid \<Rightarrow>
          (if e_terminate E w pid = None then (Inr 0, oo\<lparr>oo_debug := None\<rparr>, log_event E (Terminate pid) w)
           else (Inr 1, oo\<lparr>oo_debug := None\<rparr>, w)))"
  by (auto simp: openocd_debug_stop_def finallyE_def bindE_def getE_def putE_def retE_def askE_def thenE_def
        emitE_def split: option.split)

lemma openocd_call_cmd_debug:
  "oo_debug oo \<noteq> None \<Longrightarrow> openocd_call_cmd E cmd oo w = (Inr 1, oo, w)"
  by (simp add: openocd_call_cmd_def bindE_def getE_def retE_def)

lemma openocd_reset_debug: "oo_debug oo \<noteq> None \<Longrightarrow> openocd_reset E oo w = (Inr 1, oo, w)"
  by (simp add: openocd_reset_def bindE_def getE_def openocd_call_cmd_debug)

lemma openocd_flash_debug: "oo_debug oo \<noteq> None \<Longrightarrow> openocd_flash E fw binary offset oo w = (Inr 1, oo, w)"
  by (simp add: openocd_flash_def ioerror_is_1_def tryE_def bindE_def abspath_def Let_def askE_def raiseE_def
        retE_def openocd_call_cmd_debug split: option.split)

text \<open>C25: a debug session.  Starting it terminates a session that is still open and runs the program
  with the halt command; from then on flashing and resetting are refused with return code 1 and
  run nothing, until the session is stopped, which always leaves debug mode.\<close>

theorem openocd_debug_session:
  assumes "openocd_ok oo opts" and "openocd_debug_start E oo w = (Inr r, oo', w')"
  shows "r = 0 \<and> oo_debug oo' \<noteq> None
       \<and> trace w' = trace w
           @ (case oo_debug oo of Some pid \<Rightarrow> if e_terminate E w pid = None then [Terminate pid] else [] | None \<Rightarrow> [])
           @ [Spawn (openocd_argv oo opts [''reset halt''])]
       \<and> (\<forall>fw binary offset v. openocd_flash E fw binary offset oo' v = (Inr 1, oo', v))
       \<and> (\<forall>v. openocd_reset E oo' v = (Inr 1, oo', v))
       \<and> (\<forall>v. oo_debug (fst (snd (openocd_debug_stop E oo' v))) = None)"
proof -
  obtain r1 oo1 w1 where stop: "openocd_debug_stop E oo w = (r1, oo1, w1)"
    by (cases "openocd_debug_stop E oo w")
  then have oo1: "oo1 = oo\<lparr>oo_debug := None\<rparr>" "\<exists>n. r1 = Inr n" and w1: "trace w1 = trace w
      @ (case oo_debug oo of Some pid \<Rightarrow> if e_terminate E w pid = None then [Terminate pid] else [] | None \<Rightarrow> [])"
    by (auto simp: openocd_debug_stop_run split: option.splits if_splits)
  have "openocd_ok oo1 opts" using assms(1) by (simp add: oo1 openocd_ok_def)
  from openocd_args_exact [OF this, of "[''reset halt'']"]
  have args: "openocd_args oo1 OPENOCD_DEBUG = Some (openocd_argv oo opts [''reset halt''])"
    by (simp add: OPENOCD_DEBUG_def openocd_argv_def oo1)
  obtain pid where oo': "oo' = oo1\<lparr>oo_debug := Some pid\<rparr>" and "r = 0"
    and w': "trace w' = trace w1 @ [Spawn (openocd_argv oo opts [''reset halt''])]"
    using assms(2) oo1(2)
    by (auto simp: openocd_debug_start_def thenE_def bindE_def stop getE_def args askE_def emitE_def putE_def
          retE_def raiseE_def split: popen_outcome.splits)
  then have "oo_debug oo' \<noteq> None" by simp
  with \<open>r = 0\<close> w' w1 show ?thesis
    by (auto simp: openocd_flash_debug openocd_reset_debug openocd_debug_stop_run split: option.split)
qed

theorem openocd_debug_session_witness:
  "\<exists>oo' w'. openocd_debug_start working_env m3_openocd world0 = (Inr 0, oo', w')
     \<and> openocd_reset working_env oo' w' = (Inr 1, oo', w')"
proof -
  let ?run = "openocd_debug_start working_env m3_openocd world0"
  have ok: "openocd_ok m3_openocd [''/static/iot-lab.cfg'', ''/static/iot-lab-m3.cfg'']"
    by (simp add: openocd_ok_def m3_openocd_def sh_space_def)
  have "fst ?run = Inr 0" by code_simp
  then have run: "?run = (Inr 0, fst (snd ?run), snd (snd ?run))" by (simp add: prod_eq_iff)
  have "openocd_reset working_env (fst (snd ?run)) v = (Inr 1, fst (snd ?run), v)" for v
    using openocd_debug_session [OF ok run] by (elim conjE) simp
  with run show ?thesis by (intro exI conjI)
qed

text \<open>The argument lists of the other programmers.\<close>

definition objcopy_argv :: "string \<Rightarrow> string \<Rightarrow> string \<Rightarrow> string list" where
  "objcopy_argv format elf out = [''objcopy'', ''-I'', ''elf32-big'', ''-O'', format, elf, out]"

definition edbg_argv :: "string \<Rightarrow> string \<Rightarrow> string list" where
  "edbg_argv bin offset = [''/usr/bin/edbg'', ''-t'', ''atmel_cm0p'', ''-b'', ''-e'', ''-v'', ''-p'', ''-f'', bin, ''-o'', offset]"

definition cc2538_argv :: "cc2538 \<Rightarrow> string \<Rightarrow> nat \<Rightarrow> string list" where
  "cc2538_argv cc hex_path addr =
     [''/usr/bin/cc2538-bsl.py'', ''-p'', cc_port cc, ''-b'', str_int (cc_baud cc), ''-e'', ''-w'',
      ''-a'', ''0x'' @ hex08 addr, ''-v'', hex_path]"

lemma shlex_words:
  assumes "list_all (\<lambda>x. sh_plain x \<and> x \<noteq> []) xs"
  shows "shlex_split (py_join '' '' xs) = Some xs"
  using assms
proof (induction xs rule: induct_list012)
  case (2 x)
  then show ?case by (simp add: shlex_split_def shlex_plain_end)
next
  case (3 x y xs)
  then show ?case by (simp add: shlex_split_def shlex_plain_space del: shlex_go.simps)
qed (simp add: shlex_split_def)

lemma py_hex_plain: "sh_plain (py_hex m i)" "py_hex m i \<noteq> []"
  by (simp_all add: py_hex_def str_base_plain sh_space_def)

lemma str_nat_plain: "sh_plain (str_nat n)"
  by (auto simp: sh_plain_def sh_space_def is_digit_def dest!: str_nat_set)

lemma str_int_plain: "sh_plain (str_int i)" "str_int i \<noteq> []"
  by (simp_all add: str_int_def str_nat_plain sh_space_def)

lemma hex08_plain: "sh_plain (hex08 n)"
  by (auto simp: hex08_def Let_def str_base_plain) (simp add: sh_plain_def sh_space_def)

lemma hex08_value: "hex_val (hex08 n) = n"
proof -
  have "foldl (\<lambda>a c. 16 * a + hex_digit_val c) 0 (replicate k CHR ''0'') = 0" for k
    by (induction k) (simp_all add: hex_digit_val_def is_digit_def)
  then show ?thesis
    using hex_val_str_base [of n] by (simp add: hex08_def Let_def hex_val_def)
qed

abbreviation sh_word :: "string \<Rightarrow> bool" where
  "sh_word x \<equiv> sh_plain x \<and> x \<noteq> []"

lemma objcopy_args:
  "sh_word elf \<Longrightarrow> sh_word out \<Longrightarrow>
     shlex_split (''objcopy -I elf32-big -O binary '' @ elf @ '' '' @ out) = Some (objcopy_argv ''binary'' elf out)"
  "sh_word elf \<Longrightarrow> sh_word out \<Longrightarrow>
     shlex_split (''objcopy -I elf32-big -O ihex '' @ elf @ '' '' @ out) = Some (objcopy_argv ''ihex'' elf out)"
  using shlex_words [of "objcopy_argv ''binary'' elf out"] shlex_words [of "objcopy_argv ''ihex'' elf out"]
  by (simp_all add: objcopy_argv_def sh_space_def del: shlex_go.simps)

lemma edbg_args:
  assumes "sh_word bin" and "sh_word offset"
  shows "shlex_split (edbg_cmd (EDBG_FLASH bin offset)) = Some (edbg_argv bin offset)"
proof -
  have "shlex_split (edbg_cmd (EDBG_FLASH bin offset)) = shlex_split (py_join '' '' (edbg_argv bin offset))"
    by (simp add: edbg_cmd_def EDBG_FLASH_def edbg_argv_def shlex_split_def sh_space_def)
  also have "\<dots> = Some (edbg_argv bin offset)"
    using assms by (intro shlex_words) (simp add: edbg_argv_def sh_space_def)
  finally show ?thesis .
qed

lemma cc2538_args:
  assumes "sh_word (cc_port cc)" and "sh_word hex_path"
  shows "shlex_split (cc2538_cmd cc (CC2538_FLASH cc hex_path addr)) = Some (cc2538_argv cc hex_path addr)"
proof -
  have "cc2538_cmd cc (CC2538_FLASH cc hex_path addr) = py_join '' '' (cc2538_argv cc hex_path addr)"
    by (simp add: cc2538_cmd_def CC2538_FLASH_def cc2538_argv_def)
  moreover have "shlex_split (py_join '' '' (cc2538_argv cc hex_path addr)) = Some (cc2538_argv cc hex_path addr)"
    using assms by (intro shlex_words) (simp add: cc2538_argv_def sh_space_def str_int_plain hex08_plain)
  ultimately show ?thesis by simp
qed

text \<open>C26: flashing with edbg.  A binary file is written at the given offset.  An ELF file is first
  converted, and the temporary file is written at offset 0 whatever the conversion returned; it
  is removed in the end.  The two return codes are added.\<close>

theorem edbg_flash_exact:
  assumes readable: "e_open E w (e_abspath E fw) = None" and path: "sh_word (e_abspath E fw)"
    and tmp: "e_tempname E w ''.bin'' = tmp" "sh_word tmp"
    and conv: "\<And>v. e_call E v (objcopy_argv ''binary'' (e_abspath E fw) tmp) = CallExit n1"
    and prog: "\<And>v bin off. e_call E v (edbg_argv bin off) = CallExit n2"
  shows "case edbg_flash E fw binary offset s w of (r, s', w') \<Rightarrow>
       if binary
       then r = Inr n2 \<and> trace w' = trace w @ [Call (edbg_argv (e_abspath E fw) (py_hex (e_maxint E) offset))]
       else r = Inr (n1 + n2) \<and> trace w' = trace w
         @ [CreateFile tmp, Call (objcopy_argv ''binary'' (e_abspath E fw) tmp),
            Call (edbg_argv tmp (py_hex (e_maxint E) 0)), RemoveFile tmp]"
proof -
  have "wp (edbg_flash E fw binary offset)
      (\<lambda>r _ w'. if binary
        then r = n2 \<and> trace w' = trace w @ [Call (edbg_argv (e_abspath E fw) (py_hex (e_maxint E) offset))]
        else r = n1 + n2 \<and> trace w' = trace w
         @ [CreateFile tmp, Call (objcopy_argv ''binary'' (e_abspath E fw) tmp),
            Call (edbg_argv tmp (py_hex (e_maxint E) 0)), RemoveFile tmp]) (\<lambda>_ _ _. False) s w"
    using path tmp
    by (simp add: edbg_flash_def ioerror_is_1_def abspath_def Let_def readable wp_simps with_tempfile_def
          edbg_call_cmd_def edbg_args py_hex_plain objcopy_args call_result_def conv prog
          del: append.simps)
  then show ?thesis by (auto simp: wp_def split: prod.splits sum.splits)
qed

text \<open>
  The return codes of programs ended by a signal are negative, so that a failed conversion and a
  failed write can add up to success.
\<close>

theorem edbg_flash_exact_witness:
  "case edbg_flash (working_env\<lparr>e_call := (\<lambda>_ args. if hd args = ''objcopy'' then CallExit (- 9) else CallExit 9)\<rparr>)
      ''/tmp/fw.elf'' False 0 () world0 of (r, s', w') \<Rightarrow> r = Inr 0"
  using edbg_flash_exact
    [of "working_env\<lparr>e_call := (\<lambda>_ args. if hd args = ''objcopy'' then CallExit (- 9) else CallExit 9)\<rparr>"
      world0 "''/tmp/fw.elf''" "''/tmp/x.bin''" "- 9" 9 False 0 "()"]
  by (simp add: working_env_def objcopy_argv_def edbg_argv_def sh_space_def split: prod.splits)

text \<open>Flashing with the cc2538 boot loader.  The ELF file is converted and written at the address of
  its first executable section, spelled in at least eight hexadecimal digits that read back as
  the address; the two return codes are added.  A file with no executable section raises
  ValueError after the conversion.  The temporary file is removed in both cases.\<close>

theorem cc2538_flash_exact:
  assumes readable: "e_open E w (e_abspath E fw) = None" and path: "sh_word (e_abspath E fw)"
    and port: "sh_word (cc_port cc)"
    and tmp: "e_tempname E w ''.hex'' = tmp" "sh_word tmp"
    and elf: "\<And>v. e_elf E v (e_abspath E fw) = ElfHeader t c m" "\<And>v. e_load_addr E v (e_abspath E fw) = addr"
    and conv: "\<And>v. e_call E v (objcopy_argv ''ihex'' (e_abspath E fw) tmp) = CallExit n1"
    and prog: "\<And>v a. e_call E v (cc2538_argv cc tmp a) = CallExit n2"
  shows "case cc2538_flash E fw cc w of (r, cc', w') \<Rightarrow> cc' = cc \<and>
       (case addr of
          None \<Rightarrow> r = Inl ValueErr \<and> trace w' = trace w
            @ [CreateFile tmp, Call (objcopy_argv ''ihex'' (e_abspath E fw) tmp), RemoveFile tmp]
        | Some a \<Rightarrow> r = Inr (n1 + n2) \<and> hex_val (hex08 a) = a \<and> trace w' = trace w
            @ [CreateFile tmp, Call (objcopy_argv ''ihex'' (e_abspath E fw) tmp),
               Call (cc2538_argv cc tmp a), RemoveFile tmp])"
proof -
  have "wp (cc2538_flash E fw)
      (\<lambda>r cc' w'. cc' = cc \<and> (\<exists>a. addr = Some a \<and> r = n1 + n2 \<and> trace w' = trace w
            @ [CreateFile tmp, Call (objcopy_argv ''ihex'' (e_abspath E fw) tmp),
               Call (cc2538_argv cc tmp a), RemoveFile tmp]))
      (\<lambda>e cc' w'. cc' = cc \<and> addr = None \<and> e = ValueErr \<and> trace w' = trace w
            @ [CreateFile tmp, Call (objcopy_argv ''ihex'' (e_abspath E fw) tmp), RemoveFile tmp]) cc w"
    using path tmp port
    by (simp add: cc2538_flash_def ioerror_is_1_def abspath_def Let_def readable wp_simps with_tempfile_def
          get_elf_load_addr_def elf cc2538_call_cmd_def cc2538_args objcopy_args call_result_def conv prog
          del: append.simps split: option.split)
  then show ?thesis
    by (auto simp: wp_def hex08_value split: prod.splits sum.splits)
qed

definition firefly_cc2538 :: cc2538 where
  "firefly_cc2538 = \<lparr>cc_port = ''/dev/iotlab/ttyON_FIREFLY'', cc_baud = 460800\<rparr>"

theorem cc2538_flash_exact_witness:
  "case cc2538_flash (working_env\<lparr>e_load_addr := (\<lambda>_ _. None)\<rparr>) ''/tmp/fw.elf'' firefly_cc2538 world0 of
     (r, cc', w') \<Rightarrow> r = Inl ValueErr \<and> last (trace w') = RemoveFile ''/tmp/x.hex''"
  using cc2538_flash_exact
    [of "working_env\<lparr>e_load_addr := (\<lambda>_ _. None)\<rparr>" world0 "''/tmp/fw.elf''" firefly_cc2538 "''/tmp/x.hex''"
      "''ET_EXEC''" "''ELFCLASS32''" "''EM_ARM''" None 0 0]
  by (simp add: working_env_def firefly_cc2538_def sh_space_def split: prod.splits)

end
