(* ===== verification/External_Process.thy ===== *)
theory External_Process
  imports Programmers
begin

text \<open>
  Model of \<^verbatim>\<open>gateway_code/utils/external_process.py\<close> and of its subclasses \<^verbatim>\<open>serial_redirection.py\<close>,
  \<^verbatim>\<open>rtl_tcp.py\<close>, \<^verbatim>\<open>mosquitto.py\<close>, \<^verbatim>\<open>mjpg_streamer.py\<close>, \<^verbatim>\<open>lora_gateway_bridge.py\<close>: a thread that runs
  a program in a loop, started and stopped from outside.

  The methods \<open>start\<close> and \<open>stop\<close> are sequential and see the thread through the environment; the
  thread, its child process and a concurrent \<open>stop\<close> are a step relation at the end.
\<close>

section \<open>State and construction\<close>

text \<open>
  \<open>xp_live\<close>: the thread object was started and not made anew since; \<open>is_alive\<close> and \<open>process\<close> are
  answered by the environment while it is.
\<close>

record ext_process =
  xp_cmd :: "string list"
  xp_run :: bool
  xp_live :: bool

definition ExternalProcess_init :: "string list \<Rightarrow> ext_process" where
  "ExternalProcess_init process_cmd = \<lparr>xp_cmd = process_cmd, xp_run = False, xp_live = False\<rparr>"

section \<open>Signals\<close>

definition SIGINT :: int where "SIGINT = 2"

definition SIGKILL :: int where "SIGKILL = 9"

definition SIGTERM :: int where "SIGTERM = 15"

text \<open>\<open>signals_iter\<close>: the signal at a position of the generated sequence\<close>

definition signals_iter :: "nat \<Rightarrow> nat \<Rightarrow> nat \<Rightarrow> int" where
  "signals_iter sigterm sigint i =
     (if i < sigterm then SIGTERM else if i < sigterm + sigint then SIGINT else SIGKILL)"

section \<open>start and stop\<close>

text \<open>\<open>start\<close>: starting the same thread object twice raises RuntimeError\<close>

definition xp_start :: "env \<Rightarrow> (ext_process, int) act" where
  "xp_start E =
     thenE (putE (xp_run_update (\<lambda>_. True)))
     (bindE (getE id) (\<lambda>s.
        if xp_live s then raiseE RuntimeErr
        else
          thenE (putE (xp_live_update (\<lambda>_. True)))
          (thenE (emitE E (ThreadStart (py_join '' '' (xp_cmd s))))
          (bindE (askE (\<lambda>w. e_started E w (xp_cmd s))) (\<lambda>ok. retE (if ok then 0 else 1))))))"

text \<open>
  The loop of \<open>stop\<close>, from the \<open>i\<close>-th signal on.  An OSError other than \<open>ESRCH\<close> (3) fails the
  assertion.  None is a loop that never ends.
\<close>

definition ESRCH :: int where "ESRCH = 3"

partial_function (option) stop_loop :: "env \<Rightarrow> string list \<Rightarrow> nat \<Rightarrow> world \<Rightarrow> ((exc + unit) \<times> world) option" where
  "stop_loop E cmd i w =
     (if \<not> e_alive E w cmd then Some (Inr (), w)
      else case e_current E w cmd of
        None \<Rightarrow> stop_loop E cmd i (log_event E (Sleep 100) w)
      | Some pid \<Rightarrow>
          (let sig = signals_iter 10 10 i in
           case e_signal E w pid sig of
             None \<Rightarrow> stop_loop E cmd (Suc i) (log_event E (Sleep 100) (log_event E (Signal pid sig) w))
           | Some n \<Rightarrow>
               (if n = ESRCH then stop_loop E cmd (Suc i) (log_event E (Sleep 100) w)
                else Some (Inl AssertionErr, w))))"

definition xp_stop :: "env \<Rightarrow> (ext_process, int) act" where
  "xp_stop E =
     thenE (putE (xp_run_update (\<lambda>_. False)))
     (bindE (getE id) (\<lambda>s.
        thenE
          (if \<not> xp_live s then retE ()
           else (\<lambda>s' w. case stop_loop E (xp_cmd s) 0 w of
                   None \<Rightarrow> (Inl Blocked, s', w)
                 | Some (r, w') \<Rightarrow> (r, s', w')))
          (thenE (putE (xp_live_update (\<lambda>_. False))) (retE 0))))"

section \<open>The programs that run in the background\<close>

text \<open>A command line that \<open>shlex\<close> can not split is a ValueError of the constructor.\<close>

definition from_cmdline :: "string \<Rightarrow> ('s, ext_process) act" where
  "from_cmdline cmd =
     (case shlex_split cmd of None \<Rightarrow> raiseE ValueErr | Some args \<Rightarrow> retE (ExternalProcess_init args))"

definition SOCAT :: "string \<Rightarrow> int \<Rightarrow> string list \<Rightarrow> string" where
  "SOCAT tty baud serial_opts =
     ''socat -d TCP4-LISTEN:20000,reuseaddr open:'' @ tty @ '',b'' @ str_int baud @ '','' @ py_join '','' serial_opts"

definition SerialRedirection_init :: "string \<Rightarrow> int \<Rightarrow> string list \<Rightarrow> ('s, ext_process) act" where
  "SerialRedirection_init tty baudrate serial_opts = from_cmdline (SOCAT tty baudrate serial_opts)"

definition RtlTcp_init :: "int \<Rightarrow> int \<Rightarrow> ('s, ext_process) act" where
  "RtlTcp_init port frequency =
     from_cmdline (''/usr/bin/rtl_tcp -a 0.0.0.0 -p '' @ str_int port @ '' -f '' @ str_int frequency)"

definition Mosquitto_init :: "int \<Rightarrow> ('s, ext_process) act" where
  "Mosquitto_init port = from_cmdline (''/usr/sbin/mosquitto -v -p '' @ str_int port)"

text \<open>\<open>MjpgStreamer\<close>: the log file is opened too.\<close>

definition MJPG_STREAMER :: "int \<Rightarrow> string" where
  "MJPG_STREAMER port =
     ''/usr/bin/mjpg_streamer -i '' @ [squote] @
     ''input_raspicam.so -fps 2 -x 320 -y 240 -drc high -st -ex auto -sh 100'' @ [squote] @
     '' -o '' @ [squote] @ ''output_http.so -p '' @ str_int port @ [squote]"

definition MJPG_STREAMER_LOG_FILE :: string where
  "MJPG_STREAMER_LOG_FILE = ''/var/log/gateway-server/mjpg_streamer.log''"

definition MjpgStreamer_init :: "env \<Rightarrow> int \<Rightarrow> ('s, ext_process) act" where
  "MjpgStreamer_init E port =
     bindE (from_cmdline (MJPG_STREAMER port)) (\<lambda>xp.
     bindE (askE (\<lambda>w. e_create E w MJPG_STREAMER_LOG_FILE)) (\<lambda>r.
       case r of
         Some n \<Rightarrow> raiseE (IOErr n)
       | None \<Rightarrow> thenE (emitE E (CreateFile MJPG_STREAMER_LOG_FILE)) (retE xp)))"

text \<open>\<open>LoraGatewayBridge\<close>: the configuration of the gateway wins over that of the installation.\<close>

definition LoraGatewayBridge_init :: "env \<Rightarrow> ('s, ext_process) act" where
  "LoraGatewayBridge_init E =
     bindE (askE (\<lambda>w. e_isfile E w ''/var/local/config/lora-gateway-bridge.toml'')) (\<lambda>local.
       from_cmdline (''/opt/lora-gateway-bridge/lora-gateway-bridge -c '' @
         (if local then ''/var/local/config/lora-gateway-bridge.toml''
          else ''/opt/lora-gateway-bridge/lora-gateway-bridge.toml'')))"

section \<open>The thread, step by step\<close>

text \<open>
  \<open>_target\<close> and \<open>_call_process\<close> beside a concurrent \<open>stop\<close>: where the thread is, the shared
  attributes, and the child processes that still run.
\<close>

datatype pc =
    LoopHead          \<comment> \<open>\<open>while self._run\<close>\<close>
  | CallPopen         \<comment> \<open>in \<open>_call_process\<close>, before \<open>Popen\<close>\<close>
  | WaitChild nat     \<comment> \<open>\<open>self.process.wait()\<close>\<close>
  | Pause             \<comment> \<open>\<open>time.sleep(0.5)\<close>\<close>
  | Ended             \<comment> \<open>the thread returned or died\<close>

record xp_system =
  x_pc :: pc
  x_run :: bool
  x_process :: "nat option"
  x_started :: bool
  x_children :: "nat list"   \<comment> \<open>child processes that run\<close>
  x_spawned :: "nat list"    \<comment> \<open>all children ever started, newest first\<close>

definition xp_system_start :: xp_system where
  "xp_system_start = \<lparr>x_pc = LoopHead, x_run = True, x_process = None, x_started = False,
     x_children = [], x_spawned = []\<rparr>"

inductive xp_step :: "xp_system \<Rightarrow> xp_system \<Rightarrow> bool" where
  again: "x_pc s = LoopHead \<Longrightarrow> x_run s \<Longrightarrow> xp_step s (s\<lparr>x_pc := CallPopen\<rparr>)"
| leave: "x_pc s = LoopHead \<Longrightarrow> \<not> x_run s \<Longrightarrow> xp_step s (s\<lparr>x_pc := Ended\<rparr>)"
| spawn: "x_pc s = CallPopen \<Longrightarrow> pid \<notin> set (x_spawned s) \<Longrightarrow>
    xp_step s (s\<lparr>x_pc := WaitChild pid, x_process := Some pid, x_started := True,
                 x_children := pid # x_children s, x_spawned := pid # x_spawned s\<rparr>)"
| no_program: "x_pc s = CallPopen \<Longrightarrow> xp_step s (s\<lparr>x_pc := Ended\<rparr>)"
| child_exits: "pid \<in> set (x_children s) \<Longrightarrow> xp_step s (s\<lparr>x_children := remove1 pid (x_children s)\<rparr>)"
| reaped: "x_pc s = WaitChild pid \<Longrightarrow> pid \<notin> set (x_children s) \<Longrightarrow> xp_step s (s\<lparr>x_pc := Pause\<rparr>)"
| paused: "x_pc s = Pause \<Longrightarrow> xp_step s (s\<lparr>x_pc := LoopHead, x_started := False\<rparr>)"
| stop_called: "xp_step s (s\<lparr>x_run := False\<rparr>)"

abbreviation xp_reach :: "xp_system \<Rightarrow> bool" where
  "xp_reach s \<equiv> xp_step\<^sup>*\<^sup>* xp_system_start s"

section \<open>Lemmas: the stop loop\<close>

fun count_sleeps :: "event list \<Rightarrow> nat" where
  "count_sleeps [] = 0"
| "count_sleeps (Sleep _ # evs) = Suc (count_sleeps evs)"
| "count_sleeps (_ # evs) = count_sleeps evs"

lemma count_sleeps_append [simp]: "count_sleeps (xs @ ys) = count_sleeps xs + count_sleeps ys"
  by (induction xs rule: count_sleeps.induct) auto

text \<open>The signals sent, in order.\<close>

fun sent_signals :: "event list \<Rightarrow> int list" where
  "sent_signals [] = []"
| "sent_signals (Signal _ sig # evs) = sig # sent_signals evs"
| "sent_signals (_ # evs) = sent_signals evs"

lemma sent_signals_append [simp]: "sent_signals (xs @ ys) = sent_signals xs @ sent_signals ys"
  by (induction xs rule: sent_signals.induct) auto

definition stop_outcome :: "env \<Rightarrow> string list \<Rightarrow> nat \<Rightarrow> world \<Rightarrow> (exc + unit) \<times> world \<Rightarrow> bool" where
  "stop_outcome E cmd i w y \<longleftrightarrow>
     (\<exists>js xs. trace (snd y) = trace w @ xs \<and> sorted_wrt (<) js \<and> (\<forall>j\<in>set js. i \<le> j)
        \<and> sent_signals xs = map (signals_iter 10 10) js \<and> cn_cmds xs = []
        \<and> (fst y = Inr () \<longrightarrow> \<not> e_alive E (snd y) cmd) \<and> fst y \<noteq> Inl Blocked)"

lemma stop_outcome_skip:
  "stop_outcome E cmd k (log_event E (Sleep 100) w) y \<Longrightarrow> i \<le> k \<Longrightarrow> stop_outcome E cmd i w y"
  unfolding stop_outcome_def by (fastforce intro: exI [of _ "Sleep 100 # _"])

lemma stop_outcome_sent:
  assumes "stop_outcome E cmd (Suc i) (log_event E (Sleep 100) (log_event E (Signal pid (signals_iter 10 10 i)) w)) y"
  shows "stop_outcome E cmd i w y"
proof -
  obtain js xs where "trace (snd y) = trace w @ [Signal pid (signals_iter 10 10 i), Sleep 100] @ xs"
    "sorted_wrt (<) js" "\<forall>j\<in>set js. Suc i \<le> j" "sent_signals xs = map (signals_iter 10 10) js"
    "cn_cmds xs = []" "fst y = Inr () \<longrightarrow> \<not> e_alive E (snd y) cmd" "fst y \<noteq> Inl Blocked"
    using assms by (auto simp: stop_outcome_def)
  then show ?thesis
    unfolding stop_outcome_def
    by (intro exI [of _ "i # js"] exI [of _ "[Signal pid (signals_iter 10 10 i), Sleep 100] @ xs"]) auto
qed

lemma stop_outcome_end:
  "(fst y = Inr () \<longrightarrow> \<not> e_alive E w cmd) \<Longrightarrow> fst y \<noteq> Inl Blocked \<Longrightarrow> snd y = w \<Longrightarrow> stop_outcome E cmd i w y"
  unfolding stop_outcome_def by (intro exI [of _ "[]"]) auto

lemma stop_loop_outcome:
  assumes "stop_loop E cmd i w = Some y"
  shows "stop_outcome E cmd i w y"
proof (rule stop_loop.raw_induct [OF _ assms, where P = stop_outcome], goal_cases)
  case (1 loop E cmd i w y)
  show ?case
  proof (cases "e_alive E w cmd")
    case False
    with 1(2) show ?thesis by (intro stop_outcome_end) auto
  next
    case alive: True
    show ?thesis
    proof (cases "e_current E w cmd")
      case None
      with 1(2) alive have "loop E cmd i (log_event E (Sleep 100) w) = Some y" by simp
      from 1(1) [OF this] show ?thesis by (rule stop_outcome_skip) simp
    next
      case pid: (Some pid)
      show ?thesis
      proof (cases "e_signal E w pid (signals_iter 10 10 i)")
        case None
        with 1(2) alive pid
        have "loop E cmd (Suc i) (log_event E (Sleep 100) (log_event E (Signal pid (signals_iter 10 10 i)) w)) = Some y"
          by simp
        from 1(1) [OF this] show ?thesis by (rule stop_outcome_sent)
      next
        case (Some n)
        show ?thesis
        proof (cases "n = ESRCH")
          case True
          with 1(2) alive pid Some have "loop E cmd (Suc i) (log_event E (Sleep 100) w) = Some y" by simp
          from 1(1) [OF this] show ?thesis by (rule stop_outcome_skip) simp
        next
          case False
          with 1(2) alive pid Some show ?thesis by (intro stop_outcome_end) auto
        qed
      qed
    qed
  qed
qed

text \<open>When the thread is bound to end, the loop does.\<close>

lemma stop_loop_ends:
  assumes cur: "\<And>v. e_current E v cmd \<noteq> None"
    and esrch: "\<And>v p g n. e_signal E v p g = Some n \<Longrightarrow> n = ESRCH"
  shows "(\<And>v ys. trace v = trace w @ ys \<Longrightarrow> m \<le> count_sleeps ys \<Longrightarrow> \<not> e_alive E v cmd) \<Longrightarrow>
    \<exists>w' xs. stop_loop E cmd i w = Some (Inr (), w') \<and> trace w' = trace w @ xs \<and> count_sleeps xs \<le> m"
proof (induction m arbitrary: i w)
  case 0
  then have "\<not> e_alive E w cmd" by simp
  then show ?case by (simp add: stop_loop.simps [of E cmd i w])
next
  case (Suc m)
  show ?case
  proof (cases "e_alive E w cmd")
    case False
    then show ?thesis by (simp add: stop_loop.simps [of E cmd i w])
  next
    case alive: True
    obtain pid where pid: "e_current E w cmd = Some pid" using cur by auto
    define v where "v = (if e_signal E w pid (signals_iter 10 10 i) = None
      then log_event E (Signal pid (signals_iter 10 10 i)) w else w)"
    have step: "stop_loop E cmd i w = stop_loop E cmd (Suc i) (log_event E (Sleep 100) v)"
      using alive pid esrch
      by (auto simp: stop_loop.simps [of E cmd i w] v_def Let_def split: option.splits)
    obtain zs where zs: "trace (log_event E (Sleep 100) v) = trace w @ zs" "count_sleeps zs = 1"
      by (cases "e_signal E w pid (signals_iter 10 10 i)") (auto simp: v_def)
    have "\<exists>w' xs. stop_loop E cmd (Suc i) (log_event E (Sleep 100) v) = Some (Inr (), w')
        \<and> trace w' = trace (log_event E (Sleep 100) v) @ xs \<and> count_sleeps xs \<le> m"
    proof (rule Suc.IH)
      fix u :: world and ys assume "trace u = trace (log_event E (Sleep 100) v) @ ys" and "m \<le> count_sleeps ys"
      then show "\<not> e_alive E u cmd" using zs by (intro Suc.prems [of u "zs @ ys"]) auto
    qed
    with step zs show ?thesis by force
  qed
qed

text \<open>
  What the operating system and the thread promise: SIGKILL ends the process, and the thread of a
  process that is gone ends within \<open>k\<close> polls, because \<open>_run\<close> is False.
\<close>

definition thread_ends :: "env \<Rightarrow> string list \<Rightarrow> nat \<Rightarrow> bool" where
  "thread_ends E cmd k \<longleftrightarrow>
     (\<forall>v. e_current E v cmd \<noteq> None)
   \<and> (\<forall>v p g n. e_signal E v p g = Some n \<longrightarrow> n = ESRCH)
   \<and> (\<forall>u v p g ys. e_signal E u p g \<noteq> None \<longrightarrow> trace v = trace u @ ys \<longrightarrow> k \<le> count_sleeps ys \<longrightarrow> \<not> e_alive E v cmd)
   \<and> (\<forall>v p xs ys. trace v = xs @ Signal p SIGKILL # ys \<longrightarrow> k \<le> count_sleeps ys \<longrightarrow> \<not> e_alive E v cmd)"

lemma thread_ends_fin:
  assumes "thread_ends E cmd k" and "\<And>v ys. trace v = trace w @ ys \<Longrightarrow> k \<le> count_sleeps ys \<Longrightarrow> \<not> e_alive E v cmd"
  shows "\<exists>w' xs. stop_loop E cmd i w = Some (Inr (), w') \<and> trace w' = trace w @ xs \<and> count_sleeps xs \<le> k"
proof (rule stop_loop_ends)
  show "e_current E v cmd \<noteq> None" for v using assms(1) by (simp add: thread_ends_def)
  show "e_signal E v p g = Some n \<Longrightarrow> n = ESRCH" for v p g n using assms(1) by (auto simp: thread_ends_def)
qed (rule assms(2))

text \<open>One poll of the loop: the process is gone, or it gets the next signal and the loop goes on.\<close>

lemma stop_loop_poll:
  assumes ends: "thread_ends E cmd k" and n: "k \<le> n"
    and rest: "\<And>pid. let v = log_event E (Sleep 100) (log_event E (Signal pid (signals_iter 10 10 i)) w) in
      \<exists>w' xs. stop_loop E cmd (Suc i) v = Some (Inr (), w') \<and> trace w' = trace v @ xs \<and> count_sleeps xs \<le> n"
  shows "\<exists>w' xs. stop_loop E cmd i w = Some (Inr (), w') \<and> trace w' = trace w @ xs \<and> count_sleeps xs \<le> Suc n"
proof (cases "e_alive E w cmd")
  case False
  then show ?thesis by (simp add: stop_loop.simps [of E cmd i w])
next
  case alive: True
  obtain pid where pid: "e_current E w cmd = Some pid" using ends unfolding thread_ends_def by blast
  show ?thesis
  proof (cases "e_signal E w pid (signals_iter 10 10 i)")
    case None
    let ?v = "log_event E (Sleep 100) (log_event E (Signal pid (signals_iter 10 10 i)) w)"
    have "stop_loop E cmd i w = stop_loop E cmd (Suc i) ?v"
      using alive pid None by (simp add: stop_loop.simps [of E cmd i w])
    with rest [of pid] show ?thesis by (force simp: Let_def)
  next
    case (Some m)
    have "\<exists>w' xs. stop_loop E cmd i w = Some (Inr (), w') \<and> trace w' = trace w @ xs \<and> count_sleeps xs \<le> k"
    proof (rule thread_ends_fin [OF ends])
      fix v :: world and ys assume "trace v = trace w @ ys" "k \<le> count_sleeps ys"
      with ends Some show "\<not> e_alive E v cmd" unfolding thread_ends_def by blast
    qed
    with n show ?thesis by force
  qed
qed

lemma stop_loop_returns:
  assumes ends: "thread_ends E cmd k"
  shows "i + d = 20 \<Longrightarrow> \<exists>w' xs. stop_loop E cmd i w = Some (Inr (), w') \<and> trace w' = trace w @ xs
      \<and> count_sleeps xs \<le> d + k + 1"
proof (induction d arbitrary: i w)
  case 0
  have "let v = log_event E (Sleep 100) (log_event E (Signal pid (signals_iter 10 10 i)) w) in
      \<exists>w' xs. stop_loop E cmd (Suc i) v = Some (Inr (), w') \<and> trace w' = trace v @ xs \<and> count_sleeps xs \<le> k" for pid
    unfolding Let_def
  proof (rule thread_ends_fin [OF ends])
    fix v :: world and ys
    assume "trace v = trace (log_event E (Sleep 100) (log_event E (Signal pid (signals_iter 10 10 i)) w)) @ ys"
    with 0 have "trace v = trace w @ Signal pid SIGKILL # Sleep 100 # ys" by (simp add: signals_iter_def)
    moreover assume "k \<le> count_sleeps ys"
    ultimately show "\<not> e_alive E v cmd" using ends by (fastforce simp: thread_ends_def)
  qed
  from stop_loop_poll [OF ends order_refl this] show ?case by simp
next
  case (Suc d)
  then show ?case using stop_loop_poll [OF ends, of "d + k + 1" i w] by (simp add: Let_def)
qed

section \<open>Lemmas: start and stop\<close>

lemma xp_stop_run:
  "xp_stop E s w =
     (if \<not> xp_live s then (Inr 0, s\<lparr>xp_run := False, xp_live := False\<rparr>, w)
      else case stop_loop E (xp_cmd s) 0 w of
        None \<Rightarrow> (Inl Blocked, s\<lparr>xp_run := False\<rparr>, w)
      | Some (Inr _, w') \<Rightarrow> (Inr 0, s\<lparr>xp_run := False, xp_live := False\<rparr>, w')
      | Some (Inl e, w') \<Rightarrow> (Inl e, s\<lparr>xp_run := False\<rparr>, w'))"
  by (auto simp: xp_stop_def thenE_def bindE_def putE_def getE_def retE_def split: option.split prod.split sum.split)

lemma silent_xp_start [silent_rules]: "silent (xp_start E)"
  unfolding xp_start_def by (intro silent_rules) (simp add: silent_emitE)

lemma silent_xp_stop [silent_rules]: "silent (xp_stop E)"
proof (rule silentI, rule keepsI, rule wpI)
  fix L s w assume L: "cn_log w = L"
  have *: "cn_log w' = L" if "xp_stop E s w = (r, s', w')" for r s' w'
    using that L
    by (auto simp: xp_stop_run stop_outcome_def dest!: stop_loop_outcome split: if_splits option.splits sum.splits)
  { fix a s' w' assume "xp_stop E s w = (Inr a, s', w')" then show "cn_log w' = L" by (rule *) }
  { fix e s' w' assume "xp_stop E s w = (Inl e, s', w')" then show "cn_log w' = L" by (rule *) }
qed

lemma nonneg_xp_start: "nonneg (xp_start E)"
  by (simp add: nonneg_def xp_start_def wp_simps)

lemma nonneg_xp_stop: "nonneg (xp_stop E)"
  unfolding nonneg_def by (intro allI wpI) (auto simp: xp_stop_run split: if_splits option.splits sum.splits)

section \<open>Lemmas: the thread\<close>

text \<open>At most one child runs, and only while the thread waits for it.\<close>

definition xp_inv :: "xp_system \<Rightarrow> bool" where
  "xp_inv s \<longleftrightarrow>
     (case x_pc s of
        WaitChild pid \<Rightarrow> x_process s = Some pid \<and> x_children s \<in> {[], [pid]}
      | _ \<Rightarrow> x_children s = [])"

inductive_cases xp_step_cases: "xp_step s s'"

lemma xp_inv_step: "xp_step s s' \<Longrightarrow> xp_inv s \<Longrightarrow> xp_inv s'"
  by (erule xp_step_cases) (auto simp: xp_inv_def split: pc.splits)

lemma xp_inv_reach: "xp_reach s \<Longrightarrow> xp_inv s"
proof (induction rule: rtranclp_induct)
  case base
  show ?case by (simp add: xp_inv_def xp_system_start_def)
next
  case (step s s')
  then show ?case by (blast intro: xp_inv_step)
qed

text \<open>Children that can still be started once \<open>_run\<close> is False.\<close>

definition xp_pending :: "xp_system \<Rightarrow> nat" where
  "xp_pending s = (if x_pc s = CallPopen then 1 else 0)"

lemma xp_last_spawn_step:
  "xp_step s s' \<Longrightarrow> \<not> x_run s \<Longrightarrow>
   \<not> x_run s' \<and> length (x_spawned s') + xp_pending s' \<le> length (x_spawned s) + xp_pending s"
  by (erule xp_step_cases) (auto simp: xp_pending_def)

lemma xp_last_spawn:
  "xp_step\<^sup>*\<^sup>* s s' \<Longrightarrow> \<not> x_run s \<Longrightarrow>
   \<not> x_run s' \<and> length (x_spawned s') + xp_pending s' \<le> length (x_spawned s) + xp_pending s"
  by (induction rule: rtranclp_induct) (auto dest!: xp_last_spawn_step)

section \<open>Properties\<close>

text \<open>C11: stopping a background program returns.  The signals grow from SIGTERM over SIGINT to
  SIGKILL, one per poll, so when SIGKILL ends the process and the thread of a process that is
  gone ends within \<open>k\<close> polls, \<open>stop\<close> returns 0 after at most \<open>21 + k\<close> polls, with the thread
  dead.\<close>

theorem xp_stop_returns:
  assumes "thread_ends E (xp_cmd s) k"
  shows "\<exists>w' xs js. xp_stop E s w = (Inr 0, s\<lparr>xp_run := False, xp_live := False\<rparr>, w')
     \<and> trace w' = trace w @ xs \<and> count_sleeps xs \<le> 21 + k
     \<and> sent_signals xs = map (signals_iter 10 10) js \<and> sorted_wrt (<) js
     \<and> (xp_live s \<longrightarrow> \<not> e_alive E w' (xp_cmd s))"
proof (cases "xp_live s")
  case False
  then show ?thesis
    by (intro exI [of _ w] exI [of _ "[]"]) (simp add: xp_stop_run)
next
  case True
  obtain w' xs where l: "stop_loop E (xp_cmd s) 0 w = Some (Inr (), w')" "trace w' = trace w @ xs"
    "count_sleeps xs \<le> 20 + k + 1"
    using stop_loop_returns [OF assms, of 0 20 w] by auto
  from stop_loop_outcome [OF l(1)] obtain js where "sorted_wrt (<) js"
    "sent_signals xs = map (signals_iter 10 10) js" "\<not> e_alive E w' (xp_cmd s)"
    using l(2) by (auto simp: stop_outcome_def)
  with True l show ?thesis
    by (intro exI [of _ w'] exI [of _ xs] exI [of _ js]) (simp add: xp_stop_run)
qed

text \<open>A process that ignores everything but SIGKILL.\<close>

definition stubborn_env :: env where
  "stubborn_env = working_env\<lparr>e_alive := (\<lambda>w _. SIGKILL \<notin> set (sent_signals (trace w))),
     e_current := (\<lambda>_ _. Some 7)\<rparr>"

theorem xp_stop_returns_witness:
  "\<exists>w'. xp_stop stubborn_env \<lparr>xp_cmd = [''socat''], xp_run = True, xp_live = True\<rparr> world0
     = (Inr 0, \<lparr>xp_cmd = [''socat''], xp_run = False, xp_live = False\<rparr>, w')"
proof -
  have "thread_ends stubborn_env [''socat''] 0"
    by (auto simp: thread_ends_def stubborn_env_def working_env_def)
  then have "thread_ends stubborn_env (xp_cmd \<lparr>xp_cmd = [''socat''], xp_run = True, xp_live = True\<rparr>) 0"
    by simp
  from xp_stop_returns [OF this, of world0] show ?thesis by auto
qed



end
