(* ===== verification/Ftdi_Check.thy ===== *)
theory Ftdi_Check
  imports Programmers
begin

text \<open>
  Model of \<^verbatim>\<open>gateway_code/utils/ftdi_check.py\<close>: the status check that looks for an FTDI device in the
  output of \<^verbatim>\<open>ftdi-devices-list\<close>.  The regular expressions are matched by hand: a fixed prefix, the
  longest run of digits, a fixed suffix.
\<close>

section \<open>Lines\<close>

text \<open>\<open>str.splitlines()\<close>\<close>

fun py_splitlines :: "string \<Rightarrow> string list" where
  "py_splitlines [] = []"
| "py_splitlines (c # cs) =
     (if c = CHR 0x0A then [] # py_splitlines cs
      else if c = CHR 0x0D then
        (case cs of d # ds \<Rightarrow> if d = CHR 0x0A then [] # py_splitlines ds else [] # py_splitlines cs | [] \<Rightarrow> [[]])
      else case py_splitlines cs of [] \<Rightarrow> [[c]] | l # ls \<Rightarrow> (c # l) # ls)"

text \<open>The rest of a string after a prefix.\<close>

fun after_prefix :: "string \<Rightarrow> string \<Rightarrow> string option" where
  "after_prefix [] s = Some s"
| "after_prefix (p # ps) [] = None"
| "after_prefix (p # ps) (c # cs) = (if p = c then after_prefix ps cs else None)"

section \<open>Parsing\<close>

definition ftdi_parse_device_number :: "string \<Rightarrow> nat" where
  "ftdi_parse_device_number line =
     (case after_prefix ''Found '' (py_strip line) of
        None \<Rightarrow> 0
      | Some rest \<Rightarrow>
          (let digits = takeWhile is_digit rest in
           if digits \<noteq> [] \<and> after_prefix '' device(s)'' (dropWhile is_digit rest) \<noteq> None
           then nat_of_digits digits else 0))"

definition ftdi_parse_device_description :: "string \<Rightarrow> string option" where
  "ftdi_parse_device_description line = after_prefix ''Description: '' (py_strip line)"

text \<open>
  \<open>ftdi_lookup_description\<close>, from index \<open>i\<close> on; a description line that is not there is an
  IndexError.
\<close>

function ftdi_lookup_from :: "string list \<Rightarrow> string \<Rightarrow> nat \<Rightarrow> exc + bool" where
  "ftdi_lookup_from lines description i =
     (if length lines - 1 \<le> i then Inr False
      else if length lines \<le> i + 2 then Inl IndexErr
      else if Some description = ftdi_parse_device_description (lines ! (i + 2)) then Inr True
      else ftdi_lookup_from lines description (i + 4))"
  by pat_completeness auto
termination
  by (relation "measure (\<lambda>(lines, description, i). length lines - i)") auto

definition ftdi_lookup_description :: "string list \<Rightarrow> string \<Rightarrow> exc + bool" where
  "ftdi_lookup_description lines description =
     (if length lines < 4 then Inl AssertionErr else ftdi_lookup_from lines description 0)"

section \<open>The check\<close>

definition ftdi_check :: "env \<Rightarrow> string \<Rightarrow> string option \<Rightarrow> ('s, int) act" where
  "ftdi_check E ftdi_type description =
     bindE (askE (\<lambda>w. e_output E w [''ftdi-devices-list'', ''-t'', ftdi_type])) (\<lambda>r.
       case r of
         OutputFails n \<Rightarrow> raiseE (OSErr n)
       | OutputStatus \<Rightarrow> thenE (emitE E (Call [''ftdi-devices-list'', ''-t'', ftdi_type])) (raiseE CalledProcessErr)
       | Output output \<Rightarrow>
           thenE (emitE E (Call [''ftdi-devices-list'', ''-t'', ftdi_type]))
           (let lines = py_splitlines output in
            if length lines < 3 then raiseE IndexErr
            else if ftdi_parse_device_number (lines ! 2) = 0 then retE 1
            else case description of
              None \<Rightarrow> retE 0
            | Some d \<Rightarrow>
                (case ftdi_lookup_description (drop 3 lines) d of
                   Inl e \<Rightarrow> raiseE e | Inr found \<Rightarrow> retE (if found then 0 else 1))))"

section \<open>Lemmas\<close>

lemma silent_ftdi_check [silent_rules]: "silent (ftdi_check E ftdi_type description)"
  by (auto simp: silent_def keeps_def ftdi_check_def wp_simps Let_def split: output_outcome.split sum.split option.split)

lemma after_prefix_append [simp]: "after_prefix p (p @ s) = Some s"
  by (induction p) auto

lemma takeWhile_digits: "takeWhile is_digit (str_nat n @ CHR '' '' # s) = str_nat n"
  "dropWhile is_digit (str_nat n @ CHR '' '' # s) = CHR '' '' # s"
  using str_nat_digits [of n]
  by (simp_all add: takeWhile_append2 dropWhile_append2 list_all_iff takeWhile_append dropWhile_append
        is_digit_def [of "CHR '' ''"])

lemma py_strip_fixed: "\<not> is_space (hd s) \<Longrightarrow> \<not> is_space (last s) \<Longrightarrow> py_strip s = s"
proof -
  have "\<not> is_space (hd xs) \<Longrightarrow> dropWhile is_space xs = xs" for xs by (cases xs) auto
  from this [of s] this [of "rev s"] show "\<not> is_space (hd s) \<Longrightarrow> \<not> is_space (last s) \<Longrightarrow> ?thesis"
    by (cases "s = []") (simp_all add: py_strip_def hd_rev)
qed

lemma ftdi_parse_found:
  "ftdi_parse_device_number (''Found '' @ str_nat n @ '' device(s)'') = n"
proof -
  let ?l = "''Found '' @ str_nat n @ '' device(s)''"
  have strip: "py_strip ?l = ?l" by (rule py_strip_fixed) (simp_all add: is_space_def)
  have pre: "after_prefix ''Found '' ?l = Some (str_nat n @ '' device(s)'')" by (rule after_prefix_append)
  have suf: "after_prefix '' device(s)'' '' device(s)'' = Some []" by simp
  show ?thesis
    unfolding ftdi_parse_device_number_def strip pre option.case takeWhile_digits Let_def suf by simp
qed

section \<open>Properties\<close>



end
