(* ===== verification/Control_Nodes.thy ===== *)
theory Control_Nodes
  imports Protocol External_Process Ftdi_Check
begin

text \<open>
  Model of \<^verbatim>\<open>gateway_code/control_nodes\<close>: the control node of an M3 gateway (\<^verbatim>\<open>cn_iotlab\<close>) with its
  variant without power control (\<^verbatim>\<open>cn_iotlabm3\<close>), the Raspberry Pi control node (\<^verbatim>\<open>cn_rpi3\<close>) and the
  empty one (\<^verbatim>\<open>cn_no\<close>).  A control node is a value of a datatype with one constructor per class; a
  method that a class does not have raises AttributeError.
\<close>

section \<open>Firmwares and files of the installation\<close>

definition static_path :: "env \<Rightarrow> string \<Rightarrow> string" where
  "static_path E static_file = e_static_dir E @ ''/'' @ static_file"

text \<open>\<open>x or default\<close> for a path that may be None or empty\<close>

definition or_default :: "string option \<Rightarrow> string \<Rightarrow> string" where
  "or_default x d = (case x of Some (c # cs) \<Rightarrow> c # cs | _ \<Rightarrow> d)"

section \<open>The M3 control node\<close>

datatype cn_kind = Iotlab | Iotlabm3

record cn_iotlab =
  ci_kind :: cn_kind
  ci_node_id :: string
  ci_default_profile :: profile
  ci_openocd :: openocd
  ci_serial :: cn_serial
  ci_open_node_state :: string
  ci_profile :: profile

definition CN_TTY :: string where
  "CN_TTY = ''/dev/ttyCN''"

fun OPENOCD_OPTS :: "env \<Rightarrow> cn_kind \<Rightarrow> string list" where
  "OPENOCD_OPTS E Iotlab = [static_path E ''iot-lab-cn.cfg'']"
| "OPENOCD_OPTS E Iotlabm3 = [static_path E ''iot-lab-cn-m3.cfg'']"

fun FEATURES :: "cn_kind \<Rightarrow> string list" where
  "FEATURES Iotlab = [''leds'', ''open_node_power'', ''open_node_gpio'', ''open_node_i2c'', ''radio'', ''consumption'']"
| "FEATURES Iotlabm3 = [''leds'', ''radio'']"

definition ControlNodeIotlab_init ::
  "env \<Rightarrow> cn_kind \<Rightarrow> string \<Rightarrow> profile \<Rightarrow> ('s, cn_iotlab) act" where
  "ControlNodeIotlab_init E kind node_id dflt =
     bindE (OpenOCD_init E OPENOCD_RESET ''/opt/openocd-dev/bin/openocd'' (static_path E ''iot-lab.cfg'')
              (OPENOCD_OPTS E kind)) (\<lambda>oo.
       retE \<lparr>ci_kind = kind, ci_node_id = node_id, ci_default_profile = dflt, ci_openocd = oo,
             ci_serial = ControlNodeSerial_init CN_TTY, ci_open_node_state = ''stop'',
             ci_profile = dflt\<rparr>)"

text \<open>\<open>self.protocol.sender\<close>\<close>

definition ci_send :: "env \<Rightarrow> string list \<Rightarrow> (cn_iotlab, string list option) act" where
  "ci_send E cmd = zoomE ci_serial ci_serial_update (send_command E cmd)"

definition wait_control_node_ready :: "env \<Rightarrow> ('s, unit) act" where
  "wait_control_node_ready E = py_sleep E 2000"

definition ci_reset :: "env \<Rightarrow> (cn_iotlab, int) act" where
  "ci_reset E =
     bindE (zoomE ci_openocd ci_openocd_update (openocd_reset E)) (\<lambda>ret.
       thenE (wait_control_node_ready E) (retE ret))"

text \<open>\<open>flash\<close>: the arguments \<open>binary\<close> and \<open>offset\<close> are not looked at\<close>

definition ci_flash :: "env \<Rightarrow> string option \<Rightarrow> bool \<Rightarrow> int \<Rightarrow> (cn_iotlab, int) act" where
  "ci_flash E firmware_path binary offset =
     bindE (zoomE ci_openocd ci_openocd_update
              (openocd_flash E (or_default firmware_path (static_path E ''control_node.elf'')) False 0)) (\<lambda>ret.
       thenE (wait_control_node_ready E) (retE ret))"

definition ci_setup :: "env \<Rightarrow> (cn_iotlab, int) act" where
  "ci_setup E = ci_flash E None False 0"

text \<open>\<open>power or self.profile.power\<close>\<close>

definition power_or_profile :: "string option \<Rightarrow> cn_iotlab \<Rightarrow> pyval" where
  "power_or_profile pwr s = (case pwr of Some (c # cs) \<Rightarrow> PStr (c # cs) | _ \<Rightarrow> p_power (ci_profile s))"

text \<open>\<open>open_start\<close> and \<open>open_stop\<close> of the two classes\<close>

definition iotlab_open :: "env \<Rightarrow> string \<Rightarrow> string option \<Rightarrow> (cn_iotlab, int) act" where
  "iotlab_open E command pwr =
     bindE (getE (power_or_profile pwr)) (\<lambda>p.
     bindE (start_stop (ci_send E) command p) (\<lambda>ret.
       thenE (if ret = 0 then putE (ci_open_node_state_update (\<lambda>_. command)) else retE ()) (retE ret)))"

definition ci_open_start :: "env \<Rightarrow> string option \<Rightarrow> (cn_iotlab, int) act" where
  "ci_open_start E pwr = bindE (getE ci_kind) (\<lambda>k.
     case k of Iotlab \<Rightarrow> iotlab_open E ''start'' pwr | Iotlabm3 \<Rightarrow> retE 0)"

definition ci_open_stop :: "env \<Rightarrow> string option \<Rightarrow> (cn_iotlab, int) act" where
  "ci_open_stop E pwr = bindE (getE ci_kind) (\<lambda>k.
     case k of Iotlab \<Rightarrow> iotlab_open E ''stop'' pwr | Iotlabm3 \<Rightarrow> retE 0)"

text \<open>\<open>configure_profile\<close> of the two classes; the profile is remembered before anything is sent\<close>

definition ci_configure_profile :: "env \<Rightarrow> profile option \<Rightarrow> (cn_iotlab, int) act" where
  "ci_configure_profile E prof =
     thenE (putE (\<lambda>s. s\<lparr>ci_profile := (case prof of None \<Rightarrow> ci_default_profile s | Some p \<Rightarrow> p)\<rparr>))
     (bindE (getE id) (\<lambda>s.
        case ci_kind s of
          Iotlab \<Rightarrow>
            sum_rets [start_stop (ci_send E) (ci_open_node_state s) (p_power (ci_profile s)),
                      config_consumption (ci_send E) (p_consumption (ci_profile s)),
                      config_radio (ci_send E) (p_radio (ci_profile s))]
        | Iotlabm3 \<Rightarrow> sum_rets [config_radio (ci_send E) (p_radio (ci_profile s))]))"

definition ci_start :: "env \<Rightarrow> int \<Rightarrow> (string \<times> string) list \<Rightarrow> (cn_iotlab, int) act" where
  "ci_start E exp_id exp_files =
     sum_rets
       [ci_reset E,
        bindE (getE ci_node_id) (\<lambda>node_id.
          case oml_xml_config node_id exp_id exp_files of
            Inl e \<Rightarrow> raiseE e
          | Inr oml_cfg \<Rightarrow> zoomE ci_serial ci_serial_update (cn_serial_start E oml_cfg)),
        ci_open_start E (Some ''dc'')]"

definition ci_stop :: "env \<Rightarrow> (cn_iotlab, int) act" where
  "ci_stop E =
     sum_rets [ci_open_stop E (Some ''dc''), zoomE ci_serial ci_serial_update (cn_serial_stop E), ci_reset E]"

definition ci_start_experiment :: "env \<Rightarrow> profile option \<Rightarrow> (cn_iotlab, int) act" where
  "ci_start_experiment E prof =
     sum_rets [green_led_blink (ci_send E), set_time (ci_send E),
               bindE (getE ci_node_id) (set_node_id (ci_send E)), ci_configure_profile E prof]"

definition ci_stop_experiment :: "env \<Rightarrow> (cn_iotlab, int) act" where
  "ci_stop_experiment E =
     sum_rets [ci_configure_profile E None, ci_open_start E (Some ''dc''), green_led_on (ci_send E)]"

text \<open>\<open>autotest_setup\<close>: the return value of the serial start is dropped\<close>

definition ci_autotest_setup :: "env \<Rightarrow> (cn_iotlab, int) act" where
  "ci_autotest_setup E =
     sum_rets
       [ci_reset E,
        ignoreE (zoomE ci_serial ci_serial_update
          (thenE (putE (cs_measures_debug_update (\<lambda>_. True))) (cn_serial_start E None))),
        set_time (ci_send E)]"

definition ci_autotest_teardown :: "env \<Rightarrow> bool \<Rightarrow> (cn_iotlab, int) act" where
  "ci_autotest_teardown E stop_on =
     sum_rets
       [if stop_on then ci_open_stop E (Some ''dc'') else retE 0,
        ignoreE (zoomE ci_serial ci_serial_update (cn_serial_stop E))]"

definition ci_status :: "env \<Rightarrow> (cn_iotlab, int) act" where
  "ci_status E = bindE (getE ci_kind) (\<lambda>k.
     case k of Iotlab \<Rightarrow> ftdi_check E ''4232'' None | Iotlabm3 \<Rightarrow> ftdi_check E ''2232'' None)"

section \<open>The Raspberry Pi control node\<close>

record cn_rpi3 =
  cp_node_id :: string
  cp_default_profile :: profile
  cp_profile :: profile
  cp_open_node_state :: string
  cp_mjpg_streamer :: ext_process

definition CAMERA_CONFIG :: string where
  "CAMERA_CONFIG = ''/var/local/config/camera''"

definition ControlNodeRpi3_init :: "env \<Rightarrow> string \<Rightarrow> profile \<Rightarrow> ('s, cn_rpi3) act" where
  "ControlNodeRpi3_init E node_id dflt =
     bindE (MjpgStreamer_init E 40000) (\<lambda>mjpg.
       retE \<lparr>cp_node_id = node_id, cp_default_profile = dflt, cp_profile = dflt,
             cp_open_node_state = ''stop'', cp_mjpg_streamer = mjpg\<rparr>)"

text \<open>\<open>YKUSHCMD\<close> with the parameters of \<open>_ykush_params\<close>\<close>

definition ykush_cmd :: "string \<Rightarrow> string \<Rightarrow> string \<Rightarrow> string" where
  "ykush_cmd model cmd port = ''sudo ykushcmd '' @ model @ '' '' @ cmd @ '' '' @ port"

definition rpi3_open :: "env \<Rightarrow> string \<Rightarrow> string \<Rightarrow> (cn_rpi3, int) act" where
  "rpi3_open E flag state =
     bindE (run_args E (shlex_split (ykush_cmd ''ykushxs'' flag []))) (\<lambda>ret_val.
       thenE (if ret_val = 0 then putE (cp_open_node_state_update (\<lambda>_. state)) else retE ()) (retE ret_val))"

definition cp_open_start :: "env \<Rightarrow> (cn_rpi3, int) act" where
  "cp_open_start E = rpi3_open E ''-u'' ''start''"

definition cp_open_stop :: "env \<Rightarrow> (cn_rpi3, int) act" where
  "cp_open_stop E = rpi3_open E ''-d'' ''stop''"

definition cp_configure_profile :: "profile option \<Rightarrow> (cn_rpi3, int) act" where
  "cp_configure_profile prof =
     thenE (putE (\<lambda>s. s\<lparr>cp_profile := (case prof of None \<Rightarrow> cp_default_profile s | Some p \<Rightarrow> p)\<rparr>)) (retE 0)"

definition with_camera :: "env \<Rightarrow> (ext_process, int) act \<Rightarrow> (cn_rpi3, int) act" where
  "with_camera E m =
     bindE (askE (\<lambda>w. e_isfile E w CAMERA_CONFIG)) (\<lambda>camera.
       if camera then zoomE cp_mjpg_streamer cp_mjpg_streamer_update m else retE 0)"

definition cp_start_experiment :: "env \<Rightarrow> profile option \<Rightarrow> (cn_rpi3, int) act" where
  "cp_start_experiment E prof = sum_rets [cp_configure_profile prof, with_camera E (xp_start E)]"

definition cp_stop_experiment :: "env \<Rightarrow> (cn_rpi3, int) act" where
  "cp_stop_experiment E =
     sum_rets [cp_configure_profile None, cp_open_start E, with_camera E (xp_stop E)]"

definition cp_start :: "env \<Rightarrow> int \<Rightarrow> (string \<times> string) list \<Rightarrow> (cn_rpi3, int) act" where
  "cp_start E exp_id exp_files = sum_rets [cp_open_start E]"

definition cp_stop :: "env \<Rightarrow> (cn_rpi3, int) act" where
  "cp_stop E = sum_rets [cp_open_stop E]"

definition cp_setup :: "(cn_rpi3, int) act" where
  [simp]: "cp_setup = retE 0"

definition cp_flash :: "string option \<Rightarrow> bool \<Rightarrow> int \<Rightarrow> (cn_rpi3, int) act" where
  [simp]: "cp_flash fw binary offset = retE 0"

definition cp_autotest_setup :: "(cn_rpi3, int) act" where
  [simp]: "cp_autotest_setup = retE 0"

definition cp_autotest_teardown :: "bool \<Rightarrow> (cn_rpi3, int) act" where
  [simp]: "cp_autotest_teardown stop_on = retE 0"

definition cp_status :: "(cn_rpi3, int) act" where
  [simp]: "cp_status = retE 0"

section \<open>No control node\<close>

record cn_no =
  cno_node_id :: string
  cno_default_profile :: profile
  cno_profile :: profile

definition ControlNodeNo_init :: "string \<Rightarrow> profile \<Rightarrow> cn_no" where
  "ControlNodeNo_init node_id dflt =
     \<lparr>cno_node_id = node_id, cno_default_profile = dflt, cno_profile = dflt\<rparr>"

definition cno_configure_profile :: "profile option \<Rightarrow> (cn_no, int) act" where
  "cno_configure_profile prof =
     thenE (putE (\<lambda>s. s\<lparr>cno_profile := (case prof of None \<Rightarrow> cno_default_profile s | Some p \<Rightarrow> p)\<rparr>)) (retE 0)"

definition cno_start :: "int \<Rightarrow> (string \<times> string) list \<Rightarrow> (cn_no, int) act" where
  [simp]: "cno_start exp_id exp_files = retE 0"

definition cno_stop :: "(cn_no, int) act" where
  [simp]: "cno_stop = retE 0"

definition cno_setup :: "(cn_no, int) act" where
  [simp]: "cno_setup = retE 0"

definition cno_flash :: "string option \<Rightarrow> bool \<Rightarrow> int \<Rightarrow> (cn_no, int) act" where
  [simp]: "cno_flash fw binary offset = retE 0"

definition cno_start_experiment :: "profile option \<Rightarrow> (cn_no, int) act" where
  "cno_start_experiment prof = sum_rets [cno_configure_profile prof]"

definition cno_stop_experiment :: "(cn_no, int) act" where
  "cno_stop_experiment = sum_rets [cno_configure_profile None]"

definition cno_autotest_setup :: "(cn_no, int) act" where
  [simp]: "cno_autotest_setup = retE 0"

definition cno_autotest_teardown :: "bool \<Rightarrow> (cn_no, int) act" where
  [simp]: "cno_autotest_teardown stop_on = retE 0"

definition cno_status :: "(cn_no, int) act" where
  [simp]: "cno_status = retE 0"

section \<open>Any control node\<close>

datatype control_node = CnIotlab cn_iotlab | CnRpi3 cn_rpi3 | CnNo cn_no

definition cn_dispatch ::
  "(cn_iotlab, 'a) act \<Rightarrow> (cn_rpi3, 'a) act \<Rightarrow> (cn_no, 'a) act \<Rightarrow> (control_node, 'a) act" where
  "cn_dispatch a b c = (\<lambda>s w. case s of
      CnIotlab x \<Rightarrow> liftE CnIotlab a x w
    | CnRpi3 x \<Rightarrow> liftE CnRpi3 b x w
    | CnNo x \<Rightarrow> liftE CnNo c x w)"

fun cn_type :: "control_node \<Rightarrow> string" where
  "cn_type (CnIotlab s) = (case ci_kind s of Iotlab \<Rightarrow> ''iotlab'' | Iotlabm3 \<Rightarrow> ''iotlabm3'')"
| "cn_type (CnRpi3 s) = ''rpi3''"
| "cn_type (CnNo s) = ''no''"

fun cn_node_id :: "control_node \<Rightarrow> string" where
  "cn_node_id (CnIotlab s) = ci_node_id s"
| "cn_node_id (CnRpi3 s) = cp_node_id s"
| "cn_node_id (CnNo s) = cno_node_id s"

text \<open>Only the M3 control nodes have \<open>ELF_TARGET\<close>.\<close>

fun cn_ELF_TARGET :: "control_node \<Rightarrow> (string \<times> string) option" where
  "cn_ELF_TARGET (CnIotlab s) = Some (''ELFCLASS32'', ''EM_ARM'')"
| "cn_ELF_TARGET _ = None"

definition cn_start :: "env \<Rightarrow> int \<Rightarrow> (string \<times> string) list \<Rightarrow> (control_node, int) act" where
  "cn_start E exp_id exp_files =
     cn_dispatch (ci_start E exp_id exp_files) (cp_start E exp_id exp_files) (cno_start exp_id exp_files)"

definition cn_stop :: "env \<Rightarrow> (control_node, int) act" where
  "cn_stop E = cn_dispatch (ci_stop E) (cp_stop E) cno_stop"

definition cn_start_experiment :: "env \<Rightarrow> profile option \<Rightarrow> (control_node, int) act" where
  "cn_start_experiment E prof =
     cn_dispatch (ci_start_experiment E prof) (cp_start_experiment E prof) (cno_start_experiment prof)"

definition cn_stop_experiment :: "env \<Rightarrow> (control_node, int) act" where
  "cn_stop_experiment E =
     cn_dispatch (ci_stop_experiment E) (cp_stop_experiment E) cno_stop_experiment"

definition cn_configure_profile :: "env \<Rightarrow> profile option \<Rightarrow> (control_node, int) act" where
  "cn_configure_profile E prof =
     cn_dispatch (ci_configure_profile E prof) (cp_configure_profile prof) (cno_configure_profile prof)"

definition cn_flash :: "env \<Rightarrow> string option \<Rightarrow> bool \<Rightarrow> int \<Rightarrow> (control_node, int) act" where
  "cn_flash E fw binary offset = cn_dispatch (ci_flash E fw binary offset) (cp_flash fw binary offset) (cno_flash fw binary offset)"

definition cn_open_start :: "env \<Rightarrow> string option \<Rightarrow> (control_node, int) act" where
  "cn_open_start E pwr = cn_dispatch (ci_open_start E pwr) (cp_open_start E) (raiseE AttributeErr)"

definition cn_open_stop :: "env \<Rightarrow> string option \<Rightarrow> (control_node, int) act" where
  "cn_open_stop E pwr = cn_dispatch (ci_open_stop E pwr) (cp_open_stop E) (raiseE AttributeErr)"

definition cn_reset :: "env \<Rightarrow> (control_node, int) act" where
  "cn_reset E = cn_dispatch (ci_reset E) (raiseE AttributeErr) (raiseE AttributeErr)"

definition cn_status :: "env \<Rightarrow> (control_node, int) act" where
  "cn_status E = cn_dispatch (ci_status E) cp_status cno_status"

definition cn_autotest_setup :: "env \<Rightarrow> (control_node, int) act" where
  "cn_autotest_setup E = cn_dispatch (ci_autotest_setup E) cp_autotest_setup cno_autotest_setup"

definition cn_autotest_teardown :: "env \<Rightarrow> bool \<Rightarrow> (control_node, int) act" where
  "cn_autotest_teardown E stop_on = cn_dispatch (ci_autotest_teardown E stop_on) (cp_autotest_teardown stop_on) (cno_autotest_teardown stop_on)"

section \<open>Lemmas: dispatch and sender\<close>

lemma wp_cn_dispatch [wp_simps]:
  "wp (cn_dispatch a b c) Q R =
     (\<lambda>s w. case s of
        CnIotlab x \<Rightarrow> wp a (\<lambda>r x'. Q r (CnIotlab x')) (\<lambda>e x'. R e (CnIotlab x')) x w
      | CnRpi3 x \<Rightarrow> wp b (\<lambda>r x'. Q r (CnRpi3 x')) (\<lambda>e x'. R e (CnRpi3 x')) x w
      | CnNo x \<Rightarrow> wp c (\<lambda>r x'. Q r (CnNo x')) (\<lambda>e x'. R e (CnNo x')) x w)"
  by (auto simp: fun_eq_iff wp_def cn_dispatch_def liftE_def split: control_node.split prod.splits sum.splits)

lemma wp_case_kind [wp_simps]:
  "wp (case k of Iotlab \<Rightarrow> m | Iotlabm3 \<Rightarrow> n) Q R = (case k of Iotlab \<Rightarrow> wp m Q R | Iotlabm3 \<Rightarrow> wp n Q R)"
  by (cases k) simp_all

lemma wp_case_sum [wp_simps]:
  "wp (case x of Inl a \<Rightarrow> f a | Inr b \<Rightarrow> g b) Q R = (case x of Inl a \<Rightarrow> wp (f a) Q R | Inr b \<Rightarrow> wp (g b) Q R)"
  by (cases x) simp_all

definition ci_frame :: "cn_iotlab \<Rightarrow> cn_iotlab \<Rightarrow> bool" where
  "ci_frame s s' \<longleftrightarrow> (\<exists>c. s' = s\<lparr>ci_serial := c\<rparr>)"

lemma ci_send_logged:
  "wp (ci_send E cmd) (\<lambda>ans s' w'. cn_log w' = cn_log w @ [(cmd, ans)] \<and> ci_frame s s') (\<lambda>_ _ _. False) s w"
  unfolding ci_send_def wp_zoomE
  by (rule wp_conseq [OF cs.send_logged]) (auto simp: ci_frame_def)

lemma ci_frame_refl: "ci_frame s s"
  unfolding ci_frame_def by (rule exI [of _ "ci_serial s"]) simp

interpretation ci: cn_sender "ci_send E" ci_frame for E
  by unfold_locales (rule ci_send_logged, rule ci_frame_refl)

lemma silent_reader_runs [silent_rules]: "silent (reader_runs E obs)"
  by (simp add: silent_def keeps_def wp_simps)

lemma silent_cn_serial_start [silent_rules]: "silent (cn_serial_start E oml)"
  by (auto simp: silent_def keeps_def cn_serial_start_def cn_interface_args_def oml_config_file_def wp_simps
           split: option.split list.split popen_outcome.split)

lemma silent_cn_serial_stop [silent_rules]: "silent (cn_serial_stop E)"
  by (auto simp: silent_def keeps_def cn_serial_stop_def process_stop_def join_reader_def wp_simps
           split: option.split exc.split)

lemma silent_ci_reset [silent_rules]: "silent (ci_reset E)"
  unfolding ci_reset_def wait_control_node_ready_def by (intro silent_rules)

lemma silent_ci_flash [silent_rules]: "silent (ci_flash E fw binary offset)"
  unfolding ci_flash_def wait_control_node_ready_def by (intro silent_rules)

lemma silent_ci_status [silent_rules]: "silent (ci_status E)"
  unfolding ci_status_def by (intro silent_rules) (auto split: cn_kind.split intro: silent_rules)

section \<open>The power state is the last acknowledged power command\<close>

definition acked :: "string list \<times> string list option \<Rightarrow> bool" where
  "acked ca = (snd ca = Some [hd (fst ca), ''ACK''])"

definition power_cmd :: "string list \<Rightarrow> bool" where
  "power_cmd cmd \<longleftrightarrow> hd cmd = ''start'' \<or> hd cmd = ''stop''"

fun power_step :: "string \<Rightarrow> string list \<times> string list option \<Rightarrow> string" where
  "power_step st (cmd, ans) = (if power_cmd cmd \<and> acked (cmd, ans) then hd cmd else st)"

definition last_power :: "(string list \<times> string list option) list \<Rightarrow> string" where
  "last_power sent = foldl power_step ''stop'' sent"

definition power_inv :: "cn_iotlab \<Rightarrow> world \<Rightarrow> bool" where
  "power_inv s w \<longleftrightarrow> ci_open_node_state s = last_power (cn_log w)"

lemma last_power_snoc [simp]: "last_power (sent @ [ca]) = power_step (last_power sent) ca"
  by (simp add: last_power_def)

lemma power_inv_silent:
  assumes "silent m"
    and "\<And>s w. wp m (\<lambda>_ s' _. ci_open_node_state s' = ci_open_node_state s)
                    (\<lambda>_ s' _. ci_open_node_state s' = ci_open_node_state s) s w"
  shows "keeps power_inv m"
proof (rule keepsI)
  fix s w assume "power_inv s w"
  then show "wp m (\<lambda>_. power_inv) (\<lambda>_. power_inv) s w"
    using wp_conj [OF wp_silent [OF assms(1)] assms(2)]
    by - (rule wp_conseq, assumption, auto simp: power_inv_def)
qed

lemma wp_True [simp]: "wp m (\<lambda>_ _ _. True) (\<lambda>_ _ _. True) s w"
  by (auto simp: wp_def split: prod.splits sum.splits)

lemma power_inv_serial: "silent m \<Longrightarrow> keeps power_inv (zoomE ci_serial ci_serial_update m)"
  by (rule power_inv_silent) (auto intro: silent_rules simp: wp_zoomE)

lemma power_inv_reset: "keeps power_inv (ci_reset E)"
  by (rule power_inv_silent) (auto intro: silent_rules simp: wp_simps ci_reset_def wait_control_node_ready_def)

lemma power_inv_flash: "keeps power_inv (ci_flash E fw binary offset)"
  by (rule power_inv_silent) (auto intro: silent_rules simp: wp_simps ci_flash_def wait_control_node_ready_def)

lemma power_inv_frame:
  "power_inv s w \<Longrightarrow> ci_frame s s' \<Longrightarrow> cn_log w' = cn_log w @ [(cmd, ans)] \<Longrightarrow>
   \<not> power_cmd cmd \<or> hd cmd = last_power (cn_log w) \<Longrightarrow> power_inv s' w'"
  by (auto simp: power_inv_def ci_frame_def)

lemma power_inv_other:
  "\<not> power_cmd cmd \<Longrightarrow> power_inv s w \<Longrightarrow> cn_log w' = cn_log w @ [(cmd, ans)] \<Longrightarrow> ci_frame s s' \<Longrightarrow> power_inv s' w'"
  using power_inv_frame [of s w s' w' cmd ans] by simp

lemma power_inv_send_cmd: "\<not> power_cmd cmd \<Longrightarrow> keeps power_inv (send_cmd (ci_send E) cmd)"
  by (rule keepsI, rule ci.wp_send_cmd) (rule power_inv_other)

lemma radio_cmd_not_power: "\<not> power_cmd (radio_cmd r)"
  by (cases r) (simp_all add: radio_cmd_def power_cmd_def)

lemma consumption_cmd_not_power: "consumption_cmd c = Inr cmd \<Longrightarrow> \<not> power_cmd cmd"
proof -
  assume "consumption_cmd c = Inr cmd"
  then obtain args where "cmd = ''config_consumption_measure'' # args"
    unfolding consumption_cmd_def by (cases c) (auto split: if_splits sum.splits)
  then show ?thesis by (simp add: power_cmd_def)
qed

lemma power_inv_config_radio: "keeps power_inv (config_radio (ci_send E) r)"
  by (rule keepsI, rule ci.wp_config_radio) (rule power_inv_other [OF radio_cmd_not_power])

lemma power_inv_config_consumption: "keeps power_inv (config_consumption (ci_send E) c)"
  by (rule keepsI, rule ci.wp_config_consumption) (rule power_inv_other [OF consumption_cmd_not_power])

lemma set_node_id_not_power: "\<not> power_cmd [''set_node_id'', archi, num]"
  by (simp add: power_cmd_def)

lemma power_inv_set_node_id: "keeps power_inv (set_node_id (ci_send E) node_id)"
  by (rule keepsI, rule ci.wp_set_node_id) (rule power_inv_other [OF set_node_id_not_power])

lemma power_inv_iotlab_open:
  "command \<in> {''start'', ''stop''} \<Longrightarrow> keeps power_inv (iotlab_open E command pwr)"
  by (rule keepsI, unfold iotlab_open_def wp_simps, rule ci.wp_start_stop)
     (auto simp: power_inv_def ci_frame_def cmd_ret_def acked_def power_cmd_def)

lemma power_inv_kind [keeps_rules]:
  "keeps I m \<Longrightarrow> keeps I n \<Longrightarrow> keeps I (case k of Iotlab \<Rightarrow> m | Iotlabm3 \<Rightarrow> n)"
  by (cases k) simp_all

lemma power_inv_open_start: "keeps power_inv (ci_open_start E pwr)"
  unfolding ci_open_start_def by (intro keeps_rules power_inv_iotlab_open) simp

lemma power_inv_open_stop: "keeps power_inv (ci_open_stop E pwr)"
  unfolding ci_open_stop_def by (intro keeps_rules power_inv_iotlab_open) simp

lemma power_inv_resend:
  "power_inv s w \<Longrightarrow> wp (start_stop (ci_send E) (ci_open_node_state s) p) (\<lambda>_. power_inv) (\<lambda>_. power_inv) s w"
  by (rule ci.wp_start_stop) (auto simp: power_inv_def ci_frame_def)

lemma power_inv_configure_profile: "keeps power_inv (ci_configure_profile E prof)"
proof (rule keepsI)
  fix s w assume "power_inv s w"
  then have inv: "power_inv (s\<lparr>ci_profile := q\<rparr>) w" for q by (simp add: power_inv_def)
  have rest: "keeps power_inv (sum_rets [config_consumption (ci_send E) c, config_radio (ci_send E) r])" for c r
    by (intro keeps_rules power_inv_config_consumption power_inv_config_radio)
  have radio: "keeps power_inv (sum_rets [config_radio (ci_send E) r])" for r
    by (intro keeps_rules power_inv_config_radio)
  define q where "q = (case prof of None \<Rightarrow> ci_default_profile s | Some p \<Rightarrow> p)"
  have again: "wp (start_stop (ci_send E) (ci_open_node_state s) p) (\<lambda>_. power_inv) (\<lambda>_. power_inv)
      (s\<lparr>ci_profile := q\<rparr>) w" for p
    using power_inv_resend [OF inv, of E q p] by simp
  have power: "wp (start_stop (ci_send E) (ci_open_node_state s) p)
      (\<lambda>r. wp (sum_rets [config_consumption (ci_send E) c, config_radio (ci_send E) d]) (\<lambda>t. power_inv) (\<lambda>_. power_inv))
      (\<lambda>_. power_inv) (s\<lparr>ci_profile := q\<rparr>) w" for p c d
    by (rule wp_conseq [OF again]) (simp_all add: keepsD [OF rest])
  show "wp (ci_configure_profile E prof) (\<lambda>_. power_inv) (\<lambda>_. power_inv) s w"
    unfolding ci_configure_profile_def wp_thenE wp_putE wp_bindE wp_getE wp_case_kind
      wp_sum_rets_Cons [of "start_stop _ _ _"] q_def [symmetric]
    using keepsD [OF radio inv] power by (simp split: cn_kind.split)
qed

lemma power_inv_led_time:
  "keeps power_inv (green_led_blink (ci_send E))" "keeps power_inv (green_led_on (ci_send E))"
  "keeps power_inv (set_time (ci_send E))"
  unfolding green_led_blink_def green_led_on_def set_time_def
  by (rule power_inv_send_cmd, simp add: power_cmd_def)+

lemmas power_inv_rules = power_inv_reset power_inv_flash power_inv_open_start power_inv_open_stop
  power_inv_configure_profile power_inv_led_time power_inv_set_node_id

text \<open>The operations of the M3 control node, as the gateway calls them.\<close>

datatype ci_op =
    OpStart int "(string \<times> string) list"
  | OpStop
  | OpStartExperiment "profile option"
  | OpStopExperiment
  | OpConfigureProfile "profile option"
  | OpOpenStart "string option"
  | OpOpenStop "string option"
  | OpFlash "string option" bool int
  | OpReset
  | OpAutotestSetup
  | OpAutotestTeardown bool
  | OpStatus

fun ci_run :: "env \<Rightarrow> ci_op \<Rightarrow> (cn_iotlab, int) act" where
  "ci_run E (OpStart exp_id files) = ci_start E exp_id files"
| "ci_run E OpStop = ci_stop E"
| "ci_run E (OpStartExperiment p) = ci_start_experiment E p"
| "ci_run E OpStopExperiment = ci_stop_experiment E"
| "ci_run E (OpConfigureProfile p) = ci_configure_profile E p"
| "ci_run E (OpOpenStart pwr) = ci_open_start E pwr"
| "ci_run E (OpOpenStop pwr) = ci_open_stop E pwr"
| "ci_run E (OpFlash fw b off) = ci_flash E fw b off"
| "ci_run E OpReset = ci_reset E"
| "ci_run E OpAutotestSetup = ci_autotest_setup E"
| "ci_run E (OpAutotestTeardown stop_on) = ci_autotest_teardown E stop_on"
| "ci_run E OpStatus = ci_status E"

text \<open>A sequence of calls; a call that raises does not keep the next one from being made.\<close>

fun ci_runs :: "env \<Rightarrow> ci_op list \<Rightarrow> cn_iotlab \<Rightarrow> world \<Rightarrow> cn_iotlab \<times> world" where
  "ci_runs E [] s w = (s, w)"
| "ci_runs E (op # ops) s w = (case ci_run E op s w of (_, s', w') \<Rightarrow> ci_runs E ops s' w')"

lemma power_inv_status: "keeps power_inv (ci_status E)"
  by (rule power_inv_silent [OF silent_ci_status])
     (auto simp: ci_status_def ftdi_check_def wp_simps Let_def split: cn_kind.split output_outcome.split)

lemma power_inv_run: "keeps power_inv (ci_run E op)"
proof (cases op)
  case (OpStart exp_id files)
  then show ?thesis
    by (simp add: ci_start_def) (intro keeps_rules power_inv_rules power_inv_serial silent_rules)
next
  case OpStop
  then show ?thesis
    by (simp add: ci_stop_def) (intro keeps_rules power_inv_rules power_inv_serial silent_rules)
next
  case (OpStartExperiment p)
  then show ?thesis
    by (simp add: ci_start_experiment_def) (intro keeps_rules power_inv_rules)
next
  case OpStopExperiment
  then show ?thesis
    by (simp add: ci_stop_experiment_def) (intro keeps_rules power_inv_rules)
next
  case OpAutotestSetup
  then show ?thesis
    by (simp add: ci_autotest_setup_def) (intro keeps_rules power_inv_rules power_inv_serial silent_rules)
next
  case (OpAutotestTeardown stop_on)
  then show ?thesis
    by (simp only: ci_run.simps ci_autotest_teardown_def) (intro keeps_rules power_inv_rules power_inv_serial silent_rules)
qed (simp_all add: power_inv_rules power_inv_status)

lemma power_inv_runs: "power_inv s w \<Longrightarrow> ci_runs E ops s w = (s', w') \<Longrightarrow> power_inv s' w'"
proof (induction ops arbitrary: s w)
  case (Cons op ops)
  obtain r s1 w1 where run: "ci_run E op s w = (r, s1, w1)" by (cases "ci_run E op s w")
  with Cons.prems have "power_inv s1 w1" by (blast intro: keeps_run [OF power_inv_run])
  with Cons run show ?case by simp
qed simp

section \<open>Return values count the commands that were not acknowledged\<close>

definition unacked :: "(string list \<times> string list option) list \<Rightarrow> nat" where
  "unacked sent = length (filter (\<lambda>ca. \<not> acked ca) sent)"

definition counts :: "('s, int) act \<Rightarrow> bool" where
  "counts m \<longleftrightarrow> (\<forall>s w. wp m (\<lambda>r _ w'. \<exists>ext. cn_log w' = cn_log w @ ext \<and> r = int (unacked ext)) (\<lambda>_ _ _. True) s w)"

lemma counts_ret: "counts (retE 0)"
  by (simp add: counts_def wp_simps unacked_def)

lemma counts_raise: "counts (raiseE e)"
  by (simp add: counts_def wp_simps)

lemma counts_get: "(\<And>a. counts (f a)) \<Longrightarrow> counts (bindE (getE g) f)"
  by (simp add: counts_def wp_simps)

lemma counts_put: "counts m \<Longrightarrow> counts (thenE (putE g) m)"
  by (simp add: counts_def wp_simps)

lemma counts_sum_Nil: "counts (sum_rets [])"
  by (simp add: counts_def wp_simps unacked_def)

lemma counts_sum_Cons: "counts m \<Longrightarrow> counts (sum_rets ms) \<Longrightarrow> counts (sum_rets (m # ms))"
proof -
  assume m: "counts m" and ms: "counts (sum_rets ms)"
  show ?thesis unfolding counts_def wp_sum_rets_Cons
  proof (intro allI)
    fix s w
    show "wp m (\<lambda>r. wp (sum_rets ms) (\<lambda>t _ w'. \<exists>ext. cn_log w' = cn_log w @ ext \<and> r + t = int (unacked ext))
        (\<lambda>_ _ _. True)) (\<lambda>_ _ _. True) s w"
    proof (rule wp_conseq [OF m [unfolded counts_def, rule_format]])
      fix r s1 w1 assume "\<exists>ext. cn_log w1 = cn_log w @ ext \<and> r = int (unacked ext)"
      then obtain ext where e: "cn_log w1 = cn_log w @ ext" "r = int (unacked ext)" by blast
      show "wp (sum_rets ms) (\<lambda>t _ w'. \<exists>ext. cn_log w' = cn_log w @ ext \<and> r + t = int (unacked ext)) (\<lambda>_ _ _. True) s1 w1"
      proof (rule wp_conseq [OF ms [unfolded counts_def, rule_format]])
        fix t s2 w2 assume "\<exists>ext. cn_log w2 = cn_log w1 @ ext \<and> t = int (unacked ext)"
        then obtain ext2 where "cn_log w2 = cn_log w1 @ ext2" "t = int (unacked ext2)" by blast
        with e show "\<exists>ext. cn_log w2 = cn_log w @ ext \<and> r + t = int (unacked ext)"
          by (intro exI [of _ "ext @ ext2"]) (simp add: unacked_def)
      qed simp
    qed simp
  qed
qed

lemma counts_kind: "counts m \<Longrightarrow> counts n \<Longrightarrow> counts (case k of Iotlab \<Rightarrow> m | Iotlabm3 \<Rightarrow> n)"
  by (cases k) simp_all

lemma cmd_ret_unacked: "cmd_ret cmd ans = int (unacked [(cmd, ans)])"
  by (simp add: cmd_ret_def unacked_def acked_def)

lemma unacked_Nil [simp]: "unacked [] = 0"
  by (simp add: unacked_def)

lemma counts_send_cmd: "counts (send_cmd (ci_send E) cmd)"
  unfolding counts_def by (intro allI ci.wp_send_cmd) (auto simp: cmd_ret_unacked)

lemma counts_start_stop: "counts (start_stop (ci_send E) command p)"
  unfolding counts_def by (intro allI ci.wp_start_stop) (auto simp: cmd_ret_unacked)

lemma counts_config_consumption: "counts (config_consumption (ci_send E) c)"
  unfolding counts_def by (intro allI ci.wp_config_consumption) (auto simp: cmd_ret_unacked)

lemma counts_config_radio: "counts (config_radio (ci_send E) r)"
  unfolding counts_def by (intro allI ci.wp_config_radio) (auto simp: cmd_ret_unacked)

lemma counts_set_node_id: "counts (set_node_id (ci_send E) node_id)"
  unfolding counts_def by (intro allI ci.wp_set_node_id) (auto simp: cmd_ret_unacked)

lemma counts_iotlab_open: "counts (iotlab_open E command pwr)"
  unfolding counts_def iotlab_open_def wp_simps by (intro allI ci.wp_start_stop) (auto simp: cmd_ret_unacked)

lemmas counts_rules = counts_ret counts_raise counts_get counts_put counts_sum_Nil counts_sum_Cons counts_kind
  counts_send_cmd counts_start_stop counts_config_consumption counts_config_radio counts_set_node_id
  counts_iotlab_open

lemma counts_configure_profile: "counts (ci_configure_profile E prof)"
  unfolding ci_configure_profile_def by (intro counts_rules)

lemma counts_open_start: "counts (ci_open_start E pwr)"
  unfolding ci_open_start_def by (intro counts_rules)

lemma counts_open_stop: "counts (ci_open_stop E pwr)"
  unfolding ci_open_stop_def by (intro counts_rules)

lemma counts_start_experiment: "counts (ci_start_experiment E prof)"
  unfolding ci_start_experiment_def green_led_blink_def set_time_def
  by (intro counts_rules counts_configure_profile)

lemma counts_stop_experiment: "counts (ci_stop_experiment E)"
  unfolding ci_stop_experiment_def green_led_on_def
  by (intro counts_rules counts_configure_profile counts_open_start)

section \<open>Properties\<close>

text \<open>Whatever is called on an M3 control node, in whatever order, and whatever the serial program
  answers, \<open>open_node_state\<close> is the last start or stop command that was acknowledged, and
  \<open>stop\<close> when there was none.\<close>

theorem control_node_power_mirror:
  assumes "ci_open_node_state s = ''stop''" and "cn_log w = []" and "ci_runs E ops s w = (s', w')"
  shows "ci_open_node_state s' = last_power (cn_log w')"
  using power_inv_runs [OF _ assms(3)] assms(1,2) by (simp add: power_inv_def last_power_def)

definition m3_control_node :: cn_iotlab where
  "m3_control_node = \<lparr>ci_kind = Iotlab, ci_node_id = ''m3_12'', ci_default_profile = default_profile,
     ci_openocd = m3_openocd, ci_serial = ControlNodeSerial_init CN_TTY, ci_open_node_state = ''stop'',
     ci_profile = default_profile\<rparr>"

theorem control_node_power_mirror_witness:
  "case ci_runs working_env [OpStart 5 [], OpOpenStop None, OpStartExperiment None, OpOpenStart None]
      m3_control_node world0 of
     (s', w') \<Rightarrow> ci_open_node_state s' = ''start'' \<and> last_power (cn_log w') = ''start''"
proof -
  let ?run = "ci_runs working_env [OpStart 5 [], OpOpenStop None, OpStartExperiment None, OpOpenStart None]
      m3_control_node world0"
  have run: "?run = (fst ?run, snd ?run)" by simp
  have "ci_open_node_state (fst ?run) = ''start''" by code_simp
  moreover have "ci_open_node_state (fst ?run) = last_power (cn_log (snd ?run))"
    by (rule control_node_power_mirror [OF _ _ run]) (simp_all add: m3_control_node_def world0_def)
  ultimately show ?thesis by (simp add: split_beta)
qed

text \<open>C16: starting, stopping and reconfiguring an experiment and switching the power return the number
  of commands that were not acknowledged during the call, so 0 means that every command that
  was sent got its acknowledgement.\<close>

theorem control_node_returns_unacked:
  assumes "op \<in> {OpStartExperiment p, OpStopExperiment, OpConfigureProfile p, OpOpenStart pwr, OpOpenStop pwr}"
    and "ci_run E op s w = (Inr r, s', w')"
  shows "\<exists>sent. cn_log w' = cn_log w @ sent \<and> r = int (length (filter (\<lambda>ca. \<not> acked ca) sent))"
proof -
  have "counts (ci_run E op)"
    using assms(1) by (auto simp: counts_start_experiment counts_stop_experiment counts_configure_profile
        counts_open_start counts_open_stop)
  then have "wp (ci_run E op) (\<lambda>r _ w'. \<exists>ext. cn_log w' = cn_log w @ ext \<and> r = int (unacked ext)) (\<lambda>_ _ _. True) s w"
    by (simp add: counts_def)
  from wp_Inr [OF this assms(2)] show ?thesis by (simp add: unacked_def)
qed

text \<open>A control node that was not started answers nothing.\<close>

theorem control_node_returns_unacked_witness:
  "\<exists>sent. cn_log (snd (snd (ci_run working_env OpStopExperiment m3_control_node world0))) = sent
     \<and> length (filter (\<lambda>ca. \<not> acked ca) sent) = 5"
proof -
  let ?run = "ci_run working_env OpStopExperiment m3_control_node world0"
  have "fst ?run = Inr 5" by code_simp
  then have run: "?run = (Inr 5, fst (snd ?run), snd (snd ?run))" by (simp add: prod_eq_iff)
  have w: "cn_log world0 = []" by (simp add: world0_def)
  show ?thesis
    using control_node_returns_unacked [OF _ run] unfolding w by (auto simp del: ci_run.simps)
qed



lemma ykush_args:
  "shlex_split (ykush_cmd ''ykushxs'' ''-u'' []) = Some [''sudo'', ''ykushcmd'', ''ykushxs'', ''-u'']"
  "shlex_split (ykush_cmd ''ykushxs'' ''-d'' []) = Some [''sudo'', ''ykushcmd'', ''ykushxs'', ''-d'']"
  by (simp_all add: ykush_cmd_def shlex_split_def sh_space_def)

text \<open>The Raspberry Pi control node switches the power of the open node with one call of the switch
  program; its power state changes exactly when the program returned 0.\<close>

theorem rpi3_power_exact:
  "cp_open_start E s w
     = (case call_result E [''sudo'', ''ykushcmd'', ''ykushxs'', ''-u''] w of
          (r, w') \<Rightarrow> (r, if r = Inr 0 then s\<lparr>cp_open_node_state := ''start''\<rparr> else s, w'))
   \<and> cp_open_stop E s w
     = (case call_result E [''sudo'', ''ykushcmd'', ''ykushxs'', ''-d''] w of
          (r, w') \<Rightarrow> (r, if r = Inr 0 then s\<lparr>cp_open_node_state := ''stop''\<rparr> else s, w'))"
  by (auto simp: cp_open_start_def cp_open_stop_def rpi3_open_def ykush_args bindE_def run_args_Some thenE_def
        putE_def retE_def split: prod.split sum.split)

end
