(* ===== verification/Boards.thy ===== *)
theory Boards
  imports Control_Nodes "HOL-Library.AList"
begin

text \<open>
  Model of the class attributes of \<^verbatim>\<open>gateway_code/open_nodes\<close>, of the registry of node classes
  (\<^verbatim>\<open>nodes.py\<close>), of the configuration files (\<^verbatim>\<open>config.py\<close>) and of the configuration of the board
  (\<^verbatim>\<open>board_config.py\<close>).  A class is a record of its attributes; a subclass is the record of its
  base class with the attributes it overrides, and an attribute that a class does not have is None.
  The methods of the classes are in \<open>Open_Nodes\<close>.
\<close>

section \<open>Classes of open nodes\<close>

text \<open>The class that implements the methods.\<close>

datatype board_kind = KOpenOCD | KEdbg | KLeonardo | KZigduino | KFirefly | KA8 | KRpi3 | KPycom | KLora | KRtlSdr

record board_class =
  b_kind :: board_kind
  b_TYPE :: string
  b_ELF_TARGET :: "(string \<times> string) option"
  b_TTY :: string
  b_BAUDRATE :: int
  b_FW_IDLE :: "string option"
  b_FW_AUTOTEST :: "string option"
  b_AUTOTEST_AVAILABLE :: "string list option"
  b_ALIM :: "string option"
  b_ROM_START_ADDR :: int
  b_OPENOCD_RESET :: string
  b_OPENOCD_PATH :: string
  b_OPENOCD_CFG_FILE :: string
  b_OPENOCD_OPTS :: "string list"
  b_JLINK_SERIAL :: bool
  b_DIRTY_SERIAL :: bool

text \<open>The abstract class: nothing is set.\<close>

definition OpenNodeBase :: board_class where
  "OpenNodeBase =
     \<lparr>b_kind = KOpenOCD, b_TYPE = [], b_ELF_TARGET = None, b_TTY = [], b_BAUDRATE = 0,
      b_FW_IDLE = None, b_FW_AUTOTEST = None, b_AUTOTEST_AVAILABLE = None, b_ALIM = None,
      b_ROM_START_ADDR = 0, b_OPENOCD_RESET = OPENOCD_RESET, b_OPENOCD_PATH = ''openocd'',
      b_OPENOCD_CFG_FILE = [], b_OPENOCD_OPTS = [], b_JLINK_SERIAL = False, b_DIRTY_SERIAL = False\<rparr>"

abbreviation ARM_TARGET :: "string \<times> string" where
  "ARM_TARGET \<equiv> (''ELFCLASS32'', ''EM_ARM'')"

abbreviation AVR_TARGET :: "string \<times> string" where
  "AVR_TARGET \<equiv> (''ELFCLASS32'', ''EM_AVR'')"

definition leds_autotests :: "string list" where
  "leds_autotests = [''echo'', ''get_time'', ''get_uid'', ''leds_on'', ''leds_off'', ''leds_blink'']"

definition NodeOpenOCDBase :: board_class where
  "NodeOpenOCDBase = OpenNodeBase
     \<lparr>b_kind := KOpenOCD, b_ELF_TARGET := Some ARM_TARGET, b_ROM_START_ADDR := 0,
      b_OPENOCD_PATH := ''/opt/openocd-dev/bin/openocd'',
      b_AUTOTEST_AVAILABLE := Some leds_autotests, b_ALIM := Some ''5V''\<rparr>"

definition NodeEdbgBase :: board_class where
  "NodeEdbgBase = OpenNodeBase
     \<lparr>b_kind := KEdbg, b_ELF_TARGET := Some ARM_TARGET, b_TTY := ''/dev/iotlab/ttyON_CMSIS_DAP'',
      b_BAUDRATE := 115200, b_AUTOTEST_AVAILABLE := Some leds_autotests, b_ALIM := Some ''5V''\<rparr>"

definition NodeJLinkBase :: board_class where
  "NodeJLinkBase = NodeOpenOCDBase
     \<lparr>b_OPENOCD_PATH := ''/opt/openocd-dev/bin/openocd'', b_TTY := ''/dev/iotlab/ttyON_JLINK'',
      b_BAUDRATE := 115200, b_JLINK_SERIAL := True, b_DIRTY_SERIAL := True\<rparr>"

definition NodeStLinkBase :: board_class where
  "NodeStLinkBase = NodeOpenOCDBase
     \<lparr>b_TTY := ''/dev/iotlab/ttyON_STLINK'', b_BAUDRATE := 115200, b_DIRTY_SERIAL := True\<rparr>"

text \<open>The two firmwares of a board, \<open>FW_IDLE\<close> and \<open>FW_AUTOTEST\<close>, are named after it.\<close>

definition firmwares :: "env \<Rightarrow> string \<Rightarrow> board_class \<Rightarrow> board_class" where
  "firmwares E name c =
     c\<lparr>b_FW_IDLE := Some (static_path E (name @ ''_idle.elf'')),
       b_FW_AUTOTEST := Some (static_path E (name @ ''_autotest.elf''))\<rparr>"

definition NodeA8 :: board_class where
  "NodeA8 = OpenNodeBase
     \<lparr>b_TYPE := ''a8'', b_kind := KA8, b_TTY := ''/dev/ttyON_A8'', b_BAUDRATE := 115200,
        b_ALIM := Some ''5V''\<rparr>"

definition NodeA8M3 :: "env \<Rightarrow> board_class" where
  "NodeA8M3 E = firmwares E ''a8-m3'' (NodeOpenOCDBase
     \<lparr>b_TYPE := ''a8_m3'', b_TTY := ''/dev/ttyA8_M3'', b_BAUDRATE := 500000,
        b_ROM_START_ADDR := 0x08000000, b_OPENOCD_CFG_FILE := static_path E ''iot-lab.cfg'',
        b_OPENOCD_OPTS := [static_path E ''iot-lab-a8-m3.cfg''], b_ALIM := Some ''3.3V'',
        b_AUTOTEST_AVAILABLE := Some [''echo'', ''get_time'', ''get_uid'', ''get_accelero'', ''get_gyro'', ''get_magneto'', ''test_gpio'', ''test_i2c'', ''radio_pkt'', ''radio_ping_pong'', ''test_pps_start'', ''test_pps_get'', ''test_pps_stop'', ''leds_on'', ''leds_off'', ''leds_blink'']\<rparr>)"

definition NodeArduinoZero :: "env \<Rightarrow> board_class" where
  "NodeArduinoZero E = firmwares E ''arduino-zero'' (NodeOpenOCDBase
     \<lparr>b_TYPE := ''arduino_zero'',
        b_OPENOCD_CFG_FILE := static_path E ''iot-lab-arduino-zero.cfg'',
        b_TTY := ''/dev/iotlab/ttyON_CMSIS_DAP'', b_BAUDRATE := 115200\<rparr>)"

definition NodeDwm1001 :: "env \<Rightarrow> board_class" where
  "NodeDwm1001 E = firmwares E ''dwm1001'' (NodeOpenOCDBase
     \<lparr>b_TYPE := ''dwm1001'', b_OPENOCD_CFG_FILE := static_path E ''iot-lab-nrf52xxxdk.cfg'',
        b_TTY := ''/dev/iotlab/ttyON_DWM1001'', b_BAUDRATE := 115200\<rparr>)"

definition NodeFirefly :: "env \<Rightarrow> board_class" where
  "NodeFirefly E = firmwares E ''firefly'' (OpenNodeBase
     \<lparr>b_TYPE := ''firefly'', b_kind := KFirefly, b_ELF_TARGET := Some ARM_TARGET,
        b_TTY := ''/dev/iotlab/ttyON_FIREFLY'', b_BAUDRATE := 115200, b_ALIM := Some ''5V'',
        b_AUTOTEST_AVAILABLE := Some leds_autotests\<rparr>)"

definition NodeFox :: "env \<Rightarrow> board_class" where
  "NodeFox E = firmwares E ''fox'' (NodeOpenOCDBase
     \<lparr>b_TYPE := ''fox'', b_TTY := ''/dev/iotlab/ttyON_FOX'', b_BAUDRATE := 500000,
        b_ROM_START_ADDR := 0x08000000, b_OPENOCD_CFG_FILE := static_path E ''iot-lab.cfg'',
        b_OPENOCD_OPTS := [static_path E ''iot-lab-fox.cfg''],
        b_AUTOTEST_AVAILABLE := Some [''echo'', ''get_time'', ''get_uid'', ''get_accelero'', ''get_gyro'', ''get_magneto'', ''radio_pkt'', ''radio_ping_pong'', ''leds_on'', ''leds_off'', ''leds_blink'']\<rparr>)"

definition NodeFrdmKw41z :: "env \<Rightarrow> board_class" where
  "NodeFrdmKw41z E = firmwares E ''frdm-kw41z'' (NodeJLinkBase
     \<lparr>b_TYPE := ''frdm_kw41z'', b_OPENOCD_CFG_FILE := static_path E ''iot-lab-frdm-kw41z.cfg'',
        b_DIRTY_SERIAL := False\<rparr>)"

definition NodeLeonardo :: "env \<Rightarrow> board_class" where
  "NodeLeonardo E = firmwares E ''leonardo'' (OpenNodeBase
     \<lparr>b_TYPE := ''leonardo'', b_kind := KLeonardo, b_ELF_TARGET := Some AVR_TARGET,
        b_TTY := ''/dev/iotlab/ttyON_LEONARDO'', b_BAUDRATE := 9600,
        b_AUTOTEST_AVAILABLE := Some [''echo'', ''get_time'', ''get_uid''],
        b_ALIM := Some ''5V''\<rparr>)"

definition NodeLoraGateway :: board_class where
  "NodeLoraGateway = OpenNodeBase
     \<lparr>b_TYPE := ''lora_gw'', b_kind := KLora\<rparr>"

definition NodeM3 :: "env \<Rightarrow> board_class" where
  "NodeM3 E = firmwares E ''m3'' (NodeOpenOCDBase
     \<lparr>b_TYPE := ''m3'', b_TTY := ''/dev/iotlab/ttyON_M3'', b_BAUDRATE := 500000,
        b_ROM_START_ADDR := 0x08000000, b_OPENOCD_CFG_FILE := static_path E ''iot-lab.cfg'',
        b_OPENOCD_OPTS := [static_path E ''iot-lab-m3.cfg''], b_ALIM := Some ''3.3V'',
        b_AUTOTEST_AVAILABLE := Some [''echo'', ''get_time'', ''get_uid'', ''get_pressure'', ''get_light'', ''test_flash'', ''get_accelero'', ''get_gyro'', ''get_magneto'', ''test_gpio'', ''test_i2c'', ''radio_pkt'', ''radio_ping_pong'', ''leds_consumption'', ''leds_on'', ''leds_off'', ''leds_blink'']\<rparr>)"

definition NodeMicrobit :: "env \<Rightarrow> board_class" where
  "NodeMicrobit E = firmwares E ''microbit'' (NodeOpenOCDBase
     \<lparr>b_TYPE := ''microbit'', b_TTY := ''/dev/iotlab/ttyON_CMSIS-DAP'', b_BAUDRATE := 115200,
        b_OPENOCD_RESET := MICROBIT_RESET,
        b_OPENOCD_CFG_FILE := static_path E ''iot-lab-microbit.cfg''\<rparr>)"

definition NodeNrf51Dk :: "env \<Rightarrow> board_class" where
  "NodeNrf51Dk E = firmwares E ''nrf51dk'' (NodeOpenOCDBase
     \<lparr>b_TYPE := ''nrf51dk'', b_OPENOCD_CFG_FILE := static_path E ''iot-lab-nrf51dk.cfg'',
        b_TTY := ''/dev/iotlab/ttyON_CMSIS-DAP'', b_BAUDRATE := 115200\<rparr>)"

definition NodeNrf52832Mdk :: "env \<Rightarrow> board_class" where
  "NodeNrf52832Mdk E = firmwares E ''nrf52832mdk'' (NodeOpenOCDBase
     \<lparr>b_TYPE := ''nrf52832mdk'',
        b_OPENOCD_CFG_FILE := static_path E ''iot-lab-nrf528xxmdk.cfg'',
        b_TTY := ''/dev/iotlab/ttyON_CMSIS-DAP'', b_BAUDRATE := 115200\<rparr>)"

definition NodeNrf52840Dk :: "env \<Rightarrow> board_class" where
  "NodeNrf52840Dk E = firmwares E ''nrf52840dk'' (NodeJLinkBase
     \<lparr>b_TYPE := ''nrf52840dk'', b_OPENOCD_CFG_FILE := static_path E ''iot-lab-nrf52xxxdk.cfg''\<rparr>)"

definition NodeNrf52840Mdk :: "env \<Rightarrow> board_class" where
  "NodeNrf52840Mdk E = firmwares E ''nrf52840mdk'' (NodeOpenOCDBase
     \<lparr>b_TYPE := ''nrf52840mdk'',
        b_OPENOCD_CFG_FILE := static_path E ''iot-lab-nrf528xxmdk.cfg'',
        b_TTY := ''/dev/iotlab/ttyON_CMSIS-DAP'', b_BAUDRATE := 115200\<rparr>)"

definition NodeNrf52Dk :: "env \<Rightarrow> board_class" where
  "NodeNrf52Dk E = firmwares E ''nrf52dk'' (NodeJLinkBase
     \<lparr>b_TYPE := ''nrf52dk'', b_OPENOCD_CFG_FILE := static_path E ''iot-lab-nrf52xxxdk.cfg''\<rparr>)"

definition NodeNucleof070RB :: "env \<Rightarrow> board_class" where
  "NodeNucleof070RB E = firmwares E ''nucleo-f070rb'' (NodeStLinkBase
     \<lparr>b_TYPE := ''nucleo_f070rb'', b_ROM_START_ADDR := 0x08000000,
        b_OPENOCD_CFG_FILE := static_path E ''iot-lab-nucleo-f070rb.cfg''\<rparr>)"

definition NodeNucleoWb55 :: "env \<Rightarrow> board_class" where
  "NodeNucleoWb55 E = firmwares E ''nucleo-wb55'' (NodeStLinkBase
     \<lparr>b_TYPE := ''nucleo_wb55'', b_ROM_START_ADDR := 0x08000000,
        b_OPENOCD_CFG_FILE := static_path E ''iot-lab-nucleo-wb55.cfg''\<rparr>)"

definition NodePhynode :: "env \<Rightarrow> board_class" where
  "NodePhynode E = firmwares E ''phynode'' (NodeOpenOCDBase
     \<lparr>b_TYPE := ''phynode'', b_OPENOCD_CFG_FILE := static_path E ''iot-lab-phynode.cfg'',
        b_TTY := ''/dev/iotlab/ttyON_PHYNODE'', b_BAUDRATE := 115200\<rparr>)"

definition NodePycom :: board_class where
  "NodePycom = OpenNodeBase
     \<lparr>b_TYPE := ''pycom'', b_kind := KPycom, b_TTY := ''/dev/iotlab/ttyON_PYCOM'',
        b_BAUDRATE := 115200\<rparr>"

definition NodeRpi3 :: board_class where
  "NodeRpi3 = OpenNodeBase
     \<lparr>b_TYPE := ''rpi3'', b_kind := KRpi3, b_TTY := ''/dev/iotlab/ttyON_RPI3'',
        b_BAUDRATE := 115200, b_ALIM := Some ''5V''\<rparr>"

definition NodeRtlSdr :: board_class where
  "NodeRtlSdr = OpenNodeBase
     \<lparr>b_TYPE := ''rtl_sdr'', b_kind := KRtlSdr\<rparr>"

definition NodeSamd21 :: "env \<Rightarrow> board_class" where
  "NodeSamd21 E = firmwares E ''samd21'' (NodeOpenOCDBase
     \<lparr>b_TYPE := ''samd21'', b_OPENOCD_CFG_FILE := static_path E ''iot-lab-samd21.cfg'',
        b_TTY := ''/dev/iotlab/ttyON_CMSIS_DAP'', b_BAUDRATE := 115200\<rparr>)"

definition NodeSamr21 :: "env \<Rightarrow> board_class" where
  "NodeSamr21 E = firmwares E ''samr21'' (NodeOpenOCDBase
     \<lparr>b_TYPE := ''samr21'', b_OPENOCD_CFG_FILE := static_path E ''iot-lab-samr21.cfg'',
        b_TTY := ''/dev/iotlab/ttyON_CMSIS_DAP'', b_BAUDRATE := 115200\<rparr>)"

definition NodeSamr30 :: "env \<Rightarrow> board_class" where
  "NodeSamr30 E = firmwares E ''samr30'' (NodeOpenOCDBase
     \<lparr>b_TYPE := ''samr30'', b_OPENOCD_CFG_FILE := static_path E ''iot-lab-samr30.cfg'',
        b_TTY := ''/dev/iotlab/ttyON_CMSIS_DAP'', b_BAUDRATE := 115200\<rparr>)"

definition NodeSamr34 :: "env \<Rightarrow> board_class" where
  "NodeSamr34 E = firmwares E ''samr34'' (NodeOpenOCDBase
     \<lparr>b_TYPE := ''samr34'', b_OPENOCD_CFG_FILE := static_path E ''iot-lab-samr34.cfg'',
        b_OPENOCD_PATH := ''/opt/openocd-dev/bin/openocd'',
        b_TTY := ''/dev/iotlab/ttyON_CMSIS_DAP'', b_BAUDRATE := 115200\<rparr>)"

definition NodeStCell02 :: "env \<Rightarrow> board_class" where
  "NodeStCell02 E = firmwares E ''st-cell02'' (NodeStLinkBase
     \<lparr>b_TYPE := ''st_cell02'', b_ROM_START_ADDR := 0x08000000,
        b_OPENOCD_CFG_FILE := static_path E ''iot-lab-st-cell02.cfg''\<rparr>)"

definition NodeStIotnode :: "env \<Rightarrow> board_class" where
  "NodeStIotnode E = firmwares E ''st-iotnode'' (NodeStLinkBase
     \<lparr>b_TYPE := ''st_iotnode'', b_ROM_START_ADDR := 0x08000000,
        b_OPENOCD_CFG_FILE := static_path E ''iot-lab-st-iotnode.cfg''\<rparr>)"

definition NodeStLrwan1 :: "env \<Rightarrow> board_class" where
  "NodeStLrwan1 E = firmwares E ''st-lrwan1'' (NodeStLinkBase
     \<lparr>b_TYPE := ''st_lrwan1'', b_ROM_START_ADDR := 0x08000000,
        b_OPENOCD_CFG_FILE := static_path E ''iot-lab-st-lrwan1.cfg''\<rparr>)"

definition NodeZigduino :: "env \<Rightarrow> board_class" where
  "NodeZigduino E = firmwares E ''zigduino'' (OpenNodeBase
     \<lparr>b_TYPE := ''zigduino'', b_kind := KZigduino, b_ELF_TARGET := Some AVR_TARGET,
        b_TTY := ''/dev/iotlab/ttyON_ZIGDUINO'', b_BAUDRATE := 57600,
        b_AUTOTEST_AVAILABLE := Some [''echo'', ''get_time''], b_ALIM := Some ''5V''\<rparr>)"

text \<open>The classes of \<^verbatim>\<open>open_nodes\<close> in the order in which the modules are imported, by module name.\<close>

definition open_node_classes :: "env \<Rightarrow> board_class list" where
  "open_node_classes E =
     [NodeA8, NodeA8M3 E, NodeArduinoZero E, NodeDwm1001 E, NodeFirefly E, NodeFox E,
      NodeFrdmKw41z E, NodeLeonardo E, NodeLoraGateway, NodeM3 E, NodeMicrobit E, NodeNrf51Dk E,
      NodeNrf52832Mdk E, NodeNrf52840Dk E, NodeNrf52840Mdk E, NodeNrf52Dk E, NodeNucleof070RB E, NodeNucleoWb55 E,
      NodePhynode E, NodePycom, NodeRpi3, NodeRtlSdr, NodeSamd21 E, NodeSamr21 E,
      NodeSamr30 E, NodeSamr34 E, NodeStCell02 E, NodeStIotnode E, NodeStLrwan1 E, NodeZigduino E]"

section \<open>The registry\<close>

text \<open>The classes of \<^verbatim>\<open>control_nodes\<close>, in the same order.\<close>

datatype cn_class = ClassIotlab | ClassIotlabm3 | ClassNo | ClassRpi3

fun cn_class_TYPE :: "cn_class \<Rightarrow> string" where
  "cn_class_TYPE ClassIotlab = ''iotlab''"
| "cn_class_TYPE ClassIotlabm3 = ''iotlabm3''"
| "cn_class_TYPE ClassNo = ''no''"
| "cn_class_TYPE ClassRpi3 = ''rpi3''"

definition control_node_classes :: "cn_class list" where
  "control_node_classes = [ClassIotlab, ClassIotlabm3, ClassNo, ClassRpi3]"

datatype node_class = OpenClass board_class | ControlClass cn_class

fun class_TYPE :: "node_class \<Rightarrow> string" where
  "class_TYPE (OpenClass c) = b_TYPE c"
| "class_TYPE (ControlClass k) = cn_class_TYPE k"

type_synonym registry = "(string \<times> node_class) list"

text \<open>\<open>import_all_nodes\<close>: \<open>REGISTRY[class_member.TYPE] = class_member\<close> for every class\<close>

definition import_all_nodes :: "node_class list \<Rightarrow> registry \<Rightarrow> registry" where
  "import_all_nodes classes reg = foldl (\<lambda>r c. AList.update (class_TYPE c) c r) reg classes"

definition REGISTRY :: "env \<Rightarrow> registry" where
  "REGISTRY E =
     import_all_nodes (map ControlClass control_node_classes)
       (import_all_nodes (map OpenClass (open_node_classes E)) [])"

definition node_class_of :: "env \<Rightarrow> string \<Rightarrow> exc + node_class" where
  "node_class_of E board_type =
     (case map_of (REGISTRY E) board_type of
        None \<Rightarrow> Inl ValueErr
      | Some c \<Rightarrow> if class_TYPE c = board_type then Inr c else Inl AssertionErr)"

text \<open>\<open>verify\<close>, of the base class and as the classes without firmware override it\<close>

definition required_autotest :: "string list" where
  "required_autotest = [''echo'', ''get_time'']"

definition verify_firmware :: "env \<Rightarrow> board_class \<Rightarrow> string option \<Rightarrow> ('s, int) act" where
  "verify_firmware E c firmware =
     (case firmware of
        None \<Rightarrow> retE 0
      | Some path \<Rightarrow>
          bindE (is_compatible_with_node E (Some path) (b_ELF_TARGET c)) (\<lambda>ok. retE (if ok then 0 else 1)))"

definition always_valid :: "board_class \<Rightarrow> bool" where
  "always_valid c \<longleftrightarrow> b_kind c \<in> {KA8, KRpi3, KPycom, KLora, KRtlSdr}"

definition verify :: "env \<Rightarrow> board_class \<Rightarrow> ('s, int) act" where
  "verify E c =
     (if always_valid c then retE 0
      else sum_rets
        [retE (if b_ELF_TARGET c = None then 1 else 0),
         verify_firmware E c (b_FW_IDLE c), verify_firmware E c (b_FW_AUTOTEST c),
         retE (case b_AUTOTEST_AVAILABLE c of
                 None \<Rightarrow> 1
               | Some tests \<Rightarrow> if set required_autotest \<subseteq> set tests then 0 else 1)])"

text \<open>A control node class has no \<open>verify\<close>.\<close>

definition open_node_class :: "env \<Rightarrow> string \<Rightarrow> ('s, board_class) act" where
  "open_node_class E board_type =
     (case node_class_of E board_type of
        Inl e \<Rightarrow> raiseE e
      | Inr (ControlClass _) \<Rightarrow> raiseE AttributeErr
      | Inr (OpenClass c) \<Rightarrow>
          bindE (verify E c) (\<lambda>ret. if ret \<noteq> 0 then raiseE ValueErr else retE c))"

text \<open>\<open>control_node_class\<close> gives back whatever class has the type.\<close>

definition control_node_class :: "env \<Rightarrow> string \<Rightarrow> ('s, node_class) act" where
  "control_node_class E ctype =
     (case node_class_of E ctype of Inl e \<Rightarrow> raiseE e | Inr c \<Rightarrow> retE c)"

definition all_open_nodes_types :: "env \<Rightarrow> string list" where
  "all_open_nodes_types E = [key. (key, OpenClass _) \<leftarrow> REGISTRY E]"

definition all_control_nodes_types :: "env \<Rightarrow> string list" where
  "all_control_nodes_types E = [key. (key, ControlClass _) \<leftarrow> REGISTRY E]"

section \<open>Configuration files\<close>

definition create_user_file :: "env \<Rightarrow> string \<Rightarrow> ('s, string) act" where
  "create_user_file E file_path =
     bindE (askE (\<lambda>w. e_create E w file_path)) (\<lambda>r.
       case r of
         Some n \<Rightarrow> raiseE (IOErr n)
       | None \<Rightarrow>
           thenE (emitE E (CreateFile file_path))
           (bindE (askE (\<lambda>w. e_chmod E w file_path)) (\<lambda>m.
              case m of
                Some n \<Rightarrow> raiseE (OSErr n)
              | None \<Rightarrow> thenE (emitE E (Chmod file_path)) (retE file_path))))"

definition clean_user_file :: "env \<Rightarrow> string \<Rightarrow> ('s, unit) act" where
  "clean_user_file E file_path =
     bindE (askE (\<lambda>w. e_size E w file_path)) (\<lambda>size.
       if size = Some 0
       then bindE (askE (\<lambda>w. e_remove E w file_path)) (\<lambda>ok.
              if ok then emitE E (RemoveFile file_path) else retE ())
       else retE ())"

text \<open>\<open>read_config(key)\<close>, which raises the IOError, and \<open>read_config(key, default)\<close>\<close>

definition config_value :: "string \<Rightarrow> string" where
  "config_value contents = py_replace (CHR ''-'') (CHR ''_'') (py_lower (py_strip contents))"

definition EIO :: int where
  "EIO = 5"

definition read_config :: "env \<Rightarrow> string \<Rightarrow> ('s, string) act" where
  "read_config E key =
     (let entry = e_config_dir E @ ''/'' @ key in
      bindE (askE (\<lambda>w. e_open E w entry)) (\<lambda>r.
        case r of
          Some n \<Rightarrow> raiseE (IOErr n)
        | None \<Rightarrow>
            bindE (askE (\<lambda>w. e_read E w entry)) (\<lambda>contents.
              case contents of
                None \<Rightarrow> raiseE (IOErr EIO)
              | Some c \<Rightarrow> retE (config_value c))))"

definition read_config_default :: "env \<Rightarrow> string \<Rightarrow> string option \<Rightarrow> ('s, string option) act" where
  "read_config_default E key dflt =
     tryE (bindE (read_config E key) (\<lambda>v. retE (Some v)))
          (\<lambda>e. case e of IOErr _ \<Rightarrow> Some (retE dflt) | _ \<Rightarrow> None)"

section \<open>The configuration of the board\<close>

record board_config =
  bc_board_class :: board_class
  bc_cn_class :: node_class
  bc_linux_on_class :: "board_class option"
  bc_robot_type :: "string option"
  bc_node_id :: string
  bc_default_profile :: "profile option"

abbreviation board_type :: "board_config \<Rightarrow> string" where
  "board_type bc \<equiv> b_TYPE (bc_board_class bc)"

abbreviation cn_type_of :: "board_config \<Rightarrow> string" where
  "cn_type_of bc \<equiv> class_TYPE (bc_cn_class bc)"

definition BoardConfig_init :: "env \<Rightarrow> ('s, board_config) act" where
  "BoardConfig_init E =
     bindE (read_config E ''board_type'') (\<lambda>btype.
     bindE (open_node_class E btype) (\<lambda>board.
     bindE (read_config_default E ''control_node_type'' (Some ''iotlab'')) (\<lambda>ctype.
     bindE (control_node_class E (or_default ctype [])) (\<lambda>cn.
     bindE (read_config_default E ''linux_open_node_type'' None) (\<lambda>ltype.
     bindE (case ltype of
              Some (c # cs) \<Rightarrow> bindE (open_node_class E (c # cs)) (\<lambda>l. retE (Some l))
            | _ \<Rightarrow> retE None) (\<lambda>linux.
     bindE (read_config_default E ''robot'' None) (\<lambda>robot.
     bindE (read_config E ''hostname'') (\<lambda>hostname.
       case from_dict (b_ALIM board) default_profile_dict of
         Inl e \<Rightarrow> raiseE e
       | Inr prof \<Rightarrow>
           retE \<lparr>bc_board_class = board, bc_cn_class = cn, bc_linux_on_class = linux,
                 bc_robot_type = robot, bc_node_id = hostname, bc_default_profile = prof\<rparr>))))))))"

section \<open>Lemmas: the registry\<close>

lemmas board_defs =
  NodeOpenOCDBase_def NodeEdbgBase_def NodeJLinkBase_def NodeStLinkBase_def NodeA8_def
  NodeA8M3_def NodeArduinoZero_def NodeDwm1001_def NodeFirefly_def NodeFox_def NodeFrdmKw41z_def
  NodeLeonardo_def NodeLoraGateway_def NodeM3_def NodeMicrobit_def NodeNrf51Dk_def
  NodeNrf52832Mdk_def NodeNrf52840Dk_def NodeNrf52840Mdk_def NodeNrf52Dk_def NodeNucleof070RB_def
  NodeNucleoWb55_def NodePhynode_def NodePycom_def NodeRpi3_def NodeRtlSdr_def NodeSamd21_def
  NodeSamr21_def NodeSamr30_def NodeSamr34_def NodeStCell02_def NodeStIotnode_def NodeStLrwan1_def
  NodeZigduino_def
  OpenNodeBase_def firmwares_def leds_autotests_def

lemma map_of_import_all_nodes:
  "distinct (map class_TYPE cs) \<Longrightarrow>
   map_of (import_all_nodes cs reg) = map_of reg ++ map_of (map (\<lambda>c. (class_TYPE c, c)) cs)"
proof (induction cs arbitrary: reg)
  case (Cons c cs)
  then have "map_of (import_all_nodes (c # cs) reg)
      = map_of (AList.update (class_TYPE c) c reg) ++ map_of (map (\<lambda>c. (class_TYPE c, c)) cs)"
    by (simp add: import_all_nodes_def)
  moreover have "class_TYPE c \<notin> dom (map_of (map (\<lambda>c. (class_TYPE c, c)) cs))"
    using Cons.prems by (auto simp: dom_map_of_conv_image_fst)
  ultimately show ?case by (intro ext) (auto simp: update_conv' map_add_def split: option.split)
qed (simp add: import_all_nodes_def)

lemma open_types:
  "map b_TYPE (open_node_classes E) =
     [''a8'', ''a8_m3'', ''arduino_zero'', ''dwm1001'', ''firefly'', ''fox'', ''frdm_kw41z'',
      ''leonardo'', ''lora_gw'', ''m3'', ''microbit'', ''nrf51dk'', ''nrf52832mdk'', ''nrf52840dk'',
      ''nrf52840mdk'', ''nrf52dk'', ''nucleo_f070rb'', ''nucleo_wb55'', ''phynode'', ''pycom'', ''rpi3'',
      ''rtl_sdr'', ''samd21'', ''samr21'', ''samr30'', ''samr34'', ''st_cell02'', ''st_iotnode'',
      ''st_lrwan1'', ''zigduino'']"
  by (simp add: open_node_classes_def board_defs)

lemma open_types_distinct: "distinct (map b_TYPE (open_node_classes E))"
  unfolding open_types by code_simp

lemma control_types_distinct: "distinct (map cn_class_TYPE control_node_classes)"
  by (simp add: control_node_classes_def)

lemma map_of_REGISTRY:
  "map_of (REGISTRY E) =
     map_of (map (\<lambda>c. (b_TYPE c, OpenClass c)) (open_node_classes E))
     ++ map_of (map (\<lambda>k. (cn_class_TYPE k, ControlClass k)) control_node_classes)"
  using open_types_distinct [of E] control_types_distinct
  by (simp add: REGISTRY_def map_of_import_all_nodes comp_def)

lemma map_of_find: "map_of (map (\<lambda>c. (f c, g c)) cs) t = map_option g (find (\<lambda>c. f c = t) cs)"
  by (induction cs) auto

lemma find_same: "find (\<lambda>c. f c = t) cs = Some c \<Longrightarrow> c \<in> set cs \<and> f c = t"
  by (auto simp: find_Some_iff)

lemma node_class_of_find:
  "node_class_of E t =
     (case find (\<lambda>k. cn_class_TYPE k = t) control_node_classes of
        Some k \<Rightarrow> Inr (ControlClass k)
      | None \<Rightarrow>
          (case find (\<lambda>c. b_TYPE c = t) (open_node_classes E) of
             Some c \<Rightarrow> Inr (OpenClass c)
           | None \<Rightarrow> Inl ValueErr))"
proof (cases "find (\<lambda>k. cn_class_TYPE k = t) control_node_classes")
  case None
  show ?thesis
  proof (cases "find (\<lambda>c. b_TYPE c = t) (open_node_classes E)")
    case (Some c)
    with None find_same [OF Some] show ?thesis
      by (simp add: node_class_of_def map_of_REGISTRY map_add_def map_of_find)
  qed (simp add: None node_class_of_def map_of_REGISTRY map_add_def map_of_find)
next
  case (Some k)
  with find_same [OF Some] show ?thesis
    by (simp add: node_class_of_def map_of_REGISTRY map_add_def map_of_find)
qed

section \<open>Lemmas: the checks of a class\<close>

text \<open>The static part of the check, which every registered class passes.\<close>

definition board_complete :: "board_class \<Rightarrow> bool" where
  "board_complete c \<longleftrightarrow>
     b_ELF_TARGET c \<noteq> None \<and> b_FW_IDLE c \<noteq> None \<and> b_FW_AUTOTEST c \<noteq> None
     \<and> (\<exists>tests. b_AUTOTEST_AVAILABLE c = Some tests \<and> set required_autotest \<subseteq> set tests)"

lemma boards_complete: "list_all (\<lambda>c. always_valid c \<or> board_complete c) (open_node_classes E)"
  by (simp add: open_node_classes_def board_complete_def always_valid_def required_autotest_def board_defs)

lemma board_completeE:
  assumes "c \<in> set (open_node_classes E)" and "\<not> always_valid c"
  obtains t i a tests where "b_ELF_TARGET c = Some t" "b_FW_IDLE c = Some i" "b_FW_AUTOTEST c = Some a"
    "b_AUTOTEST_AVAILABLE c = Some tests" "set required_autotest \<subseteq> set tests"
  using boards_complete [of E] assms by (auto simp: list_all_iff board_complete_def)

text \<open>A firmware file that is an executable for the processor of the board.\<close>

definition firmware_fits :: "env \<Rightarrow> world \<Rightarrow> board_class \<Rightarrow> string \<Rightarrow> bool" where
  "firmware_fits E w c path \<longleftrightarrow>
     (\<exists>cls machine. e_elf E w path = ElfHeader ''ET_EXEC'' cls machine \<and> b_ELF_TARGET c = Some (cls, machine))"

lemma verify_firmware_run:
  assumes "b_ELF_TARGET c = Some t"
  shows "verify_firmware E c (Some p) s w =
     ((case e_elf E w p of ElfUnreadable n \<Rightarrow> Inl (IOErr n) | _ \<Rightarrow> Inr (if firmware_fits E w c p then 0 else 1)), s, w)"
  using assms
  by (cases "e_elf E w p"; cases t)
     (auto simp: verify_firmware_def is_compatible_with_node_def elf_target_def firmware_fits_def
           bindE_def askE_def tryE_def retE_def raiseE_def)

lemma verify_outcome:
  assumes "c \<in> set (open_node_classes E)"
  shows "\<exists>r. verify E c s w = (r, s, w) \<and>
     (r = Inr 0 \<longleftrightarrow> always_valid c
        \<or> (\<forall>p. b_FW_IDLE c = Some p \<or> b_FW_AUTOTEST c = Some p \<longrightarrow> firmware_fits E w c p))"
proof (cases "always_valid c")
  case False
  with assms obtain t i a tests where c: "b_ELF_TARGET c = Some t" "b_FW_IDLE c = Some i"
    "b_FW_AUTOTEST c = Some a" "b_AUTOTEST_AVAILABLE c = Some tests" "set required_autotest \<subseteq> set tests"
    by (rule board_completeE)
  have fits: "firmware_fits E w c p \<Longrightarrow> \<exists>cls m. e_elf E w p = ElfHeader ''ET_EXEC'' cls m" for p
    by (auto simp: firmware_fits_def)
  show ?thesis
    using False c fits [of i] fits [of a]
    by (auto simp: verify_def sum_rets.simps bindE_def retE_def verify_firmware_run [OF c(1)]
             split: elf_outcome.splits)
qed (simp add: verify_def retE_def)

lemma open_node_class_iff:
  "open_node_class E t s w = (Inr c, s', w') \<longleftrightarrow>
     s' = s \<and> w' = w \<and> c \<in> set (open_node_classes E) \<and> b_TYPE c = t
     \<and> t \<notin> cn_class_TYPE ` set control_node_classes
     \<and> (always_valid c
        \<or> (\<forall>p. b_FW_IDLE c = Some p \<or> b_FW_AUTOTEST c = Some p \<longrightarrow> firmware_fits E w c p))"
proof (cases "t \<in> cn_class_TYPE ` set control_node_classes")
  case True
  then have "find (\<lambda>k. cn_class_TYPE k = t) control_node_classes \<noteq> None"
    unfolding find_None_iff by blast
  then obtain k where "find (\<lambda>k. cn_class_TYPE k = t) control_node_classes = Some k" by blast
  then have "open_node_class E t s w = (Inl AttributeErr, s, w)"
    by (simp add: open_node_class_def node_class_of_find raiseE_def)
  with True show ?thesis by simp
next
  case False
  then have none: "find (\<lambda>k. cn_class_TYPE k = t) control_node_classes = None"
    unfolding find_None_iff by blast
  show ?thesis
  proof (cases "find (\<lambda>c. b_TYPE c = t) (open_node_classes E)")
    case None
    with none have "open_node_class E t s w = (Inl ValueErr, s, w)"
      by (simp add: open_node_class_def node_class_of_find raiseE_def)
    moreover have "\<not> (c \<in> set (open_node_classes E) \<and> b_TYPE c = t)"
      using None by (simp add: find_None_iff)
    ultimately show ?thesis by (cases "b_TYPE c = t") simp_all
  next
    case (Some d)
    note d = find_same [OF Some]
    obtain r where r: "verify E d s w = (r, s, w)"
      "r = Inr 0 \<longleftrightarrow> always_valid d
        \<or> (\<forall>p. b_FW_IDLE d = Some p \<or> b_FW_AUTOTEST d = Some p \<longrightarrow> firmware_fits E w d p)"
      using verify_outcome [OF conjunct1 [OF d], of s w] by (elim exE conjE)
    have only: "c \<noteq> d \<Longrightarrow> b_TYPE c = t \<Longrightarrow> c \<notin> set (open_node_classes E)"
      using open_types_distinct [of E] d unfolding distinct_map inj_on_def by blast
    have "open_node_class E t s w = (Inr c, s', w') \<longleftrightarrow> s' = s \<and> w' = w \<and> c = d \<and> r = Inr 0"
      using none Some r(1)
      by (cases r; simp add: open_node_class_def node_class_of_find bindE_def raiseE_def retE_def; blast)
    with False d only r(2) show ?thesis by (cases "c = d"; cases "b_TYPE c = t") simp_all
  qed
qed

section \<open>Lemmas: configuration\<close>

text \<open>What a configuration file says, None when it can not be read.\<close>

definition config_entry :: "env \<Rightarrow> world \<Rightarrow> string \<Rightarrow> string option" where
  "config_entry E w key =
     (let entry = e_config_dir E @ ''/'' @ key in
      if e_open E w entry = None then map_option config_value (e_read E w entry) else None)"

lemma read_config_run:
  "read_config E key s w = (r, s', w') \<Longrightarrow>
     s' = s \<and> w' = w \<and> (case config_entry E w key of Some v \<Rightarrow> r = Inr v | None \<Rightarrow> \<exists>n. r = Inl (IOErr n))"
  by (auto simp: read_config_def config_entry_def Let_def bindE_def askE_def raiseE_def retE_def
           split: option.splits)

lemma read_config_default_run:
  "read_config_default E key d s w
   = (Inr (case config_entry E w key of Some v \<Rightarrow> Some v | None \<Rightarrow> d), s, w)"
proof (cases "read_config E key s w")
  case (fields r s' w')
  with read_config_run [OF fields] show ?thesis
    by (auto simp: read_config_default_def tryE_def bindE_def retE_def split: option.splits)
qed

lemma bindE_InrE:
  assumes "bindE m f s w = (Inr b, s', w')"
  obtains a s1 w1 where "m s w = (Inr a, s1, w1)" "f a s1 w1 = (Inr b, s', w')"
  using assms by (auto simp: bindE_def split: prod.splits sum.splits)

lemma control_node_class_type:
  "control_node_class E t s w = (Inr c, s', w') \<Longrightarrow> s' = s \<and> w' = w \<and> class_TYPE c = t"
  by (auto simp: control_node_class_def node_class_of_def raiseE_def retE_def
           split: sum.splits option.splits if_splits)

lemma or_default_Some: "or_default (Some x) [] = x"
  by (cases x) (simp_all add: or_default_def)

lemma linux_class_type:
  assumes "(case lt of Some (c # cs) \<Rightarrow> bindE (open_node_class E (c # cs)) (\<lambda>l. retE (Some l))
             | _ \<Rightarrow> retE None) s w = (Inr linux, s', w')"
  shows "s' = s \<and> w' = w
     \<and> map_option b_TYPE linux = (case lt of Some (c # cs) \<Rightarrow> Some (c # cs) | _ \<Rightarrow> None)"
proof (cases "lt = None \<or> lt = Some []")
  case True
  with assms show ?thesis by (auto simp: retE_def)
next
  case False
  then obtain c cs where lt: "lt = Some (c # cs)" by (cases lt) (auto simp: neq_Nil_conv)
  with assms have "bindE (open_node_class E (c # cs)) (\<lambda>l. retE (Some l)) s w = (Inr linux, s', w')" by simp
  then obtain l s1 w1 where "open_node_class E (c # cs) s w = (Inr l, s1, w1)" "linux = Some l" "s' = s1" "w' = w1"
    by (rule bindE_InrE) (simp add: retE_def)
  then show ?thesis unfolding open_node_class_iff lt by simp
qed

lemma from_dict_default: "from_dict ALIM default_profile_dict = Inr (Some default_profile)"
  by (simp add: from_dict_def default_profile_dict_def default_profile_def Profile_init_def kwarg_def
      kwargs_fit_def type_to_value_def)

section \<open>Properties\<close>

text \<open>C29: the registry of node classes.  A type names the control node class of that type, else the
  open node class of that type, else a ValueError is raised.  Two classes have the type \<open>rpi3\<close>: the
  open node class is registered first and replaced, so the Raspberry Pi board can not be configured
  as an open node, and asking for it raises AttributeError.\<close>

theorem registry_lookup:
  "node_class_of E t =
     (case find (\<lambda>k. cn_class_TYPE k = t) control_node_classes of
        Some k \<Rightarrow> Inr (ControlClass k)
      | None \<Rightarrow>
          (case find (\<lambda>c. b_TYPE c = t) (open_node_classes E) of
             Some c \<Rightarrow> Inr (OpenClass c)
           | None \<Rightarrow> Inl ValueErr))
   \<and> NodeRpi3 \<in> set (open_node_classes E) \<and> b_TYPE NodeRpi3 = ''rpi3''
   \<and> open_node_class E ''rpi3'' s w = (Inl AttributeErr, s, w)"
proof -
  have "node_class_of E ''rpi3'' = Inr (ControlClass ClassRpi3)"
    by (simp add: node_class_of_find control_node_classes_def)
  then have attr: "open_node_class E ''rpi3'' s w = (Inl AttributeErr, s, w)"
    by (simp add: open_node_class_def raiseE_def)
  have "NodeRpi3 \<in> set (open_node_classes E)" by (simp add: open_node_classes_def)
  moreover have "b_TYPE NodeRpi3 = ''rpi3''" by (simp add: NodeRpi3_def)
  ultimately show ?thesis by (intro conjI node_class_of_find attr)
qed




text \<open>The configuration directory of an M3 gateway.\<close>

definition m3_env :: env where
  "m3_env = working_env\<lparr>e_read :=
     (\<lambda>_ p. map_of [(''/config/board_type'', '' M3''), (''/config/hostname'', ''m3-1'')] p)\<rparr>"

lemma m3_env_class: "open_node_class m3_env ''m3'' s w = (Inr (NodeM3 m3_env), s, w)"
  unfolding open_node_class_iff
  by (simp add: open_node_classes_def control_node_classes_def)
     (simp add: board_defs always_valid_def firmware_fits_def m3_env_def working_env_def)

definition m3_config :: board_config where
  "m3_config = \<lparr>bc_board_class = NodeM3 m3_env, bc_cn_class = ControlClass ClassIotlab, bc_linux_on_class = None,
     bc_robot_type = None, bc_node_id = ''m3_1'', bc_default_profile = Some default_profile\<rparr>"

lemma m3_env_config: "BoardConfig_init m3_env s w = (Inr m3_config, s, w)"
proof -
  have cn: "control_node_class m3_env ''iotlab'' s w = (Inr (ControlClass ClassIotlab), s, w)"
    by (simp add: control_node_class_def node_class_of_find control_node_classes_def retE_def)
  have "config_value '' M3'' = ''m3''" "config_value ''m3-1'' = ''m3_1''" by code_simp+
  then have entries: "config_entry m3_env w ''control_node_type'' = None"
    "config_entry m3_env w ''linux_open_node_type'' = None" "config_entry m3_env w ''robot'' = None"
    "config_entry m3_env w ''board_type'' = Some ''m3''" "config_entry m3_env w ''hostname'' = Some ''m3_1''"
    by (simp_all add: config_entry_def m3_env_def working_env_def)
  have reads: "read_config m3_env key s w = (Inr v, s, w)" if "config_entry m3_env w key = Some v" for key v
    using read_config_run [of m3_env key s w] that by (cases "read_config m3_env key s w") auto
  show ?thesis
    by (simp add: BoardConfig_init_def bindE_def reads [OF entries(4)] reads [OF entries(5)] read_config_default_run
        m3_env_class cn entries or_default_Some from_dict_default retE_def m3_config_def)
qed


end
