(* ===== verification/Serial_Expect.thy ===== *)
theory Serial_Expect
  imports Common "HOL-Library.Sublist"
begin

text \<open>
  Model of \<^verbatim>\<open>gateway_code/utils/serial_expect.py\<close>: waiting for a text on a serial console, on a port
  or on the TCP socket of a serial redirection.  Regular expressions are those the program uses:
  a sequence of characters and character classes, each once or at least once, and alternatives of
  such sequences.  An object of the class is the name of its port.
\<close>

section \<open>Regular expressions\<close>

datatype rx_atom = RxChar char | RxDigit | RxHex | RxAny

fun atom_matches :: "rx_atom \<Rightarrow> char \<Rightarrow> bool" where
  "atom_matches (RxChar a) c = (c = a)"
| "atom_matches RxDigit c = is_digit c"
| "atom_matches RxHex c = (is_digit c \<or> c \<in> set ''abcdef'')"
| "atom_matches RxAny c = (c \<noteq> CHR 0x0A)"

text \<open>One atom, with True for the greedy repetition \<open>+\<close>; a sequence of them; a list of alternatives.\<close>

type_synonym rx = "(rx_atom \<times> bool) list"

text \<open>The text that a sequence matches at the front, as the backtracking matcher finds it.\<close>

fun rx_match :: "rx \<Rightarrow> string \<Rightarrow> string option" where
  "rx_match [] s = Some []"
| "rx_match ((a, False) # r) (c # s) =
     (if atom_matches a c then map_option ((#) c) (rx_match r s) else None)"
| "rx_match ((a, True) # r) (c # s) =
     (if atom_matches a c
      then (case rx_match ((a, True) # r) s of
              Some m \<Rightarrow> Some (c # m)
            | None \<Rightarrow> map_option ((#) c) (rx_match r s))
      else None)"
| "rx_match (x # r) [] = None"

fun rx_alternatives :: "rx list \<Rightarrow> string \<Rightarrow> string option" where
  "rx_alternatives [] s = None"
| "rx_alternatives (r # rs) s = (case rx_match r s of Some m \<Rightarrow> Some m | None \<Rightarrow> rx_alternatives rs s)"

text \<open>\<open>regexp.search(s)\<close>: the first position where an alternative matches\<close>

fun rx_search :: "rx list \<Rightarrow> string \<Rightarrow> string option" where
  "rx_search p [] = rx_alternatives p []"
| "rx_search p (c # s) =
     (case rx_alternatives p (c # s) of Some m \<Rightarrow> Some m | None \<Rightarrow> rx_search p s)"

definition rx_literal :: "string \<Rightarrow> rx" where
  "rx_literal text = map (\<lambda>c. (RxChar c, False)) text"

text \<open>\<open>'\n' in pattern\<close>\<close>

definition rx_multiline :: "rx list \<Rightarrow> bool" where
  "rx_multiline p \<longleftrightarrow> list_ex (list_ex (\<lambda>(a, _). a = RxChar (CHR 0x0A))) p"

section \<open>Opening and closing\<close>

definition open_port :: "env \<Rightarrow> string \<Rightarrow> ('s, string) act" where
  "open_port E port =
     bindE (askE (\<lambda>w. e_serial E w port)) (\<lambda>r.
       case r of Some e \<Rightarrow> raiseE e | None \<Rightarrow> thenE (emitE E (SerialOpen port)) (retE port))"

definition SerialExpect_init :: "env \<Rightarrow> string \<Rightarrow> ('s, string) act" where
  "SerialExpect_init E tty = open_port E tty"

definition socket_url :: "string \<Rightarrow> int \<Rightarrow> string" where
  "socket_url host port = ''socket://'' @ host @ '':'' @ str_int port"

text \<open>\<open>try_connect\<close>, with the number of tries that may fail\<close>

fun expect_try_connect :: "env \<Rightarrow> string \<Rightarrow> nat \<Rightarrow> ('s, string) act" where
  "expect_try_connect E url 0 = open_port E url"
| "expect_try_connect E url (Suc n) =
     tryE (open_port E url)
       (\<lambda>e. if e = SerialErr then Some (thenE (py_sleep E 500) (expect_try_connect E url n)) else None)"

definition SerialExpectForSocket_init :: "env \<Rightarrow> string \<Rightarrow> int \<Rightarrow> ('s, string) act" where
  "SerialExpectForSocket_init E host port = expect_try_connect E (socket_url host port) 9"

definition expect_socket_close :: "env \<Rightarrow> ('s, unit) act" where
  "expect_socket_close E = py_sleep E 1000"

section \<open>Sending and expecting\<close>

text \<open>A use of an open port.\<close>

definition serial_io :: "env \<Rightarrow> string \<Rightarrow> event \<Rightarrow> ('s, unit) act" where
  "serial_io E tty ev =
     bindE (askE (\<lambda>w. e_serial_io E w tty)) (\<lambda>r.
       case r of Some e \<Rightarrow> raiseE e | None \<Rightarrow> emitE E ev)"

definition expect_send :: "env \<Rightarrow> string \<Rightarrow> string \<Rightarrow> ('s, unit) act" where
  "expect_send E port data = serial_io E port (SerialWrite port (data @ [CHR 0x0A]))"

text \<open>\<open>buff.split('\n')[-1]\<close>\<close>

definition last_line :: "string \<Rightarrow> string" where
  "last_line buff = rev (takeWhile (\<lambda>c. c \<noteq> CHR 0x0A) (rev buff))"

text \<open>
  The loop of \<open>expect\<close>: the end time is None for an infinite timeout.  The result is the match, the
  empty string on a timeout or an error of the port.
\<close>

partial_function (option) expect_loop ::
  "env \<Rightarrow> string \<Rightarrow> rx list \<Rightarrow> int option \<Rightarrow> string \<Rightarrow> world \<Rightarrow> (string \<times> world) option" where
  "expect_loop E port pattern end_time buff w =
     (case e_port_read E w port of
        None \<Rightarrow> Some ([], w)
      | Some bytes \<Rightarrow>
          (let w' = log_event E (SerialRead port bytes) w in
           if (case end_time of None \<Rightarrow> False | Some t \<Rightarrow> t \<le> now w') then Some ([], w')
           else if bytes = [] then expect_loop E port pattern end_time buff w'
           else (let buff' = last_line buff @ bytes in
                 case rx_search pattern buff' of
                   Some m \<Rightarrow> Some (m, w')
                 | None \<Rightarrow> expect_loop E port pattern end_time buff' w')))"

definition expect :: "env \<Rightarrow> string \<Rightarrow> rx list \<Rightarrow> int option \<Rightarrow> ('s, string) act" where
  "expect E port pattern timeout =
     (if rx_multiline pattern then raiseE ValueErr
      else (\<lambda>s w.
        case expect_loop E port pattern (map_option (\<lambda>t. now w + 1000 * t) timeout) [] w of
          None \<Rightarrow> (Inl Blocked, s, w)
        | Some (m, w') \<Rightarrow> (Inr m, s, w')))"

text \<open>\<open>expect_list\<close>: the patterns as alternatives of one\<close>

definition expect_list :: "env \<Rightarrow> string \<Rightarrow> rx list list \<Rightarrow> int option \<Rightarrow> ('s, string) act" where
  "expect_list E port patterns timeout = expect E port (concat patterns) timeout"

section \<open>Lemmas: searching\<close>

lemma rx_match_literal: "rx_match (rx_literal p) s = (if prefix p s then Some p else None)"
proof (induction p arbitrary: s)
  case (Cons a p)
  then show ?case by (cases s) (auto simp: rx_literal_def)
qed (simp add: rx_literal_def)

lemma rx_search_literal: "rx_search [rx_literal p] s = (if sublist p s then Some p else None)"
  by (induction s) (auto simp: rx_match_literal sublist_Cons_right)

text \<open>What a search finds is a part of the text.\<close>

lemma rx_match_prefix: "rx_match r s = Some m \<Longrightarrow> prefix m s"
  by (induction r s arbitrary: m rule: rx_match.induct) (auto split: if_splits option.splits)

lemma rx_alternatives_prefix: "rx_alternatives p s = Some m \<Longrightarrow> prefix m s"
  by (induction p) (auto dest: rx_match_prefix split: option.splits)

text \<open>
  The text that was thrown away can not matter: an occurrence that ends in the new bytes and has
  no line break lies in the last line of what came before and the new bytes.
\<close>

lemma last_line_suffix: "suffix (last_line b) b"
  unfolding last_line_def suffix_to_prefix by (simp add: takeWhile_is_prefix)

lemma suffix_last_line:
  assumes "suffix u b" and "CHR 0x0A \<notin> set u"
  shows "suffix u (last_line b)"
proof -
  from assms(1) obtain v where b: "b = v @ u" by (auto simp: suffix_def)
  have "takeWhile (\<lambda>c. c \<noteq> CHR 0x0A) (rev b) = rev u @ takeWhile (\<lambda>c. c \<noteq> CHR 0x0A) (rev v)"
    unfolding b rev_append using assms(2) by (intro takeWhile_append2) auto
  then show ?thesis by (auto simp: last_line_def suffix_def)
qed

lemma sublist_last_line:
  assumes "CHR 0x0A \<notin> set p"
  shows "sublist p (b @ c) \<longleftrightarrow> sublist p b \<or> sublist p (last_line b @ c)"
proof
  assume "sublist p (b @ c)"
  then consider "sublist p b" | "sublist p c"
    | u v where "p = u @ v" "suffix u b" "prefix v c"
    by (auto simp: sublist_append)
  then show "sublist p b \<or> sublist p (last_line b @ c)"
  proof cases
    case 2
    then show ?thesis by (simp add: sublist_appendI sublist_append)
  next
    case 3
    with assms have "suffix u (last_line b)" by (intro suffix_last_line) auto
    with 3 show ?thesis by (auto simp: sublist_append)
  qed simp
next
  assume "sublist p b \<or> sublist p (last_line b @ c)"
  moreover have "sublist (last_line b @ c) (b @ c)"
    using last_line_suffix [of b] by (auto simp: suffix_def sublist_append)
  moreover have "sublist b (b @ c)" by (simp add: sublist_append)
  ultimately show "sublist p (b @ c)" using sublist_order.order_trans by blast
qed

section \<open>Lemmas: the loop\<close>

text \<open>What the loop has read, and what it found in it; nothing was found before.\<close>

definition expect_outcome :: "string \<Rightarrow> string \<Rightarrow> string \<Rightarrow> world \<Rightarrow> string \<times> world \<Rightarrow> bool" where
  "expect_outcome port p buff w y \<longleftrightarrow>
     (\<exists>rs. trace (snd y) = trace w @ map (SerialRead port) rs
        \<and> (fst y = p \<and> sublist p (buff @ concat rs) \<or> fst y = [] \<and> \<not> sublist p (buff @ concat (butlast rs))))"

lemma expect_outcome_skip:
  assumes "expect_outcome port p buff (log_event E (SerialRead port []) w) y" and "\<not> sublist p buff"
  shows "expect_outcome port p buff w y"
proof -
  from assms(1) obtain rs where "trace (snd y) = trace w @ map (SerialRead port) ([] # rs)"
    "fst y = p \<and> sublist p (buff @ concat ([] # rs)) \<or> fst y = [] \<and> \<not> sublist p (buff @ concat (butlast rs))"
    by (auto simp: expect_outcome_def log_event_def)
  with assms(2) show ?thesis unfolding expect_outcome_def by (intro exI [of _ "[] # rs"]) auto
qed

lemma expect_outcome_more:
  assumes "expect_outcome port p (last_line buff @ bytes) (log_event E (SerialRead port bytes) w) y"
    and "\<not> sublist p buff" and "CHR 0x0A \<notin> set p"
  shows "expect_outcome port p buff w y"
proof -
  note split = sublist_last_line [OF assms(3), of buff]
  from assms(1) obtain rs where "trace (snd y) = trace w @ map (SerialRead port) (bytes # rs)"
    "fst y = p \<and> sublist p (last_line buff @ bytes @ concat rs)
     \<or> fst y = [] \<and> \<not> sublist p (last_line buff @ bytes @ concat (butlast rs))"
    by (auto simp: expect_outcome_def log_event_def)
  with assms(2) show ?thesis
    unfolding expect_outcome_def
    using split [of "bytes @ concat rs"] split [of "bytes @ concat (butlast rs)"]
    by (intro exI [of _ "bytes # rs"]) auto
qed

lemma expect_loop_outcome:
  assumes "expect_loop E port [rx_literal p] end_time buff w = Some y" and "\<not> sublist p buff" and "CHR 0x0A \<notin> set p"
  shows "expect_outcome port p buff w y"
proof -
  have "pattern = [rx_literal p] \<longrightarrow> \<not> sublist p buff \<longrightarrow> expect_outcome port p buff w y"
    if "expect_loop E port pattern end_time buff w = Some y" for pattern
  proof (rule expect_loop.raw_induct [OF _ that, where
        P = "\<lambda>E port pattern end_time buff w y. pattern = [rx_literal p] \<longrightarrow> \<not> sublist p buff \<longrightarrow> expect_outcome port p buff w y"],
      goal_cases)
    case (1 loop E port pattern end_time buff w y)
    show ?case
    proof (intro impI, cases "e_port_read E w port")
      assume new: "\<not> sublist p buff"
      case None
      with 1(2) new show "expect_outcome port p buff w y"
        by (auto simp: expect_outcome_def intro!: exI [of _ "[]"])
    next
      assume pat: "pattern = [rx_literal p]" and new: "\<not> sublist p buff"
      case (Some bytes)
      let ?w = "log_event E (SerialRead port bytes) w"
      let ?late = "case end_time of None \<Rightarrow> False | Some t \<Rightarrow> t \<le> now ?w"
      consider (late) ?late | (skip) "\<not> ?late" "bytes = []"
        | (found) "\<not> ?late" "bytes \<noteq> []" "sublist p (last_line buff @ bytes)"
        | (more) "\<not> ?late" "bytes \<noteq> []" "\<not> sublist p (last_line buff @ bytes)" by blast
      then show "expect_outcome port p buff w y"
      proof cases
        case late
        with 1(2) Some have "y = ([], ?w)" by (simp add: Let_def)
        with new show ?thesis by (auto simp: expect_outcome_def log_event_def intro!: exI [of _ "[bytes]"])
      next
        case skip
        from 1(2) have "loop E port pattern end_time buff ?w = Some y"
          unfolding Some option.case Let_def if_not_P [OF skip(1)] if_P [OF skip(2)] .
        from 1(1) [OF this] pat new have "expect_outcome port p buff (log_event E (SerialRead port []) w) y"
          unfolding skip(2) by blast
        then show ?thesis using new by (rule expect_outcome_skip)
      next
        case found
        with 1(2) Some pat have "y = (p, ?w)" by (simp add: Let_def rx_search_literal)
        with found sublist_last_line [OF assms(3), of buff bytes] show ?thesis
          by (auto simp: expect_outcome_def log_event_def intro!: exI [of _ "[bytes]"])
      next
        case more
        with 1(2) Some pat have "loop E port pattern end_time (last_line buff @ bytes) ?w = Some y"
          by (simp add: Let_def rx_search_literal)
        from 1(1) [OF this] pat more(3) have "expect_outcome port p (last_line buff @ bytes) ?w y" by blast
        then show ?thesis using new assms(3) by (rule expect_outcome_more)
      qed
    qed
  qed
  with assms show ?thesis by blast
qed

lemma expect_loop_returns:
  assumes "\<And>w bytes. 1 \<le> e_dur E w (SerialRead port bytes) \<and> e_dur E w (SerialRead port bytes) \<le> d"
  shows "\<exists>m w'. expect_loop E port pattern (Some t) buff w = Some (m, w') \<and> now w' \<le> max (now w) t + int d"
proof (induction "nat (t - now w)" arbitrary: buff w rule: less_induct)
  case less
  show ?case
  proof (cases "e_port_read E w port")
    case None
    then show ?thesis by (subst expect_loop.simps) simp
  next
    case (Some bytes)
    let ?w = "log_event E (SerialRead port bytes) w"
    have time: "now w < now ?w" "now ?w \<le> now w + int d"
      using assms [of w bytes] by (simp_all add: log_event_def)
    show ?thesis
    proof (cases "t \<le> now ?w")
      case True
      with Some time show ?thesis by (subst expect_loop.simps) (simp add: Let_def)
    next
      case False
      with time have earlier: "nat (t - now ?w) < nat (t - now w)" by simp
      show ?thesis
        using less [OF earlier, of buff] less [OF earlier, of "last_line buff @ bytes"] Some False time
        by (subst expect_loop.simps) (auto simp: Let_def split: option.split)
    qed
  qed
qed

section \<open>Properties\<close>

text \<open>C36: expecting a text.  When \<open>expect\<close> returns, it has only read from the port; it returns the text when
  the text is in what was read, and the empty string when the text is not in what was read before
  the read that failed or came too late.  It does not matter how the bytes are cut into reads.\<close>

theorem expect_literal:
  assumes "expect E port [rx_literal p] timeout s w = (Inr r, s', w')" and "p \<noteq> []"
  shows "\<exists>rs. s' = s \<and> trace w' = trace w @ map (SerialRead port) rs
     \<and> (r = p \<and> sublist p (concat rs) \<or> r = [] \<and> \<not> sublist p (concat (butlast rs)))"
proof -
  have single: "CHR 0x0A \<notin> set p" and "s' = s"
    and "expect_loop E port [rx_literal p] (map_option (\<lambda>t. now w + 1000 * t) timeout) [] w = Some (r, w')"
    using assms(1)
    by (auto simp: expect_def raiseE_def rx_multiline_def rx_literal_def list_ex_iff split: if_splits option.splits)
  with expect_loop_outcome [OF this(3) _ single] assms(2) show ?thesis by (auto simp: expect_outcome_def)
qed

text \<open>The text ' login: ' in two pieces, behind another line.\<close>

definition console_env :: env where
  "console_env = working_env\<lparr>e_port_read := (\<lambda>w _. Some (case length (trace w) of
     0 \<Rightarrow> ''boot'' @ [CHR 0x0A] @ ''a8 lo'' | Suc 0 \<Rightarrow> [] | _ \<Rightarrow> ''gin: '')),
     e_dur := \<lambda>_ _. 100\<rparr>"

theorem expect_literal_witness:
  "\<exists>w'. expect console_env ''tty'' [rx_literal '' login: ''] (Some 1) () world0 = (Inr '' login: '', (), w')
     \<and> (\<exists>rs. trace w' = map (SerialRead ''tty'') rs \<and> sublist '' login: '' (concat rs))"
proof -
  let ?run = "expect console_env ''tty'' [rx_literal '' login: ''] (Some 1) () world0"
  let ?w1 = "log_event console_env (SerialRead ''tty'' (''boot'' @ [CHR 0x0A] @ ''a8 lo'')) world0"
  let ?w2 = "log_event console_env (SerialRead ''tty'' []) ?w1"
  note sim = console_env_def log_event_def working_env_def world0_def last_line_def rx_literal_def
  have "expect_loop console_env ''tty'' [rx_literal '' login: ''] (Some 1000) (''boot'' @ [CHR 0x0A] @ ''a8 lo'') ?w2
      = Some ('' login: '', log_event console_env (SerialRead ''tty'' ''gin: '') ?w2)"
    by (subst expect_loop.simps) (simp add: sim)
  then have "expect_loop console_env ''tty'' [rx_literal '' login: ''] (Some 1000) (''boot'' @ [CHR 0x0A] @ ''a8 lo'') ?w1
      = Some ('' login: '', log_event console_env (SerialRead ''tty'' ''gin: '') ?w2)"
    by (subst expect_loop.simps) (simp add: sim)
  then have "expect_loop console_env ''tty'' [rx_literal '' login: ''] (Some 1000) [] world0
      = Some ('' login: '', log_event console_env (SerialRead ''tty'' ''gin: '') ?w2)"
    by (subst expect_loop.simps) (simp add: sim)
  then have "fst ?run = Inr '' login: ''"
    by (simp add: expect_def rx_multiline_def rx_literal_def list_ex_iff world0_def)
  then obtain s' w' where run: "?run = (Inr '' login: '', s', w')" by (metis prod.collapse)
  have ne: "'' login: '' \<noteq> []" by simp
  from expect_literal [OF run ne] obtain rs where rs: "trace w' = trace world0 @ map (SerialRead ''tty'') rs"
    and found: "'' login: '' = '' login: '' \<and> sublist '' login: '' (concat rs)
       \<or> '' login: '' = [] \<and> \<not> sublist '' login: '' (concat (butlast rs))" by (elim exE conjE) (rule that)
  show ?thesis
  proof (intro exI conjI)
    show "?run = (Inr '' login: '', (), w')" using run by (cases s') (simp only:)
    show "trace w' = map (SerialRead ''tty'') rs" using rs by (simp only: world0_def world.simps append_Nil)
    show "sublist '' login: '' (concat rs)" using found ne by (elim disjE conjE) (assumption, erule notE, assumption)
  qed
qed

text \<open>C37: expecting with a timeout ends.  When a read takes between one and \<open>d\<close> milliseconds, \<open>expect\<close>
  returns, whatever is read, and at most \<open>d\<close> milliseconds after its end time.\<close>

theorem expect_returns:
  assumes "\<And>w bytes. 1 \<le> e_dur E w (SerialRead port bytes) \<and> e_dur E w (SerialRead port bytes) \<le> d"
    and "\<not> rx_multiline pattern" and "0 \<le> timeout"
  shows "\<exists>r w'. expect E port pattern (Some timeout) s w = (Inr r, s, w') \<and> now w' \<le> now w + 1000 * timeout + int d"
  using expect_loop_returns [OF assms(1), of pattern "now w + 1000 * timeout" "[]" w] assms(2,3)
  by (auto simp: expect_def)

theorem expect_returns_witness:
  "\<exists>r w'. expect console_env ''tty'' [rx_literal ''# ''] (Some 1) () world0 = (Inr r, (), w') \<and> now w' \<le> 1100"
proof -
  have "1 \<le> e_dur console_env w (SerialRead ''tty'' bytes) \<and> e_dur console_env w (SerialRead ''tty'' bytes) \<le> 100" for w bytes
    by (simp add: console_env_def)
  from expect_returns [OF this, of "[rx_literal ''# '']" 1 "()" world0] show ?thesis
    by (simp add: rx_multiline_def rx_literal_def world0_def)
qed

end
