(* ===== verification/Open_Nodes.thy ===== *)
theory Open_Nodes
  imports Boards Serial_Expect
begin

text \<open>
  Model of the methods of \<^verbatim>\<open>gateway_code/open_nodes\<close>.  The boards share a few implementations, one per
  section; an object is a record of its class and its attributes.  The last section puts the
  objects of all classes into one datatype, in which a method that a class does not have raises
  AttributeError.
\<close>

section \<open>Shared parts\<close>

text \<open>\<open>firmware_path or self.FW_IDLE\<close>\<close>

definition fw_or_idle :: "board_class \<Rightarrow> string option \<Rightarrow> ('s, string) act" where
  "fw_or_idle c fw =
     (case fw of
        Some (x # xs) \<Rightarrow> retE (x # xs)
      | _ \<Rightarrow> (case b_FW_IDLE c of None \<Rightarrow> raiseE AttributeErr | Some idle \<Rightarrow> retE idle))"

definition default_redirection :: "board_class \<Rightarrow> ('s, ext_process) act" where
  "default_redirection c = SerialRedirection_init (b_TTY c) (b_BAUDRATE c) [''echo=0'', ''raw'']"

text \<open>\<open>serial.Serial(TTY, BAUDRATE)\<close>, then \<open>body\<close>; without the port the method returns 1.\<close>

definition with_serial :: "env \<Rightarrow> string \<Rightarrow> ('s, int) act \<Rightarrow> ('s, int) act" where
  "with_serial E tty body =
     bindE (askE (\<lambda>w. e_serial E w tty)) (\<lambda>r.
       case r of
         None \<Rightarrow> thenE (emitE E (SerialOpen tty)) body
       | Some e \<Rightarrow> if e = SerialErr then retE 1 else raiseE e)"

section \<open>OpenOCD boards\<close>

record openocd_node =
  on_class :: board_class
  on_redirect :: ext_process
  on_openocd :: openocd

definition NodeOpenOCD_init :: "env \<Rightarrow> board_class \<Rightarrow> ('s, openocd_node) act" where
  "NodeOpenOCD_init E c =
     bindE (default_redirection c) (\<lambda>redirect.
     bindE (OpenOCD_init E (b_OPENOCD_RESET c) (b_OPENOCD_PATH c) (b_OPENOCD_CFG_FILE c) (b_OPENOCD_OPTS c)) (\<lambda>oo.
       retE \<lparr>on_class = c, on_redirect = redirect, on_openocd = oo\<rparr>))"

definition clear_serial :: "env \<Rightarrow> string \<Rightarrow> ('s, int) act" where
  "clear_serial E tty = with_serial E tty (thenE (serial_io E tty (SerialFlush tty)) (retE 0))"

definition openocd_node_flash :: "env \<Rightarrow> string option \<Rightarrow> bool \<Rightarrow> int \<Rightarrow> (openocd_node, int) act" where
  "openocd_node_flash E fw binary offset =
     bindE (getE on_class) (\<lambda>c.
     bindE (fw_or_idle c fw) (\<lambda>path.
       sum_rets
         [zoomE on_openocd on_openocd_update (openocd_flash E path binary (b_ROM_START_ADDR c + offset)),
          if b_JLINK_SERIAL c then wait_tty E (b_TTY c) TTY_DETECT_TIME else retE 0,
          if b_DIRTY_SERIAL c then clear_serial E (b_TTY c) else retE 0]))"

definition openocd_node_reset :: "env \<Rightarrow> (openocd_node, int) act" where
  "openocd_node_reset E = zoomE on_openocd on_openocd_update (openocd_reset E)"

definition openocd_node_debug_start :: "env \<Rightarrow> (openocd_node, int) act" where
  "openocd_node_debug_start E = zoomE on_openocd on_openocd_update (openocd_debug_start E)"

definition openocd_node_debug_stop :: "env \<Rightarrow> (openocd_node, int) act" where
  "openocd_node_debug_stop E = zoomE on_openocd on_openocd_update (openocd_debug_stop E)"

definition openocd_node_setup :: "env \<Rightarrow> string option \<Rightarrow> (openocd_node, int) act" where
  "openocd_node_setup E fw =
     bindE (getE (\<lambda>s. b_TTY (on_class s))) (\<lambda>tty.
       sum_rets
         [ignoreE (wait_no_tty E tty TTY_DETECT_TIME),
          wait_tty E tty TTY_DETECT_TIME,
          openocd_node_flash E fw False 0,
          zoomE on_redirect on_redirect_update (xp_start E)])"

definition openocd_node_teardown :: "env \<Rightarrow> (openocd_node, int) act" where
  "openocd_node_teardown E =
     bindE (getE (\<lambda>s. b_TTY (on_class s))) (\<lambda>tty.
       sum_rets
         [ignoreE (wait_no_tty E tty TTY_DETECT_TIME),
          wait_tty E tty TTY_DETECT_TIME,
          openocd_node_debug_stop E,
          zoomE on_redirect on_redirect_update (xp_stop E),
          openocd_node_flash E None False 0])"

text \<open>\<open>status\<close>: the m3 and a8-m3 boards look for their FTDI chip, the others do nothing.\<close>

definition openocd_node_status :: "env \<Rightarrow> (openocd_node, int) act" where
  "openocd_node_status E =
     bindE (getE (\<lambda>s. b_TYPE (on_class s))) (\<lambda>t.
       if t = ''m3'' \<or> t = ''a8_m3'' then ftdi_check E ''2232'' None else retE 0)"

section \<open>EDBG boards\<close>

text \<open>No board of the installation uses this base class; it is the only one that is stateful in debug mode.\<close>

record edbg_node =
  en_class :: board_class
  en_redirect :: ext_process
  en_openocd :: openocd
  en_current_fw :: "string option"
  en_in_debug :: bool

definition NodeEdbg_init :: "env \<Rightarrow> board_class \<Rightarrow> ('s, edbg_node) act" where
  "NodeEdbg_init E c =
     bindE (default_redirection c) (\<lambda>redirect.
     bindE (OpenOCD_init E (b_OPENOCD_RESET c) (b_OPENOCD_PATH c) (b_OPENOCD_CFG_FILE c) (b_OPENOCD_OPTS c)) (\<lambda>oo.
       retE \<lparr>en_class = c, en_redirect = redirect, en_openocd = oo, en_current_fw = None, en_in_debug = False\<rparr>))"

definition edbg_node_flash :: "env \<Rightarrow> string option \<Rightarrow> bool \<Rightarrow> int \<Rightarrow> (edbg_node, int) act" where
  "edbg_node_flash E fw binary offset =
     bindE (getE en_class) (\<lambda>c.
     bindE (fw_or_idle c fw) (\<lambda>path.
       thenE (putE (en_current_fw_update (\<lambda>_. Some path)))
       (bindE (getE en_in_debug) (\<lambda>in_debug.
          if in_debug then zoomE en_openocd en_openocd_update (openocd_flash E path binary offset)
          else edbg_flash E path binary offset))))"

definition edbg_node_reset :: "env \<Rightarrow> (edbg_node, int) act" where
  "edbg_node_reset E = zoomE en_openocd en_openocd_update (openocd_reset E)"

definition edbg_node_debug_start :: "env \<Rightarrow> (edbg_node, int) act" where
  "edbg_node_debug_start E =
     thenE (putE (en_in_debug_update (\<lambda>_. True)))
     (bindE (getE en_current_fw) (\<lambda>fw.
        thenE (case fw of None \<Rightarrow> retE 0 | Some path \<Rightarrow> edbg_node_flash E (Some path) False 0)
              (zoomE en_openocd en_openocd_update (openocd_debug_start E))))"

definition edbg_node_debug_stop :: "env \<Rightarrow> (edbg_node, int) act" where
  "edbg_node_debug_stop E =
     thenE (putE (en_in_debug_update (\<lambda>_. False)))
           (zoomE en_openocd en_openocd_update (openocd_debug_stop E))"

definition edbg_node_setup :: "env \<Rightarrow> string option \<Rightarrow> (edbg_node, int) act" where
  "edbg_node_setup E fw =
     thenE (putE (en_in_debug_update (\<lambda>_. False)))
     (bindE (getE (\<lambda>s. b_TTY (en_class s))) (\<lambda>tty.
       sum_rets
         [ignoreE (wait_no_tty E tty TTY_DETECT_TIME),
          wait_tty E tty TTY_DETECT_TIME,
          edbg_node_flash E fw False 0,
          zoomE en_redirect en_redirect_update (xp_start E)]))"

definition edbg_node_teardown :: "env \<Rightarrow> (edbg_node, int) act" where
  "edbg_node_teardown E =
     thenE (putE (en_in_debug_update (\<lambda>_. False)))
     (bindE (getE (\<lambda>s. b_TTY (en_class s))) (\<lambda>tty.
       sum_rets
         [ignoreE (wait_no_tty E tty TTY_DETECT_TIME),
          wait_tty E tty TTY_DETECT_TIME,
          edbg_node_debug_stop E,
          zoomE en_redirect en_redirect_update (xp_stop E),
          edbg_node_flash E None False 0]))"

section \<open>Leonardo\<close>

record avr_node =
  an_class :: board_class
  an_redirect :: ext_process
  an_avrdude :: avrdude

abbreviation avr_redirect :: "(ext_process, int) act \<Rightarrow> (avr_node, int) act" where
  "avr_redirect m \<equiv> zoomE an_redirect an_redirect_update m"

definition LEONARDO_TTY_PROG :: string where
  "LEONARDO_TTY_PROG = ''/dev/ttyON_LEONARDO_PROG''"

definition LEONARDO_TTY_RESTORE_TIME :: int where
  "LEONARDO_TTY_RESTORE_TIME = 8 + TTY_DETECT_TIME"

definition NodeLeonardo_init :: "board_class \<Rightarrow> ('s, avr_node) act" where
  "NodeLeonardo_init c =
     bindE (default_redirection c) (\<lambda>redirect.
       retE \<lparr>an_class = c, an_redirect = redirect,
             an_avrdude = \<lparr>av_tty = LEONARDO_TTY_PROG, av_baudrate = 9600, av_model = ''atmega32u4'',
                           av_programmer = ''avr109''\<rparr>\<rparr>)"

definition leonardo_wait_tty_ready :: "env \<Rightarrow> string \<Rightarrow> ('s, int) act" where
  "leonardo_wait_tty_ready E tty =
     thenE (wait_no_tty E tty TTY_DETECT_TIME)
     (bindE (wait_tty E tty TTY_DETECT_TIME) (\<lambda>ret. thenE (py_sleep E 1000) (retE ret)))"

definition leonardo_flash :: "env \<Rightarrow> string option \<Rightarrow> bool \<Rightarrow> int \<Rightarrow> (avr_node, int) act" where
  "leonardo_flash E fw binary offset =
     bindE (getE an_class) (\<lambda>c.
     bindE (trigger_bootloader E (b_TTY c) LEONARDO_TTY_PROG 15) (\<lambda>r.
       if r \<noteq> 0 then retE 1
       else if binary then retE 1
       else if offset \<noteq> 0 then retE 1
       else bindE (fw_or_idle c fw) (\<lambda>path.
         sum_rets
           [zoomE an_avrdude an_avrdude_update (avrdude_flash E path),
            wait_tty E (b_TTY c) LEONARDO_TTY_RESTORE_TIME])))"

definition leonardo_setup :: "env \<Rightarrow> string option \<Rightarrow> (avr_node, int) act" where
  "leonardo_setup E fw =
     bindE (getE (\<lambda>s. b_TTY (an_class s))) (\<lambda>tty.
       sum_rets [leonardo_wait_tty_ready E tty, leonardo_flash E fw False 0, avr_redirect (xp_start E)])"

definition leonardo_teardown :: "env \<Rightarrow> (avr_node, int) act" where
  "leonardo_teardown E =
     bindE (getE (\<lambda>s. b_TTY (an_class s))) (\<lambda>tty.
       sum_rets [leonardo_wait_tty_ready E tty, avr_redirect (xp_stop E), leonardo_flash E None False 0])"

definition leonardo_reset :: "env \<Rightarrow> (avr_node, int) act" where
  "leonardo_reset E =
     bindE (getE (\<lambda>s. b_TTY (an_class s))) (\<lambda>tty.
       sum_rets [trigger_bootloader E tty LEONARDO_TTY_PROG 10, wait_tty E tty LEONARDO_TTY_RESTORE_TIME])"

section \<open>Zigduino\<close>

definition NodeZigduino_init :: "board_class \<Rightarrow> ('s, avr_node) act" where
  "NodeZigduino_init c =
     bindE (default_redirection c) (\<lambda>redirect.
       retE \<lparr>an_class = c, an_redirect = redirect,
             an_avrdude = \<lparr>av_tty = b_TTY c, av_baudrate = 57600, av_model = ''atmega128rfa1'',
                           av_programmer = ''arduino''\<rparr>\<rparr>)"

definition disable_dtr :: "env \<Rightarrow> string \<Rightarrow> ('s, int) act" where
  "disable_dtr E tty =
     with_serial E tty
       (bindE (askE (\<lambda>w. e_open E w tty)) (\<lambda>r.
          case r of
            Some n \<Rightarrow> raiseE (IOErr n)
          | None \<Rightarrow>
              bindE (askE (\<lambda>w. e_termios E w tty)) (\<lambda>t.
                case t of
                  Some e \<Rightarrow> raiseE e
                | None \<Rightarrow> thenE (emitE E (SerialAttrs tty)) (retE 0))))"

definition zigduino_do_flash :: "env \<Rightarrow> string option \<Rightarrow> bool \<Rightarrow> int \<Rightarrow> bool \<Rightarrow> (avr_node, int) act" where
  "zigduino_do_flash E fw binary offset redirect =
     (if binary then retE 1
      else if offset \<noteq> 0 then retE 1
      else bindE (getE an_class) (\<lambda>c.
           bindE (fw_or_idle c fw) (\<lambda>path.
             sum_rets
               [ignoreE (wait_no_tty E (b_TTY c) TTY_DETECT_TIME),
                wait_tty E (b_TTY c) TTY_DETECT_TIME,
                if redirect then avr_redirect (xp_stop E) else retE 0,
                zoomE an_avrdude an_avrdude_update (avrdude_flash E path),
                wait_tty E (b_TTY c) 10,
                if redirect then sum_rets [disable_dtr E (b_TTY c), avr_redirect (xp_start E)] else retE 0])))"

definition zigduino_flash :: "env \<Rightarrow> string option \<Rightarrow> bool \<Rightarrow> int \<Rightarrow> (avr_node, int) act" where
  "zigduino_flash E fw binary offset = zigduino_do_flash E fw binary offset True"

definition zigduino_setup :: "env \<Rightarrow> string option \<Rightarrow> (avr_node, int) act" where
  "zigduino_setup E fw =
     bindE (getE (\<lambda>s. b_TTY (an_class s))) (\<lambda>tty.
       sum_rets
         [ignoreE (wait_no_tty E tty TTY_DETECT_TIME),
          wait_tty E tty TTY_DETECT_TIME,
          zigduino_do_flash E fw False 0 False,
          disable_dtr E tty,
          avr_redirect (xp_start E)])"

definition zigduino_teardown :: "env \<Rightarrow> (avr_node, int) act" where
  "zigduino_teardown E =
     bindE (getE (\<lambda>s. b_TTY (an_class s))) (\<lambda>tty.
       sum_rets
         [ignoreE (wait_no_tty E tty TTY_DETECT_TIME),
          wait_tty E tty TTY_DETECT_TIME,
          avr_redirect (xp_stop E),
          wait_tty E tty 10,
          zigduino_do_flash E None False 0 False])"

definition zigduino_toggle_dtr :: "env \<Rightarrow> string \<Rightarrow> ('s, unit) act" where
  "zigduino_toggle_dtr E tty =
     tryE (thenE (serial_io E tty (SerialDtr tty False)) (thenE (py_sleep E 500)
          (thenE (serial_io E tty (SerialDtr tty True)) (py_sleep E 500))))
          (\<lambda>e. case e of OSErr _ \<Rightarrow> Some (retE ()) | _ \<Rightarrow> None)"

definition zigduino_reset :: "env \<Rightarrow> (avr_node, int) act" where
  "zigduino_reset E =
     bindE (getE (\<lambda>s. b_TTY (an_class s))) (\<lambda>tty.
       with_serial E tty (thenE (zigduino_toggle_dtr E tty) (wait_tty E tty 10)))"

section \<open>Firefly\<close>

record firefly_node =
  fn_class :: board_class
  fn_redirect :: ext_process
  fn_cc2538 :: cc2538

definition NodeFirefly_init :: "board_class \<Rightarrow> ('s, firefly_node) act" where
  "NodeFirefly_init c =
     bindE (default_redirection c) (\<lambda>redirect.
       retE \<lparr>fn_class = c, fn_redirect = redirect,
             fn_cc2538 = \<lparr>cc_port = b_TTY c, cc_baud = 460800\<rparr>\<rparr>)"

definition firefly_do_flash :: "env \<Rightarrow> string option \<Rightarrow> bool \<Rightarrow> (firefly_node, int) act" where
  "firefly_do_flash E fw toggle_redirect =
     bindE (getE fn_class) (\<lambda>c.
     bindE (fw_or_idle c fw) (\<lambda>path.
       sum_rets
         [if toggle_redirect then zoomE fn_redirect fn_redirect_update (xp_stop E) else retE 0,
          zoomE fn_cc2538 fn_cc2538_update (cc2538_flash E path),
          if toggle_redirect then zoomE fn_redirect fn_redirect_update (xp_start E) else retE 0]))"

definition firefly_flash :: "env \<Rightarrow> string option \<Rightarrow> bool \<Rightarrow> int \<Rightarrow> (firefly_node, int) act" where
  "firefly_flash E fw binary offset =
     (if binary then retE 1 else if offset \<noteq> 0 then retE 1 else firefly_do_flash E fw True)"

definition firefly_setup :: "env \<Rightarrow> string option \<Rightarrow> (firefly_node, int) act" where
  "firefly_setup E fw =
     bindE (getE (\<lambda>s. b_TTY (fn_class s))) (\<lambda>tty.
       sum_rets
         [ignoreE (wait_no_tty E tty TTY_DETECT_TIME),
          wait_tty E tty TTY_DETECT_TIME,
          firefly_do_flash E fw False,
          zoomE fn_redirect fn_redirect_update (xp_start E)])"

definition firefly_teardown :: "env \<Rightarrow> (firefly_node, int) act" where
  "firefly_teardown E =
     bindE (getE (\<lambda>s. b_TTY (fn_class s))) (\<lambda>tty.
       sum_rets
         [ignoreE (wait_no_tty E tty TTY_DETECT_TIME),
          wait_tty E tty TTY_DETECT_TIME,
          zoomE fn_redirect fn_redirect_update (xp_stop E),
          firefly_do_flash E None False])"

definition firefly_reset :: "env \<Rightarrow> (firefly_node, int) act" where
  "firefly_reset E = zoomE fn_cc2538 fn_cc2538_update (cc2538_reset E)"

section \<open>Linux boards: A8 and Raspberry Pi\<close>

text \<open>
  \<open>wait_booted\<close> watches the console of the board; in an experiment it runs in a thread of its own,
  of which only the connection matters to the other methods.  \<open>ln_expect\<close> says that
  \<open>_a8_expect\<close> (\<open>_rpi3_expect\<close>) is set.
\<close>

record linux_node =
  ln_class :: board_class
  ln_redirect :: ext_process
  ln_expect :: bool

definition LINUX_TTY_DETECT_TIME :: int where
  "LINUX_TTY_DETECT_TIME = 20"

definition NodeLinux_init :: "board_class \<Rightarrow> ('s, linux_node) act" where
  "NodeLinux_init c =
     bindE (default_redirection c) (\<lambda>redirect. retE \<lparr>ln_class = c, ln_redirect = redirect, ln_expect = False\<rparr>)"

definition debug_boot_start :: "env \<Rightarrow> ('s, unit) act" where
  "debug_boot_start E = emitE E (ThreadStart ''wait_booted'')"

definition linux_setup :: "env \<Rightarrow> bool \<Rightarrow> (linux_node, int) act" where
  "linux_setup E debug =
     bindE (getE (\<lambda>s. b_TTY (ln_class s))) (\<lambda>tty.
     bindE (sum_rets
              [ignoreE (wait_no_tty E tty TTY_DETECT_TIME),
               wait_tty E tty LINUX_TTY_DETECT_TIME,
               zoomE ln_redirect ln_redirect_update (xp_start E)]) (\<lambda>ret_val.
       if ret_val = 0 \<and> debug then thenE (debug_boot_start E) (retE ret_val) else retE ret_val))"

text \<open>\<open>_debug_boot_stop\<close>: closing the connection takes a second; without one, nothing is done\<close>

definition debug_boot_stop :: "env \<Rightarrow> (linux_node, int) act" where
  "debug_boot_stop E =
     bindE (getE ln_expect) (\<lambda>set.
     bindE (askE (e_booting E)) (\<lambda>booting.
       thenE (if set \<or> booting then expect_socket_close E else retE ()) (retE 0)))"

text \<open>\<open>wait_booted\<close>: the prompt, or the empty string when it did not come; the connection is closed at the end\<close>

definition wait_booted :: "env \<Rightarrow> int \<Rightarrow> (linux_node, string) act" where
  "wait_booted E timeout =
     finallyE
       (tryE (bindE (SerialExpectForSocket_init E ''localhost'' 20000) (\<lambda>port.
                thenE (putE (ln_expect_update (\<lambda>_. True))) (expect E port [rx_literal '' login: ''] (Some timeout))))
             (\<lambda>e. case e of OSErr _ \<Rightarrow> Some (retE []) | SerialErr \<Rightarrow> Some (retE []) | _ \<Rightarrow> None))
       (thenE (debug_boot_stop E) (retE ()))"

definition linux_teardown :: "env \<Rightarrow> (linux_node, int) act" where
  "linux_teardown E = sum_rets [zoomE ln_redirect ln_redirect_update (xp_stop E), debug_boot_stop E]"

section \<open>Pycom\<close>

record pycom_node =
  pn_class :: board_class
  pn_redirect :: ext_process

definition crlf :: "string \<Rightarrow> string" where
  "crlf s = s @ [CHR 0x0D, CHR 0x0A]"

definition PYCOM_SAFE_REBOOT_SEQUENCE :: "string list" where
  "PYCOM_SAFE_REBOOT_SEQUENCE = [crlf [CHR 0x03], crlf [CHR 0x06]]"

definition PYCOM_FLASH_ERASE_SEQUENCE :: "string list" where
  "PYCOM_FLASH_ERASE_SEQUENCE =
     [crlf ''import os'', crlf (''os.mkfs('' @ [squote] @ ''/flash'' @ [squote] @ '')'')]"

definition PYCOM_RESET_SEQUENCE :: "string list" where
  "PYCOM_RESET_SEQUENCE = [crlf ''import machine'', crlf ''machine.reset()'']"

definition NodePycom_init :: "board_class \<Rightarrow> ('s, pycom_node) act" where
  "NodePycom_init c =
     bindE (SerialRedirection_init (b_TTY c) (b_BAUDRATE c) [''echo=0'', ''raw'', ''crnl'']) (\<lambda>redirect.
       retE \<lparr>pn_class = c, pn_redirect = redirect\<rparr>)"

text \<open>The loop of \<open>_send_sequence\<close>: write, wait, read what came back.\<close>

fun send_commands :: "env \<Rightarrow> string \<Rightarrow> int option \<Rightarrow> string list \<Rightarrow> ('s, int) act" where
  "send_commands E tty delay [] = retE 0"
| "send_commands E tty delay (command # commands) =
     thenE (serial_io E tty (SerialWrite tty command))
     (thenE (case delay of None \<Rightarrow> retE () | Some d \<Rightarrow> py_sleep E (1000 * d))
     (bindE (askE (\<lambda>w. e_serial_io E w tty)) (\<lambda>r.
        case r of None \<Rightarrow> send_commands E tty delay commands | Some e \<Rightarrow> raiseE e)))"

definition send_sequence :: "env \<Rightarrow> string list \<Rightarrow> int option \<Rightarrow> (pycom_node, int) act" where
  "send_sequence E sequence delay =
     bindE (getE (\<lambda>s. b_TTY (pn_class s))) (\<lambda>tty. with_serial E tty (send_commands E tty delay sequence))"

text \<open>The reboot sequence is a set: its commands are sent in the order in which Python iterates it.\<close>

definition pycom_safe_reboot :: "env \<Rightarrow> (pycom_node, int) act" where
  "pycom_safe_reboot E = send_sequence E (e_set_iter E PYCOM_SAFE_REBOOT_SEQUENCE) (Some 2)"

definition pycom_reset :: "env \<Rightarrow> (pycom_node, int) act" where
  "pycom_reset E = send_sequence E PYCOM_RESET_SEQUENCE None"

definition pycom_setup :: "env \<Rightarrow> (pycom_node, int) act" where
  "pycom_setup E =
     bindE (getE (\<lambda>s. b_TTY (pn_class s))) (\<lambda>tty.
       sum_rets
         [wait_tty E tty 10, pycom_safe_reboot E, send_sequence E PYCOM_FLASH_ERASE_SEQUENCE None,
          pycom_reset E, zoomE pn_redirect pn_redirect_update (xp_start E)])"

definition pycom_teardown :: "env \<Rightarrow> (pycom_node, int) act" where
  "pycom_teardown E =
     sum_rets
       [pycom_safe_reboot E, send_sequence E PYCOM_FLASH_ERASE_SEQUENCE None,
        zoomE pn_redirect pn_redirect_update (xp_stop E)]"

section \<open>LoRa gateway\<close>

record lora_node =
  lo_class :: board_class
  lo_mosquitto :: ext_process
  lo_bridge :: ext_process

definition LORA_PKT_FORWARDER_MAX_TRIES :: nat where
  "LORA_PKT_FORWARDER_MAX_TRIES = 50"

definition LORA_PKT_FORWARDER_START_CMD :: "string list" where
  "LORA_PKT_FORWARDER_START_CMD = [''sudo'', ''CFG_DIR=/var/local/config'', ''/opt/lora/start.sh'']"

definition lora_pkt_fwd_pid :: "env \<Rightarrow> ('s, string option) act" where
  "lora_pkt_fwd_pid E =
     bindE (askE (\<lambda>w. e_output E w [''pgrep'', ''lora_pkt_fwd''])) (\<lambda>r.
       case r of
         Output out \<Rightarrow> retE (Some out)
       | OutputStatus \<Rightarrow> retE None
       | OutputFails n \<Rightarrow> raiseE (OSErr n))"

text \<open>The loop of \<open>_start_lora_pkt_fwd\<close>, with the number of tries that are left.\<close>

fun start_lora_loop :: "env \<Rightarrow> nat \<Rightarrow> ('s, unit) act" where
  "start_lora_loop E 0 = retE ()"
| "start_lora_loop E (Suc tries) =
     bindE (askE (\<lambda>w. e_popen E w LORA_PKT_FORWARDER_START_CMD)) (\<lambda>r.
       case r of
         PopenFails n \<Rightarrow> raiseE (OSErr n)
       | Started _ \<Rightarrow>
           thenE (emitE E (Spawn LORA_PKT_FORWARDER_START_CMD))
           (thenE (py_sleep E 2000)
           (bindE (lora_pkt_fwd_pid E) (\<lambda>pid.
              if pid = None then start_lora_loop E tries else retE ()))))"

definition start_lora_pkt_fwd :: "env \<Rightarrow> ('s, unit) act" where
  "start_lora_pkt_fwd E =
     bindE (lora_pkt_fwd_pid E) (\<lambda>pid.
       if pid = None then start_lora_loop E (LORA_PKT_FORWARDER_MAX_TRIES + 1) else retE ())"

definition NodeLoraGateway_init :: "env \<Rightarrow> board_class \<Rightarrow> ('s, lora_node) act" where
  "NodeLoraGateway_init E c =
     thenE (start_lora_pkt_fwd E)
     (bindE (Mosquitto_init 1883) (\<lambda>mosquitto.
      bindE (LoraGatewayBridge_init E) (\<lambda>bridge.
        retE \<lparr>lo_class = c, lo_mosquitto = mosquitto, lo_bridge = bridge\<rparr>)))"

definition lora_setup :: "env \<Rightarrow> (lora_node, int) act" where
  "lora_setup E =
     sum_rets [zoomE lo_mosquitto lo_mosquitto_update (xp_start E), zoomE lo_bridge lo_bridge_update (xp_start E)]"

definition lora_teardown :: "env \<Rightarrow> (lora_node, int) act" where
  "lora_teardown E =
     sum_rets [zoomE lo_bridge lo_bridge_update (xp_stop E), zoomE lo_mosquitto lo_mosquitto_update (xp_stop E)]"

section \<open>RTL-SDR\<close>

record rtl_node =
  rt_class :: board_class
  rt_rtl_tcp :: ext_process

definition NodeRtlSdr_init :: "board_class \<Rightarrow> ('s, rtl_node) act" where
  "NodeRtlSdr_init c =
     bindE (RtlTcp_init 50000 868000000) (\<lambda>rtl_tcp. retE \<lparr>rt_class = c, rt_rtl_tcp = rtl_tcp\<rparr>)"

definition rtl_power :: "env \<Rightarrow> string \<Rightarrow> ('s, int) act" where
  "rtl_power E cmd =
     (case shlex_split (ykush_cmd [] cmd ''3'') of
        None \<Rightarrow> raiseE ValueErr
      | Some args \<Rightarrow> bindE (py_call E args) (\<lambda>r. case r of None \<Rightarrow> raiseE Blocked | Some n \<Rightarrow> retE n))"

definition rtl_setup :: "env \<Rightarrow> (rtl_node, int) act" where
  "rtl_setup E = sum_rets [rtl_power E ''-u'', zoomE rt_rtl_tcp rt_rtl_tcp_update (xp_start E)]"

definition rtl_teardown :: "env \<Rightarrow> (rtl_node, int) act" where
  "rtl_teardown E = sum_rets [zoomE rt_rtl_tcp rt_rtl_tcp_update (xp_stop E), rtl_power E ''-d'']"

section \<open>Any open node\<close>

datatype open_node =
    OnOpenOCD openocd_node | OnEdbg edbg_node | OnLeonardo avr_node | OnZigduino avr_node
  | OnFirefly firefly_node | OnLinux linux_node | OnPycom pycom_node | OnLora lora_node | OnRtlSdr rtl_node

definition lift_init :: "('c \<Rightarrow> 'd) \<Rightarrow> ('s, 'c) act \<Rightarrow> ('s, 'd) act" where
  "lift_init C m = bindE m (\<lambda>c. retE (C c))"

definition open_node_init :: "env \<Rightarrow> board_class \<Rightarrow> ('s, open_node) act" where
  "open_node_init E c =
     (case b_kind c of
        KOpenOCD \<Rightarrow> lift_init OnOpenOCD (NodeOpenOCD_init E c)
      | KEdbg \<Rightarrow> lift_init OnEdbg (NodeEdbg_init E c)
      | KLeonardo \<Rightarrow> lift_init OnLeonardo (NodeLeonardo_init c)
      | KZigduino \<Rightarrow> lift_init OnZigduino (NodeZigduino_init c)
      | KFirefly \<Rightarrow> lift_init OnFirefly (NodeFirefly_init c)
      | KA8 \<Rightarrow> lift_init OnLinux (NodeLinux_init c)
      | KRpi3 \<Rightarrow> lift_init OnLinux (NodeLinux_init c)
      | KPycom \<Rightarrow> lift_init OnPycom (NodePycom_init c)
      | KLora \<Rightarrow> lift_init OnLora (NodeLoraGateway_init E c)
      | KRtlSdr \<Rightarrow> lift_init OnRtlSdr (NodeRtlSdr_init c))"

fun open_class :: "open_node \<Rightarrow> board_class" where
  "open_class (OnOpenOCD s) = on_class s"
| "open_class (OnEdbg s) = en_class s"
| "open_class (OnLeonardo s) = an_class s"
| "open_class (OnZigduino s) = an_class s"
| "open_class (OnFirefly s) = fn_class s"
| "open_class (OnLinux s) = ln_class s"
| "open_class (OnPycom s) = pn_class s"
| "open_class (OnLora s) = lo_class s"
| "open_class (OnRtlSdr s) = rt_class s"

text \<open>The methods that Pycom, LoRa gateway and RTL-SDR boards inherit from \<open>NodeNoBase\<close>.\<close>

definition nno_flash :: "string option \<Rightarrow> bool \<Rightarrow> int \<Rightarrow> ('s, int) act" where
  [simp]: "nno_flash fw binary offset = retE 0"

definition nno_reset :: "('s, int) act" where
  [simp]: "nno_reset = retE 0"

definition nno_status :: "('s, int) act" where
  [simp]: "nno_status = retE 0"

definition open_dispatch ::
  "(openocd_node, 'a) act \<Rightarrow> (edbg_node, 'a) act \<Rightarrow> (avr_node, 'a) act \<Rightarrow> (avr_node, 'a) act
   \<Rightarrow> (firefly_node, 'a) act \<Rightarrow> (linux_node, 'a) act \<Rightarrow> (pycom_node, 'a) act \<Rightarrow> (lora_node, 'a) act
   \<Rightarrow> (rtl_node, 'a) act \<Rightarrow> (open_node, 'a) act" where
  "open_dispatch a b c d e f g h i = (\<lambda>s w. case s of
      OnOpenOCD x \<Rightarrow> liftE OnOpenOCD a x w
    | OnEdbg x \<Rightarrow> liftE OnEdbg b x w
    | OnLeonardo x \<Rightarrow> liftE OnLeonardo c x w
    | OnZigduino x \<Rightarrow> liftE OnZigduino d x w
    | OnFirefly x \<Rightarrow> liftE OnFirefly e x w
    | OnLinux x \<Rightarrow> liftE OnLinux f x w
    | OnPycom x \<Rightarrow> liftE OnPycom g x w
    | OnLora x \<Rightarrow> liftE OnLora h x w
    | OnRtlSdr x \<Rightarrow> liftE OnRtlSdr i x w)"

definition open_setup :: "env \<Rightarrow> string option \<Rightarrow> (open_node, int) act" where
  "open_setup E fw =
     open_dispatch (openocd_node_setup E fw) (edbg_node_setup E fw) (leonardo_setup E fw) (zigduino_setup E fw)
       (firefly_setup E fw) (linux_setup E True) (pycom_setup E) (lora_setup E) (rtl_setup E)"

definition open_teardown :: "env \<Rightarrow> (open_node, int) act" where
  "open_teardown E =
     open_dispatch (openocd_node_teardown E) (edbg_node_teardown E) (leonardo_teardown E) (zigduino_teardown E)
       (firefly_teardown E) (linux_teardown E) (pycom_teardown E) (lora_teardown E) (rtl_teardown E)"

definition open_flash :: "env \<Rightarrow> string option \<Rightarrow> bool \<Rightarrow> int \<Rightarrow> (open_node, int) act" where
  "open_flash E fw binary offset =
     open_dispatch (openocd_node_flash E fw binary offset) (edbg_node_flash E fw binary offset)
       (leonardo_flash E fw binary offset) (zigduino_flash E fw binary offset)
       (firefly_flash E fw binary offset) (raiseE AttributeErr) (nno_flash fw binary offset)
       (nno_flash fw binary offset) (nno_flash fw binary offset)"

definition open_reset :: "env \<Rightarrow> (open_node, int) act" where
  "open_reset E =
     open_dispatch (openocd_node_reset E) (edbg_node_reset E) (leonardo_reset E) (zigduino_reset E)
       (firefly_reset E) (raiseE AttributeErr) (pycom_reset E) nno_reset nno_reset"

definition open_debug_start :: "env \<Rightarrow> (open_node, int) act" where
  "open_debug_start E =
     open_dispatch (openocd_node_debug_start E) (edbg_node_debug_start E) (raiseE AttributeErr)
       (raiseE AttributeErr) (raiseE AttributeErr) (raiseE AttributeErr) (raiseE AttributeErr)
       (raiseE AttributeErr) (raiseE AttributeErr)"

definition open_debug_stop :: "env \<Rightarrow> (open_node, int) act" where
  "open_debug_stop E =
     open_dispatch (openocd_node_debug_stop E) (edbg_node_debug_stop E) (raiseE AttributeErr)
       (raiseE AttributeErr) (raiseE AttributeErr) (raiseE AttributeErr) (raiseE AttributeErr)
       (raiseE AttributeErr) (raiseE AttributeErr)"

definition open_status :: "env \<Rightarrow> (open_node, int) act" where
  "open_status E =
     open_dispatch (openocd_node_status E) (retE 0) (retE 0) (retE 0) (retE 0) (retE 0)
       nno_status nno_status nno_status"

section \<open>Lemmas: no open node talks to the control node\<close>

lemma silent_fw_or_idle [silent_rules]: "silent (fw_or_idle c fw)"
  by (auto simp: fw_or_idle_def intro!: silent_rules split: option.split list.split)

lemma silent_with_serial [silent_rules]: "silent body \<Longrightarrow> silent (with_serial E tty body)"
  unfolding with_serial_def by (intro silent_rules silent_emitE) simp_all

lemma silent_serial_io [silent_rules]: "cn_cmds [ev] = [] \<Longrightarrow> silent (serial_io E tty ev)"
  unfolding serial_io_def by (intro silent_rules silent_emitE)

lemma silent_clear_serial [silent_rules]: "silent (clear_serial E tty)"
  unfolding clear_serial_def by (intro silent_rules) simp

lemma silent_disable_dtr [silent_rules]: "silent (disable_dtr E tty)"
  unfolding disable_dtr_def by (intro silent_rules silent_emitE) simp

lemma silent_leonardo_wait_tty_ready [silent_rules]: "silent (leonardo_wait_tty_ready E tty)"
  unfolding leonardo_wait_tty_ready_def by (intro silent_rules)

lemma silent_zigduino_do_flash [silent_rules]: "silent (zigduino_do_flash E fw binary offset redirect)"
  unfolding zigduino_do_flash_def by (intro silent_rules)

lemma silent_zigduino_toggle_dtr [silent_rules]: "silent (zigduino_toggle_dtr E tty)"
  unfolding zigduino_toggle_dtr_def
  by (intro silent_rules) (auto intro: silent_rules split: exc.splits)

lemma silent_firefly_do_flash [silent_rules]: "silent (firefly_do_flash E fw toggle)"
  unfolding firefly_do_flash_def by (intro silent_rules)

lemma silent_send_commands [silent_rules]: "silent (send_commands E tty delay cmds)"
  by (induction cmds) (auto intro!: silent_rules)

lemma silent_send_sequence [silent_rules]: "silent (send_sequence E cmds delay)"
  unfolding send_sequence_def by (intro silent_rules)

lemma silent_rtl_power [silent_rules]: "silent (rtl_power E cmd)"
  unfolding rtl_power_def by (intro silent_rules)

lemma silent_openocd_node_flash [silent_rules]: "silent (openocd_node_flash E fw binary offset)"
  unfolding openocd_node_flash_def by (intro silent_rules)

lemma silent_openocd_node_reset [silent_rules]: "silent (openocd_node_reset E)"
  unfolding openocd_node_reset_def by (intro silent_rules)

lemma silent_openocd_node_debug_start [silent_rules]: "silent (openocd_node_debug_start E)"
  unfolding openocd_node_debug_start_def by (intro silent_rules)

lemma silent_openocd_node_debug_stop [silent_rules]: "silent (openocd_node_debug_stop E)"
  unfolding openocd_node_debug_stop_def by (intro silent_rules)

lemma silent_openocd_node_setup [silent_rules]: "silent (openocd_node_setup E fw)"
  unfolding openocd_node_setup_def by (intro silent_rules)

lemma silent_openocd_node_teardown [silent_rules]: "silent (openocd_node_teardown E)"
  unfolding openocd_node_teardown_def by (intro silent_rules)

lemma silent_openocd_node_status [silent_rules]: "silent (openocd_node_status E)"
  unfolding openocd_node_status_def by (intro silent_rules)

lemma silent_edbg_node_flash [silent_rules]: "silent (edbg_node_flash E fw binary offset)"
  unfolding edbg_node_flash_def by (intro silent_rules)

lemma silent_edbg_node_reset [silent_rules]: "silent (edbg_node_reset E)"
  unfolding edbg_node_reset_def by (intro silent_rules)

lemma silent_edbg_node_debug_start [silent_rules]: "silent (edbg_node_debug_start E)"
  unfolding edbg_node_debug_start_def by (intro silent_rules)

lemma silent_edbg_node_debug_stop [silent_rules]: "silent (edbg_node_debug_stop E)"
  unfolding edbg_node_debug_stop_def by (intro silent_rules)

lemma silent_edbg_node_setup [silent_rules]: "silent (edbg_node_setup E fw)"
  unfolding edbg_node_setup_def by (intro silent_rules)

lemma silent_edbg_node_teardown [silent_rules]: "silent (edbg_node_teardown E)"
  unfolding edbg_node_teardown_def by (intro silent_rules)

lemma silent_leonardo_flash [silent_rules]: "silent (leonardo_flash E fw binary offset)"
  unfolding leonardo_flash_def by (intro silent_rules)

lemma silent_leonardo_reset [silent_rules]: "silent (leonardo_reset E)"
  unfolding leonardo_reset_def by (intro silent_rules)

lemma silent_leonardo_setup [silent_rules]: "silent (leonardo_setup E fw)"
  unfolding leonardo_setup_def by (intro silent_rules)

lemma silent_leonardo_teardown [silent_rules]: "silent (leonardo_teardown E)"
  unfolding leonardo_teardown_def by (intro silent_rules)

lemma silent_zigduino_flash [silent_rules]: "silent (zigduino_flash E fw binary offset)"
  unfolding zigduino_flash_def by (intro silent_rules)

lemma silent_zigduino_reset [silent_rules]: "silent (zigduino_reset E)"
  unfolding zigduino_reset_def by (intro silent_rules)

lemma silent_zigduino_setup [silent_rules]: "silent (zigduino_setup E fw)"
  unfolding zigduino_setup_def by (intro silent_rules)

lemma silent_zigduino_teardown [silent_rules]: "silent (zigduino_teardown E)"
  unfolding zigduino_teardown_def by (intro silent_rules)

lemma silent_firefly_flash [silent_rules]: "silent (firefly_flash E fw binary offset)"
  unfolding firefly_flash_def by (intro silent_rules)

lemma silent_firefly_reset [silent_rules]: "silent (firefly_reset E)"
  unfolding firefly_reset_def by (intro silent_rules)

lemma silent_firefly_setup [silent_rules]: "silent (firefly_setup E fw)"
  unfolding firefly_setup_def by (intro silent_rules)

lemma silent_firefly_teardown [silent_rules]: "silent (firefly_teardown E)"
  unfolding firefly_teardown_def by (intro silent_rules)

lemma silent_linux_setup [silent_rules]: "silent (linux_setup E debug)"
  unfolding linux_setup_def debug_boot_start_def by (intro silent_rules silent_emitE) simp

lemma silent_debug_boot_stop [silent_rules]: "silent (debug_boot_stop E)"
  unfolding debug_boot_stop_def expect_socket_close_def by (intro silent_rules)

lemma silent_linux_teardown [silent_rules]: "silent (linux_teardown E)"
  unfolding linux_teardown_def by (intro silent_rules)

lemma silent_pycom_reset [silent_rules]: "silent (pycom_reset E)"
  unfolding pycom_reset_def by (intro silent_rules)

lemma silent_pycom_setup [silent_rules]: "silent (pycom_setup E)"
  unfolding pycom_setup_def pycom_safe_reboot_def by (intro silent_rules)

lemma silent_pycom_teardown [silent_rules]: "silent (pycom_teardown E)"
  unfolding pycom_teardown_def pycom_safe_reboot_def by (intro silent_rules)

lemma silent_lora_setup [silent_rules]: "silent (lora_setup E)"
  unfolding lora_setup_def by (intro silent_rules)

lemma silent_lora_teardown [silent_rules]: "silent (lora_teardown E)"
  unfolding lora_teardown_def by (intro silent_rules)

lemma silent_rtl_setup [silent_rules]: "silent (rtl_setup E)"
  unfolding rtl_setup_def by (intro silent_rules)

lemma silent_rtl_teardown [silent_rules]: "silent (rtl_teardown E)"
  unfolding rtl_teardown_def by (intro silent_rules)

lemma silent_open_dispatch [silent_rules]:
  assumes "silent a" "silent b" "silent c" "silent d" "silent e" "silent f" "silent g" "silent h" "silent i"
  shows "silent (open_dispatch a b c d e f g h i)"
proof (rule silentI, rule keepsI)
  fix L s and w :: world assume "cn_log w = L"
  with assms show "wp (open_dispatch a b c d e f g h i) (\<lambda>_ _ w. cn_log w = L) (\<lambda>_ _ w. cn_log w = L) s w"
    by (cases s) (auto simp: open_dispatch_def wp_def liftE_def dest: silent_run split: prod.splits sum.splits)
qed

section \<open>Lemmas: the class of an object never changes\<close>

named_theorems stays_rules \<open>calls that leave an attribute as it is\<close>

definition stays :: "('s \<Rightarrow> 'v) \<Rightarrow> ('s, 'a) act \<Rightarrow> bool" where
  "stays f m \<longleftrightarrow> (\<forall>c. keeps (\<lambda>s _. f s = c) m)"

lemma stays_run: "stays f m \<Longrightarrow> m s w = (r, s', w') \<Longrightarrow> f s' = f s"
  unfolding stays_def using keeps_run [where I = "\<lambda>s' _. f s' = f s"] by blast

lemma stays_keeps: "(\<And>c. keeps (\<lambda>s _. f s = c) m) \<Longrightarrow> stays f m"
  by (simp add: stays_def)

lemma stays_retE [stays_rules]: "stays f (retE a)"
  by (intro stays_keeps keeps_rules)

lemma stays_raiseE [stays_rules]: "stays f (raiseE e)"
  by (intro stays_keeps keeps_rules)

lemma stays_getE [stays_rules]: "stays f (getE g)"
  by (intro stays_keeps keeps_rules)

lemma stays_askE [stays_rules]: "stays f (askE g)"
  by (intro stays_keeps keeps_rules)

lemma stays_emitE [stays_rules]: "stays f (emitE E ev)"
  by (simp add: stays_def keeps_def wp_simps)

lemma stays_py_sleep [stays_rules]: "stays f (py_sleep E ms)"
  unfolding py_sleep_def by (rule stays_emitE)

lemma stays_bindE [stays_rules]: "stays f m \<Longrightarrow> (\<And>a. stays f (g a)) \<Longrightarrow> stays f (bindE m g)"
  by (simp add: stays_def keeps_bindE)

lemma stays_thenE [stays_rules]: "stays f m \<Longrightarrow> stays f n \<Longrightarrow> stays f (thenE m n)"
  by (simp add: stays_def keeps_thenE)

lemma stays_tryE [stays_rules]:
  "stays f m \<Longrightarrow> (\<And>e k. h e = Some k \<Longrightarrow> stays f k) \<Longrightarrow> stays f (tryE m h)"
  unfolding stays_def by (auto intro: keeps_tryE)

lemma stays_finallyE [stays_rules]: "stays f m \<Longrightarrow> stays f n \<Longrightarrow> stays f (finallyE m n)"
  by (simp add: stays_def keeps_finallyE)

lemma stays_if [stays_rules]: "stays f m \<Longrightarrow> stays f n \<Longrightarrow> stays f (if b then m else n)"
  by simp

lemma stays_case_option [stays_rules]:
  "stays f n \<Longrightarrow> (\<And>a. stays f (g a)) \<Longrightarrow> stays f (case x of None \<Rightarrow> n | Some a \<Rightarrow> g a)"
  by (cases x) auto

lemma stays_case_sum [stays_rules]:
  "(\<And>a. stays f (g a)) \<Longrightarrow> (\<And>b. stays f (h b)) \<Longrightarrow> stays f (case x of Inl a \<Rightarrow> g a | Inr b \<Rightarrow> h b)"
  by (cases x) auto

lemma stays_ignoreE [stays_rules]: "stays f m \<Longrightarrow> stays f (ignoreE m)"
  by (simp add: stays_def keeps_ignoreE)

lemma stays_sum_rets_Nil [stays_rules]: "stays f (sum_rets [])"
  by (intro stays_keeps keeps_rules)

lemma stays_sum_rets_Cons [stays_rules]: "stays f m \<Longrightarrow> stays f (sum_rets ms) \<Longrightarrow> stays f (sum_rets (m # ms))"
  by (simp add: stays_def keeps_sum_rets_Cons)

lemma stays_wait_tty [stays_rules]: "stays f (wait_tty E tty timeout)"
  by (intro stays_keeps keeps_wait_tty) (simp add: sleep_stable_def)

lemma stays_wait_no_tty [stays_rules]: "stays f (wait_no_tty E tty timeout)"
  by (intro stays_keeps keeps_wait_no_tty) (simp add: sleep_stable_def)

lemma stays_zoomE: "(\<And>c s. f (upd (\<lambda>_. c) s) = f s) \<Longrightarrow> stays f (zoomE sel upd m)"
  by (auto simp: stays_def keeps_def wp_def zoomE_def split: prod.splits sum.splits)

lemma stays_putE: "(\<And>s. f (g s) = f s) \<Longrightarrow> stays f (putE g)"
  by (simp add: stays_def keeps_def wp_simps)

lemma stays_py_call [stays_rules]: "stays f (py_call E args)"
  by (auto simp: stays_def keeps_def wp_simps split: call_outcome.split)

lemma stays_run_args [stays_rules]: "stays f (run_args E args)"
  unfolding run_args_def by (intro stays_rules)

lemma stays_abspath [stays_rules]: "stays f (abspath E path)"
  unfolding abspath_def Let_def by (intro stays_rules)

lemma stays_edbg_flash [stays_rules]: "stays f (edbg_flash E fw binary offset)"
  unfolding edbg_flash_def ioerror_is_1_def edbg_call_cmd_def with_tempfile_def
  by (intro stays_rules) (auto intro: stays_rules split: exc.splits)

lemma stays_ftdi_check [stays_rules]: "stays f (ftdi_check E ftdi_type description)"
  by (auto simp: ftdi_check_def Let_def intro!: stays_rules split: output_outcome.split)

lemma stays_trigger_bootloader [stays_rules]: "stays f (trigger_bootloader E tty tty_prog timeout)"
  by (auto simp: trigger_bootloader_def intro!: stays_rules split: exc.split)

lemma stays_fw_or_idle [stays_rules]: "stays f (fw_or_idle c fw)"
  by (auto simp: fw_or_idle_def intro!: stays_rules split: option.split list.split)

lemma stays_with_serial [stays_rules]: "stays f body \<Longrightarrow> stays f (with_serial E tty body)"
  unfolding with_serial_def by (intro stays_rules)

lemma stays_serial_io [stays_rules]: "stays f (serial_io E tty ev)"
  unfolding serial_io_def by (intro stays_rules)

lemma stays_send_commands [stays_rules]: "stays f (send_commands E tty delay cmds)"
  by (induction cmds) (auto intro!: stays_rules)

lemma stays_zigduino_toggle_dtr [stays_rules]: "stays f (zigduino_toggle_dtr E tty)"
  unfolding zigduino_toggle_dtr_def
  by (intro stays_rules) (auto intro: stays_rules split: exc.splits)

lemmas open_shared_defs = clear_serial_def disable_dtr_def leonardo_wait_tty_ready_def zigduino_do_flash_def
  firefly_do_flash_def debug_boot_start_def send_sequence_def pycom_safe_reboot_def rtl_power_def

lemma stays_openocd_node_flash [stays_rules]: "stays on_class (openocd_node_flash E fw binary offset)"
  unfolding openocd_node_flash_def open_shared_defs by (intro stays_rules stays_zoomE stays_putE) simp_all

lemma stays_openocd_node_reset [stays_rules]: "stays on_class (openocd_node_reset E)"
  unfolding openocd_node_reset_def open_shared_defs by (intro stays_rules stays_zoomE stays_putE) simp_all

lemma stays_openocd_node_debug_start [stays_rules]: "stays on_class (openocd_node_debug_start E)"
  unfolding openocd_node_debug_start_def open_shared_defs by (intro stays_rules stays_zoomE stays_putE) simp_all

lemma stays_openocd_node_debug_stop [stays_rules]: "stays on_class (openocd_node_debug_stop E)"
  unfolding openocd_node_debug_stop_def open_shared_defs by (intro stays_rules stays_zoomE stays_putE) simp_all

lemma stays_openocd_node_setup [stays_rules]: "stays on_class (openocd_node_setup E fw)"
  unfolding openocd_node_setup_def open_shared_defs by (intro stays_rules stays_zoomE stays_putE) simp_all

lemma stays_openocd_node_teardown [stays_rules]: "stays on_class (openocd_node_teardown E)"
  unfolding openocd_node_teardown_def open_shared_defs by (intro stays_rules stays_zoomE stays_putE) simp_all

lemma stays_openocd_node_status [stays_rules]: "stays on_class (openocd_node_status E)"
  unfolding openocd_node_status_def open_shared_defs by (intro stays_rules)

lemma stays_edbg_node_flash [stays_rules]: "stays en_class (edbg_node_flash E fw binary offset)"
  unfolding edbg_node_flash_def open_shared_defs by (intro stays_rules stays_zoomE stays_putE) simp_all

lemma stays_edbg_node_reset [stays_rules]: "stays en_class (edbg_node_reset E)"
  unfolding edbg_node_reset_def open_shared_defs by (intro stays_rules stays_zoomE stays_putE) simp_all

lemma stays_edbg_node_debug_start [stays_rules]: "stays en_class (edbg_node_debug_start E)"
  unfolding edbg_node_debug_start_def open_shared_defs by (intro stays_rules stays_zoomE stays_putE) simp_all

lemma stays_edbg_node_debug_stop [stays_rules]: "stays en_class (edbg_node_debug_stop E)"
  unfolding edbg_node_debug_stop_def open_shared_defs by (intro stays_rules stays_zoomE stays_putE) simp_all

lemma stays_edbg_node_setup [stays_rules]: "stays en_class (edbg_node_setup E fw)"
  unfolding edbg_node_setup_def open_shared_defs by (intro stays_rules stays_zoomE stays_putE) simp_all

lemma stays_edbg_node_teardown [stays_rules]: "stays en_class (edbg_node_teardown E)"
  unfolding edbg_node_teardown_def open_shared_defs by (intro stays_rules stays_zoomE stays_putE) simp_all

lemma stays_leonardo_flash [stays_rules]: "stays an_class (leonardo_flash E fw binary offset)"
  unfolding leonardo_flash_def open_shared_defs by (intro stays_rules stays_zoomE stays_putE) simp_all

lemma stays_leonardo_reset [stays_rules]: "stays an_class (leonardo_reset E)"
  unfolding leonardo_reset_def open_shared_defs by (intro stays_rules)

lemma stays_leonardo_setup [stays_rules]: "stays an_class (leonardo_setup E fw)"
  unfolding leonardo_setup_def open_shared_defs by (intro stays_rules stays_zoomE stays_putE) simp_all

lemma stays_leonardo_teardown [stays_rules]: "stays an_class (leonardo_teardown E)"
  unfolding leonardo_teardown_def open_shared_defs by (intro stays_rules stays_zoomE stays_putE) simp_all

lemma stays_zigduino_flash [stays_rules]: "stays an_class (zigduino_flash E fw binary offset)"
  unfolding zigduino_flash_def open_shared_defs by (intro stays_rules stays_zoomE stays_putE) simp_all

lemma stays_zigduino_reset [stays_rules]: "stays an_class (zigduino_reset E)"
  unfolding zigduino_reset_def open_shared_defs by (intro stays_rules)

lemma stays_zigduino_setup [stays_rules]: "stays an_class (zigduino_setup E fw)"
  unfolding zigduino_setup_def open_shared_defs by (intro stays_rules stays_zoomE stays_putE) simp_all

lemma stays_zigduino_teardown [stays_rules]: "stays an_class (zigduino_teardown E)"
  unfolding zigduino_teardown_def open_shared_defs by (intro stays_rules stays_zoomE stays_putE) simp_all

lemma stays_firefly_flash [stays_rules]: "stays fn_class (firefly_flash E fw binary offset)"
  unfolding firefly_flash_def open_shared_defs by (intro stays_rules stays_zoomE stays_putE) simp_all

lemma stays_firefly_reset [stays_rules]: "stays fn_class (firefly_reset E)"
  unfolding firefly_reset_def open_shared_defs by (intro stays_rules stays_zoomE stays_putE) simp_all

lemma stays_firefly_setup [stays_rules]: "stays fn_class (firefly_setup E fw)"
  unfolding firefly_setup_def open_shared_defs by (intro stays_rules stays_zoomE stays_putE) simp_all

lemma stays_firefly_teardown [stays_rules]: "stays fn_class (firefly_teardown E)"
  unfolding firefly_teardown_def open_shared_defs by (intro stays_rules stays_zoomE stays_putE) simp_all

lemma stays_linux_setup [stays_rules]: "stays ln_class (linux_setup E debug)"
  unfolding linux_setup_def open_shared_defs by (intro stays_rules stays_zoomE stays_putE) simp_all

lemma stays_debug_boot_stop [stays_rules]: "stays f (debug_boot_stop E)"
  unfolding debug_boot_stop_def expect_socket_close_def by (intro stays_rules)

lemma stays_linux_teardown [stays_rules]: "stays ln_class (linux_teardown E)"
  unfolding linux_teardown_def open_shared_defs by (intro stays_rules stays_zoomE stays_putE) simp_all

lemma stays_pycom_reset [stays_rules]: "stays pn_class (pycom_reset E)"
  unfolding pycom_reset_def open_shared_defs by (intro stays_rules)

lemma stays_pycom_setup [stays_rules]: "stays pn_class (pycom_setup E)"
  unfolding pycom_setup_def open_shared_defs by (intro stays_rules stays_zoomE stays_putE) simp_all

lemma stays_pycom_teardown [stays_rules]: "stays pn_class (pycom_teardown E)"
  unfolding pycom_teardown_def open_shared_defs by (intro stays_rules stays_zoomE stays_putE) simp_all

lemma stays_lora_setup [stays_rules]: "stays lo_class (lora_setup E)"
  unfolding lora_setup_def open_shared_defs by (intro stays_rules stays_zoomE stays_putE) simp_all

lemma stays_lora_teardown [stays_rules]: "stays lo_class (lora_teardown E)"
  unfolding lora_teardown_def open_shared_defs by (intro stays_rules stays_zoomE stays_putE) simp_all

lemma stays_rtl_setup [stays_rules]: "stays rt_class (rtl_setup E)"
  unfolding rtl_setup_def open_shared_defs by (intro stays_rules stays_zoomE stays_putE) simp_all

lemma stays_rtl_teardown [stays_rules]: "stays rt_class (rtl_teardown E)"
  unfolding rtl_teardown_def open_shared_defs by (intro stays_rules stays_zoomE stays_putE) simp_all

lemma stays_open_dispatch:
  assumes "stays on_class a" "stays en_class b" "stays an_class c" "stays an_class d" "stays fn_class e"
    "stays ln_class f" "stays pn_class g" "stays lo_class h" "stays rt_class i"
  shows "stays open_class (open_dispatch a b c d e f g h i)"
proof (rule stays_keeps, rule keepsI)
  fix k s and w :: world assume "open_class s = k"
  with assms show "wp (open_dispatch a b c d e f g h i) (\<lambda>_ s _. open_class s = k) (\<lambda>_ s _. open_class s = k) s w"
    by (cases s) (auto simp: open_dispatch_def wp_def liftE_def dest: stays_run split: prod.splits sum.splits)
qed

section \<open>Every method of every open node\<close>

datatype open_op =
    OpSetup "string option" | OpTeardown | OpFlash "string option" bool int | OpReset
  | OpDebugStart | OpDebugStop | OpStatus

fun open_run :: "env \<Rightarrow> open_op \<Rightarrow> (open_node, int) act" where
  "open_run E (OpSetup fw) = open_setup E fw"
| "open_run E OpTeardown = open_teardown E"
| "open_run E (OpFlash fw binary offset) = open_flash E fw binary offset"
| "open_run E OpReset = open_reset E"
| "open_run E OpDebugStart = open_debug_start E"
| "open_run E OpDebugStop = open_debug_stop E"
| "open_run E OpStatus = open_status E"

lemmas open_op_defs = open_setup_def open_teardown_def open_flash_def open_reset_def open_debug_start_def
  open_debug_stop_def open_status_def nno_flash_def nno_reset_def nno_status_def

lemma silent_open_run: "silent (open_run E op)"
  by (cases op) (simp_all only: open_run.simps open_op_defs, (intro silent_rules)+)

lemma stays_open_run: "stays open_class (open_run E op)"
  by (cases op) (simp_all only: open_run.simps open_op_defs, (intro stays_open_dispatch stays_rules)+)

lemmas silent_open_ops [silent_rules] =
  silent_open_run [of E "OpSetup fw" for E fw, simplified]
  silent_open_run [of E OpTeardown for E, simplified]
  silent_open_run [of E "OpFlash fw binary offset" for E fw binary offset, simplified]
  silent_open_run [of E OpReset for E, simplified]
  silent_open_run [of E OpDebugStart for E, simplified]
  silent_open_run [of E OpDebugStop for E, simplified]
  silent_open_run [of E OpStatus for E, simplified]

section \<open>Lemmas: weakest preconditions of the parts\<close>

lemma wp_openocd_debug_stop:
  "(\<And>r w'. Q r (oo\<lparr>oo_debug := None\<rparr>) w') \<Longrightarrow> wp (openocd_debug_stop E) Q R oo w"
  by (auto simp: wp_def openocd_debug_stop_run split: option.split)

lemma wp_xp_stop:
  "(\<And>w'. Q 0 (s\<lparr>xp_run := False, xp_live := False\<rparr>) w') \<Longrightarrow> (\<And>e s' w'. R e s' w') \<Longrightarrow> wp (xp_stop E) Q R s w"
  by (auto simp: wp_def xp_stop_run split: option.split sum.split)

lemma wp_openocd_flash:
  assumes "openocd_ok oo opts" and "oo_debug oo = None" and "e_open E w (e_abspath E fw) = None"
    and "sh_quotable (e_abspath E fw)"
  shows "wp (openocd_flash E fw binary offset) Q R oo w =
     (case call_result E (openocd_argv oo opts (flash_cmds E (e_abspath E fw) binary offset)) w of
        (Inr n, w') \<Rightarrow> Q n oo w' | (Inl e, w') \<Rightarrow> R e oo w')"
  using openocd_flash_run [OF assms] by (auto simp: wp_def split: prod.splits sum.splits)

lemma wp_fw_or_idle_None: "b_FW_IDLE c = Some idle \<Longrightarrow> wp (fw_or_idle c None) Q R = Q idle"
  by (simp add: fw_or_idle_def wp_simps)

text \<open>Events are never forgotten.\<close>

lemma keeps_event_wait_tty: "keeps (\<lambda>s w. s = s0 \<and> ev \<in> set (trace w)) (wait_tty E tty timeout)"
  by (intro keeps_wait_tty) (auto simp: sleep_stable_def slept_def)

lemma keeps_event_clear_serial: "keeps (\<lambda>s w. s = s0 \<and> ev \<in> set (trace w)) (clear_serial E tty)"
  by (auto simp: keeps_def clear_serial_def with_serial_def serial_io_def wp_simps log_event_def split: option.split)

lemma openocd_node_flash_logged:
  assumes "openocd_ok (on_openocd s) opts" and "oo_debug (on_openocd s) = None"
    and "b_FW_IDLE (on_class s) = Some idle" and "sh_quotable (e_abspath E idle)"
    and "e_open E w (e_abspath E idle) = None"
  shows "wp (openocd_node_flash E None False 0)
     (\<lambda>_ s' w'. s' = s \<and> Call (openocd_argv (on_openocd s) opts
        (flash_cmds E (e_abspath E idle) False (b_ROM_START_ADDR (on_class s)))) \<in> set (trace w'))
     (\<lambda>_ _ _. True) s w"
    (is "wp _ (\<lambda>_ s' w'. s' = s \<and> ?ev \<in> set (trace w')) _ _ _")
proof -
  let ?tail = "sum_rets
     [if b_JLINK_SERIAL (on_class s) then wait_tty E (b_TTY (on_class s)) TTY_DETECT_TIME else retE 0,
      if b_DIRTY_SERIAL (on_class s) then clear_serial E (b_TTY (on_class s)) else retE 0]"
  have "keeps (\<lambda>s' w. s' = s \<and> ?ev \<in> set (trace w)) ?tail"
    by (intro keeps_rules keeps_event_wait_tty keeps_event_clear_serial)
  then have tail: "?ev \<in> set (trace v) \<Longrightarrow>
      wp ?tail (\<lambda>_ s' w'. s' = s \<and> ?ev \<in> set (trace w')) (\<lambda>_ _ _. True) s v" for v
    by (auto dest!: keepsD [where w = v and s = s] elim: wp_conseq)
  have "on_openocd_update (\<lambda>_. on_openocd s) s = s" by simp
  then show ?thesis
    unfolding openocd_node_flash_def wp_bindE wp_getE wp_fw_or_idle_None [OF assms(3)] wp_sum_rets_Cons [of "zoomE _ _ _"]
      wp_zoomE wp_openocd_flash [OF assms(1,2,5,4)] call_result_def
    using tail by (auto simp: log_event_def split: call_outcome.split)
qed

text \<open>What was written to serial ports.\<close>

definition serial_texts :: "event list \<Rightarrow> string list" where
  "serial_texts evs = concat (map (\<lambda>ev. case ev of SerialWrite _ t \<Rightarrow> [t] | _ \<Rightarrow> []) evs)"

section \<open>Properties\<close>

text \<open>Whatever method of whatever open node is called, and whether it returns or raises, the object
  keeps its class, and no command is sent to the control node.\<close>

theorem open_node_frame:
  assumes "open_run E op node w = (r, node', w')"
  shows "open_class node' = open_class node \<and> cn_log w' = cn_log w"
  using stays_run [OF stays_open_run assms] silent_run [OF silent_open_run assms] by simp

theorem open_node_frame_witness:
  "case open_run working_env OpReset (OnLora \<lparr>lo_class = NodeLoraGateway,
        lo_mosquitto = ExternalProcess_init [], lo_bridge = ExternalProcess_init []\<rparr>) world0
   of (r, node', w') \<Rightarrow> r = Inr 0 \<and> open_class node' = NodeLoraGateway \<and> cn_log w' = []"
proof -
  let ?node = "OnLora \<lparr>lo_class = NodeLoraGateway, lo_mosquitto = ExternalProcess_init [],
        lo_bridge = ExternalProcess_init []\<rparr>"
  have run: "open_run working_env OpReset ?node world0 = (Inr 0, ?node, world0)"
    by (simp add: open_reset_def open_dispatch_def liftE_def retE_def)
  have "cn_log world0 = []" by (simp add: world0_def)
  with open_node_frame [OF run] show ?thesis unfolding run by simp
qed

text \<open>C32: the end of an experiment on an OpenOCD board.  When the teardown returns, whatever it
  returns, the debug session is over, the serial redirection is stopped, and the idle firmware was
  given to OpenOCD, for an idle firmware that can be read and paths that the shell rules allow.\<close>

theorem openocd_teardown_idle:
  assumes run: "openocd_node_teardown E s w = (Inr r, s', w')"
    and ok: "openocd_ok (on_openocd s) opts"
    and idle: "b_FW_IDLE (on_class s) = Some idle" "sh_quotable (e_abspath E idle)"
    and readable: "\<forall>v. e_open E v (e_abspath E idle) = None"
  shows "oo_debug (on_openocd s') = None \<and> \<not> xp_live (on_redirect s')
     \<and> Call (openocd_argv (on_openocd s) opts (flash_cmds E (e_abspath E idle) False (b_ROM_START_ADDR (on_class s))))
       \<in> set (trace w')"
proof -
  let ?ev = "Call (openocd_argv (on_openocd s) opts
     (flash_cmds E (e_abspath E idle) False (b_ROM_START_ADDR (on_class s))))"
  let ?Q = "\<lambda>_ s' w'. oo_debug (on_openocd s') = None \<and> \<not> xp_live (on_redirect s') \<and> ?ev \<in> set (trace w')"
  have argv: "openocd_argv (oo\<lparr>oo_debug := None\<rparr>) opts cs = openocd_argv oo opts cs" for oo cs
    by (simp add: openocd_argv_def)
  have "wp (openocd_node_teardown E) ?Q (\<lambda>_ _ _. True) s w"
    unfolding openocd_node_teardown_def openocd_node_debug_stop_def wp_bindE wp_getE wp_sum_rets_Cons wp_ignoreE
      wp_zoomE wp_sum_rets_Nil
  proof (intro wp_wait_no_tty wp_wait_tty wp_openocd_debug_stop wp_xp_stop, goal_cases)
    case (1 _ w1 _ w2 _ w3 w4)
    have "openocd_ok (on_openocd s\<lparr>oo_debug := None\<rparr>) opts" using ok by (simp add: openocd_ok_def)
    then show ?case
      using idle readable
      by (intro wp_conseq [OF openocd_node_flash_logged [where opts = opts and idle = idle]]) (auto simp: argv)
  qed simp
  then show ?thesis using run by (auto dest: wp_Inr)
qed

definition m3_open_node :: openocd_node where
  "m3_open_node =
     \<lparr>on_class = NodeM3 working_env, on_redirect = ExternalProcess_init [''socat''], on_openocd = m3_openocd\<rparr>"

theorem openocd_teardown_idle_witness:
  "\<exists>s' w'. openocd_node_teardown working_env (m3_open_node\<lparr>on_openocd := m3_openocd\<lparr>oo_debug := Some 7\<rparr>\<rparr>) world0
       = (Inr 0, s', w')
     \<and> oo_debug (on_openocd s') = None
     \<and> Call [''/opt/openocd-dev/bin/openocd'', ''--debug=0'', ''-f'', ''/static/iot-lab.cfg'',
         ''-f'', ''/static/iot-lab-m3.cfg'', ''-c'', ''init'', ''-c'', ''targets'', ''-c'', ''reset halt'',
         ''-c'', ''reset init'', ''-c'', ''flash write_image erase /static/m3_idle.elf'',
         ''-c'', ''verify_image /static/m3_idle.elf'', ''-c'', ''reset run'', ''-c'', ''shutdown''] \<in> set (trace w')"
proof -
  let ?node = "m3_open_node\<lparr>on_openocd := m3_openocd\<lparr>oo_debug := Some 7\<rparr>\<rparr>"
  let ?run = "openocd_node_teardown working_env ?node world0"
  have "fst ?run = Inr 0" by code_simp
  then obtain s' w' where run: "?run = (Inr 0, s', w')" by (metis prod.collapse)
  have ok: "openocd_ok (on_openocd ?node) [''/static/iot-lab.cfg'', ''/static/iot-lab-m3.cfg'']"
    by (simp add: openocd_ok_def m3_openocd_def sh_space_def)
  have idle: "b_FW_IDLE (on_class ?node) = Some ''/static/m3_idle.elf''"
    by (simp add: m3_open_node_def board_defs static_path_def working_env_def)
  have path: "sh_quotable (e_abspath working_env ''/static/m3_idle.elf'')"
    "\<forall>v. e_open working_env v (e_abspath working_env ''/static/m3_idle.elf'') = None"
    "e_abspath working_env ''/static/m3_idle.elf'' = ''/static/m3_idle.elf''"
    by (simp_all add: working_env_def)
  have argv: "openocd_argv (m3_openocd\<lparr>oo_debug := Some 7\<rparr>) [''/static/iot-lab.cfg'', ''/static/iot-lab-m3.cfg'']
      (flash_cmds working_env ''/static/m3_idle.elf'' False x)
    = [''/opt/openocd-dev/bin/openocd'', ''--debug=0'', ''-f'', ''/static/iot-lab.cfg'',
       ''-f'', ''/static/iot-lab-m3.cfg'', ''-c'', ''init'', ''-c'', ''targets'', ''-c'', ''reset halt'',
       ''-c'', ''reset init'', ''-c'', ''flash write_image erase /static/m3_idle.elf'',
       ''-c'', ''verify_image /static/m3_idle.elf'', ''-c'', ''reset run'', ''-c'', ''shutdown'']" for x
    by (simp add: openocd_argv_def argv_f_def argv_c_def flash_cmds_def m3_openocd_def)
  show ?thesis
    using openocd_teardown_idle [OF run ok idle path(1,2)] run by (auto simp: path(3) argv)
qed

definition calls_of :: "event list \<Rightarrow> event list" where
  "calls_of evs = filter (\<lambda>ev. case ev of Call _ \<Rightarrow> True | _ \<Rightarrow> False) evs"

text \<open>Boards that can not flash raw binaries.  A binary, or an offset other than zero, is refused by the
  Zigduino and the Firefly before they touch the board.  The Leonardo refuses it too and programs
  nothing, but only after its port was opened to start the bootloader.\<close>

theorem unsupported_flash_refused:
  assumes "binary \<or> offset \<noteq> 0"
  shows "zigduino_flash E fw binary offset z w = (Inr 1, z, w)
     \<and> firefly_flash E fw binary offset f w = (Inr 1, f, w)
     \<and> (case leonardo_flash E fw binary offset l w of (r, l', w') \<Rightarrow>
          l' = l \<and> calls_of (trace w') = calls_of (trace w)
          \<and> (r = Inr 1 \<or> (\<exists>e. r = Inl e \<and> e_serial E w (b_TTY (an_class l)) = Some e))
          \<and> (e_serial E w (b_TTY (an_class l)) = None \<longrightarrow> SerialOpen (b_TTY (an_class l)) \<in> set (trace w')))"
proof -
  let ?tty = "b_TTY (an_class l)"
  let ?ok = "\<lambda>l' w'. l' = l \<and> calls_of (trace w') = calls_of (trace w)
      \<and> (e_serial E w ?tty = None \<longrightarrow> SerialOpen ?tty \<in> set (trace w'))"
  have slept: "calls_of (trace v') = calls_of (trace v) \<and> set (trace v) \<subseteq> set (trace v')" if "slept v v'" for v v'
    using that by (auto simp: slept_def calls_of_def)
  have "wp (trigger_bootloader E ?tty LEONARDO_TTY_PROG 15) (\<lambda>_. ?ok)
      (\<lambda>e l' w'. ?ok l' w' \<and> e_serial E w ?tty = Some e) l w"
    unfolding trigger_bootloader_def wp_simps
    by (auto simp: wp_simps calls_of_def log_event_def split: option.split exc.split
        intro!: wp_wait_tty dest!: slept [unfolded calls_of_def])
  then have "wp (leonardo_flash E fw binary offset)
     (\<lambda>r l' w'. r = 1 \<and> ?ok l' w') (\<lambda>e l' w'. ?ok l' w' \<and> e_serial E w ?tty = Some e) l w"
    unfolding leonardo_flash_def wp_simps using assms by (auto elim!: wp_conseq)
  then have "case leonardo_flash E fw binary offset l w of (r, l', w') \<Rightarrow>
      ?ok l' w' \<and> (r = Inr 1 \<or> (\<exists>e. r = Inl e \<and> e_serial E w ?tty = Some e))"
    by (auto simp: wp_def split: prod.splits sum.splits)
  with assms show ?thesis
    by (auto simp: zigduino_flash_def zigduino_do_flash_def firefly_flash_def retE_def)
qed

definition leonardo_node :: avr_node where
  "leonardo_node =
     \<lparr>an_class = NodeLeonardo working_env, an_redirect = ExternalProcess_init [''socat''],
      an_avrdude = \<lparr>av_tty = LEONARDO_TTY_PROG, av_baudrate = 9600, av_model = ''atmega32u4'',
                    av_programmer = ''avr109''\<rparr>\<rparr>"

theorem unsupported_flash_refused_witness:
  "\<exists>w'. leonardo_flash working_env (Some ''/tmp/fw.bin'') True 0 leonardo_node world0 = (Inr 1, leonardo_node, w')
     \<and> SerialOpen ''/dev/iotlab/ttyON_LEONARDO'' \<in> set (trace w')"
proof -
  have tty: "b_TTY (an_class leonardo_node) = ''/dev/iotlab/ttyON_LEONARDO''" "e_serial working_env world0 t = None" for t
    by (simp_all add: leonardo_node_def board_defs working_env_def)
  let ?z = "leonardo_node\<lparr>an_class := NodeZigduino working_env\<rparr>"
  let ?f = "\<lparr>fn_class = NodeFirefly working_env, fn_redirect = ExternalProcess_init [], fn_cc2538 = firefly_cc2538\<rparr>"
  show ?thesis
    using unsupported_flash_refused [of True 0 working_env "Some ''/tmp/fw.bin''" ?z world0 ?f leonardo_node]
    by (auto simp: tty split: prod.splits)
qed

lemma start_lora_loop_outcome:
  "start_lora_loop E n s w = (r, s', w') \<Longrightarrow>
     s' = s \<and> (\<exists>k\<le>n. trace w' = trace w @ concat (replicate k [Spawn LORA_PKT_FORWARDER_START_CMD, Sleep 2000])
       \<and> ((\<exists>e. r = Inl (OSErr e)) \<or> r = Inr () \<and> (k = n \<or> (\<exists>out. e_output E w' [''pgrep'', ''lora_pkt_fwd''] = Output out))))"
proof (induction n arbitrary: w)
  case 0
  then show ?case by (simp add: retE_def)
next
  case (Suc n)
  let ?w1 = "log_event E (Sleep 2000) (log_event E (Spawn LORA_PKT_FORWARDER_START_CMD) w)"
  have t1: "trace ?w1 = trace w @ [Spawn LORA_PKT_FORWARDER_START_CMD, Sleep 2000]" by (simp add: log_event_def)
  show ?case
  proof (cases "e_popen E w LORA_PKT_FORWARDER_START_CMD")
    case (Started p)
    then have run: "bindE (lora_pkt_fwd_pid E) (\<lambda>pid. if pid = None then start_lora_loop E n else retE ()) s ?w1 = (r, s', w')"
      using Suc.prems by (simp add: thenE_def bindE_def askE_def emitE_def py_sleep_def)
    show ?thesis
    proof (cases "e_output E ?w1 [''pgrep'', ''lora_pkt_fwd'']")
      case OutputStatus
      then have "start_lora_loop E n s ?w1 = (r, s', w')"
        using run by (simp add: lora_pkt_fwd_pid_def bindE_def askE_def retE_def)
      from Suc.IH [OF this] obtain k where k: "s' = s" "k \<le> n"
        "trace w' = trace ?w1 @ concat (replicate k [Spawn LORA_PKT_FORWARDER_START_CMD, Sleep 2000])"
        "(\<exists>e. r = Inl (OSErr e)) \<or> r = Inr () \<and> (k = n \<or> (\<exists>out. e_output E w' [''pgrep'', ''lora_pkt_fwd''] = Output out))"
        by blast
      then show ?thesis unfolding t1 by (intro conjI exI [of _ "Suc k"]) auto
    next
      case (Output out)
      then have "r = Inr ()" "s' = s" "w' = ?w1"
        using run by (simp_all add: lora_pkt_fwd_pid_def bindE_def askE_def retE_def)
      with Output t1 show ?thesis by (intro conjI exI [of _ "Suc 0"]) auto
    next
      case (OutputFails e)
      then have "r = Inl (OSErr e)" "s' = s" "w' = ?w1"
        using run by (simp_all add: lora_pkt_fwd_pid_def bindE_def askE_def raiseE_def)
      with t1 show ?thesis by (intro conjI exI [of _ "Suc 0"]) auto
    qed
  next
    case (PopenFails e)
    then have "r = Inl (OSErr e)" "s' = s" "w' = w"
      using Suc.prems by (simp_all add: bindE_def askE_def raiseE_def)
    then show ?thesis by (intro conjI exI [of _ 0]) auto
  qed
qed



lemma send_commands_run:
  assumes "\<forall>v. e_serial_io E v tty = None"
  shows "\<exists>w'. send_commands E tty delay cmds s w = (Inr 0, s, w')
     \<and> serial_texts (trace w') = serial_texts (trace w) @ cmds"
proof (induction cmds arbitrary: w)
  case Nil
  then show ?case by (simp add: retE_def)
next
  case (Cons c cs)
  let ?w1 = "log_event E (SerialWrite tty c) w"
  let ?w2 = "case delay of None \<Rightarrow> ?w1 | Some d \<Rightarrow> log_event E (Sleep (1000 * d)) ?w1"
  have "send_commands E tty delay (c # cs) s w = send_commands E tty delay cs s ?w2"
    using assms by (cases delay) (simp_all add: thenE_def bindE_def serial_io_def askE_def emitE_def py_sleep_def retE_def)
  moreover have "serial_texts (trace ?w2) = serial_texts (trace w) @ [c]"
    by (cases delay) (simp_all add: log_event_def serial_texts_def)
  ultimately show ?case using Cons.IH [of ?w2] by simp
qed

lemma wp_send_sequence:
  assumes "\<forall>v t. e_serial E v t = None" and "\<forall>v t. e_serial_io E v t = None"
    and "\<And>w'. serial_texts (trace w') = serial_texts (trace w) @ cmds \<Longrightarrow> Q 0 s w'"
  shows "wp (send_sequence E cmds delay) Q R s w"
proof -
  let ?tty = "b_TTY (pn_class s)"
  let ?w1 = "log_event E (SerialOpen ?tty) w"
  obtain w' where run: "send_commands E ?tty delay cmds s ?w1 = (Inr 0, s, w')"
    and w': "serial_texts (trace w') = serial_texts (trace ?w1) @ cmds"
    using send_commands_run [of E ?tty delay cmds s ?w1] assms(2) by blast
  have "send_sequence E cmds delay s w = (Inr 0, s, w')"
    using run assms(1)
    by (simp add: send_sequence_def with_serial_def bindE_def getE_def askE_def thenE_def emitE_def)
  moreover have "serial_texts (trace ?w1) = serial_texts (trace w)" by (simp add: log_event_def serial_texts_def)
  ultimately show ?thesis using assms(3) w' by (simp add: wp_def)
qed

lemma wp_xp_start_texts:
  assumes "\<And>r s' w'. serial_texts (trace w') = serial_texts (trace w) \<Longrightarrow> Q r s' w'" and "\<And>e s' w'. R e s' w'"
  shows "wp (xp_start E) Q R s w"
  unfolding xp_start_def wp_simps by (auto simp: wp_simps log_event_def serial_texts_def intro!: assms)

text \<open>Setting up a Pycom board with a working serial port sends, in this order, the commands of the reboot set
  in the order in which Python iterates the set, the two commands that erase the flash, and the
  two that reset the board.  Nothing puts the interrupt before the safe boot: with the other
  iteration order the safe boot is sent first.\<close>

theorem pycom_setup_commands:
  assumes "\<forall>v t. e_serial E v t = None" and "\<forall>v t. e_serial_io E v t = None"
    and "pycom_setup E s w = (Inr r, s', w')"
  shows "serial_texts (trace w') = serial_texts (trace w)
     @ e_set_iter E [crlf [CHR 0x03], crlf [CHR 0x06]]
     @ [crlf ''import os'', crlf (''os.mkfs('' @ [squote] @ ''/flash'' @ [squote] @ '')'')]
     @ [crlf ''import machine'', crlf ''machine.reset()'']"
proof -
  let ?texts = "\<lambda>w. serial_texts (trace w)"
  have "wp (pycom_setup E)
     (\<lambda>_ _ w'. ?texts w' = ?texts w @ e_set_iter E PYCOM_SAFE_REBOOT_SEQUENCE @ PYCOM_FLASH_ERASE_SEQUENCE
        @ PYCOM_RESET_SEQUENCE) (\<lambda>_ _ _. True) s w"
    unfolding pycom_setup_def pycom_safe_reboot_def pycom_reset_def wp_bindE wp_getE wp_sum_rets_Cons wp_zoomE wp_sum_rets_Nil
  proof (intro wp_wait_tty wp_send_sequence [OF assms(1,2)] wp_xp_start_texts, goal_cases)
    case (1 _ w1 w2 w3 w4 _ _ w5)
    then have "?texts w1 = ?texts w" by (auto simp: slept_def serial_texts_def)
    with 1 show ?case by simp
  qed simp
  then show ?thesis
    using assms(3)
    by (auto simp: PYCOM_SAFE_REBOOT_SEQUENCE_def PYCOM_FLASH_ERASE_SEQUENCE_def PYCOM_RESET_SEQUENCE_def dest: wp_Inr)
qed

theorem pycom_setup_commands_witness:
  "\<exists>s' w'. pycom_setup (working_env\<lparr>e_set_iter := rev\<rparr>)
       \<lparr>pn_class = NodePycom, pn_redirect = ExternalProcess_init [''socat'']\<rparr> world0 = (Inr 0, s', w')
     \<and> hd (serial_texts (trace w')) = crlf [CHR 0x06]"
proof -
  let ?E = "working_env\<lparr>e_set_iter := rev\<rparr>"
  let ?s = "\<lparr>pn_class = NodePycom, pn_redirect = ExternalProcess_init [''socat'']\<rparr>"
  have io: "\<forall>v t. e_serial ?E v t = None" "\<forall>v t. e_serial_io ?E v t = None" by (simp_all add: working_env_def)
  have "wp (pycom_setup ?E) (\<lambda>r _ _. r = 0) (\<lambda>_ _ _. False) ?s world0"
    unfolding pycom_setup_def pycom_safe_reboot_def pycom_reset_def wp_bindE wp_getE wp_sum_rets_Cons wp_zoomE
      wp_sum_rets_Nil
    by (intro wp_wait_tty wp_send_sequence [OF io])
       (simp add: xp_start_def wp_simps working_env_def ExternalProcess_init_def)
  then obtain s' w' where run: "pycom_setup ?E ?s world0 = (Inr 0, s', w')"
    by (auto simp: wp_def split: prod.splits sum.splits)
  have "serial_texts (trace world0) = []" by (simp add: world0_def serial_texts_def)
  then have "hd (serial_texts (trace w')) = crlf [CHR 0x06]"
    unfolding pycom_setup_commands [OF io run] by simp
  with run show ?thesis by (intro exI conjI)
qed

section \<open>A setup that succeeded\<close>

named_theorems nonneg_rules \<open>calls that return no negative number\<close>

lemma sum_rets_zeroE:
  assumes "sum_rets (m # ms) s w = (Inr 0, s', w')" and "nonneg m" and "nonneg (sum_rets ms)"
  obtains s1 w1 where "m s w = (Inr 0, s1, w1)" and "sum_rets ms s1 w1 = (Inr 0, s', w')"
proof -
  obtain r s1 w1 t where "m s w = (Inr r, s1, w1)" "sum_rets ms s1 w1 = (Inr t, s', w')" "r + t = 0"
    using assms(1) unfolding sum_rets.simps by (elim bindE_InrE) (simp add: retE_def)
  moreover from this have "r = 0" "t = 0"
    using nonneg_run [OF assms(2)] nonneg_run [OF assms(3)] by force+
  ultimately show thesis using that by simp
qed

lemma nonneg_openocd_flash:
  assumes "\<forall>v args n. e_call E v args = CallExit n \<longrightarrow> 0 \<le> n"
  shows "nonneg (openocd_flash E fw binary offset)"
  using assms
  by (auto simp: nonneg_def openocd_flash_def ioerror_is_1_def abspath_def openocd_call_cmd_def run_args_def Let_def
      wp_simps split: option.split call_outcome.split exc.split)

lemma nonneg_retE [nonneg_rules]: "0 \<le> n \<Longrightarrow> nonneg (retE n)"
  by (simp add: nonneg_def wp_simps)

lemma nonneg_bindE [nonneg_rules]: "(\<And>a. nonneg (f a)) \<Longrightarrow> nonneg (bindE m f)"
  by (subst nonneg_def) (auto simp: wp_simps intro!: wpI dest: nonneg_run)

lemma nonneg_sum_rets_Nil [nonneg_rules]: "nonneg (sum_rets [])"
  by (rule nonneg_sum_rets) simp

lemma nonneg_sum_rets_Cons [nonneg_rules]: "nonneg m \<Longrightarrow> nonneg (sum_rets ms) \<Longrightarrow> nonneg (sum_rets (m # ms))"
  by (subst nonneg_def) (auto simp: wp_sum_rets_Cons intro!: wpI add_nonneg_nonneg dest: nonneg_run)

lemma nonneg_if [nonneg_rules]: "nonneg m \<Longrightarrow> nonneg n \<Longrightarrow> nonneg (if b then m else n)"
  by simp

declare nonneg_wait_tty [nonneg_rules] nonneg_xp_start [nonneg_rules] nonneg_xp_stop [nonneg_rules]

lemma nonneg_zoomE: "nonneg m \<Longrightarrow> nonneg (zoomE sel upd m)"
  by (simp add: nonneg_def wp_simps)

lemma nonneg_clear_serial: "nonneg (clear_serial E tty)"
  by (auto simp: nonneg_def clear_serial_def with_serial_def serial_io_def wp_simps split: option.split)

lemma nonneg_openocd_node_flash:
  assumes "\<forall>v args n. e_call E v args = CallExit n \<longrightarrow> 0 \<le> n"
  shows "nonneg (openocd_node_flash E fw binary offset)"
  unfolding openocd_node_flash_def
  by (intro nonneg_rules nonneg_zoomE nonneg_openocd_flash [OF assms] nonneg_clear_serial) simp_all

lemma slept_trans: "slept u v \<Longrightarrow> slept v w \<Longrightarrow> slept u w"
  unfolding slept_def
proof (elim exE conjE)
  fix m n
  assume "trace v = trace u @ replicate m (Sleep 100)" "now u + 100 * int m \<le> now v"
    "trace w = trace v @ replicate n (Sleep 100)" "now v + 100 * int n \<le> now w"
  then show "\<exists>k. trace w = trace u @ replicate k (Sleep 100) \<and> now u + 100 * int k \<le> now w"
    by (intro exI [of _ "m + n"]) (simp add: replicate_add algebra_simps)
qed

lemma wait_tty_zero: "wait_tty E tty timeout s w = (Inr 0, s', w') \<Longrightarrow> s' = s \<and> slept w w' \<and> e_exists E w' tty"
  using wp_wait_tty [of w E tty "\<lambda>r s' w'. s' = s \<and> slept w w' \<and> (r = 0 \<longrightarrow> e_exists E w' tty)" s timeout "\<lambda>_ _ _. True"]
  by (auto simp: wp_def split: if_splits)

lemma wait_no_tty_run: "ignoreE (wait_no_tty E tty timeout) s w = (Inr r, s', w') \<Longrightarrow> r = 0 \<and> s' = s \<and> slept w w'"
  using wp_wait_no_tty [of w E tty "\<lambda>r s' w'. s' = s \<and> slept w w'" s timeout "\<lambda>_ _ _. True"]
  by (auto simp: wp_def ignoreE_def bindE_def retE_def split: prod.splits sum.splits)

lemma xp_start_zero: "xp_start E s w = (Inr 0, s', w') \<Longrightarrow> xp_live s' \<and> xp_run s'"
  by (auto simp: xp_start_def thenE_def bindE_def putE_def getE_def raiseE_def emitE_def askE_def retE_def
      split: if_splits)

lemma zoomE_InrE:
  assumes "zoomE sel upd m s w = (Inr r, s', w')"
  obtains c where "m (sel s) w = (Inr r, c, w')" and "s' = upd (\<lambda>_. c) s"
  using assms by (auto simp: zoomE_def split: prod.splits)

lemma fw_or_idle_Inr:
  "fw_or_idle c fw s w = (Inr path, s', w') \<Longrightarrow>
     s' = s \<and> w' = w \<and> (case fw of Some (x # xs) \<Rightarrow> path = x # xs | _ \<Rightarrow> b_FW_IDLE c = Some path)"
  by (auto simp: fw_or_idle_def retE_def raiseE_def split: option.splits list.splits)

lemma openocd_node_flash_zero:
  assumes run: "openocd_node_flash E fw binary offset s w = (Inr 0, s', w')"
    and codes: "\<forall>v args n. e_call E v args = CallExit n \<longrightarrow> 0 \<le> n"
  shows "\<exists>path v. (case fw of Some (x # xs) \<Rightarrow> path = x # xs | _ \<Rightarrow> b_FW_IDLE (on_class s) = Some path)
     \<and> openocd_flash E path binary (b_ROM_START_ADDR (on_class s) + offset) (on_openocd s) w
       = (Inr 0, on_openocd s', v) \<and> on_redirect s' = on_redirect s"
proof -
  let ?c = "on_class s"
  let ?tail = "[if b_JLINK_SERIAL ?c then wait_tty E (b_TTY ?c) TTY_DETECT_TIME else retE 0,
                if b_DIRTY_SERIAL ?c then clear_serial E (b_TTY ?c) else retE 0]"
  obtain path where path: "case fw of Some (x # xs) \<Rightarrow> path = x # xs | _ \<Rightarrow> b_FW_IDLE ?c = Some path"
    and sum: "sum_rets (zoomE on_openocd on_openocd_update
        (openocd_flash E path binary (b_ROM_START_ADDR ?c + offset)) # ?tail) s w = (Inr 0, s', w')"
    using run unfolding openocd_node_flash_def
    by (elim bindE_InrE) (auto simp: getE_def dest: fw_or_idle_Inr)
  have "nonneg (sum_rets ?tail :: (openocd_node, int) act)"
    by (intro nonneg_rules nonneg_clear_serial) simp_all
  with sum nonneg_zoomE [OF nonneg_openocd_flash [OF codes]] obtain s1 w1 where flash: "zoomE on_openocd on_openocd_update
        (openocd_flash E path binary (b_ROM_START_ADDR ?c + offset)) s w = (Inr 0, s1, w1)"
    and tail: "sum_rets ?tail s1 w1 = (Inr 0, s', w')"
    by (rule sum_rets_zeroE)
  have "stays id (sum_rets ?tail :: (openocd_node, int) act)"
    unfolding clear_serial_def by (intro stays_rules)
  from stays_run [OF this tail] have "s' = s1" by simp
  with flash path show ?thesis by (auto elim!: zoomE_InrE)
qed

text \<open>C34: a setup of an OpenOCD board that returned 0, in a world where no program dies of a signal (a negative
  return code).  The terminal of the board was there, OpenOCD then returned 0 for the given
  firmware, or the idle firmware when none is given, which could be read, and the serial redirection runs.\<close>

theorem openocd_setup_ok:
  assumes run: "openocd_node_setup E fw s w = (Inr 0, s', w')"
    and codes: "\<forall>v args n. e_call E v args = CallExit n \<longrightarrow> 0 \<le> n"
  shows "\<exists>path v v'. (case fw of Some (x # xs) \<Rightarrow> path = x # xs | _ \<Rightarrow> b_FW_IDLE (on_class s) = Some path)
     \<and> slept w v \<and> e_exists E v (b_TTY (on_class s))
     \<and> e_open E v (e_abspath E path) = None
     \<and> openocd_flash E path False (b_ROM_START_ADDR (on_class s)) (on_openocd s) v = (Inr 0, on_openocd s', v')
     \<and> xp_live (on_redirect s') \<and> xp_run (on_redirect s')"
proof -
  let ?tty = "b_TTY (on_class s)"
  let ?rd = "zoomE on_redirect on_redirect_update (xp_start E)"
  have nonneg: "nonneg (sum_rets [?rd])" "nonneg (openocd_node_flash E fw False 0)"
    "nonneg (sum_rets [openocd_node_flash E fw False 0, ?rd])"
    "nonneg (sum_rets [wait_tty E ?tty TTY_DETECT_TIME, openocd_node_flash E fw False 0, ?rd])"
    by (intro nonneg_rules nonneg_zoomE nonneg_openocd_node_flash [OF codes])+
  have nonneg_no: "nonneg (ignoreE (wait_no_tty E ?tty TTY_DETECT_TIME) :: (openocd_node, int) act)"
    unfolding ignoreE_def by (intro nonneg_rules) simp
  have "sum_rets [ignoreE (wait_no_tty E ?tty TTY_DETECT_TIME), wait_tty E ?tty TTY_DETECT_TIME,
      openocd_node_flash E fw False 0, ?rd] s w = (Inr 0, s', w')"
    using run by (simp add: openocd_node_setup_def bindE_def getE_def)
  then obtain s1 w1 where 1: "ignoreE (wait_no_tty E ?tty TTY_DETECT_TIME) s w = (Inr 0, s1, w1)"
    and r1: "sum_rets [wait_tty E ?tty TTY_DETECT_TIME, openocd_node_flash E fw False 0, ?rd] s1 w1 = (Inr 0, s', w')"
    using nonneg_no nonneg(4) by (rule sum_rets_zeroE)
  from r1 nonneg_wait_tty nonneg(3) obtain s2 w2 where 2: "wait_tty E ?tty TTY_DETECT_TIME s1 w1 = (Inr 0, s2, w2)"
    and r2: "sum_rets [openocd_node_flash E fw False 0, ?rd] s2 w2 = (Inr 0, s', w')"
    by (rule sum_rets_zeroE)
  from r2 nonneg(2,1) obtain s3 w3 where 3: "openocd_node_flash E fw False 0 s2 w2 = (Inr 0, s3, w3)"
    and "sum_rets [?rd] s3 w3 = (Inr 0, s', w')"
    by (rule sum_rets_zeroE)
  then have 4: "?rd s3 w3 = (Inr 0, s', w')"
    by (auto simp: sum_rets.simps retE_def elim!: bindE_InrE)
  have same: "s2 = s" "slept w w2" "e_exists E w2 ?tty"
    using wait_no_tty_run [OF 1] wait_tty_zero [OF 2] by (auto intro: slept_trans)
  from openocd_node_flash_zero [OF 3 [unfolded same(1)] codes] 4 same
  have "\<exists>path v v'. (case fw of Some (x # xs) \<Rightarrow> path = x # xs | _ \<Rightarrow> b_FW_IDLE (on_class s) = Some path)
     \<and> slept w v \<and> e_exists E v (b_TTY (on_class s))
     \<and> openocd_flash E path False (b_ROM_START_ADDR (on_class s)) (on_openocd s) v = (Inr 0, on_openocd s', v')
     \<and> xp_live (on_redirect s') \<and> xp_run (on_redirect s')"
    by (fastforce elim!: zoomE_InrE dest: xp_start_zero)
  then show ?thesis using openocd_prog.flash_ok_readable by blast
qed

theorem openocd_setup_ok_witness:
  "\<exists>s' w'. openocd_node_setup working_env (Some ''/tmp/fw.elf'') m3_open_node world0 = (Inr 0, s', w')
     \<and> (\<exists>v v'. openocd_flash working_env ''/tmp/fw.elf'' False 0x08000000 m3_openocd v = (Inr 0, on_openocd s', v'))
     \<and> xp_live (on_redirect s')"
proof -
  let ?run = "openocd_node_setup working_env (Some ''/tmp/fw.elf'') m3_open_node world0"
  have "fst ?run = Inr 0" by code_simp
  then obtain s' w' where run: "?run = (Inr 0, s', w')" by (metis prod.collapse)
  have codes: "\<forall>v args n. e_call working_env v args = CallExit n \<longrightarrow> 0 \<le> n" by (simp add: working_env_def)
  have node: "b_ROM_START_ADDR (on_class m3_open_node) = 0x08000000" "on_openocd m3_open_node = m3_openocd"
    by (simp_all add: m3_open_node_def board_defs)
  from openocd_setup_ok [OF run codes] run show ?thesis unfolding node by auto
qed

end
