(* ===== verification/Gateway_Manager.thy ===== *)
theory Gateway_Manager
  imports Open_Nodes
begin

text \<open>
  Model of \<^verbatim>\<open>gateway_code/gateway_manager.py\<close> with the user log of \<^verbatim>\<open>gateway_logging.py\<close>: the manager
  object with its lock, its two nodes and the current experiment, and every method that a REST
  request or the experiment timer calls.  The calling thread is an argument of the methods that
  take the lock.
\<close>

section \<open>The manager\<close>

text \<open>
  A log handler is the path of its file; \<open>gm_handlers\<close> are the user log handlers that are
  attached to the logger.  A timer is its delay and the experiment that started it.
\<close>

record gateway_manager =
  gm_board_cfg :: board_config
  gm_rlock :: rlock
  gm_open_node :: open_node
  gm_control_node :: control_node
  gm_exp_id :: "int option"
  gm_user :: "string option"
  gm_exp_files :: "(string \<times> string) list"
  gm_running :: bool
  gm_user_log :: "string option"
  gm_handlers :: "string list"
  gm_timer :: "(int \<times> int \<times> string) option"

type_synonym 'a gm_act = "(gateway_manager, 'a) act"

abbreviation on_open :: "(open_node, 'a) act \<Rightarrow> 'a gm_act" where
  "on_open m \<equiv> zoomE gm_open_node gm_open_node_update m"

abbreviation on_control :: "(control_node, 'a) act \<Rightarrow> 'a gm_act" where
  "on_control m \<equiv> zoomE gm_control_node gm_control_node_update m"

text \<open>\<open>cn_class(node_id, default_profile)\<close>; an open node class takes no arguments.\<close>

definition control_node_init :: "env \<Rightarrow> node_class \<Rightarrow> string \<Rightarrow> profile \<Rightarrow> ('s, control_node) act" where
  "control_node_init E c node_id dflt =
     (case c of
        OpenClass _ \<Rightarrow> raiseE TypeErr
      | ControlClass ClassIotlab \<Rightarrow> lift_init CnIotlab (ControlNodeIotlab_init E Iotlab node_id dflt)
      | ControlClass ClassIotlabm3 \<Rightarrow> lift_init CnIotlab (ControlNodeIotlab_init E Iotlabm3 node_id dflt)
      | ControlClass ClassRpi3 \<Rightarrow> lift_init CnRpi3 (ControlNodeRpi3_init E node_id dflt)
      | ControlClass ClassNo \<Rightarrow> retE (CnNo (ControlNodeNo_init node_id dflt)))"

definition GatewayManager_init :: "env \<Rightarrow> ('s, gateway_manager) act" where
  "GatewayManager_init E =
     bindE (BoardConfig_init E) (\<lambda>cfg.
     bindE (open_node_init E (bc_board_class cfg)) (\<lambda>open_node.
     bindE (case bc_default_profile cfg of
              None \<Rightarrow> raiseE TypeErr
            | Some dflt \<Rightarrow> control_node_init E (bc_cn_class cfg) (bc_node_id cfg) dflt) (\<lambda>control_node.
       retE \<lparr>gm_board_cfg = cfg, gm_rlock = None, gm_open_node = open_node, gm_control_node = control_node,
             gm_exp_id = None, gm_user = None, gm_exp_files = [], gm_running = False, gm_user_log = None,
             gm_handlers = [], gm_timer = None\<rparr>)))"

definition gm_sync :: "thread \<Rightarrow> 'a gm_act \<Rightarrow> 'a gm_act" where
  "gm_sync t m = synchronous gm_rlock gm_rlock_update t m"

section \<open>Experiment files and user log\<close>

definition EXP_FILES :: "(string \<times> string) list" where
  "EXP_FILES =
     [(''consumption'', ''.oml''), (''radio'', ''.oml''), (''event'', ''.oml''), (''sniffer'', ''.oml''), (''log'', ''.log'')]"

definition exp_dir :: "env \<Rightarrow> string \<Rightarrow> int \<Rightarrow> string" where
  "exp_dir E user exp_id = e_users_dir E @ ''/'' @ user @ ''/.iot-lab/'' @ str_int exp_id @ ''/''"

text \<open>A dict is iterated in an order of its own.\<close>

definition exp_file_names :: "env \<Rightarrow> string list" where
  "exp_file_names E = e_set_iter E (map fst EXP_FILES)"

definition exp_file_path :: "env \<Rightarrow> string \<Rightarrow> string \<Rightarrow> int \<Rightarrow> string \<Rightarrow> string" where
  "exp_file_path E node_id user exp_id name =
     exp_dir E user exp_id @ name @ ''/'' @ node_id @ (case map_of EXP_FILES name of Some ext \<Rightarrow> ext | None \<Rightarrow> [])"

fun create_files :: "env \<Rightarrow> (string \<times> string) list \<Rightarrow> ('s, (string \<times> string) list) act" where
  "create_files E [] = retE []"
| "create_files E ((name, path) # files) =
     bindE (create_user_file E path) (\<lambda>p.
     bindE (create_files E files) (\<lambda>created. retE ((name, p) # created)))"

definition create_user_exp_files :: "env \<Rightarrow> string \<Rightarrow> string \<Rightarrow> int \<Rightarrow> ('s, (string \<times> string) list) act" where
  "create_user_exp_files E node_id user exp_id =
     create_files E (map (\<lambda>name. (name, exp_file_path E node_id user exp_id name)) (exp_file_names E))"

fun cleanup_user_exp_files :: "env \<Rightarrow> (string \<times> string) list \<Rightarrow> ('s, unit) act" where
  "cleanup_user_exp_files E [] = retE ()"
| "cleanup_user_exp_files E ((_, exp_file) # files) =
     thenE (clean_user_file E exp_file) (cleanup_user_exp_files E files)"

fun make_dirs :: "env \<Rightarrow> string list \<Rightarrow> ('s, unit) act" where
  "make_dirs E [] = retE ()"
| "make_dirs E (d # ds) =
     bindE (askE (\<lambda>w. e_makedirs E w d)) (\<lambda>ok.
       thenE (if ok then emitE E (MakeDirs d) else retE ()) (make_dirs E ds))"

definition create_user_exp_folders :: "env \<Rightarrow> string \<Rightarrow> int \<Rightarrow> ('s, unit) act" where
  "create_user_exp_folders E user exp_id = make_dirs E (map (\<lambda>d. exp_dir E user exp_id @ d) (exp_file_names E))"

definition destroy_user_exp_folders :: "env \<Rightarrow> string \<Rightarrow> int \<Rightarrow> ('s, unit) act" where
  "destroy_user_exp_folders E user exp_id =
     bindE (askE (\<lambda>w. e_rmtree E w (exp_dir E user exp_id))) (\<lambda>ok.
       if ok then emitE E (RemoveTree (exp_dir E user exp_id)) else retE ())"

text \<open>\<open>gateway_logging.user_logger\<close>: the handler opens its file\<close>

definition user_logger :: "env \<Rightarrow> string \<Rightarrow> ('s, string) act" where
  "user_logger E log_file_path =
     bindE (askE (\<lambda>w. e_create E w log_file_path)) (\<lambda>r.
       case r of Some n \<Rightarrow> raiseE (IOErr n) | None \<Rightarrow> retE log_file_path)"

text \<open>
  \<open>LOGGER.addHandler\<close> of a handler object that was just made, and \<open>LOGGER.removeHandler\<close>, which
  ignores an object that is not there.
\<close>

definition add_handler :: "string \<Rightarrow> unit gm_act" where
  "add_handler h = putE (gm_handlers_update (\<lambda>hs. hs @ [h]))"

definition remove_handler :: "string option \<Rightarrow> unit gm_act" where
  "remove_handler h = putE (gm_handlers_update (\<lambda>hs. case h of None \<Rightarrow> hs | Some x \<Rightarrow> remove1 x hs))"

section \<open>Stopping an experiment\<close>

text \<open>Both nodes are stopped; the return value of \<open>control_node.stop\<close> is dropped.\<close>

definition exp_stop_nodes :: "env \<Rightarrow> int gm_act" where
  "exp_stop_nodes E =
     bindE (sum_rets
       [on_control (cn_stop_experiment E),
        bindE (getE (\<lambda>s. open_class (gm_open_node s))) (\<lambda>c.
          if b_TYPE c = ''pycom'' then ignoreE (wait_tty E (b_TTY c) 10) else retE 0),
        on_open (open_teardown E)]) (\<lambda>ret_val.
     thenE (on_control (cn_stop E)) (retE ret_val))"

definition exp_stop_timer :: "env \<Rightarrow> unit gm_act" where
  "exp_stop_timer E =
     bindE (getE gm_timer) (\<lambda>timer.
       case timer of
         None \<Rightarrow> retE ()
       | Some _ \<Rightarrow> thenE (emitE E TimerCancel) (putE (gm_timer_update (\<lambda>_. None))))"

definition exp_stop_body :: "env \<Rightarrow> int gm_act" where
  "exp_stop_body E =
     bindE (getE gm_running) (\<lambda>running.
       if \<not> running then retE 0
       else
         thenE (exp_stop_timer E)
         (bindE (exp_stop_nodes E) (\<lambda>ret_val.
          bindE (getE gm_exp_files) (\<lambda>files.
          thenE (cleanup_user_exp_files E files)
          (thenE (putE (\<lambda>s. s\<lparr>gm_exp_files := [], gm_exp_id := None, gm_user := None, gm_running := False\<rparr>))
          (bindE (getE gm_user_log) (\<lambda>h.
          thenE (remove_handler h)
          (thenE (putE (gm_user_log_update (\<lambda>_. None))) (retE ret_val)))))))))"

definition exp_stop :: "env \<Rightarrow> thread \<Rightarrow> int gm_act" where
  "exp_stop E t = gm_sync t (exp_stop_body E)"

section \<open>Starting an experiment\<close>

text \<open>The regular expression \<^verbatim>\<open>^nrf52[0-9]{0,3}dk$\<close>; the dollar also matches before a final newline.\<close>

definition board_require_power_cycle :: "string \<Rightarrow> bool" where
  "board_require_power_cycle board =
     (case after_prefix ''nrf52'' board of
        None \<Rightarrow> False
      | Some rest \<Rightarrow>
          length (takeWhile is_digit rest) \<le> 3
          \<and> (dropWhile is_digit rest = ''dk'' \<or> dropWhile is_digit rest = ''dk'' @ [CHR 0x0A]))"

definition profile_from_dict :: "board_config \<Rightarrow> pyval \<Rightarrow> exc + profile option" where
  "profile_from_dict cfg pdict = from_dict (b_ALIM (bc_board_class cfg)) pdict"

definition power_cycle :: "env \<Rightarrow> string \<Rightarrow> int gm_act" where
  "power_cycle E tty =
     sum_rets [on_control (cn_open_stop E None), wait_no_tty E tty 10,
               on_control (cn_open_start E None), wait_tty E tty 10]"

text \<open>The steps from the creation of the files on; the experiment is already marked as running.\<close>

definition exp_prepare :: "env \<Rightarrow> string \<Rightarrow> int \<Rightarrow> unit gm_act" where
  "exp_prepare E user exp_id =
     bindE (getE gm_board_cfg) (\<lambda>cfg.
     thenE (if bc_robot_type cfg = Some ''turtlebot2'' \<or> cn_type_of cfg = ''no''
            then create_user_exp_folders E user exp_id else retE ())
     (bindE (create_user_exp_files E (bc_node_id cfg) user exp_id) (\<lambda>files.
      thenE (putE (gm_exp_files_update (\<lambda>_. files)))
      (case map_of files ''log'' of
         None \<Rightarrow> raiseE KeyErr
       | Some log_path \<Rightarrow>
           bindE (user_logger E log_path) (\<lambda>h.
             thenE (putE (gm_user_log_update (\<lambda>_. Some h))) (add_handler h))))))"

definition exp_run_nodes :: "env \<Rightarrow> int \<Rightarrow> string option \<Rightarrow> profile option \<Rightarrow> int gm_act" where
  "exp_run_nodes E exp_id firmware_path prof =
     bindE (getE gm_exp_files) (\<lambda>files.
       sum_rets
         [on_control (cn_start E exp_id files),
          bindE (getE (\<lambda>s. open_class (gm_open_node s))) (\<lambda>c.
            if b_TYPE c = ''pycom'' then sum_rets [power_cycle E (b_TTY c), power_cycle E (b_TTY c)] else retE 0),
          on_open (open_setup E firmware_path),
          on_control (cn_start_experiment E prof),
          bindE (getE (\<lambda>s. b_TYPE (open_class (gm_open_node s)))) (\<lambda>board.
            if firmware_path \<noteq> None \<and> board_require_power_cycle board
            then sum_rets [on_control (cn_open_stop E None), on_control (cn_open_start E None)] else retE 0)])"

definition exp_launch :: "env \<Rightarrow> string \<Rightarrow> int \<Rightarrow> string option \<Rightarrow> profile option \<Rightarrow> int \<Rightarrow> int gm_act" where
  "exp_launch E user exp_id firmware_path prof timeout =
     thenE (putE (\<lambda>s. s\<lparr>gm_running := True, gm_exp_id := Some exp_id, gm_user := Some user\<rparr>))
     (thenE (exp_prepare E user exp_id)
     (bindE (exp_run_nodes E exp_id firmware_path prof) (\<lambda>ret_val.
      thenE (if timeout \<noteq> 0
             then thenE (putE (gm_timer_update (\<lambda>_. Some (timeout, exp_id, user)))) (emitE E (TimerStart timeout))
             else retE ())
      (retE ret_val))))"

text \<open>The whole method: stop a running experiment, check the profile, check the firmware, go.\<close>

definition exp_start_new :: "env \<Rightarrow> string \<Rightarrow> int \<Rightarrow> string option \<Rightarrow> pyval \<Rightarrow> int \<Rightarrow> int gm_act" where
  "exp_start_new E user exp_id firmware_path pdict timeout =
     bindE (getE gm_board_cfg) (\<lambda>cfg.
       case profile_from_dict cfg pdict of
         Inl e \<Rightarrow> if e = ValueErr then retE 1 else raiseE e
       | Inr prof \<Rightarrow>
           bindE (getE (\<lambda>s. b_ELF_TARGET (open_class (gm_open_node s)))) (\<lambda>target.
           bindE (is_compatible_with_node E firmware_path target) (\<lambda>compatible.
             if \<not> compatible then retE 1 else exp_launch E user exp_id firmware_path prof timeout)))"

definition exp_start_body ::
  "env \<Rightarrow> thread \<Rightarrow> string \<Rightarrow> int \<Rightarrow> string option \<Rightarrow> pyval \<Rightarrow> int \<Rightarrow> int gm_act" where
  "exp_start_body E t user exp_id firmware_path pdict timeout =
     bindE (getE gm_running) (\<lambda>running.
     thenE (if running then exp_stop E t else retE 0)
           (exp_start_new E user exp_id firmware_path pdict timeout))"

definition exp_start ::
  "env \<Rightarrow> thread \<Rightarrow> string \<Rightarrow> int \<Rightarrow> string option \<Rightarrow> pyval \<Rightarrow> int \<Rightarrow> int gm_act" where
  "exp_start E t user exp_id firmware_path pdict timeout =
     gm_sync t (exp_start_body E t user exp_id firmware_path pdict timeout)"

section \<open>The timer\<close>

definition timeout_exp_stop_body :: "env \<Rightarrow> thread \<Rightarrow> int \<Rightarrow> string \<Rightarrow> unit gm_act" where
  "timeout_exp_stop_body E t exp_id user =
     bindE (getE (\<lambda>s. (gm_exp_id s, gm_user s))) (\<lambda>current.
       if current \<noteq> (Some exp_id, Some user) then retE ()
       else tryE (thenE (exp_stop E t) (retE ()))
                 (\<lambda>e. if environment_errno e = Some EWOULDBLOCK then Some (retE ()) else None))"

definition timeout_exp_stop :: "env \<Rightarrow> thread \<Rightarrow> int \<Rightarrow> string \<Rightarrow> unit gm_act" where
  "timeout_exp_stop E t exp_id user = gm_sync t (timeout_exp_stop_body E t exp_id user)"

section \<open>Other methods\<close>

definition exp_update_profile :: "env \<Rightarrow> thread \<Rightarrow> pyval \<Rightarrow> int gm_act" where
  "exp_update_profile E t pdict =
     gm_sync t (bindE (getE gm_board_cfg) (\<lambda>cfg.
       case profile_from_dict cfg pdict of
         Inl e \<Rightarrow> if e = ValueErr then retE 1 else raiseE e
       | Inr prof \<Rightarrow> on_control (cn_configure_profile E prof)))"

definition open_power_start :: "env \<Rightarrow> thread \<Rightarrow> string option \<Rightarrow> int gm_act" where
  "open_power_start E t pwr = gm_sync t (on_control (cn_open_start E pwr))"

definition open_power_stop :: "env \<Rightarrow> thread \<Rightarrow> string option \<Rightarrow> int gm_act" where
  "open_power_stop E t pwr = gm_sync t (on_control (cn_open_stop E pwr))"

definition gm_open_debug_start :: "env \<Rightarrow> thread \<Rightarrow> int gm_act" where
  "gm_open_debug_start E t = gm_sync t (on_open (open_debug_start E))"

definition gm_open_debug_stop :: "env \<Rightarrow> thread \<Rightarrow> int gm_act" where
  "gm_open_debug_stop E t = gm_sync t (on_open (open_debug_stop E))"

definition node_soft_reset :: "env \<Rightarrow> thread \<Rightarrow> string \<Rightarrow> int gm_act" where
  "node_soft_reset E t node =
     gm_sync t (if node = ''control'' then on_control (cn_reset E)
                else if node = ''open'' then on_open (open_reset E)
                else raiseE AssertionErr)"

definition node_flash :: "env \<Rightarrow> thread \<Rightarrow> string \<Rightarrow> string option \<Rightarrow> bool \<Rightarrow> int \<Rightarrow> int gm_act" where
  "node_flash E t node firmware_path binary offset =
     gm_sync t
       (if node \<noteq> ''control'' \<and> node \<noteq> ''open'' then raiseE AssertionErr
        else
          bindE (getE (\<lambda>s. if node = ''control'' then cn_ELF_TARGET (gm_control_node s)
                           else b_ELF_TARGET (open_class (gm_open_node s)))) (\<lambda>target.
          bindE (if binary then retE True else is_compatible_with_node E firmware_path target) (\<lambda>compatible.
            if \<not> compatible then retE 1
            else if node = ''control'' then on_control (cn_flash E firmware_path binary offset)
            else on_open (open_flash E firmware_path binary offset))))"

definition gm_setup :: "env \<Rightarrow> thread \<Rightarrow> int gm_act" where
  "gm_setup E t =
     bindE (node_flash E t ''control'' None False 0) (\<lambda>ret. if ret \<noteq> 0 then raiseE RuntimeErr else retE ret)"

definition gm_status :: "env \<Rightarrow> thread \<Rightarrow> int gm_act" where
  "gm_status E t = gm_sync t (sum_rets [on_control (cn_status E), on_open (open_status E)])"

definition EINVAL :: int where
  "EINVAL = 22"

definition gm_sleep :: "env \<Rightarrow> thread \<Rightarrow> int \<Rightarrow> int gm_act" where
  "gm_sleep E t seconds =
     gm_sync t (if seconds < 0 then raiseE (IOErr EINVAL) else thenE (py_sleep E (1000 * seconds)) (retE 0))"

section \<open>Lemmas: the lock\<close>

interpretation gm_lock: lockable gm_rlock gm_rlock_update
  by unfold_locales (simp_all add: comp_def)

text \<open>A body that, called with the lock, gives it back as it got it, unless it never returns.\<close>

definition holds_lock :: "thread \<Rightarrow> 'a gm_act \<Rightarrow> bool" where
  "holds_lock t m \<longleftrightarrow>
     (\<forall>s w n r s' w'. gm_rlock s = Some (t, Suc n) \<longrightarrow> m s w = (r, s', w') \<longrightarrow> r \<noteq> Inl Blocked
        \<longrightarrow> gm_rlock s' = gm_rlock s)"

named_theorems lock_rules \<open>bodies that keep the lock\<close>

lemma holds_lockD:
  "holds_lock t m \<Longrightarrow> gm_rlock s = Some (t, Suc n) \<Longrightarrow> m s w = (r, s', w') \<Longrightarrow> r \<noteq> Inl Blocked
   \<Longrightarrow> gm_rlock s' = Some (t, Suc n)"
  unfolding holds_lock_def by metis

lemma holds_lock_stays: "stays gm_rlock m \<Longrightarrow> holds_lock t m"
  unfolding holds_lock_def by (auto dest: stays_run)

lemma holds_lock_bindE [lock_rules]:
  assumes "holds_lock t m" and "\<And>a. holds_lock t (f a)"
  shows "holds_lock t (bindE m f)"
  unfolding holds_lock_def
proof (intro allI impI)
  fix s n r s' and w w' :: world
  assume s: "gm_rlock s = Some (t, Suc n)" and run: "bindE m f s w = (r, s', w')" and r: "r \<noteq> Inl Blocked"
  obtain r1 s1 w1 where m: "m s w = (r1, s1, w1)" by (cases "m s w")
  show "gm_rlock s' = gm_rlock s"
  proof (cases r1)
    case (Inl e)
    with run m r have "s' = s1" "r1 \<noteq> Inl Blocked" by (auto simp: bindE_def)
    with holds_lockD [OF assms(1) s m] s show ?thesis by simp
  next
    case (Inr a)
    with holds_lockD [OF assms(1) s m] have s1: "gm_rlock s1 = Some (t, Suc n)" by simp
    from Inr run m have "f a s1 w1 = (r, s', w')" by (simp add: bindE_def)
    from holds_lockD [OF assms(2) s1 this r] s show ?thesis by simp
  qed
qed

lemma holds_lock_thenE [lock_rules]: "holds_lock t m \<Longrightarrow> holds_lock t n \<Longrightarrow> holds_lock t (thenE m n)"
  unfolding thenE_def by (rule holds_lock_bindE)

lemma holds_lock_tryE [lock_rules]:
  assumes "holds_lock t m" and "\<And>e k. h e = Some k \<Longrightarrow> holds_lock t k"
  shows "holds_lock t (tryE m h)"
  unfolding holds_lock_def
proof (intro allI impI)
  fix s n r s' and w w' :: world
  assume s: "gm_rlock s = Some (t, Suc n)" and run: "tryE m h s w = (r, s', w')" and r: "r \<noteq> Inl Blocked"
  obtain r1 s1 w1 where m: "m s w = (r1, s1, w1)" by (cases "m s w")
  have r1: "r1 \<noteq> Inl Blocked" using run m r by (auto simp: tryE_def)
  from holds_lockD [OF assms(1) s m r1] have s1: "gm_rlock s1 = Some (t, Suc n)" .
  show "gm_rlock s' = gm_rlock s"
    using run m r r1 s s1
    by (auto simp: tryE_def intro: holds_lockD [OF assms(2) s1] split: sum.splits option.splits if_splits)
qed

lemma holds_lock_if [lock_rules]: "holds_lock t m \<Longrightarrow> holds_lock t n \<Longrightarrow> holds_lock t (if b then m else n)"
  by simp

lemma holds_lock_case_sum [lock_rules]:
  "(\<And>a. holds_lock t (f a)) \<Longrightarrow> (\<And>b. holds_lock t (g b)) \<Longrightarrow> holds_lock t (case x of Inl a \<Rightarrow> f a | Inr b \<Rightarrow> g b)"
  by (cases x) auto

text \<open>What the decorator does, for a body that keeps the lock.\<close>

lemma gm_sync_run:
  assumes "holds_lock t m" and "gm_rlock s \<noteq> Some (t, 0)"
  shows "gm_sync t m s w =
     (case rlock_acquire t (gm_rlock s) of
        None \<Rightarrow> (Inl (EnvironmentErr EWOULDBLOCK), s, w)
      | Some l \<Rightarrow>
          (case m (s\<lparr>gm_rlock := l\<rparr>) w of
             (r, s', w') \<Rightarrow> (r, if r = Inl Blocked then s' else s'\<lparr>gm_rlock := gm_rlock s\<rparr>, w')))"
proof (cases "rlock_acquire t (gm_rlock s)")
  case None
  then show ?thesis by (simp add: gm_sync_def synchronous_def bindE_def getE_def raiseE_def)
next
  case (Some l)
  obtain n where l: "l = Some (t, Suc n)"
    using Some by (cases "(t, gm_rlock s)" rule: rlock_acquire.cases) (auto split: if_splits)
  have rel: "rlock_release t l = Some (gm_rlock s)"
    using Some assms(2) by (cases "(t, gm_rlock s)" rule: rlock_acquire.cases) (auto split: if_splits)
  obtain r s' w' where m: "m (s\<lparr>gm_rlock := l\<rparr>) w = (r, s', w')" by (cases "m (s\<lparr>gm_rlock := l\<rparr>) w")
  have "r \<noteq> Inl Blocked \<Longrightarrow> gm_rlock s' = l"
    using holds_lockD [OF assms(1) _ m] by (simp add: l)
  with m rel show ?thesis
    by (cases "r = Inl Blocked")
       (auto simp: gm_sync_def synchronous_def Some bindE_def getE_def thenE_def putE_def finallyE_def
          release_lock_def split: sum.splits)
qed

lemma holds_lock_gm_sync [lock_rules]:
  assumes "holds_lock t m"
  shows "holds_lock t (gm_sync t m)"
  unfolding holds_lock_def
proof (intro allI impI)
  fix s n r s' and w w' :: world
  assume s: "gm_rlock s = Some (t, Suc n)" and run: "gm_sync t m s w = (r, s', w')" and r: "r \<noteq> Inl Blocked"
  then have "gm_rlock s \<noteq> Some (t, 0)" by simp
  from run [unfolded gm_sync_run [OF assms this]] s r show "gm_rlock s' = gm_rlock s"
    by (auto split: prod.splits)
qed

section \<open>Lemmas: what the nodes leave alone\<close>

text \<open>The part of the manager that describes the experiment.\<close>

definition exp_view ::
  "gateway_manager \<Rightarrow> int option \<times> string option \<times> (string \<times> string) list \<times> bool \<times> string option
     \<times> string list \<times> (int \<times> int \<times> string) option" where
  "exp_view s = (gm_exp_id s, gm_user s, gm_exp_files s, gm_running s, gm_user_log s, gm_handlers s, gm_timer s)"

lemma exp_view_rlock [simp]: "exp_view (s\<lparr>gm_rlock := l\<rparr>) = exp_view s"
  by (simp add: exp_view_def)

lemma stays_on_open [stays_rules]: "stays exp_view (on_open m)" "stays gm_rlock (on_open m)"
  by (rule stays_zoomE; simp add: exp_view_def)+

lemma stays_on_control [stays_rules]: "stays exp_view (on_control m)" "stays gm_rlock (on_control m)"
  by (rule stays_zoomE; simp add: exp_view_def)+

lemma stays_create_user_file [stays_rules]: "stays f (create_user_file E path)"
  unfolding create_user_file_def by (intro stays_rules)

lemma stays_clean_user_file [stays_rules]: "stays f (clean_user_file E path)"
  unfolding clean_user_file_def by (intro stays_rules)

lemma stays_create_files [stays_rules]: "stays f (create_files E files)"
  by (induction files) (auto intro!: stays_rules)

lemma stays_cleanup_user_exp_files [stays_rules]: "stays f (cleanup_user_exp_files E files)"
  by (induction files) (auto intro!: stays_rules)

lemma stays_make_dirs [stays_rules]: "stays f (make_dirs E ds)"
  by (induction ds) (auto intro!: stays_rules)

lemma stays_user_logger [stays_rules]: "stays f (user_logger E path)"
  unfolding user_logger_def by (intro stays_rules)

lemma stays_elf [stays_rules]: "stays f (is_compatible_with_node E fw target)"
  unfolding is_compatible_with_node_def elf_target_def
  by (intro stays_rules) (auto intro!: stays_rules split: elf_outcome.split if_splits)

lemma stays_power_cycle [stays_rules]: "stays exp_view (power_cycle E tty)" "stays gm_rlock (power_cycle E tty)"
  unfolding power_cycle_def by (intro stays_rules)+

lemma stays_exp_run_nodes [stays_rules]:
  "stays exp_view (exp_run_nodes E exp_id fw prof)" "stays gm_rlock (exp_run_nodes E exp_id fw prof)"
  unfolding exp_run_nodes_def by (intro stays_rules)+

lemma stays_exp_stop_nodes [stays_rules]:
  "stays exp_view (exp_stop_nodes E)" "stays gm_rlock (exp_stop_nodes E)"
  unfolding exp_stop_nodes_def by (intro stays_rules)+

lemma stays_exp_stop_body: "stays gm_rlock (exp_stop_body E)"
  unfolding exp_stop_body_def exp_stop_timer_def remove_handler_def by (intro stays_rules stays_putE) simp_all

lemma holds_lock_exp_stop [lock_rules]: "holds_lock t (exp_stop E t)"
  unfolding exp_stop_def by (intro lock_rules holds_lock_stays stays_exp_stop_body)

lemma stays_exp_prepare: "stays gm_rlock (exp_prepare E user exp_id)"
  unfolding exp_prepare_def add_handler_def create_user_exp_folders_def create_user_exp_files_def
  by (intro stays_rules stays_putE) simp_all

lemma holds_lock_exp_start_body: "holds_lock t (exp_start_body E t user exp_id fw pdict timeout)"
  unfolding exp_start_body_def exp_start_new_def exp_launch_def
  by (intro lock_rules; intro holds_lock_stays stays_exp_prepare; intro stays_rules stays_putE; simp)

lemma holds_lock_timeout_body: "holds_lock t (timeout_exp_stop_body E t exp_id user)"
  unfolding timeout_exp_stop_body_def
  by (intro lock_rules; (intro holds_lock_stays stays_rules)?) (auto intro!: holds_lock_stays stays_rules split: if_splits)

section \<open>Lemmas: the experiment\<close>

text \<open>
  The invariant: exactly the handler of the running experiment is attached to the logger; without
  an experiment nothing of the last one is left; a timer is that of the running experiment.
\<close>

definition gm_inv :: "gateway_manager \<Rightarrow> bool" where
  "gm_inv s \<longleftrightarrow>
     gm_handlers s = (case gm_user_log s of None \<Rightarrow> [] | Some h \<Rightarrow> [h])
     \<and> (if gm_running s then gm_exp_id s \<noteq> None \<and> gm_user s \<noteq> None
        else gm_exp_id s = None \<and> gm_user s = None \<and> gm_exp_files s = [] \<and> gm_user_log s = None \<and> gm_timer s = None)
     \<and> (\<forall>d i u. gm_timer s = Some (d, i, u) \<longrightarrow> d \<noteq> 0 \<and> gm_exp_id s = Some i \<and> gm_user s = Some u)"

lemma gm_inv_view: "exp_view s = exp_view s' \<Longrightarrow> gm_inv s = gm_inv s'"
  by (simp add: gm_inv_def exp_view_def)

text \<open>The abstract experiment: none, or one of a user, with or without an expiry.\<close>

datatype exp_state = Idle | Running int string bool

definition abs_exp :: "gateway_manager \<Rightarrow> exp_state" where
  "abs_exp s = (if gm_running s then Running (the (gm_exp_id s)) (the (gm_user s)) (gm_timer s \<noteq> None) else Idle)"

lemma abs_exp_view: "exp_view s = exp_view s' \<Longrightarrow> abs_exp s = abs_exp s'"
  by (simp add: abs_exp_def exp_view_def)

fun untimed :: "exp_state \<Rightarrow> exp_state" where
  "untimed Idle = Idle"
| "untimed (Running i u _) = Running i u False"

lemma wp_stays:
  assumes "stays f m" and "\<And>r s' w'. f s' = f s \<Longrightarrow> Q r s' w'" and "\<And>e s' w'. f s' = f s \<Longrightarrow> R e s' w'"
  shows "wp m Q R s w"
  by (rule wpI) (use assms stays_run [OF assms(1)] in blast)+

lemma wp_exp_stop_timer:
  assumes "\<And>w'. Q () (s\<lparr>gm_timer := None\<rparr>) w'"
  shows "wp (exp_stop_timer E) Q R s w"
proof (cases "gm_timer s")
  case None
  then have "s\<lparr>gm_timer := None\<rparr> = s" by (cases s) simp
  with None assms [of w] show ?thesis unfolding exp_stop_timer_def wp_simps by (simp add: wp_simps)
next
  case (Some d)
  with assms show ?thesis unfolding exp_stop_timer_def wp_simps by (simp add: wp_simps)
qed

lemma bindE_getE: "bindE (getE f) g s w = g (f s) s w"
  by (simp add: bindE_def getE_def)

lemma exp_stop_body_outcome:
  assumes "gm_inv s"
  shows "wp (exp_stop_body E) (\<lambda>_ s' _. gm_inv s' \<and> abs_exp s' = Idle)
     (\<lambda>_ s' _. gm_inv s' \<and> abs_exp s' = untimed (abs_exp s)) s w"
proof (cases "gm_running s")
  case False
  with assms show ?thesis unfolding exp_stop_body_def wp_simps by (simp add: wp_simps abs_exp_def)
next
  case True
  let ?s0 = "s\<lparr>gm_timer := None\<rparr>"
  have exc: "gm_inv s' \<and> abs_exp s' = untimed (abs_exp s)" if "exp_view s' = exp_view ?s0" for s'
    using that True assms by (auto simp: exp_view_def gm_inv_def abs_exp_def)
  have fin: "gm_inv s' \<and> abs_exp s' = Idle"
    if "exp_view s1 = exp_view ?s0"
      "s' = s1\<lparr>gm_exp_files := [], gm_exp_id := None, gm_user := None, gm_running := False,
               gm_handlers := (case gm_user_log s1 of None \<Rightarrow> gm_handlers s1 | Some x \<Rightarrow> remove1 x (gm_handlers s1)),
               gm_user_log := None\<rparr>" for s1 s'
    using that True assms by (auto simp: exp_view_def gm_inv_def abs_exp_def split: option.splits)
  let ?run = "thenE (exp_stop_timer E)
         (bindE (exp_stop_nodes E) (\<lambda>ret_val.
          bindE (getE gm_exp_files) (\<lambda>files.
          thenE (cleanup_user_exp_files E files)
          (thenE (putE (\<lambda>s. s\<lparr>gm_exp_files := [], gm_exp_id := None, gm_user := None, gm_running := False\<rparr>))
          (bindE (getE gm_user_log) (\<lambda>h.
          thenE (remove_handler h)
          (thenE (putE (gm_user_log_update (\<lambda>_. None))) (retE ret_val))))))))"
  have run: "exp_stop_body E s w = ?run s w"
    by (simp add: exp_stop_body_def bindE_getE [of gm_running] True)
  have "wp ?run (\<lambda>_ s' _. gm_inv s' \<and> abs_exp s' = Idle)
     (\<lambda>_ s' _. gm_inv s' \<and> abs_exp s' = untimed (abs_exp s)) s w"
    unfolding wp_thenE wp_bindE wp_getE wp_putE wp_retE remove_handler_def
  proof (rule wp_exp_stop_timer, rule wp_stays [OF stays_exp_stop_nodes(1)], goal_cases)
    case (1 w1 r s2 w2)
    then have s2: "exp_view s2 = exp_view ?s0" by simp
    show ?case
    proof (rule wp_stays [OF stays_cleanup_user_exp_files, where f = exp_view], goal_cases)
      case (1 r' s3 w3)
      then show ?case by (intro fin [of s3]) (simp_all add: s2)
    next
      case (2 e s3 w3)
      then show ?case by (intro exc) (simp add: s2)
    qed
  next
    case (2 w1 e s2 w2)
    then show ?case by (intro exc) simp
  qed
  then show ?thesis by (simp only: wp_def run)
qed

lemma wp_gm_sync:
  assumes "holds_lock t m" and "rlock_acquire t (gm_rlock s) = Some l" and "gm_rlock s \<noteq> Some (t, 0)"
    and "wp m (\<lambda>r s'. Q r (s'\<lparr>gm_rlock := gm_rlock s\<rparr>))
           (\<lambda>e s'. R e (if e = Blocked then s' else s'\<lparr>gm_rlock := gm_rlock s\<rparr>)) (s\<lparr>gm_rlock := l\<rparr>) w"
  shows "wp (gm_sync t m) Q R s w"
  using assms(4) unfolding wp_def gm_sync_run [OF assms(1,3)] assms(2) option.case
  by (auto split: prod.splits sum.splits)

lemma gm_inv_rlock [simp]: "gm_inv (s\<lparr>gm_rlock := l\<rparr>) = gm_inv s"
  by (rule gm_inv_view) simp

lemma abs_exp_rlock [simp]: "abs_exp (s\<lparr>gm_rlock := l\<rparr>) = abs_exp s"
  by (rule abs_exp_view) simp

lemma exp_stop_outcome:
  assumes "gm_inv s" and "rlock_acquire t (gm_rlock s) = Some l" and "gm_rlock s \<noteq> Some (t, 0)"
  shows "wp (exp_stop E t) (\<lambda>_ s' _. gm_inv s' \<and> abs_exp s' = Idle)
     (\<lambda>_ s' _. gm_inv s' \<and> abs_exp s' = untimed (abs_exp s)) s w"
  unfolding exp_stop_def
proof (rule wp_gm_sync [OF _ assms(2,3)])
  show "holds_lock t (exp_stop_body E)" by (rule holds_lock_stays [OF stays_exp_stop_body])
  have "gm_inv (s\<lparr>gm_rlock := l\<rparr>)" using assms(1) by simp
  from exp_stop_body_outcome [OF this]
  show "wp (exp_stop_body E) (\<lambda>_ s' _. gm_inv (s'\<lparr>gm_rlock := gm_rlock s\<rparr>) \<and> abs_exp (s'\<lparr>gm_rlock := gm_rlock s\<rparr>) = Idle)
     (\<lambda>e s' _. gm_inv (if e = Blocked then s' else s'\<lparr>gm_rlock := gm_rlock s\<rparr>)
        \<and> abs_exp (if e = Blocked then s' else s'\<lparr>gm_rlock := gm_rlock s\<rparr>) = untimed (abs_exp s))
     (s\<lparr>gm_rlock := l\<rparr>) w"
    by (rule wp_conseq) auto
qed

text \<open>The files and the log of a new experiment: the log handler is attached last.\<close>

text \<open>The last steps of the preparation: the user log is opened and its handler added.\<close>

lemma user_log_outcome:
  assumes same: "\<And>s'. exp_view s' = exp_view s2 \<Longrightarrow> gm_inv s' \<and> abs_exp s' = x \<and> gm_user_log s' = None
      \<and> gm_timer s' = None \<and> gm_handlers s' = [] \<and> gm_running s'"
  shows "wp (case map_of files ''log'' of
         None \<Rightarrow> raiseE KeyErr
       | Some log_path \<Rightarrow>
           bindE (user_logger E log_path) (\<lambda>h.
             thenE (putE (gm_user_log_update (\<lambda>_. Some h))) (putE (gm_handlers_update (\<lambda>hs. hs @ [h])))))
     (\<lambda>_ s' _. gm_inv s' \<and> abs_exp s' = x \<and> gm_timer s' = None) (\<lambda>_ s' _. gm_inv s' \<and> abs_exp s' = x) s2 w"
proof (cases "map_of files ''log''")
  case None
  with same [of s2] show ?thesis by (simp add: wp_simps)
next
  case (Some path)
  show ?thesis
    unfolding Some option.case wp_bindE wp_thenE wp_putE
  proof (rule wp_stays [OF stays_user_logger, where f = exp_view], goal_cases)
    case (1 h s3 w3)
    from same [OF 1] show ?case by (auto simp: gm_inv_def abs_exp_def)
  next
    case (2 e s3 w3)
    from same [OF 2] show ?case by simp
  qed
qed

lemma exp_prepare_outcome:
  assumes "gm_inv s" and "gm_running s" and "gm_user_log s = None" and "gm_timer s = None"
  shows "wp (exp_prepare E user exp_id)
     (\<lambda>_ s' _. gm_inv s' \<and> abs_exp s' = abs_exp s \<and> gm_timer s' = None)
     (\<lambda>_ s' _. gm_inv s' \<and> abs_exp s' = abs_exp s) s w"
  unfolding exp_prepare_def add_handler_def wp_bindE wp_thenE [of "if b then m else n" for b m n] wp_getE
proof (rule wp_stays [where f = exp_view], goal_cases)
  case 1
  show ?case unfolding create_user_exp_folders_def by (intro stays_rules)
next
  case (2 r s1 w1)
  show ?case
  proof (rule wp_stays [where f = exp_view], goal_cases)
    case 1
    show ?case unfolding create_user_exp_files_def by (intro stays_rules)
  next
    case (2 files s2 w2)
    with \<open>exp_view s1 = exp_view s\<close> have "exp_view s2 = exp_view s" by simp
    with assms show ?case unfolding wp_thenE wp_putE
      by (intro user_log_outcome) (auto simp: exp_view_def gm_inv_def abs_exp_def split: option.splits)
  next
    case (3 e s2 w2)
    with \<open>exp_view s1 = exp_view s\<close> assms show ?case using gm_inv_view [of s2 s] abs_exp_view [of s2 s] by simp
  qed
next
  case (3 e s1 w1)
  with assms show ?case using gm_inv_view [of s1 s] abs_exp_view [of s1 s] by simp
qed

lemma abs_exp_Idle: "abs_exp s = Idle \<longleftrightarrow> \<not> gm_running s"
  by (simp add: abs_exp_def)

lemma exp_launch_outcome:
  assumes "gm_inv s" and "abs_exp s = Idle"
  shows "wp (exp_launch E user exp_id fw prof timeout)
     (\<lambda>_ s' _. gm_inv s' \<and> abs_exp s' = Running exp_id user (timeout \<noteq> 0))
     (\<lambda>_ s' _. gm_inv s' \<and> abs_exp s' = Running exp_id user False) s w"
proof -
  let ?s1 = "s\<lparr>gm_running := True, gm_exp_id := Some exp_id, gm_user := Some user\<rparr>"
  have s1: "gm_inv ?s1" "gm_running ?s1" "gm_user_log ?s1 = None" "gm_timer ?s1 = None"
    "abs_exp ?s1 = Running exp_id user False"
    using assms by (auto simp: gm_inv_def abs_exp_def split: if_splits)
  have timed: "gm_inv (s2\<lparr>gm_timer := Some (timeout, exp_id, user)\<rparr>)
      \<and> abs_exp (s2\<lparr>gm_timer := Some (timeout, exp_id, user)\<rparr>) = Running exp_id user True"
    if "gm_inv s2" "abs_exp s2 = Running exp_id user False" "timeout \<noteq> 0" for s2
    using that by (auto simp: gm_inv_def abs_exp_def split: if_splits)
  show ?thesis
    unfolding exp_launch_def wp_thenE wp_bindE wp_putE
  proof (rule wp_conseq [OF exp_prepare_outcome [OF s1(1-4)]], goal_cases)
    case (1 r s2 w2)
    show ?case
    proof (rule wp_stays [OF stays_exp_run_nodes(1)], goal_cases)
      case (1 r3 s3 w3)
      with \<open>gm_inv s2 \<and> _\<close> have "gm_inv s3" "abs_exp s3 = Running exp_id user False"
        using gm_inv_view [OF 1] abs_exp_view [OF 1] s1(5) by simp_all
      then show ?case using timed by (simp add: wp_simps)
    next
      case (2 e s3 w3)
      with \<open>gm_inv s2 \<and> _\<close> show ?case
        using gm_inv_view [OF 2] abs_exp_view [OF 2] s1(5) by simp
    qed
  next
    case (2 e s2 w2)
    then show ?case using s1(5) by simp
  qed
qed

lemma exp_start_new_outcome:
  assumes "gm_inv s" and "abs_exp s = Idle"
  shows "wp (exp_start_new E user exp_id fw pdict timeout)
     (\<lambda>r s' _. gm_inv s' \<and> (abs_exp s' = Running exp_id user (timeout \<noteq> 0) \<or> r = 1 \<and> abs_exp s' = Idle))
     (\<lambda>_ s' _. gm_inv s' \<and> abs_exp s' \<in> {Idle, Running exp_id user False}) s w"
proof (cases "profile_from_dict (gm_board_cfg s) pdict")
  case (Inl e)
  with assms show ?thesis unfolding exp_start_new_def wp_bindE wp_getE by (simp add: wp_simps)
next
  case (Inr prof)
  show ?thesis
    unfolding exp_start_new_def wp_bindE wp_getE Inr sum.case
  proof (rule wp_stays [OF stays_elf, where f = exp_view], goal_cases)
    case (1 ok s1 w1)
    then have s1: "gm_inv s1" "abs_exp s1 = Idle" using assms gm_inv_view [OF 1] abs_exp_view [OF 1] by simp_all
    show ?case
    proof (cases ok)
      case True
      with wp_conseq [OF exp_launch_outcome [OF s1]] show ?thesis by simp
    next
      case False
      with s1 show ?thesis by (simp add: wp_simps)
    qed
  next
    case (2 e s1 w1)
    then show ?case using assms gm_inv_view [OF 2] abs_exp_view [OF 2] by simp
  qed
qed

lemma exp_start_body_outcome:
  assumes "gm_inv s" and "gm_rlock s = Some (t, Suc n)"
  shows "wp (exp_start_body E t user exp_id fw pdict timeout)
     (\<lambda>r s' _. gm_inv s' \<and> (abs_exp s' = Running exp_id user (timeout \<noteq> 0) \<or> r = 1 \<and> abs_exp s' = Idle))
     (\<lambda>_ s' _. gm_inv s' \<and> abs_exp s' \<in> {Idle, Running exp_id user False, untimed (abs_exp s)}) s w"
proof -
  have "wp (if gm_running s then exp_stop E t else retE 0) (\<lambda>_ s' _. gm_inv s' \<and> abs_exp s' = Idle)
     (\<lambda>_ s' _. gm_inv s' \<and> abs_exp s' = untimed (abs_exp s)) s w"
    using exp_stop_outcome [OF assms(1), of t "Some (t, Suc n + 1)"] assms
    by (auto simp: wp_simps abs_exp_Idle)
  then show ?thesis
    unfolding exp_start_body_def wp_bindE wp_getE wp_thenE
    by (rule wp_conseq) (auto intro!: wp_conseq [OF exp_start_new_outcome])
qed

section \<open>Every method of the manager\<close>

datatype gm_op =
    GmStart string int "string option" pyval int | GmStop | GmTimeout int string | GmUpdate pyval
  | GmPowerStart "string option" | GmPowerStop "string option" | GmDebugStart | GmDebugStop
  | GmReset string | GmFlash string "string option" bool int | GmStatus | GmSleep int

fun gm_run :: "env \<Rightarrow> thread \<Rightarrow> gm_op \<Rightarrow> int gm_act" where
  "gm_run E t (GmStart user exp_id fw pdict timeout) = exp_start E t user exp_id fw pdict timeout"
| "gm_run E t GmStop = exp_stop E t"
| "gm_run E t (GmTimeout exp_id user) = ignoreE (timeout_exp_stop E t exp_id user)"
| "gm_run E t (GmUpdate pdict) = exp_update_profile E t pdict"
| "gm_run E t (GmPowerStart pwr) = open_power_start E t pwr"
| "gm_run E t (GmPowerStop pwr) = open_power_stop E t pwr"
| "gm_run E t GmDebugStart = gm_open_debug_start E t"
| "gm_run E t GmDebugStop = gm_open_debug_stop E t"
| "gm_run E t (GmReset node) = node_soft_reset E t node"
| "gm_run E t (GmFlash node fw binary offset) = node_flash E t node fw binary offset"
| "gm_run E t GmStatus = gm_status E t"
| "gm_run E t (GmSleep seconds) = gm_sleep E t seconds"

text \<open>
  What a call may do to the experiment: starting replaces the experiment, or leaves none when the
  request is refused with return code 1; stopping leaves none; the timer of an experiment ends that
  experiment and no other; every other call leaves it alone.  A call that raises may lose the
  expiry, or leave a half started experiment, which counts as running.
\<close>

fun exp_spec :: "gm_op \<Rightarrow> exc + int \<Rightarrow> exp_state \<Rightarrow> exp_state \<Rightarrow> bool" where
  "exp_spec (GmStart user exp_id _ _ timeout) (Inr r) a a' \<longleftrightarrow>
     a' = Running exp_id user (timeout \<noteq> 0) \<or> r = 1 \<and> a' = Idle"
| "exp_spec (GmStart user exp_id _ _ timeout) (Inl _) a a' \<longleftrightarrow> a' \<in> {Idle, Running exp_id user False, untimed a}"
| "exp_spec GmStop (Inr _) a a' \<longleftrightarrow> a' = Idle"
| "exp_spec GmStop (Inl _) a a' \<longleftrightarrow> a' = untimed a"
| "exp_spec (GmTimeout exp_id user) (Inr _) a a' \<longleftrightarrow>
     (if \<exists>b. a = Running exp_id user b then a' = Idle \<or> a' = untimed a else a' = a)"
| "exp_spec (GmTimeout exp_id user) (Inl _) a a' \<longleftrightarrow> a' = untimed a"
| "exp_spec _ _ a a' \<longleftrightarrow> a' = a"

text \<open>The methods that leave the experiment alone.\<close>

definition gm_quiet :: "gm_op \<Rightarrow> bool" where
  "gm_quiet op \<longleftrightarrow> (case op of GmStart _ _ _ _ _ \<Rightarrow> False | GmStop \<Rightarrow> False | GmTimeout _ _ \<Rightarrow> False | _ \<Rightarrow> True)"

lemma gm_sync_ex:
  "stays exp_view m \<Longrightarrow> stays gm_rlock m
   \<Longrightarrow> \<exists>m'. gm_sync t m = gm_sync t m' \<and> stays exp_view m' \<and> stays gm_rlock m'"
  by blast

lemma gm_quiet_sync:
  assumes "gm_quiet op"
  obtains m where "gm_run E t op = gm_sync t m" and "stays exp_view m" and "stays gm_rlock m"
proof -
  have "\<exists>m. gm_run E t op = gm_sync t m \<and> stays exp_view m \<and> stays gm_rlock m"
    using assms
  proof (cases op)
    case (GmUpdate pdict)
    show ?thesis unfolding GmUpdate gm_run.simps exp_update_profile_def
      by (intro gm_sync_ex stays_rules)
  next
    case (GmReset node)
    show ?thesis unfolding GmReset gm_run.simps node_soft_reset_def
      by (intro gm_sync_ex stays_rules)
  next
    case (GmFlash node fw binary offset)
    show ?thesis unfolding GmFlash gm_run.simps node_flash_def
      by (intro gm_sync_ex stays_rules)
  next
    case GmStatus
    show ?thesis unfolding GmStatus gm_run.simps gm_status_def
      by (intro gm_sync_ex stays_rules)
  next
    case (GmSleep seconds)
    show ?thesis unfolding GmSleep gm_run.simps gm_sleep_def
      by (intro gm_sync_ex stays_rules)
  qed (simp_all add: gm_quiet_def open_power_start_def open_power_stop_def gm_open_debug_start_def gm_open_debug_stop_def,
       (intro gm_sync_ex stays_rules)+)
  then show thesis using that by blast
qed

lemma exp_spec_quiet: "gm_quiet op \<Longrightarrow> exp_spec op r a a' \<longleftrightarrow> a' = a"
  by (cases op) (simp_all add: gm_quiet_def)

lemma timeout_body_outcome:
  assumes "gm_inv s" and "gm_rlock s = Some (t, Suc n)"
  shows "wp (timeout_exp_stop_body E t exp_id user)
     (\<lambda>_ s' _. gm_inv s' \<and> (if \<exists>b. abs_exp s = Running exp_id user b
         then abs_exp s' = Idle \<or> abs_exp s' = untimed (abs_exp s) else abs_exp s' = abs_exp s))
     (\<lambda>_ s' _. gm_inv s' \<and> abs_exp s' = untimed (abs_exp s)) s w"
proof (cases "(gm_exp_id s, gm_user s) = (Some exp_id, Some user)")
  case True
  have running: "\<exists>b. abs_exp s = Running exp_id user b"
    using True assms(1) by (auto simp: gm_inv_def abs_exp_def split: if_splits)
  have "wp (exp_stop E t) (\<lambda>_ s' _. gm_inv s' \<and> abs_exp s' = Idle)
     (\<lambda>_ s' _. gm_inv s' \<and> abs_exp s' = untimed (abs_exp s)) s w"
    using exp_stop_outcome [OF assms(1), of t "Some (t, Suc n + 1)"] assms(2) by simp
  then have "wp (tryE (thenE (exp_stop E t) (retE ()))
        (\<lambda>e. if environment_errno e = Some EWOULDBLOCK then Some (retE ()) else None))
     (\<lambda>_ s' _. gm_inv s' \<and> (abs_exp s' = Idle \<or> abs_exp s' = untimed (abs_exp s)))
     (\<lambda>_ s' _. gm_inv s' \<and> abs_exp s' = untimed (abs_exp s)) s w"
    unfolding wp_tryE wp_thenE wp_retE by (rule wp_conseq) (auto simp: wp_simps)
  with True running show ?thesis
    unfolding timeout_exp_stop_body_def wp_bindE wp_getE by (simp add: wp_if)
next
  case False
  then have "\<nexists>b. abs_exp s = Running exp_id user b"
    using assms(1) by (auto simp: gm_inv_def abs_exp_def split: if_splits)
  with False assms(1) show ?thesis
    unfolding timeout_exp_stop_body_def wp_bindE wp_getE by (simp add: wp_simps)
qed

text \<open>One call on a manager whose lock is free.\<close>

lemma gm_sync_free:
  assumes "holds_lock t m" and "gm_rlock s = None" and "gm_sync t m s w = (r, s', w')"
  obtains s1 where "m (s\<lparr>gm_rlock := Some (t, Suc 0)\<rparr>) w = (r, s1, w')" and "exp_view s' = exp_view s1"
    and "r \<noteq> Inl Blocked \<longrightarrow> gm_rlock s' = None"
proof -
  have "gm_rlock s \<noteq> Some (t, 0)" using assms(2) by simp
  from assms(3) [unfolded gm_sync_run [OF assms(1) this]] assms(2) show thesis
    by (auto intro: that split: prod.splits)
qed

lemma gm_call_outcome:
  assumes inv: "gm_inv s" and free: "gm_rlock s = None" and run: "gm_run E t op s w = (r, s', w')"
  shows "gm_inv s' \<and> exp_spec op r (abs_exp s) (abs_exp s') \<and> (r \<noteq> Inl Blocked \<longrightarrow> gm_rlock s' = None)"
proof -
  let ?s0 = "s\<lparr>gm_rlock := Some (t, Suc 0)\<rparr>"
  have s0: "gm_inv ?s0" "gm_rlock ?s0 = Some (t, Suc 0)" using inv by simp_all
  have view: "gm_inv s' = gm_inv s1 \<and> abs_exp s' = abs_exp s1" if "exp_view s' = exp_view s1" for s1
    using gm_inv_view [OF that] abs_exp_view [OF that] by simp
  show ?thesis
  proof (cases "gm_quiet op")
    case True
    then obtain m where m: "gm_run E t op = gm_sync t m" "stays exp_view m" "stays gm_rlock m" by (rule gm_quiet_sync)
    from gm_sync_free [OF holds_lock_stays [OF m(3)] free run [unfolded m(1)]]
    obtain s1 where s1: "m ?s0 w = (r, s1, w')" "exp_view s' = exp_view s1" "r \<noteq> Inl Blocked \<longrightarrow> gm_rlock s' = None" .
    have "exp_view s1 = exp_view s" using stays_run [OF m(2) s1(1)] by simp
    with s1(2) have "exp_view s' = exp_view s" by simp
    with view [OF this] inv s1(3) True show ?thesis by (simp add: exp_spec_quiet)
  next
    case False
    then consider (start) user exp_id fw pdict timeout where "op = GmStart user exp_id fw pdict timeout"
      | (stop) "op = GmStop" | (timeout) exp_id user where "op = GmTimeout exp_id user"
      by (cases op) (simp_all add: gm_quiet_def)
    then show ?thesis
    proof cases
      case start
      with run have "gm_sync t (exp_start_body E t user exp_id fw pdict timeout) s w = (r, s', w')"
        by (simp add: exp_start_def)
      from gm_sync_free [OF holds_lock_exp_start_body free this]
      obtain s1 where s1: "exp_start_body E t user exp_id fw pdict timeout ?s0 w = (r, s1, w')"
        "exp_view s' = exp_view s1" "r \<noteq> Inl Blocked \<longrightarrow> gm_rlock s' = None" .
      with exp_start_body_outcome [OF s0, of E user exp_id fw pdict timeout w] view [OF s1(2)] start show ?thesis
        by (cases r) (auto simp: wp_def)
    next
      case stop
      with run have "gm_sync t (exp_stop_body E) s w = (r, s', w')" by (simp add: exp_stop_def)
      from gm_sync_free [OF holds_lock_stays [OF stays_exp_stop_body] free this]
      obtain s1 where s1: "exp_stop_body E ?s0 w = (r, s1, w')" "exp_view s' = exp_view s1"
        "r \<noteq> Inl Blocked \<longrightarrow> gm_rlock s' = None" .
      with exp_stop_body_outcome [OF s0(1), of E w] view [OF s1(2)] stop show ?thesis
        by (cases r) (auto simp: wp_def)
    next
      case timeout
      with run obtain r0 where r0: "gm_sync t (timeout_exp_stop_body E t exp_id user) s w = (r0, s', w')"
        "r = (case r0 of Inl e \<Rightarrow> Inl e | Inr _ \<Rightarrow> Inr 0)"
        by (auto simp: timeout_exp_stop_def ignoreE_def bindE_def retE_def split: prod.splits sum.splits)
      from gm_sync_free [OF holds_lock_timeout_body free r0(1)]
      obtain s1 where s1: "timeout_exp_stop_body E t exp_id user ?s0 w = (r0, s1, w')" "exp_view s' = exp_view s1"
        "r0 \<noteq> Inl Blocked \<longrightarrow> gm_rlock s' = None" .
      with timeout_body_outcome [OF s0, of E exp_id user w] view [OF s1(2)] timeout r0(2) show ?thesis
        by (cases r0) (auto simp: wp_def split: if_splits)
    qed
  qed
qed

section \<open>The manager at work\<close>

text \<open>
  The states between two calls: the program made the manager and ran its setup, then requests and
  timers called its methods from any threads, and time passed.  A call that never returns keeps
  the lock for ever and has no successor.
\<close>

inductive gm_reach :: "env \<Rightarrow> gateway_manager \<Rightarrow> world \<Rightarrow> bool" for E where
  reach_setup: "GatewayManager_init E () w = (Inr s, u, w1) \<Longrightarrow> gm_setup E t s w1 = (Inr r, s', w2) \<Longrightarrow> gm_reach E s' w2"
| reach_call: "gm_reach E s w \<Longrightarrow> gm_run E t op s w = (r, s', w') \<Longrightarrow> r \<noteq> Inl Blocked \<Longrightarrow> gm_reach E s' w'"
| reach_time: "gm_reach E s w \<Longrightarrow> now w \<le> n \<Longrightarrow> gm_reach E s (w\<lparr>now := n\<rparr>)"

lemma GatewayManager_init_idle:
  assumes "GatewayManager_init E u w = (Inr s, u', w')"
  shows "gm_inv s \<and> gm_rlock s = None \<and> abs_exp s = Idle"
  using assms unfolding GatewayManager_init_def
  by (elim bindE_InrE) (auto simp: retE_def gm_inv_def abs_exp_def)

lemma gm_setup_flash:
  assumes "gm_setup E t s w = (Inr r, s', w')"
  shows "gm_run E t (GmFlash ''control'' None False 0) s w = (Inr 0, s', w')"
  using assms unfolding gm_setup_def by (elim bindE_InrE) (auto simp: raiseE_def retE_def split: if_splits)

lemma gm_reach_ok: "gm_reach E s w \<Longrightarrow> gm_inv s \<and> gm_rlock s = None"
proof (induction rule: gm_reach.induct)
  case (reach_setup w s u w1 t r s' w2)
  then show ?case
    using GatewayManager_init_idle [OF reach_setup(1)] gm_call_outcome [OF _ _ gm_setup_flash [OF reach_setup(2)]] by simp
next
  case (reach_call s w t op r s' w')
  then show ?case using gm_call_outcome [OF _ _ reach_call(2)] by simp
qed simp

section \<open>An M3 gateway\<close>

text \<open>The manager that the configuration of an M3 gateway makes, and its setup.\<close>

definition m3_manager :: "open_node \<Rightarrow> control_node \<Rightarrow> gateway_manager" where
  "m3_manager on cn =
     \<lparr>gm_board_cfg = m3_config, gm_rlock = None, gm_open_node = on, gm_control_node = cn,
      gm_exp_id = None, gm_user = None, gm_exp_files = [],
      gm_running = False, gm_user_log = None, gm_handlers = [], gm_timer = None\<rparr>"

lemma m3_env_files: "e_open m3_env v p = None" "e_abspath m3_env p = p" "e_static_dir m3_env = ''/static''"
  "e_call m3_env v args = CallExit 0"
  by (simp_all add: m3_env_def working_env_def)

lemma m3_open_node_made: "\<exists>on. open_node_init m3_env (NodeM3 m3_env) () world0 = (Inr on, (), world0)"
proof -
  have "SOCAT ''/dev/iotlab/ttyON_M3'' 500000 [''echo=0'', ''raw'']
      = ''socat -d TCP4-LISTEN:20000,reuseaddr open:/dev/iotlab/ttyON_M3,b500000,echo=0,raw''"
    by (simp add: SOCAT_def str_int_def str_nat_def str_base.simps digit_char_def)
  moreover have "shlex_split ''socat -d TCP4-LISTEN:20000,reuseaddr open:/dev/iotlab/ttyON_M3,b500000,echo=0,raw''
      = Some [''socat'', ''-d'', ''TCP4-LISTEN:20000,reuseaddr'', ''open:/dev/iotlab/ttyON_M3,b500000,echo=0,raw'']"
    by (simp add: shlex_split_def sh_space_def)
  ultimately have "\<exists>n. NodeOpenOCD_init m3_env (NodeM3 m3_env) () world0 = (Inr n, (), world0)"
    by (simp add: NodeOpenOCD_init_def default_redirection_def SerialRedirection_init_def from_cmdline_def
        OpenOCD_init_def openocd_config_def abspath_def Let_def bindE_def askE_def retE_def board_defs m3_env_files)
  then obtain n where "NodeOpenOCD_init m3_env (NodeM3 m3_env) () world0 = (Inr n, (), world0)" by blast
  moreover have "b_kind (NodeM3 m3_env) = KOpenOCD" by (simp add: board_defs)
  ultimately show ?thesis by (simp add: open_node_init_def lift_init_def bindE_def retE_def)
qed

lemma m3_control_node_made:
  "\<exists>c. control_node_init m3_env (ControlClass ClassIotlab) ''m3_1'' default_profile () world0 = (Inr (CnIotlab c), (), world0)
      \<and> ci_openocd c = \<lparr>oo_path = ''/opt/openocd-dev/bin/openocd'',
          oo_config = py_join '' '' (map quote_f [''/static/iot-lab.cfg'', ''/static/iot-lab-cn.cfg'']),
          oo_debug = None, oo_RESET = OPENOCD_RESET\<rparr>"
  by (simp add: control_node_init_def lift_init_def ControlNodeIotlab_init_def OpenOCD_init_def openocd_config_def
      abspath_def Let_def bindE_def askE_def retE_def m3_env_files static_path_def)


lemma m3_manager_made:
  "\<exists>on c. GatewayManager_init m3_env () world0 = (Inr (m3_manager on (CnIotlab c)), (), world0)
     \<and> openocd_ok (ci_openocd c) [''/static/iot-lab.cfg'', ''/static/iot-lab-cn.cfg'']
     \<and> oo_debug (ci_openocd c) = None"
proof -
  obtain on where on: "open_node_init m3_env (NodeM3 m3_env) () world0 = (Inr on, (), world0)"
    using m3_open_node_made by blast
  obtain c where c: "control_node_init m3_env (ControlClass ClassIotlab) ''m3_1'' default_profile () world0
      = (Inr (CnIotlab c), (), world0)"
    and oo: "ci_openocd c = \<lparr>oo_path = ''/opt/openocd-dev/bin/openocd'',
          oo_config = py_join '' '' (map quote_f [''/static/iot-lab.cfg'', ''/static/iot-lab-cn.cfg'']),
          oo_debug = None, oo_RESET = OPENOCD_RESET\<rparr>"
    using m3_control_node_made by blast
  have "GatewayManager_init m3_env () world0 = (Inr (m3_manager on (CnIotlab c)), (), world0)"
    by (simp add: GatewayManager_init_def bindE_def m3_env_config)
       (simp add: m3_config_def on c retE_def m3_manager_def)
  moreover have "openocd_ok (ci_openocd c) [''/static/iot-lab.cfg'', ''/static/iot-lab-cn.cfg'']"
    by (simp add: oo openocd_ok_def sh_space_def)
  moreover have "oo_debug (ci_openocd c) = None" by (simp add: oo)
  ultimately show ?thesis by blast
qed

lemma m3_manager_setup:
  assumes "openocd_ok (ci_openocd c) opts" and "oo_debug (ci_openocd c) = None"
  shows "\<exists>w'. gm_setup m3_env t (m3_manager on (CnIotlab c)) world0 = (Inr 0, m3_manager on (CnIotlab c), w')"
proof -
  have "openocd_flash m3_env ''/static/control_node.elf'' False 0 (ci_openocd c) v
      = (Inr 0, ci_openocd c, log_event m3_env (Call (openocd_argv (ci_openocd c) opts
          (flash_cmds m3_env ''/static/control_node.elf'' False 0))) v)" for v
    using openocd_flash_run [OF assms, of m3_env v "''/static/control_node.elf''" False 0]
    by (simp add: m3_env_files call_result_def)
  then show ?thesis
    by (simp add: gm_setup_def node_flash_def gm_sync_def synchronous_def m3_manager_def bindE_def getE_def thenE_def
        putE_def finallyE_def is_compatible_with_node_def retE_def zoomE_def cn_flash_def cn_dispatch_def liftE_def
        ci_flash_def or_default_def static_path_def m3_env_files wait_control_node_ready_def py_sleep_def emitE_def
        release_lock_def)
qed


section \<open>Properties\<close>

text \<open>C13: between two calls the lock is free and the state of the manager is consistent: the handlers on the
  logger are exactly that of the current user log; without an experiment there is no experiment
  id, user, file, user log or timer left; and a timer belongs to the running experiment.  This
  holds after any sequence of calls from any threads, also calls that raised.\<close>

theorem gm_consistent:
  assumes "gm_reach E s w"
  shows "gm_rlock s = None
     \<and> gm_handlers s = (case gm_user_log s of None \<Rightarrow> [] | Some h \<Rightarrow> [h])
     \<and> (\<not> gm_running s \<longrightarrow> gm_exp_id s = None \<and> gm_user s = None \<and> gm_exp_files s = []
                          \<and> gm_user_log s = None \<and> gm_timer s = None)
     \<and> (gm_running s \<longrightarrow> gm_exp_id s \<noteq> None \<and> gm_user s \<noteq> None)
     \<and> (\<forall>d i u. gm_timer s = Some (d, i, u) \<longrightarrow> d \<noteq> 0 \<and> gm_exp_id s = Some i \<and> gm_user s = Some u)"
  using gm_reach_ok [OF assms] unfolding gm_inv_def by (auto split: if_splits)

theorem gm_consistent_witness:
  "\<exists>s w. gm_reach m3_env s w \<and> gm_rlock s = None \<and> gm_handlers s = (case gm_user_log s of None \<Rightarrow> [] | Some h \<Rightarrow> [h])"
proof -
  obtain on c where made: "GatewayManager_init m3_env () world0 = (Inr (m3_manager on (CnIotlab c)), (), world0)"
    and oo: "openocd_ok (ci_openocd c) [''/static/iot-lab.cfg'', ''/static/iot-lab-cn.cfg'']"
      "oo_debug (ci_openocd c) = None"
    using m3_manager_made by blast
  obtain s w where "gm_setup m3_env 0 (m3_manager on (CnIotlab c)) world0 = (Inr 0, s, w)"
    using m3_manager_setup [OF oo] by blast
  with made have "gm_reach m3_env s w" by (rule gm_reach.reach_setup)
  with gm_consistent [OF this] show ?thesis by blast
qed


text \<open>The timer of an experiment that is over fires during the next one.\<close>

definition running_manager :: gateway_manager where
  "running_manager = (m3_manager (OnOpenOCD m3_open_node) (CnIotlab m3_control_node))
     \<lparr>gm_running := True, gm_exp_id := Some 2, gm_user := Some ''u'', gm_timer := Some (60, 2, ''u'')\<rparr>"


lemma gm_sync_busy:
  assumes "gm_rlock s = Some (t', n)" and "t' \<noteq> t"
  shows "gm_sync t m s w = (Inl (EnvironmentErr EWOULDBLOCK), s, w)"
  unfolding gm_sync_def by (rule gm_lock.synchronous_busy [OF assms])

lemma gm_run_busy:
  assumes "gm_rlock s = Some (t', n)" and "t' \<noteq> t"
  shows "gm_run E t op s w = (Inl (EnvironmentErr EWOULDBLOCK), s, w)"
proof (cases "gm_quiet op")
  case True
  then obtain m where "gm_run E t op = gm_sync t m" by (rule gm_quiet_sync)
  with gm_sync_busy [OF assms] show ?thesis by simp
next
  case False
  then show ?thesis
    by (cases op) (simp_all add: gm_quiet_def exp_start_def exp_stop_def timeout_exp_stop_def ignoreE_def bindE_def
        gm_sync_busy [OF assms])
qed

text \<open>C14: while a thread is in a method of the manager, every call from another thread raises
  EWOULDBLOCK at once and changes nothing.  That holds for the experiment timer too: its
  \<open>except\<close> clause is inside the locked method and can not catch it, so a timeout that fires while
  another call runs is lost and the experiment goes on without an expiry.\<close>

theorem gm_busy:
  assumes "gm_rlock s = Some (t', n)" and "t' \<noteq> t"
  shows "gm_run E t op s w = (Inl (EnvironmentErr EWOULDBLOCK), s, w)
     \<and> timeout_exp_stop E t exp_id user s w = (Inl (EnvironmentErr EWOULDBLOCK), s, w)"
  using gm_run_busy [OF assms] gm_sync_busy [OF assms] by (simp add: timeout_exp_stop_def)

theorem gm_busy_witness:
  "gm_run m3_env 1 GmStop (running_manager\<lparr>gm_rlock := Some (2, 1)\<rparr>) world0
     = (Inl (EnvironmentErr EWOULDBLOCK), running_manager\<lparr>gm_rlock := Some (2, 1)\<rparr>, world0)
   \<and> timeout_exp_stop m3_env 1 2 ''u'' (running_manager\<lparr>gm_rlock := Some (2, 1)\<rparr>) world0
     = (Inl (EnvironmentErr EWOULDBLOCK), running_manager\<lparr>gm_rlock := Some (2, 1)\<rparr>, world0)"
  by (rule gm_busy [where t' = 2 and n = 1]) simp_all

lemma exp_start_new_idle:
  assumes "gm_rlock s = None" and "\<not> gm_running s"
    and "exp_start_new E user exp_id fw pdict timeout (s\<lparr>gm_rlock := Some (t, Suc 0)\<rparr>) w
         = (r, s\<lparr>gm_rlock := Some (t, Suc 0)\<rparr>, w)" and "r \<noteq> Inl Blocked"
  shows "exp_start E t user exp_id fw pdict timeout s w = (r, s, w)"
proof -
  let ?s0 = "s\<lparr>gm_rlock := Some (t, Suc 0)\<rparr>"
  have "exp_start_body E t user exp_id fw pdict timeout ?s0 w = exp_start_new E user exp_id fw pdict timeout ?s0 w"
    using assms(2) by (simp add: exp_start_body_def bindE_getE thenE_def) (simp add: bindE_def retE_def)
  moreover have "gm_rlock s \<noteq> Some (t, 0)" using assms(1) by simp
  moreover have "s\<lparr>gm_rlock := None\<rparr> = s" using assms(1) by (cases s) simp
  ultimately show ?thesis
    unfolding exp_start_def using gm_sync_run [OF holds_lock_exp_start_body] assms(1,3,4) by simp
qed

lemma is_compatible_unfit:
  assumes "fw = Some path" and "target = Some tgt" and "\<forall>n. e_elf E w path \<noteq> ElfUnreadable n"
    and "e_elf E w path \<noteq> ElfHeader ''ET_EXEC'' (fst tgt) (snd tgt)"
  shows "is_compatible_with_node E fw target s w = (Inr False, s, w)"
  using assms
  by (cases "e_elf E w path"; cases tgt)
     (auto simp: is_compatible_with_node_def elf_target_def bindE_def askE_def tryE_def retE_def raiseE_def)



end
