(* ===== verification/Node_Connection.thy ===== *)
theory Node_Connection
  imports Common
begin

text \<open>
  Model of \<^verbatim>\<open>gateway_code/utils/node_connection.py\<close>: the TCP connection to the serial redirection of
  the open node, over which the autotests send commands and read one line of answer.
\<close>

section \<open>The connection\<close>

text \<open>\<open>oc_open\<close> says that the socket and its file object are there.\<close>

record on_connection =
  oc_host :: string
  oc_port :: int
  oc_open :: bool

definition ON_PORT :: int where
  "ON_PORT = 20000"

definition OpenNodeConnection_init :: "string \<Rightarrow> on_connection" where
  "OpenNodeConnection_init host = \<lparr>oc_host = host, oc_port = ON_PORT, oc_open = False\<rparr>"

definition create_connection :: "env \<Rightarrow> string \<Rightarrow> int \<Rightarrow> ('s, unit) act" where
  "create_connection E host port =
     bindE (askE (\<lambda>w. e_connect E w host port)) (\<lambda>r.
       case r of Some n \<Rightarrow> raiseE (IOErr n) | None \<Rightarrow> emitE E (Connect host port))"

fun is_IOErr :: "exc \<Rightarrow> bool" where
  "is_IOErr (IOErr _) = True"
| "is_IOErr _ = False"

text \<open>\<open>try_connect\<close>, with the number of tries that may fail; the last one raises\<close>

fun try_connect :: "env \<Rightarrow> string \<Rightarrow> int \<Rightarrow> nat \<Rightarrow> ('s, unit) act" where
  "try_connect E host port 0 = create_connection E host port"
| "try_connect E host port (Suc n) =
     tryE (create_connection E host port)
       (\<lambda>e. if is_IOErr e then Some (thenE (py_sleep E 500) (try_connect E host port n)) else None)"

definition conn_start :: "env \<Rightarrow> (on_connection, int) act" where
  "conn_start E =
     bindE (getE id) (\<lambda>c.
       tryE (thenE (try_connect E (oc_host c) (oc_port c) 9)
              (thenE (putE (oc_open_update (\<lambda>_. True))) (retE 0)))
            (\<lambda>e. if is_IOErr e then Some (retE 1) else None))"

text \<open>A use of \<open>self.fd\<close>, which is None when the connection is not open.\<close>

definition on_fd :: "(on_connection, 'a) act \<Rightarrow> (on_connection, 'a) act" where
  "on_fd m = bindE (getE oc_open) (\<lambda>opened. if opened then m else raiseE AttributeErr)"

definition conn_stop :: "env \<Rightarrow> (on_connection, int) act" where
  "conn_stop E = on_fd (thenE (putE (oc_open_update (\<lambda>_. False))) (thenE (py_sleep E 1000) (retE 0)))"

section \<open>Commands\<close>

definition conn_writeline :: "env \<Rightarrow> string \<Rightarrow> (on_connection, unit) act" where
  "conn_writeline E line =
     (let text = line @ [CHR 0x0A] in
      on_fd (bindE (askE (\<lambda>w. e_sock_write E w text)) (\<lambda>r.
        case r of Some n \<Rightarrow> raiseE (IOErr n) | None \<Rightarrow> emitE E (SockWrite text))))"

text \<open>A line without its end, the last one of a connection that was closed, counts as no answer.\<close>

definition line_words :: "string \<Rightarrow> string list option" where
  "line_words line =
     (if line \<noteq> [] \<and> last line = CHR 0x0A then Some (py_split (CHR '' '') (py_strip line)) else None)"

definition conn_readline :: "env \<Rightarrow> (on_connection, string list option) act" where
  "conn_readline E =
     on_fd (bindE (askE (e_sock_read E)) (\<lambda>r.
       thenE (emitE E (SockRead r)) (retE (case r of None \<Rightarrow> None | Some line \<Rightarrow> line_words line))))"

definition conn_send_command :: "env \<Rightarrow> string list \<Rightarrow> (on_connection, string list option) act" where
  "conn_send_command E command_list =
     thenE (conn_writeline E (py_join '' '' command_list)) (conn_readline E)"

text \<open>\<open>empty\<close>: read until there is nothing to read; a node that never stops talking keeps it for ever\<close>

partial_function (option) empty_loop :: "env \<Rightarrow> world \<Rightarrow> world option" where
  "empty_loop E w =
     (let r = e_sock_read E w; w' = log_event E (SockRead r) w in
      case (case r of None \<Rightarrow> None | Some line \<Rightarrow> line_words line) of
        None \<Rightarrow> Some w'
      | Some _ \<Rightarrow> empty_loop E w')"

definition conn_empty :: "env \<Rightarrow> (on_connection, unit) act" where
  "conn_empty E =
     on_fd (\<lambda>s w. case empty_loop E w of None \<Rightarrow> (Inl Blocked, s, w) | Some w' \<Rightarrow> (Inr (), s, w'))"

text \<open>\<open>send_one_command\<close>: connect, send, disconnect, on an object of its own\<close>

definition send_one_command :: "env \<Rightarrow> string \<Rightarrow> string list \<Rightarrow> ('s, string list option) act" where
  "send_one_command E host command_list = (\<lambda>s w.
     case bindE (conn_start E) (\<lambda>ret.
            if ret \<noteq> 0 then raiseE RuntimeErr
            else finallyE (conn_send_command E command_list) (thenE (conn_stop E) (retE ())))
          (OpenNodeConnection_init host) w of
       (r, _, w') \<Rightarrow> (r, s, w'))"

section \<open>Lemmas\<close>

lemma try_connect_outcome:
  "wp (try_connect E host port n)
      (\<lambda>_ s' w'. s' = s \<and> (\<exists>k\<le>n. trace w' = trace w @ replicate k (Sleep 500) @ [Connect host port]))
      (\<lambda>e s' w'. is_IOErr e \<and> s' = s \<and> trace w' = trace w @ replicate n (Sleep 500)) s w"
proof (induction n arbitrary: w)
  case 0
  show ?case by (simp add: create_connection_def wp_simps log_event_def split: option.split)
next
  case (Suc n)
  have step: "trace (log_event E (Sleep 500) w) @ replicate k (Sleep 500) @ xs
      = trace w @ replicate (Suc k) (Sleep 500) @ xs" for k xs
    by (simp add: log_event_def)
  show ?case
  proof (cases "e_connect E w host port")
    case None
    then show ?thesis
      by (auto simp: create_connection_def wp_simps log_event_def intro: exI [of _ 0])
  next
    case (Some errno)
    have "wp (try_connect E host port n)
      (\<lambda>_ s' w'. s' = s \<and> (\<exists>k\<le>Suc n. trace w' = trace w @ replicate k (Sleep 500) @ [Connect host port]))
      (\<lambda>e s' w'. is_IOErr e \<and> s' = s \<and> trace w' = trace w @ replicate (Suc n) (Sleep 500)) s
      (log_event E (Sleep 500) w)"
    proof (rule wp_conseq [OF Suc], goal_cases)
      case (1 r s' w')
      then obtain k where "k \<le> n" "s' = s"
        "trace w' = trace (log_event E (Sleep 500) w) @ replicate k (Sleep 500) @ [Connect host port]" by blast
      then show ?case unfolding step by (intro conjI exI [of _ "Suc k"]) simp_all
    next
      case (2 e s' w')
      then show ?case using step [of n "[]"] by simp
    qed
    with Some show ?thesis by (simp add: create_connection_def wp_simps)
  qed
qed

lemma py_join_ends:
  assumes "ws \<noteq> []" and "\<forall>v\<in>set ws. v \<noteq> [] \<and> (\<forall>c\<in>set v. \<not> is_space c)"
  shows "py_join sep ws \<noteq> [] \<and> \<not> is_space (hd (py_join sep ws)) \<and> \<not> is_space (last (py_join sep ws))"
  using assms
proof (induction ws)
  case (Cons v ws)
  show ?case
  proof (cases "ws = []")
    case False
    with Cons.IH Cons.prems show ?thesis by (auto simp: py_join_Cons)
  qed (use Cons.prems in auto)
qed simp

lemma py_strip_line:
  assumes "t \<noteq> []" and "\<not> is_space (hd t)" and "\<not> is_space (last t)"
  shows "py_strip (t @ [CHR 0x0A]) = t"
proof -
  have "dropWhile is_space (t @ [CHR 0x0A]) = t @ [CHR 0x0A]" using assms(1,2) by (cases t) auto
  moreover have "is_space (CHR 0x0A)" by (simp add: is_space_def)
  moreover have "dropWhile is_space (rev t) = rev t" using assms(1,3) by (cases t rule: rev_cases) auto
  ultimately show ?thesis by (simp add: py_strip_def)
qed

text \<open>The words of a line are read back as they were joined.\<close>

lemma line_words_join:
  assumes "ws \<noteq> []" and "\<forall>v\<in>set ws. v \<noteq> [] \<and> (\<forall>c\<in>set v. \<not> is_space c)"
  shows "line_words (py_join '' '' ws @ [CHR 0x0A]) = Some ws"
proof -
  have "CHR '' '' \<notin> set v" if "v \<in> set ws" for v
    using assms(2) that by (force simp: is_space_def)
  with assms show ?thesis
    using py_join_ends [OF assms] by (simp add: line_words_def py_strip_line py_split_join)
qed

text \<open>
  Sending a command over an open connection writes the words on one line and gives back the words
  of the line that is read next.
\<close>

lemma conn_send_command_run:
  assumes "oc_open c" and "e_sock_write E w (py_join '' '' cmd @ [CHR 0x0A]) = None"
    and "w1 = log_event E (SockWrite (py_join '' '' cmd @ [CHR 0x0A])) w"
  shows "conn_send_command E cmd c w
     = (Inr (case e_sock_read E w1 of None \<Rightarrow> None | Some line \<Rightarrow> line_words line), c,
        log_event E (SockRead (e_sock_read E w1)) w1)"
  using assms
  by (simp add: conn_send_command_def conn_writeline_def conn_readline_def on_fd_def Let_def bindE_def getE_def
      askE_def thenE_def emitE_def retE_def)

text \<open>Starting always returns: 0 with an open connection, or 1 after ten tries.\<close>

lemma conn_start_outcome:
  "wp (conn_start E)
      (\<lambda>r c' w'. (r = 0 \<and> c' = c\<lparr>oc_open := True\<rparr> \<or> r = 1 \<and> c' = c)
         \<and> (\<exists>k\<le>9. trace w' = trace w @ replicate k (Sleep 500) @ (if r = 0 then [Connect (oc_host c) (oc_port c)] else [])))
      (\<lambda>_ _ _. False) c w"
proof -
  have "wp (try_connect E (oc_host c) (oc_port c) 9)
      (\<lambda>_ c' w'. c' = c \<and> (\<exists>k\<le>9. trace w' = trace w @ replicate k (Sleep 500) @ [Connect (oc_host c) (oc_port c)]))
      (\<lambda>e c' w'. is_IOErr e \<and> c' = c \<and> trace w' = trace w @ replicate 9 (Sleep 500)) c w"
    by (rule try_connect_outcome)
  then show ?thesis
    unfolding conn_start_def wp_bindE wp_getE wp_tryE wp_thenE wp_putE wp_retE id_apply
    by (rule wp_conseq) (auto simp: wp_simps)
qed

text \<open>\<open>empty\<close> returns as soon as the node is silent: here after at most \<open>k\<close> more lines.\<close>

lemma empty_loop_returns:
  assumes "\<And>v ys. trace v = trace w @ ys \<Longrightarrow> k \<le> length ys \<Longrightarrow> e_sock_read E v = None"
  shows "\<exists>w' ys. empty_loop E w = Some w' \<and> trace w' = trace w @ ys \<and> length ys \<le> Suc k"
  using assms
proof (induction k arbitrary: w)
  case 0
  from "0.prems" [of w "[]"] have "e_sock_read E w = None" by simp
  then show ?case by (simp add: empty_loop.simps [of E w] log_event_def)
next
  case (Suc k)
  let ?w1 = "log_event E (SockRead (e_sock_read E w)) w"
  have "\<exists>w' ys. empty_loop E ?w1 = Some w' \<and> trace w' = trace ?w1 @ ys \<and> length ys \<le> Suc k"
    by (rule Suc.IH) (rule Suc.prems, auto simp: log_event_def)
  then obtain w' ys where "empty_loop E ?w1 = Some w'" "trace w' = trace w @ SockRead (e_sock_read E w) # ys"
    "length ys \<le> Suc k" by (auto simp: log_event_def)
  then show ?case
    by (cases "case e_sock_read E w of None \<Rightarrow> None | Some line \<Rightarrow> line_words line")
       (auto simp: empty_loop.simps [of E w] Let_def log_event_def)
qed

end
