(* ===== verification/Linux_Interface.thy ===== *)
theory Linux_Interface
  imports Serial_Expect Control_Nodes
begin

text \<open>
  Model of \<^verbatim>\<open>gateway_code/autotest/open_linux_interface.py\<close>: finding the address of a Linux open node on
  its console, and running commands on it over ssh.  The only attribute that is used is the address.
\<close>

section \<open>Commands on the node\<close>

text \<open>\<open>subprocess.check_output(args)\<close>\<close>

definition py_check_output :: "env \<Rightarrow> string list \<Rightarrow> ('s, string) act" where
  "py_check_output E args =
     bindE (askE (\<lambda>w. e_output E w args)) (\<lambda>r.
       case r of
         Output out \<Rightarrow> thenE (emitE E (Call args)) (retE out)
       | OutputStatus \<Rightarrow> thenE (emitE E (Call args)) (raiseE CalledProcessErr)
       | OutputFails n \<Rightarrow> raiseE (OSErr n))"

definition SSH_OPTS :: "env \<Rightarrow> string" where
  "SSH_OPTS E = ''-F '' @ static_path E ''ssh_linux_config''"

definition SSH_CMD :: "env \<Rightarrow> string \<Rightarrow> string \<Rightarrow> string" where
  "SSH_CMD E ip_addr cmd =
     ''ssh '' @ SSH_OPTS E @ '' '' @ ip_addr @ '' '' @ [dquote] @ ''source /etc/profile; '' @ cmd @ [dquote]"

definition SCP_CMD :: "env \<Rightarrow> string \<Rightarrow> string \<Rightarrow> string \<Rightarrow> string" where
  "SCP_CMD E path ip_addr remote_path =
     ''scp '' @ SSH_OPTS E @ '' '' @ path @ '' '' @ ip_addr @ '':'' @ remote_path"

text \<open>\<open>'{}'.format(self.ip_addr)\<close> before there is an address\<close>

definition ip_str :: "string option \<Rightarrow> string" where
  "ip_str ip = (case ip of None \<Rightarrow> ''None'' | Some a \<Rightarrow> a)"

definition ssh_run :: "env \<Rightarrow> string \<Rightarrow> (string option, string) act" where
  "ssh_run E command =
     bindE (getE ip_str) (\<lambda>ip.
       case shlex_split (SSH_CMD E ip command) of
         None \<Rightarrow> raiseE ValueErr
       | Some args \<Rightarrow> py_check_output E args)"

text \<open>\<open>check_call\<close>: the exit status is looked at, there is no output\<close>

definition scp :: "env \<Rightarrow> string \<Rightarrow> string \<Rightarrow> (string option, unit) act" where
  "scp E src dest =
     bindE (getE ip_str) (\<lambda>ip.
       case shlex_split (SCP_CMD E src ip dest) of
         None \<Rightarrow> raiseE ValueErr
       | Some args \<Rightarrow>
           bindE (py_call E args) (\<lambda>r. if r = Some 0 then retE () else raiseE CalledProcessErr))"

section \<open>The connection\<close>

definition IP_CMD :: string where
  "IP_CMD =
     ''ip addr show dev eth0  | sed -n '' @ [squote] @ ''/inet/ s/.*inet '' @ [CHR 0x5C] @ ''([^ ]*'' @ [CHR 0x5C] @ '')'' @
     [CHR 0x5C] @ ''/.*/'' @ [CHR 0x5C] @ ''1/p'' @ [squote]"

text \<open>The regular expression of the address, in which the last dot is any character.\<close>

definition IP_RE :: rx where
  "IP_RE = [(RxDigit, True), (RxChar (CHR ''.''), False), (RxDigit, True), (RxChar (CHR ''.''), False),
            (RxDigit, True), (RxAny, False), (RxDigit, True)]"

text \<open>\<open>_get_ip_addr\<close>: log in, wait for the prompt without a time limit, ask for the address\<close>

definition get_ip_addr :: "env \<Rightarrow> ('s, string) act" where
  "get_ip_addr E =
     bindE (SerialExpectForSocket_init E ''localhost'' 20000) (\<lambda>port.
       finallyE
         (thenE (expect_send E port ''root'')
         (thenE (expect E port [rx_literal ''# ''] None)
         (thenE (expect_send E port IP_CMD)
         (bindE (expect E port [IP_RE] (Some 10)) (\<lambda>ip_addr.
            thenE (expect_send E port ''exit'')
            (if ip_addr = [] then raiseE (LinuxConnectionErr ip_addr) else retE ip_addr))))))
         (expect_socket_close E))"

definition linux_connection_start :: "env \<Rightarrow> (string option, unit) act" where
  "linux_connection_start E =
     bindE (get_ip_addr E) (\<lambda>ip_addr.
     thenE (putE (\<lambda>_. Some ip_addr))
     (thenE (tryE (thenE (ssh_run E (''echo '' @ [dquote] @ ''ssh ok'' @ [dquote])) (retE ()))
               (\<lambda>e. if e = CalledProcessErr
                    then Some (raiseE (LinuxConnectionErr ''linux_node_ssh_connection_failed'')) else None))
     (thenE (ssh_run E ''/etc/init.d/serial_redirection restart'') (retE ()))))"

definition linux_get_mac_addr :: "env \<Rightarrow> (string option, string) act" where
  "linux_get_mac_addr E =
     bindE (ssh_run E ''cat /sys/class/net/eth0/address'') (\<lambda>mac_addr_s. retE (py_strip mac_addr_s))"

definition linux_flash :: "env \<Rightarrow> (string option, int) act" where
  "linux_flash E =
     tryE (thenE (ssh_run E ''FW=autotest iotlab_flash'') (retE 0))
       (\<lambda>e. if e = CalledProcessErr then Some (retE 1) else None)"

section \<open>Lemmas\<close>

text \<open>
  What ssh gets: the command of the node is one word of the command line, as long as it has no
  quotes of its own.  The first command of \<open>start\<close> has quotes, which end up outside of it.
\<close>

lemma shlex_split_ssh:
  assumes "sh_plain cfg" and "cfg \<noteq> []" and "sh_plain ip" and "ip \<noteq> []" and "sh_quotable cmd"
  shows "shlex_split (''ssh -F '' @ cfg @ '' '' @ ip @ '' '' @ [dquote] @ ''source /etc/profile; '' @ cmd @ [dquote])
     = Some [''ssh'', ''-F'', cfg, ip, ''source /etc/profile; '' @ cmd]"
proof -
  have "shlex_go ShSpace [] False (dquote # (''source /etc/profile; '' @ cmd) @ [dquote])
      = Some [''source /etc/profile; '' @ cmd]"
    using assms(5) by (intro shlex_quoted_end) simp
  then have "shlex_go ShSpace [] False (cfg @ CHR '' '' # ip @ CHR '' '' # dquote # (''source /etc/profile; '' @ cmd) @ [dquote])
      = Some [cfg, ip, ''source /etc/profile; '' @ cmd]"
    by (simp only: shlex_plain_space [OF assms(1,2)] shlex_plain_space [OF assms(3,4)] option.map)
  then have "shlex_go ShSpace [] False (''-F'' @ CHR '' '' # cfg @ CHR '' '' # ip @ CHR '' '' # dquote # (''source /etc/profile; '' @ cmd) @ [dquote])
      = Some [''-F'', cfg, ip, ''source /etc/profile; '' @ cmd]"
    by (subst shlex_plain_space) (simp_all add: sh_space_def)
  then have "shlex_go ShSpace [] False (''ssh'' @ CHR '' '' # ''-F'' @ CHR '' '' # cfg @ CHR '' '' # ip @ CHR '' '' # dquote # (''source /etc/profile; '' @ cmd) @ [dquote])
      = Some [''ssh'', ''-F'', cfg, ip, ''source /etc/profile; '' @ cmd]"
    by (subst shlex_plain_space) (simp_all add: sh_space_def)
  then show ?thesis by (simp add: shlex_split_def)
qed

lemma rx_match_digits:
  assumes "list_all is_digit ds" and "ds \<noteq> []" and "rest \<noteq> [] \<longrightarrow> \<not> is_digit (hd rest)" and "rx_match r rest = Some m"
  shows "rx_match ((RxDigit, True) # r) (ds @ rest) = Some (ds @ m)"
  using assms(1,2)
proof (induction ds)
  case (Cons d ds)
  show ?case
  proof (cases "ds = []")
    case True
    have "rx_match ((RxDigit, True) # r) rest = None" using assms(3) by (cases rest) auto
    with True Cons.prems assms(4) show ?thesis by simp
  next
    case False
    with Cons show ?thesis by simp
  qed
qed simp

lemma rx_match_last_group:
  assumes "list_all is_digit c" and "3 \<le> length c"
  shows "rx_match [(RxDigit, True), (RxAny, False), (RxDigit, True)] c = Some c"
  using assms
proof (induction c)
  case (Cons x c)
  show ?case
  proof (cases "3 \<le> length c")
    case True
    with Cons show ?thesis by simp
  next
    case False
    with Cons.prems(2) have "length c = Suc (Suc 0)" by simp
    then obtain y z where c: "c = [y, z]" by (auto simp: length_Suc_conv)
    have nl: "\<not> is_digit (CHR 0x0A)" by (simp add: is_digit_def)
    with Cons.prems c have "y \<noteq> CHR 0x0A" "z \<noteq> CHR 0x0A" by auto
    with Cons.prems c show ?thesis by (simp split: option.split)
  qed
qed simp

lemma IP_RE_three_groups:
  assumes "list_all is_digit a" "a \<noteq> []" and "list_all is_digit b" "b \<noteq> []" and "list_all is_digit c" "3 \<le> length c"
  shows "rx_search [IP_RE] (a @ ''.'' @ b @ ''.'' @ c) = Some (a @ ''.'' @ b @ ''.'' @ c)"
proof -
  have dot: "\<not> is_digit (CHR ''.'')" by (simp add: is_digit_def)
  have "rx_match [(RxDigit, True), (RxChar (CHR ''.''), False), (RxDigit, True), (RxAny, False), (RxDigit, True)]
      (b @ CHR ''.'' # c) = Some (b @ CHR ''.'' # c)"
    using dot rx_match_last_group [OF assms(5,6)] by (intro rx_match_digits assms(3,4)) simp_all
  then have "rx_match IP_RE (a @ CHR ''.'' # b @ CHR ''.'' # c) = Some (a @ CHR ''.'' # b @ CHR ''.'' # c)"
    using dot unfolding IP_RE_def by (intro rx_match_digits assms(1,2)) simp_all
  then show ?thesis using assms(2) by (cases a) simp_all
qed

section \<open>Properties\<close>

text \<open>Flashing the Linux open node runs exactly one program, ssh with the address of the node and the
  flash command as one word, and returns 0 when it succeeds and 1 when its exit status is not 0.\<close>

theorem linux_flash_exact:
  assumes "sh_plain (static_path E ''ssh_linux_config'')" and "sh_plain ip" and "ip \<noteq> []"
    and "args = [''ssh'', ''-F'', static_path E ''ssh_linux_config'', ip, ''source /etc/profile; FW=autotest iotlab_flash'']"
  shows "linux_flash E (Some ip) w =
     (case e_output E w args of
        Output out \<Rightarrow> (Inr 0, Some ip, log_event E (Call args) w)
      | OutputStatus \<Rightarrow> (Inr 1, Some ip, log_event E (Call args) w)
      | OutputFails n \<Rightarrow> (Inl (OSErr n), Some ip, w))"
proof -
  have "static_path E ''ssh_linux_config'' \<noteq> []" by (simp add: static_path_def)
  from shlex_split_ssh [OF assms(1) this assms(2,3), of "''FW=autotest iotlab_flash''"]
  have "shlex_split (SSH_CMD E ip ''FW=autotest iotlab_flash'') = Some args"
    by (simp add: SSH_CMD_def SSH_OPTS_def assms(4))
  then show ?thesis
    by (auto simp: linux_flash_def ssh_run_def ip_str_def py_check_output_def tryE_def thenE_def bindE_def getE_def
        askE_def emitE_def retE_def raiseE_def split: output_outcome.split)
qed

theorem linux_flash_exact_witness:
  "linux_flash working_env (Some ''10.0.12.3'') world0
     = (Inr 0, Some ''10.0.12.3'', log_event working_env (Call [''ssh'', ''-F'', ''/static/ssh_linux_config'', ''10.0.12.3'',
          ''source /etc/profile; FW=autotest iotlab_flash'']) world0)"
proof -
  have "static_path working_env ''ssh_linux_config'' = ''/static/ssh_linux_config''"
    by (simp add: static_path_def working_env_def)
  moreover have "sh_plain ''/static/ssh_linux_config''" "sh_plain ''10.0.12.3''" by (simp_all add: sh_space_def)
  ultimately show ?thesis
    using linux_flash_exact [of working_env "''10.0.12.3''" _ world0] by (simp add: working_env_def)
qed

text \<open>An address that is not complete.  In the expression for the address of the Linux node the last dot
  stands for any character, and \<open>expect\<close> returns at the first match: when a read ends after three
  groups of digits of which the last has three digits, these are taken for the address.\<close>

theorem ip_addr_cut:
  assumes "list_all is_digit a" "a \<noteq> []" and "list_all is_digit b" "b \<noteq> []" and "list_all is_digit c" "3 \<le> length c"
    and "bytes = a @ ''.'' @ b @ ''.'' @ c" and "e_port_read E w port = Some bytes"
    and "e_dur E w (SerialRead port bytes) < 10000"
  shows "expect E port [IP_RE] (Some 10) s w = (Inr bytes, s, log_event E (SerialRead port bytes) w)"
proof -
  have "bytes \<noteq> []" using assms(2,7) by simp
  moreover have "rx_search [IP_RE] (last_line [] @ bytes) = Some bytes"
    using IP_RE_three_groups [OF assms(1-6)] by (simp add: last_line_def assms(7))
  ultimately have "expect_loop E port [IP_RE] (Some (now w + 10000)) [] w = Some (bytes, log_event E (SerialRead port bytes) w)"
    using assms(8,9) by (subst expect_loop.simps) (simp add: log_event_def Let_def)
  then show ?thesis by (simp add: expect_def rx_multiline_def IP_RE_def)
qed

theorem ip_addr_cut_witness:
  "expect (working_env\<lparr>e_port_read := \<lambda>_ _. Some ''192.168.100''\<rparr>) ''tty'' [IP_RE] (Some 10) () world0
     = (Inr ''192.168.100'', (), log_event (working_env\<lparr>e_port_read := \<lambda>_ _. Some ''192.168.100''\<rparr>)
          (SerialRead ''tty'' ''192.168.100'') world0)"
  by (rule ip_addr_cut [of "''192''" "''168''" "''100''"]) (simp_all add: is_digit_def working_env_def)

end
