(* ===== verification/Autotest_Measures.thy ===== *)
theory Autotest_Measures
  imports Serial_Expect
begin

text \<open>
  The pure part of \<^verbatim>\<open>gateway_code/autotest/autotest.py\<close>: the measures of the control node
  (\<open>extract_measures\<close>), the search in their time stamps (\<open>bisect\<close> of the standard library, which the
  test of the leds relies on), the verdicts of the sensor tests, and the node identifier.
\<close>

section \<open>Words of an answer\<close>

definition word_at :: "nat \<Rightarrow> string list \<Rightarrow> exc + string" where
  "word_at i ws = (if i < length ws then Inr (ws ! i) else Inl IndexErr)"

definition float_of :: "env \<Rightarrow> string \<Rightarrow> exc + pyfloat" where
  "float_of E s = (case e_float E s of None \<Rightarrow> Inl ValueErr | Some f \<Rightarrow> Inr f)"

definition float_at :: "env \<Rightarrow> nat \<Rightarrow> string list \<Rightarrow> exc + pyfloat" where
  "float_at E i ws = (case word_at i ws of Inl e \<Rightarrow> Inl e | Inr s \<Rightarrow> float_of E s)"

definition int_at :: "nat \<Rightarrow> string list \<Rightarrow> exc + int" where
  "int_at i ws =
     (case word_at i ws of
        Inl e \<Rightarrow> Inl e
      | Inr s \<Rightarrow> (case py_int s of None \<Rightarrow> Inl ValueErr | Some n \<Rightarrow> Inr n))"

text \<open>\<open>[f(v) for v in words]\<close> for an \<open>f\<close> that may raise\<close>

fun each_of :: "('a \<Rightarrow> exc + 'b) \<Rightarrow> 'a list \<Rightarrow> exc + 'b list" where
  "each_of f [] = Inr []"
| "each_of f (x # xs) =
     (case f x of
        Inl e \<Rightarrow> Inl e
      | Inr y \<Rightarrow> (case each_of f xs of Inl e \<Rightarrow> Inl e | Inr ys \<Rightarrow> Inr (y # ys)))"

text \<open>\<open>tuple([float(val) for val in x[2:5]])\<close>\<close>

definition xyz_of :: "env \<Rightarrow> string list \<Rightarrow> exc + pyfloat list" where
  "xyz_of E ws = each_of (float_of E) (take 3 (drop 2 ws))"

section \<open>Sets of measures\<close>

text \<open>\<open>set(values)\<close>: a value that equals one that is there is not added; not-a-number equals nothing\<close>

definition py_set :: "('a \<Rightarrow> 'a \<Rightarrow> bool) \<Rightarrow> 'a list \<Rightarrow> 'a list" where
  "py_set eq xs = foldl (\<lambda>seen x. if list_ex (eq x) seen then seen else seen @ [x]) [] xs"

definition floats_differ :: "pyfloat list \<Rightarrow> bool" where
  "floats_differ values \<longleftrightarrow> 1 < length (py_set flt_eq values)"

definition tuples_differ :: "pyfloat list list \<Rightarrow> bool" where
  "tuples_differ values \<longleftrightarrow> 1 < length (py_set (list_all2 flt_eq) values)"

section \<open>Measures of the control node\<close>

record measures =
  me_conso :: "pyfloat list list"
  me_conso_times :: "pyfloat list"
  me_radio :: "int list list"
  me_radio_times :: "pyfloat list"

definition no_measures :: measures where
  "no_measures = \<lparr>me_conso = [], me_conso_times = [], me_radio = [], me_radio_times = []\<rparr>"

definition extract_measure :: "env \<Rightarrow> string list \<Rightarrow> measures \<Rightarrow> exc + measures" where
  "extract_measure E meas m =
     (case word_at 1 meas of
        Inl e \<Rightarrow> Inl e
      | Inr kind \<Rightarrow>
          (if kind = ''consumption_measure'' then
             (case each_of (float_of E) (take 3 (drop 3 meas)) of
                Inl e \<Rightarrow> Inl e
              | Inr values \<Rightarrow>
                  (case float_at E 2 meas of
                     Inl e \<Rightarrow> Inl e
                   | Inr t \<Rightarrow> Inr (m\<lparr>me_conso := me_conso m @ [values], me_conso_times := me_conso_times m @ [t]\<rparr>)))
           else if kind = ''radio_measure'' then
             (case each_of (\<lambda>v. case py_int v of None \<Rightarrow> Inl ValueErr | Some n \<Rightarrow> Inr n) (take 2 (drop 3 meas)) of
                Inl e \<Rightarrow> Inl e
              | Inr values \<Rightarrow>
                  (case float_at E 2 meas of
                     Inl e \<Rightarrow> Inl e
                   | Inr t \<Rightarrow> Inr (m\<lparr>me_radio := me_radio m @ [values], me_radio_times := me_radio_times m @ [t]\<rparr>)))
           else Inr m))"

fun extract_measures_from :: "env \<Rightarrow> string list list \<Rightarrow> measures \<Rightarrow> exc + measures" where
  "extract_measures_from E [] m = Inr m"
| "extract_measures_from E (meas # rest) m =
     (case extract_measure E meas m of Inl e \<Rightarrow> Inl e | Inr m' \<Rightarrow> extract_measures_from E rest m')"

definition extract_measures :: "env \<Rightarrow> string list list \<Rightarrow> exc + measures" where
  "extract_measures E meas_list = extract_measures_from E meas_list no_measures"

text \<open>\<open>[v[i] for v in values]\<close>\<close>

definition column :: "nat \<Rightarrow> 'a list list \<Rightarrow> exc + 'a list" where
  "column i values = each_of (\<lambda>v. if i < length v then Inr (v ! i) else Inl IndexErr) values"

text \<open>The verdict of \<open>test_radio_with_rssi\<close>: \<open>set([-91]) != set(values)\<close>\<close>

definition rssi_ok :: "int list \<Rightarrow> bool" where
  "rssi_ok values \<longleftrightarrow> {- 91} \<noteq> set values"

section \<open>Leds and consumption\<close>

function bisect_from :: "pyfloat list \<Rightarrow> pyfloat \<Rightarrow> nat \<Rightarrow> nat \<Rightarrow> nat" where
  "bisect_from a x lo hi =
     (if lo < hi then
        (let mid = (lo + hi) div 2 in
         if flt_less x (a ! mid) then bisect_from a x lo mid else bisect_from a x (mid + 1) hi)
      else lo)"
  by pat_completeness auto
termination
  by (relation "measure (\<lambda>(a, x, lo, hi). hi - lo)") auto

declare bisect_from.simps [simp del]

definition bisect :: "pyfloat list \<Rightarrow> pyfloat \<Rightarrow> nat" where
  "bisect a x = bisect_from a x 0 (length a)"

text \<open>The consumption at the time of a led: the measure after it, or not a number when there is none.\<close>

definition led_consumption :: "pyfloat list \<Rightarrow> pyfloat list \<Rightarrow> pyfloat \<Rightarrow> pyfloat" where
  "led_consumption values timestamps led_time =
     (let i = bisect timestamps led_time in if i < length values then values ! i else NaN)"

text \<open>
  The end of \<open>test_leds_with_consumption\<close>.  The first and the last time stamp are read for a log
  message, which raises IndexError when no measure came in.
\<close>

definition leds_verdict :: "measures \<Rightarrow> pyfloat list \<Rightarrow> exc + bool" where
  "leds_verdict m leds_timestamps =
     (case column 0 (me_conso m) of
        Inl e \<Rightarrow> Inl e
      | Inr values \<Rightarrow>
          (if me_conso_times m = [] then Inl IndexErr
           else case map (led_consumption values (me_conso_times m)) leds_timestamps of
             [] \<Rightarrow> Inl IndexErr
           | led_0 # leds \<Rightarrow> Inr (list_all (flt_less led_0) leds)))"

section \<open>Addresses and identifiers\<close>

text \<open>\<open>MAC_RE.match(s)\<close>: six pairs of hexadecimal digits at the front\<close>

definition MAC_RE :: rx where
  "MAC_RE = concat (replicate 5 [(RxHex, False), (RxHex, False), (RxChar (CHR '':''), False)]) @ [(RxHex, False), (RxHex, False)]"

definition mac_ok :: "string \<Rightarrow> bool" where
  "mac_ok mac_addr \<longleftrightarrow> rx_match MAC_RE mac_addr \<noteq> None"

text \<open>\<open>zip(*[iter(uid_str)] * 4)\<close>: groups of four; a rest of less than four is dropped\<close>

fun uid_split :: "string \<Rightarrow> string list" where
  "uid_split (a # b # c # d # rest) = [a, b, c, d] # uid_split rest"
| "uid_split _ = []"

definition uid_of :: "string \<Rightarrow> string" where
  "uid_of uid_str = py_join '':'' (uid_split uid_str)"

text \<open>\<open>"On Command: %r" % cmd\<close>, for words without quotes\<close>

definition on_command_str :: "string list \<Rightarrow> string" where
  "on_command_str cmd =
     ''On Command: ['' @ py_join '', '' (map (\<lambda>v. [squote] @ v @ [squote]) cmd) @ '']''"

section \<open>Lemmas\<close>

text \<open>
  Bisection over sorted time stamps: everything before the result is at most \<open>x\<close>, everything from
  it on is more.
\<close>

definition cuts :: "rat list \<Rightarrow> rat \<Rightarrow> nat \<Rightarrow> bool" where
  "cuts qs q n \<longleftrightarrow> n \<le> length qs \<and> (\<forall>i<n. qs ! i \<le> q) \<and> (\<forall>i<length qs. n \<le> i \<longrightarrow> q < qs ! i)"

lemma bisect_from_cuts:
  assumes "sorted qs" and "lo \<le> hi" and "hi \<le> length qs"
    and "\<forall>i<lo. qs ! i \<le> q" and "\<forall>i<length qs. hi \<le> i \<longrightarrow> q < qs ! i"
  shows "cuts qs q (bisect_from (map Finite qs) (Finite q) lo hi)"
  using assms(2-5)
proof (induction "hi - lo" arbitrary: lo hi rule: less_induct)
  case less
  show ?case
  proof (cases "lo < hi")
    case False
    with less.prems show ?thesis by (subst bisect_from.simps) (simp add: cuts_def)
  next
    case True
    let ?mid = "(lo + hi) div 2"
    have mid: "lo \<le> ?mid" "?mid < hi" "?mid < length qs" using True less.prems(2) by auto
    have step: "bisect_from (map Finite qs) (Finite q) lo hi
        = (if q < qs ! ?mid then bisect_from (map Finite qs) (Finite q) lo ?mid
           else bisect_from (map Finite qs) (Finite q) (?mid + 1) hi)"
      using True mid by (subst bisect_from.simps) (simp add: Let_def)
    show ?thesis
    proof (cases "q < qs ! ?mid")
      case below: True
      have "\<forall>i<length qs. ?mid \<le> i \<longrightarrow> q < qs ! i"
        using below assms(1) by (meson less_le_trans sorted_nth_mono)
      moreover have "?mid - lo < hi - lo" "?mid \<le> length qs" using mid by simp_all
      ultimately show ?thesis
        unfolding step if_P [OF below] using less.hyps [of ?mid lo] mid(1) less.prems(3) by blast
    next
      case above: False
      have "\<forall>i<?mid + 1. qs ! i \<le> q"
      proof (intro allI impI)
        fix i assume "i < ?mid + 1"
        then have "qs ! i \<le> qs ! ?mid" using assms(1) mid(3) by (intro sorted_nth_mono) simp_all
        with above show "qs ! i \<le> q" by simp
      qed
      moreover have "hi - (?mid + 1) < hi - lo" "?mid + 1 \<le> hi" using mid by simp_all
      ultimately show ?thesis
        unfolding step if_not_P [OF above] using less.hyps [of hi "?mid + 1"] less.prems(2,4) by blast
    qed
  qed
qed

lemma count_split:
  assumes "n \<le> length qs" and "\<forall>i<n. P (qs ! i)" and "\<forall>i<length qs. n \<le> i \<longrightarrow> \<not> P (qs ! i)"
  shows "length (filter P qs) = n"
proof -
  have "filter P (take n qs) = take n qs" "filter P (drop n qs) = []"
    using assms by (auto simp: filter_id_conv filter_empty_conv in_set_conv_nth)
  then have "filter P (take n qs @ drop n qs) = take n qs" unfolding filter_append by simp
  with assms(1) show ?thesis by simp
qed

lemma bisect_count:
  assumes "sorted qs"
  shows "bisect (map Finite qs) (Finite q) = length (filter (\<lambda>t. t \<le> q) qs)"
proof -
  have "cuts qs q (bisect (map Finite qs) (Finite q))"
    using bisect_from_cuts [OF assms, of 0 "length qs" q] by (simp add: bisect_def)
  then show ?thesis by (intro count_split [symmetric]) (simp_all add: cuts_def not_le)
qed

text \<open>There are as many time stamps as measures.\<close>

lemma extract_measures_from_lengths:
  assumes "extract_measures_from E ls m = Inr m'" and "length (me_conso m) = length (me_conso_times m)"
  shows "length (me_conso m') = length (me_conso_times m')"
  using assms
proof (induction ls arbitrary: m)
  case (Cons meas ls)
  then obtain m1 where m1: "extract_measure E meas m = Inr m1" "extract_measures_from E ls m1 = Inr m'"
    by (auto split: sum.splits)
  then have "length (me_conso m1) = length (me_conso_times m1)"
    using Cons.prems(2) by (auto simp: extract_measure_def split: sum.splits if_splits)
  with Cons.IH m1(2) show ?case by blast
qed simp

lemma length_each_of: "each_of f xs = Inr ys \<Longrightarrow> length ys = length xs"
  by (induction xs arbitrary: ys) (auto split: sum.splits)

section \<open>Properties\<close>

text \<open>C38: the verdict of the test of the leds.  For measures that came in the order of their time stamps, the
  consumption of a led is that of the first measure after the led was on, found by bisection, and
  not a number when there is none; the test passes exactly when every led takes more than none.
  Without any measure the test raises IndexError.\<close>

theorem leds_verdict_exact:
  assumes "extract_measures E lines = Inr m" and "column 0 (me_conso m) = Inr values"
    and "me_conso_times m = map Finite qs" and "sorted qs"
    and "after = (\<lambda>t. case drop (length (filter (\<lambda>q. q \<le> t) qs)) values of [] \<Rightarrow> NaN | v # _ \<Rightarrow> v)"
  shows "leds_verdict m (map Finite (t0 # ts)) =
     (if qs = [] then Inl IndexErr else Inr (\<forall>t\<in>set ts. flt_less (after t0) (after t)))"
proof -
  have "length (me_conso m) = length (me_conso_times m)"
    using extract_measures_from_lengths [OF assms(1) [unfolded extract_measures_def]] by (simp add: no_measures_def)
  with assms(2,3) length_each_of have len: "length values = length qs" unfolding column_def by fastforce
  have "led_consumption values (map Finite qs) (Finite t) = after t" for t
    unfolding led_consumption_def bisect_count [OF assms(4)] Let_def assms(5)
    by (auto simp: Cons_nth_drop_Suc [symmetric] not_less)
  then show ?thesis by (simp add: leds_verdict_def assms(2,3) list_all_iff)
qed

definition leds_env :: env where
  "leds_env = working_env\<lparr>e_float := (\<lambda>s. map_option (Finite \<circ> of_int) (py_int s))\<rparr>"

theorem leds_verdict_exact_witness:
  "\<exists>m. extract_measures leds_env
       [[''measures_debug:'', ''consumption_measure'', ''10'', ''1'', ''5'', ''2''],
        [''measures_debug:'', ''consumption_measure'', ''12'', ''3'', ''5'', ''2'']] = Inr m
     \<and> leds_verdict m (map Finite [9, 11]) = Inr True"
proof -
  let ?lines = "[[''measures_debug:'', ''consumption_measure'', ''10'', ''1'', ''5'', ''2''],
        [''measures_debug:'', ''consumption_measure'', ''12'', ''3'', ''5'', ''2'']]"
  let ?m = "\<lparr>me_conso = [[Finite 1, Finite 5, Finite 2], [Finite 3, Finite 5, Finite 2]],
      me_conso_times = map Finite [10, 12], me_radio = [], me_radio_times = []\<rparr>"
  have "e_float leds_env ''10'' = Some (Finite 10)" "e_float leds_env ''12'' = Some (Finite 12)"
    "e_float leds_env ''1'' = Some (Finite 1)" "e_float leds_env ''2'' = Some (Finite 2)"
    "e_float leds_env ''3'' = Some (Finite 3)" "e_float leds_env ''5'' = Some (Finite 5)"
    by (simp_all add: leds_env_def) code_simp+
  then have m: "extract_measures leds_env ?lines = Inr ?m"
    by (simp add: extract_measures_def extract_measure_def word_at_def float_at_def float_of_def no_measures_def)
  have "column 0 (me_conso ?m) = Inr [Finite 1, Finite 3]" by (simp add: column_def)
  from leds_verdict_exact [OF m this, of "[10, 12]" _ 9 "[11]"] m show ?thesis by simp
qed

end
