(* ===== verification/Autotest.thy ===== *)
theory Autotest
  imports Gateway_Manager Node_Connection Linux_Interface Autotest_Measures
begin

text \<open>
  Model of \<^verbatim>\<open>gateway_code/autotest/autotest.py\<close>: the tests of a node that run over the gateway manager,
  and \<open>auto_tests\<close> of the manager, which runs them under its lock.  The test manager has its own
  view of the board configuration and works on the nodes of the gateway manager.
\<close>

section \<open>State\<close>

record autotest =
  at_gm :: gateway_manager
  at_on_class :: board_class
  at_cn_class :: node_class
  at_linux_on_class :: "board_class option"
  at_on_serial :: "on_connection option"
  at_linux :: "string option option"         \<comment> \<open>\<open>linux_connection\<close>, with its address\<close>
  at_success :: "string list"
  at_error :: "string list"
  at_mac :: "(string \<times> string) list"
  at_uid :: "string option"
  at_tested :: "string list"                 \<comment> \<open>\<open>TESTED_FEATURES\<close>\<close>

type_synonym 'a at_act = "(autotest, 'a) act"

text \<open>\<open>ret_dict\<close> as it is returned\<close>

record autotest_result =
  ar_ret :: int
  ar_success :: "string list"
  ar_error :: "string list"
  ar_mac :: "(string \<times> string) list"
  ar_uid :: "string option"

abbreviation at_open :: "(open_node, 'a) act \<Rightarrow> 'a at_act" where
  "at_open m \<equiv> zoomE at_gm at_gm_update (on_open m)"

abbreviation at_control :: "(control_node, 'a) act \<Rightarrow> 'a at_act" where
  "at_control m \<equiv> zoomE at_gm at_gm_update (on_control m)"

text \<open>\<open>control_node.protocol\<close>, which only the M3 control nodes have\<close>

definition at_protocol :: "(cn_iotlab, 'a) act \<Rightarrow> 'a at_act" where
  "at_protocol m = at_control (cn_dispatch m (raiseE AttributeErr) (raiseE AttributeErr))"

text \<open>
  \<open>cn_measures\<close>: the lines that the measures handler got from the reader thread of the control node.
  Looking at them sees what the reader has read by then.
\<close>

definition reset_measures :: "unit at_act" where
  "reset_measures =
     at_control (cn_dispatch (putE (ci_serial_update (cs_measures_update (\<lambda>_. [])))) (retE ()) (retE ()))"

definition read_measures :: "env \<Rightarrow> string list list at_act" where
  "read_measures E =
     at_control (cn_dispatch
       (thenE (emitE E CnMeasures)
       (thenE (zoomE ci_serial ci_serial_update (reader_runs E (e_cn_idle E)))
              (getE (\<lambda>s. map (py_split (CHR '' '')) (cs_measures (ci_serial s))))))
       (retE []) (retE []))"

definition get_measures :: "env \<Rightarrow> measures at_act" where
  "get_measures E =
     bindE (read_measures E) (\<lambda>ls. case extract_measures E ls of Inl e \<Rightarrow> raiseE e | Inr m \<Rightarrow> retE m)"

definition AutoTestManager_init :: "env \<Rightarrow> gateway_manager \<Rightarrow> ('s, autotest) act" where
  "AutoTestManager_init E gm =
     bindE (BoardConfig_init E) (\<lambda>cfg.
       retE \<lparr>at_gm = gm, at_on_class = bc_board_class cfg, at_cn_class = bc_cn_class cfg,
             at_linux_on_class = bc_linux_on_class cfg, at_on_serial = None, at_linux = None,
             at_success = [], at_error = [], at_mac = [], at_uid = None, at_tested = []\<rparr>)"

section \<open>Checks\<close>

definition tst_ok :: "bool \<Rightarrow> int" where
  "tst_ok b = (if b then 0 else 1)"

definition at_check :: "int \<Rightarrow> string \<Rightarrow> int at_act" where
  "at_check ret operation =
     thenE (putE (if ret = 0 then at_success_update (\<lambda>xs. xs @ [operation]) else at_error_update (\<lambda>xs. xs @ [operation])))
           (retE \<bar>ret\<bar>)"

definition at_assert :: "int \<Rightarrow> string \<Rightarrow> unit at_act" where
  "at_assert ret operation =
     bindE (at_check ret operation) (\<lambda>ret_val. if ret_val \<noteq> 0 then raiseE FatalErr else retE ())"

text \<open>\<open>autotest_checker\<close>: run a test only when the board has the features, and note that they are tested\<close>

definition available_tests :: "autotest \<Rightarrow> string list option" where
  "available_tests s =
     (case at_linux_on_class s of Some c \<Rightarrow> b_AUTOTEST_AVAILABLE c | None \<Rightarrow> b_AUTOTEST_AVAILABLE (at_on_class s))"

definition autotest_checker :: "string list \<Rightarrow> int at_act \<Rightarrow> int at_act" where
  "autotest_checker required func =
     bindE (getE available_tests) (\<lambda>attr.
       case attr of
         None \<Rightarrow> raiseE AttributeErr
       | Some available \<Rightarrow>
           if \<not> object_attr_has available required then retE 0
           else thenE (putE (at_tested_update (\<lambda>xs. fold List.insert required xs))) func)"

text \<open>\<open>autotest_control_node_checker\<close>; an open node class has no \<open>FEATURES\<close>\<close>

fun class_FEATURES :: "node_class \<Rightarrow> string list option" where
  "class_FEATURES (ControlClass ClassIotlab) = Some (FEATURES Iotlab)"
| "class_FEATURES (ControlClass ClassIotlabm3) = Some (FEATURES Iotlabm3)"
| "class_FEATURES (ControlClass ClassNo) = Some []"
| "class_FEATURES (ControlClass ClassRpi3) = Some [''open_node_power'']"
| "class_FEATURES (OpenClass _) = None"

definition control_node_checker :: "string list \<Rightarrow> int at_act \<Rightarrow> int at_act" where
  "control_node_checker required func =
     bindE (getE (\<lambda>s. class_FEATURES (at_cn_class s))) (\<lambda>attr.
       case attr of
         None \<Rightarrow> raiseE AttributeErr
       | Some available \<Rightarrow> if object_attr_has available required then func else retE 0)"

section \<open>Commands to the open node\<close>

text \<open>A use of \<open>self.on_serial\<close>, which is None before the connection is set up.\<close>

definition with_on_serial :: "(on_connection, 'a) act \<Rightarrow> 'a at_act" where
  "with_on_serial m = (\<lambda>s w.
     case at_on_serial s of
       None \<Rightarrow> (Inl AttributeErr, s, w)
     | Some c \<Rightarrow> (case m c w of (r, c', w') \<Rightarrow> (r, s\<lparr>at_on_serial := Some c'\<rparr>, w')))"

definition on_serial_send_command :: "env \<Rightarrow> string list \<Rightarrow> string list option at_act" where
  "on_serial_send_command E cmd =
     thenE (putE (at_tested_update (List.insert (hd cmd)))) (with_on_serial (conn_send_command E cmd))"

definition on_call :: "env \<Rightarrow> string list \<Rightarrow> (int \<times> string list option) at_act" where
  "on_call E cmd =
     bindE (on_serial_send_command E cmd) (\<lambda>answer.
       if map_option (take 2) answer = Some [''ACK'', hd cmd] then retE (0, answer)
       else thenE (at_check 1 (on_command_str cmd)) (retE (1, answer)))"

fun run_test :: "env \<Rightarrow> nat \<Rightarrow> string list \<Rightarrow> (string list \<Rightarrow> exc + 'v) \<Rightarrow> 'v list at_act" where
  "run_test E 0 cmd parse = retE []"
| "run_test E (Suc n) cmd parse =
     bindE (on_call E cmd) (\<lambda>(ret, answer).
       if ret \<noteq> 0 then run_test E n cmd parse
       else case parse (the answer) of
         Inl e \<Rightarrow> raiseE e
       | Inr v \<Rightarrow> bindE (run_test E n cmd parse) (\<lambda>vs. retE (v # vs)))"

definition check_echo :: "env \<Rightarrow> unit at_act" where
  "check_echo E =
     bindE (on_serial_send_command E [''echo'', ''HELLO'', ''WORLD'']) (\<lambda>answer.
       at_assert (tst_ok (map_option (take 2) answer = Some [''HELLO'', ''WORLD''])) ''on_serial_echo'')"

definition check_get_time :: "env \<Rightarrow> unit at_act" where
  "check_get_time E =
     bindE (on_call E [''get_time'']) (\<lambda>_.
     bindE (run_test E 5 [''get_time''] (\<lambda>x. map_sum id py_isdigit (word_at 2 x))) (\<lambda>values.
       at_assert (tst_ok (list_ex (\<lambda>b. b) values)) ''on_serial_get_time''))"

definition at_get_uid :: "env \<Rightarrow> int at_act" where
  "at_get_uid E = autotest_checker [''get_uid'']
     (bindE (run_test E 1 [''get_uid''] (word_at 2)) (\<lambda>values.
      thenE (case values of [] \<Rightarrow> retE () | uid_str # _ \<Rightarrow> putE (at_uid_update (\<lambda>_. Some (uid_of uid_str))))
            (at_check (tst_ok (values \<noteq> [])) ''get_uid'')))"

section \<open>Setup\<close>

definition open_node_start :: "env \<Rightarrow> int at_act" where
  "open_node_start E = control_node_checker [''open_node_power''] (at_control (cn_open_start E (Some ''dc'')))"

text \<open>\<open>check_output(MAC_CMD, shell=True)\<close>\<close>

definition get_local_mac_addr :: "env \<Rightarrow> ('s, string) act" where
  "get_local_mac_addr E =
     bindE (py_check_output E [''/bin/sh'', ''-c'', ''cat /sys/class/net/eth0/address'']) (\<lambda>out. retE (py_strip out))"

definition setup_control_node :: "env \<Rightarrow> unit at_act" where
  "setup_control_node E =
     bindE (at_control (cn_autotest_setup E)) (\<lambda>setup.
     bindE (get_local_mac_addr E) (\<lambda>mac.
     thenE (putE (at_mac_update (AList.update ''GWT'' mac)))
     (bindE (at_check (tst_ok (mac_ok mac)) ''gw_mac_addr'') (\<lambda>ret.
        at_assert (setup + ret) ''setup_cn_connection''))))"

definition setup_open_node :: "env \<Rightarrow> int at_act" where
  "setup_open_node E =
     bindE (getE (\<lambda>s. b_FW_AUTOTEST (at_on_class s))) (\<lambda>fw.
       case fw of
         None \<Rightarrow> raiseE AttributeErr
       | Some path \<Rightarrow>
           sum_rets
             [bindE (at_open (open_setup E (Some path))) (\<lambda>ret. at_check ret ''open_node_setup''),
              thenE (putE (at_on_serial_update (\<lambda>_. Some (OpenNodeConnection_init ''localhost''))))
              (bindE (with_on_serial (conn_start E)) (\<lambda>ret. at_check ret ''open_node_connection''))])"

text \<open>\<open>open_node.setup(None, debug=False)\<close> and \<open>wait_booted\<close>; the other boards have no such argument or method\<close>

definition open_setup_nodebug :: "env \<Rightarrow> (open_node, int) act" where
  "open_setup_nodebug E =
     open_dispatch (raiseE TypeErr) (raiseE TypeErr) (raiseE TypeErr) (raiseE TypeErr) (raiseE TypeErr)
       (linux_setup E False) (raiseE TypeErr) (raiseE TypeErr) (raiseE TypeErr)"

definition open_wait_booted :: "env \<Rightarrow> int \<Rightarrow> (open_node, string) act" where
  "open_wait_booted E timeout =
     open_dispatch (raiseE AttributeErr) (raiseE AttributeErr) (raiseE AttributeErr) (raiseE AttributeErr)
       (raiseE AttributeErr) (wait_booted E timeout) (raiseE AttributeErr) (raiseE AttributeErr) (raiseE AttributeErr)"

text \<open>A use of \<open>self.linux_connection\<close>.\<close>

definition on_linux :: "(string option, 'a) act \<Rightarrow> 'a at_act" where
  "on_linux m = (\<lambda>s w.
     case at_linux s of
       None \<Rightarrow> (Inl AttributeErr, s, w)
     | Some c \<Rightarrow> (case m c w of (r, c', w') \<Rightarrow> (r, s\<lparr>at_linux := Some c'\<rparr>, w')))"

definition setup_linux_open_node :: "env \<Rightarrow> int at_act" where
  "setup_linux_open_node E =
     bindE (getE (\<lambda>s. (b_TYPE (at_on_class s), class_TYPE (at_cn_class s)))) (\<lambda>(on_type, ctype).
     if \<not> (on_type = ''a8'' \<or> on_type = ''rpi3'') \<or> ctype \<noteq> ''iotlab'' then raiseE AssertionErr
     else
       bindE (at_open (open_setup_nodebug E)) (\<lambda>ret.
       thenE (at_assert ret ''linux_node_setup'')
       (bindE (at_open (open_wait_booted E 300)) (\<lambda>prompt.
       thenE (at_assert (tst_ok (prompt \<noteq> [])) ''linux_node_boot_timeout'')
       (thenE (putE (at_linux_update (\<lambda>_. Some None)))
       (thenE (tryE (on_linux (linux_connection_start E))
                (\<lambda>e. case e of
                   LinuxConnectionErr msg \<Rightarrow> Some (at_assert 1 (''linux_node_init_error: '' @ msg)) | _ \<Rightarrow> None))
       (bindE (on_linux (linux_get_mac_addr E)) (\<lambda>mac.
       thenE (putE (at_mac_update (AList.update ''ON'' mac)))
       (bindE (at_check (tst_ok (mac_ok mac)) ''linux_mac_addr'') (\<lambda>ret_mac.
       bindE (on_linux (linux_flash E)) (\<lambda>ret_flash.
       thenE (at_assert ret_flash ''linux_node_flash_autotest'')
       (thenE (putE (\<lambda>s. s\<lparr>at_on_serial := Some (OpenNodeConnection_init (ip_str (Option.bind (at_linux s) id)))\<rparr>))
       (bindE (with_on_serial (conn_start E)) (\<lambda>ret_conn.
       bindE (at_check ret_conn ''linux_open_node_serial'') (\<lambda>ret_serial.
         retE (ret_mac + ret_serial))))))))))))))))"

definition setup_open_node_connection :: "env \<Rightarrow> unit at_act" where
  "setup_open_node_connection E =
     bindE (sum_rets
       [open_node_start E,
        bindE (getE at_linux_on_class) (\<lambda>l. if l \<noteq> None then setup_linux_open_node E else setup_open_node E),
        ignoreE (with_on_serial (conn_empty E))]) (\<lambda>ret_val.
     if ret_val \<noteq> 0 then raiseE FatalErr else retE ())"

section \<open>Teardown\<close>

definition on_serial_stop :: "env \<Rightarrow> int at_act" where
  "on_serial_stop E =
     finallyE
       (tryE (thenE (with_on_serial (conn_stop E)) (retE 0)) (\<lambda>e. if e = AttributeErr then Some (retE 1) else None))
       (putE (at_on_serial_update (\<lambda>_. None)))"

text \<open>A call on \<open>open_node.serial_redirection\<close>; the LoRa and SDR boards have no redirection\<close>

definition open_redirection :: "(ext_process, 'a) act \<Rightarrow> (open_node, 'a) act" where
  "open_redirection m =
     open_dispatch (zoomE on_redirect on_redirect_update m) (zoomE en_redirect en_redirect_update m)
       (zoomE an_redirect an_redirect_update m) (zoomE an_redirect an_redirect_update m)
       (zoomE fn_redirect fn_redirect_update m) (zoomE ln_redirect ln_redirect_update m)
       (zoomE pn_redirect pn_redirect_update m) (raiseE AttributeErr) (raiseE AttributeErr)"

definition open_redirection_stop :: "env \<Rightarrow> (open_node, int) act" where
  "open_redirection_stop E = open_redirection (xp_stop E)"

definition teardown_open_node :: "env \<Rightarrow> bool \<Rightarrow> int at_act" where
  "teardown_open_node E stop =
     sum_rets [on_serial_stop E, at_open (open_redirection_stop E), if stop then at_open (open_teardown E) else retE 0]"

definition control_node_leds_blink :: "env \<Rightarrow> int at_act" where
  "control_node_leds_blink E = control_node_checker [''leds''] (ignoreE (at_protocol (green_led_blink (ci_send E))))"

definition set_results_leds :: "env \<Rightarrow> bool \<Rightarrow> unit at_act" where
  "set_results_leds E blink =
     thenE (on_call E [''leds_off'', ''7''])
     (if \<not> blink then retE ()
      else thenE (on_call E [''leds_blink'', ''7'', ''500'']) (thenE (control_node_leds_blink E) (retE ())))"

definition set_result_leds :: "env \<Rightarrow> bool \<Rightarrow> int at_act" where
  "set_result_leds E blink = autotest_checker [''leds_off'', ''leds_blink'']
     (tryE (thenE (set_results_leds E blink) (retE 0)) (\<lambda>e. if e = FatalErr then Some (retE 1) else None))"

definition at_teardown :: "env \<Rightarrow> bool \<Rightarrow> int at_act" where
  "at_teardown E blink =
     bindE (sum_rets
       [open_node_start E, set_result_leds E blink, teardown_open_node E (\<not> blink),
        ignoreE (at_control (cn_autotest_teardown E (\<not> blink)))]) (\<lambda>ret_val.
     at_check ret_val ''teardown'')"

section \<open>Tests of the open node\<close>

definition set_leds_off_and_on :: "env \<Rightarrow> int at_act" where
  "set_leds_off_and_on E = autotest_checker [''leds_on'', ''leds_off'']
     (sum_rets [ignoreE (on_call E [''leds_off'', ''7'']), ignoreE (py_sleep E 1000), ignoreE (on_call E [''leds_on'', ''7''])])"

definition test_flash :: "env \<Rightarrow> bool \<Rightarrow> int at_act" where
  "test_flash E flash = autotest_checker [''test_flash'']
     (if \<not> flash then retE 0
      else bindE (run_test E 1 [''test_flash''] Inr) (\<lambda>values. at_check (tst_ok (values \<noteq> [])) ''test_flash''))"

definition test_pressure :: "env \<Rightarrow> int at_act" where
  "test_pressure E = autotest_checker [''get_pressure'']
     (bindE (run_test E 10 [''get_pressure''] (float_at E 2)) (\<lambda>values.
        at_check (tst_ok (floats_differ values)) ''test_pressure''))"

definition test_light :: "env \<Rightarrow> int at_act" where
  "test_light E = autotest_checker [''get_light'', ''leds_on'', ''leds_off'']
     (thenE (on_call E [''leds_on'', ''7''])
     (bindE (run_test E 5 [''get_light''] (float_at E 2)) (\<lambda>values_on.
      thenE (on_call E [''leds_off'', ''7''])
     (bindE (run_test E 5 [''get_light''] (float_at E 2)) (\<lambda>values_off.
        at_check (tst_ok (floats_differ (values_on @ values_off))) ''get_light'')))))"

definition test_xyz_sensor :: "env \<Rightarrow> string \<Rightarrow> int at_act" where
  "test_xyz_sensor E sensor =
     bindE (run_test E 10 [sensor] (xyz_of E)) (\<lambda>values. at_check (tst_ok (tuples_differ values)) sensor)"

definition test_magneto :: "env \<Rightarrow> int at_act" where
  "test_magneto E = autotest_checker [''get_magneto''] (test_xyz_sensor E ''get_magneto'')"

definition test_gyro :: "env \<Rightarrow> int at_act" where
  "test_gyro E = autotest_checker [''get_gyro''] (test_xyz_sensor E ''get_gyro'')"

definition test_accelero :: "env \<Rightarrow> int at_act" where
  "test_accelero E = autotest_checker [''get_accelero''] (test_xyz_sensor E ''get_accelero'')"

section \<open>GPS\<close>

text \<open>
  The loop of \<open>_test_pps_open_node\<close>: True when the method returns from inside it.  Every turn takes
  five seconds at least, so that the number of turns is bounded by the timeout.
\<close>

fun pps_poll :: "env \<Rightarrow> int \<Rightarrow> nat \<Rightarrow> (bool \<times> int) at_act" where
  "pps_poll E end_time 0 = raiseE Blocked"
| "pps_poll E end_time (Suc turns) =
     bindE (askE now) (\<lambda>t.
       if \<not> t < end_time then bindE (at_check 1 ''test_pps_open_node_timeout'') (\<lambda>r. retE (False, r))
       else
         thenE (py_sleep E 5000)
         (bindE (on_call E [''test_pps_get'']) (\<lambda>(ret, answer).
            if ret \<noteq> 0 then bindE (at_check 1 ''test_pps_get'') (\<lambda>r. retE (True, r))
            else case int_at 2 (the answer) of
              Inl e \<Rightarrow> raiseE e
            | Inr pps_count \<Rightarrow>
                if pps_count > 2 then bindE (at_check 0 ''test_pps_open_node'') (\<lambda>r. retE (False, r))
                else pps_poll E end_time turns)))"

definition test_pps_open_node :: "env \<Rightarrow> int \<Rightarrow> int at_act" where
  "test_pps_open_node E timeout =
     bindE (on_call E [''test_pps_start'']) (\<lambda>(ret, _).
       if ret \<noteq> 0 then at_check 1 ''test_pps_start''
       else
         bindE (askE now) (\<lambda>t.
         bindE (pps_poll E (t + 1000 * timeout) (nat (timeout div 5) + 2)) (\<lambda>(returned, r).
           if returned then retE r else thenE (on_call E [''test_pps_stop'']) (retE r))))"

definition test_gps :: "env \<Rightarrow> bool \<Rightarrow> int at_act" where
  "test_gps E gps = autotest_checker [''test_pps_start'', ''test_pps_get'', ''test_pps_stop'']
     (if \<not> gps then retE 0 else bindE (test_pps_open_node E 120) (\<lambda>ret_val. at_check ret_val ''test_gps''))"

section \<open>Tests with the control node\<close>

definition test_on_cn :: "env \<Rightarrow> nat \<Rightarrow> string list \<Rightarrow> string list \<Rightarrow> string list \<Rightarrow> int at_act" where
  "test_on_cn E num cn_command on_cmd args =
     (let debug_str = hd cn_command @ ''_on_cn'' in
      sum_rets
        [at_protocol (send_cmd (ci_send E) (cn_command @ [''start''] @ args)),
         bindE (run_test E num (on_cmd @ args) (\<lambda>_. Inr ())) (\<lambda>values. at_check (tst_ok (values \<noteq> [])) debug_str),
         bindE (at_protocol (send_cmd (ci_send E) (cn_command @ [''stop'']))) (\<lambda>ret. at_check ret debug_str)])"

definition test_gpio :: "env \<Rightarrow> int at_act" where
  "test_gpio E = autotest_checker [''test_gpio''] (control_node_checker [''open_node_gpio'']
     (test_on_cn E 5 [''test_gpio''] [''test_gpio''] []))"

definition test_i2c :: "env \<Rightarrow> int at_act" where
  "test_i2c E = autotest_checker [''test_i2c''] (control_node_checker [''open_node_i2c'']
     (test_on_cn E 1 [''test_i2c''] [''test_i2c''] []))"

definition test_radio_ping_pong :: "env \<Rightarrow> int option \<Rightarrow> int at_act" where
  "test_radio_ping_pong E channel = autotest_checker [''radio_ping_pong''] (control_node_checker [''radio'']
     (case channel of
        None \<Rightarrow> retE 0
      | Some c \<Rightarrow> test_on_cn E 10 [''test_radio_ping_pong''] [''radio_ping_pong''] [str_int c, ''3dBm'']))"

fun send_packets :: "env \<Rightarrow> nat \<Rightarrow> string list \<Rightarrow> unit at_act" where
  "send_packets E 0 cmd_on = retE ()"
| "send_packets E (Suc n) cmd_on = thenE (on_call E cmd_on) (thenE (py_sleep E 500) (send_packets E n cmd_on))"

definition test_radio_with_rssi :: "env \<Rightarrow> int option \<Rightarrow> int at_act" where
  "test_radio_with_rssi E channel = autotest_checker [''radio_pkt''] (control_node_checker [''radio'']
     (thenE reset_measures
     (case channel of
        None \<Rightarrow> retE 0
      | Some c \<Rightarrow>
          (case Radio_init (PStr ''rssi'') (PList [PInt c]) (PInt 10) (PInt 0) of
             Inl e \<Rightarrow> raiseE e
           | Inr radio \<Rightarrow>
               sum_rets
                 [at_protocol (config_radio (ci_send E) (Some radio)),
                  ignoreE (send_packets E 10 [''radio_pkt'', str_int c, ''3dBm'']),
                  at_protocol (config_radio (ci_send E) None),
                  bindE (get_measures E) (\<lambda>m.
                    case column 1 (me_radio m) of
                      Inl e \<Rightarrow> raiseE e
                    | Inr values \<Rightarrow> at_check (tst_ok (rssi_ok values)) ''rssi_measures'')]))))"

text \<open>\<open>Consumption(self.g_m.open_node.ALIM, 'dc', period, '64', True, True, True)\<close>\<close>

definition dc_consumption :: "string \<Rightarrow> consumption at_act" where
  "dc_consumption period =
     bindE (getE (\<lambda>s. b_ALIM (open_class (gm_open_node (at_gm s))))) (\<lambda>alim.
       case alim of
         None \<Rightarrow> raiseE AttributeErr
       | Some a \<Rightarrow>
           (case Consumption_init a (PStr ''dc'') (PStr period) (PStr ''64'') (PBool True) (PBool True) (PBool True) of
              Inl e \<Rightarrow> raiseE e
            | Inr conso \<Rightarrow> retE conso))"

definition test_consumption_dc :: "env \<Rightarrow> int at_act" where
  "test_consumption_dc E = control_node_checker [''consumption'']
     (bindE (dc_consumption ''588'') (\<lambda>conso.
      sum_rets
        [open_node_start E,
         ignoreE reset_measures,
         at_protocol (config_consumption (ci_send E) (Some conso)),
         ignoreE (py_sleep E 2000),
         at_protocol (config_consumption (ci_send E) None),
         ignoreE (py_sleep E 2000),
         bindE (get_measures E) (\<lambda>m. at_check (tst_ok (tuples_differ (me_conso m))) ''consumption_dc'')]))"

text \<open>\<open>test_consumption_batt\<close> returns at once; what follows the \<open>return\<close> is never run\<close>

definition test_consumption_batt :: "int at_act" where
  "test_consumption_batt = control_node_checker [''battery''] (control_node_checker [''consumption''] (retE 0))"

text \<open>\<open>time.time()\<close> in seconds\<close>

definition seconds :: "int \<Rightarrow> pyfloat" where
  "seconds ms = Finite (of_int ms / 1000)"

fun blink_leds :: "env \<Rightarrow> string list \<Rightarrow> pyfloat list at_act" where
  "blink_leds E [] = retE []"
| "blink_leds E (leds # rest) =
     thenE (on_call E [''leds_on'', leds])
     (thenE (py_sleep E 500)
     (bindE (askE now) (\<lambda>t.
      thenE (py_sleep E 500)
      (thenE (on_call E [''leds_off'', ''7''])
      (bindE (blink_leds E rest) (\<lambda>ts. retE (seconds t # ts)))))))"

definition test_leds_with_consumption :: "env \<Rightarrow> int at_act" where
  "test_leds_with_consumption E =
     autotest_checker [''leds_consumption'', ''leds_on'', ''leds_off''] (control_node_checker [''consumption'']
     (thenE (on_call E [''leds_off'', ''7''])
     (bindE (dc_consumption ''1100'') (\<lambda>conso.
      bindE (sum_rets
        [open_node_start E,
         ignoreE reset_measures,
         at_protocol (config_consumption (ci_send E) (Some conso))]) (\<lambda>ret_start.
      bindE (blink_leds E [''0'', ''1'', ''2'', ''4'', ''7'']) (\<lambda>leds_timestamps.
      bindE (sum_rets
        [at_protocol (config_consumption (ci_send E) None),
         ignoreE (py_sleep E 1000),
         bindE (get_measures E) (\<lambda>m.
           case leds_verdict m leds_timestamps of
             Inl e \<Rightarrow> raiseE e
           | Inr ok \<Rightarrow> at_check (tst_ok ok) ''leds_using_conso'')]) (\<lambda>ret_end.
        retE (ret_start + ret_end))))))))"

section \<open>All tests\<close>

text \<open>
  The body of the \<open>try\<close> statement: the return values are added up; a FatalError ends it and counts
  as one more.
\<close>

fun run_tests :: "int \<Rightarrow> int at_act list \<Rightarrow> int at_act" where
  "run_tests ret_val [] = retE ret_val"
| "run_tests ret_val (test # tests) =
     bindE (tryE (bindE test (\<lambda>r. retE (Some r))) (\<lambda>e. if e = FatalErr then Some (retE None) else None)) (\<lambda>r.
       case r of None \<Rightarrow> retE (ret_val + 1) | Some n \<Rightarrow> run_tests (ret_val + n) tests)"

definition all_tests :: "env \<Rightarrow> int option \<Rightarrow> bool \<Rightarrow> bool \<Rightarrow> int at_act list" where
  "all_tests E channel flash gps =
     [ignoreE (setup_control_node E),
      test_consumption_batt,
      ignoreE (setup_open_node_connection E),
      ignoreE (py_sleep E 1000),
      ignoreE (check_echo E),
      ignoreE (check_get_time E),
      ignoreE (at_get_uid E),
      bindE (open_node_start E) (\<lambda>ret. at_check ret ''switch_to_dc''),
      ignoreE (set_leds_off_and_on E),
      test_gyro E, test_magneto E, test_accelero E,
      test_gpio E, test_i2c E,
      test_radio_ping_pong E channel, test_radio_with_rssi E channel,
      test_consumption_dc E, test_leds_with_consumption E,
      test_pressure E, test_light E, test_flash E flash,
      test_gps E gps]"

definition auto_tests :: "env \<Rightarrow> int option \<Rightarrow> bool \<Rightarrow> bool \<Rightarrow> bool \<Rightarrow> autotest_result at_act" where
  "auto_tests E channel blink flash gps =
     thenE (putE (at_tested_update (\<lambda>_. [])))
     (bindE (run_tests 0 (all_tests E channel flash gps)) (\<lambda>ret_val.
      bindE (at_teardown E (blink \<and> ret_val = 0)) (\<lambda>ret.
        getE (\<lambda>s. \<lparr>ar_ret = ret_val + ret, ar_success = at_success s, ar_error = at_error s, ar_mac = at_mac s,
                    ar_uid = at_uid s\<rparr>))))"

text \<open>\<open>GatewayManager.auto_tests\<close>: a new test manager on this gateway manager, under the lock\<close>

definition gm_auto_tests_body :: "env \<Rightarrow> int option \<Rightarrow> bool \<Rightarrow> bool \<Rightarrow> bool \<Rightarrow> autotest_result gm_act" where
  "gm_auto_tests_body E channel blink flash gps =
     bindE (\<lambda>gm w. AutoTestManager_init E gm gm w) (\<lambda>mgr gm w.
       case auto_tests E channel blink flash gps mgr w of (r, mgr', w') \<Rightarrow> (r, at_gm mgr', w'))"

definition gm_auto_tests :: "env \<Rightarrow> thread \<Rightarrow> int option \<Rightarrow> bool \<Rightarrow> bool \<Rightarrow> bool \<Rightarrow> autotest_result gm_act" where
  "gm_auto_tests E t channel blink flash gps = gm_sync t (gm_auto_tests_body E channel blink flash gps)"

section \<open>Lemmas: the tests leave the experiment, the lock and the features alone\<close>

text \<open>What of the manager belongs to its experiments and its lock, and the tests that the board has.\<close>

definition at_view :: "autotest \<Rightarrow> _" where
  "at_view s = (exp_view (at_gm s), gm_rlock (at_gm s), available_tests s)"

lemma at_view_simps [simp]:
  "at_view (at_on_serial_update f s) = at_view s" "at_view (at_linux_update f' s) = at_view s"
  "at_view (at_success_update g s) = at_view s" "at_view (at_error_update g s) = at_view s"
  "at_view (at_mac_update h s) = at_view s" "at_view (at_uid_update k s) = at_view s"
  "at_view (at_tested_update g s) = at_view s"
  by (simp_all add: at_view_def available_tests_def cong: option.case_cong)

lemma stays_zoom_gm:
  assumes "stays exp_view m" and "stays gm_rlock m"
  shows "stays at_view (zoomE at_gm at_gm_update m)"
proof (intro stays_keeps keepsI)
  fix c s and w :: world assume "at_view s = c"
  moreover obtain r gm' w' where m: "m (at_gm s) w = (r, gm', w')" by (cases "m (at_gm s) w")
  ultimately show "wp (zoomE at_gm at_gm_update m) (\<lambda>_ s _. at_view s = c) (\<lambda>_ s _. at_view s = c) s w"
    using stays_run [OF assms(1) m] stays_run [OF assms(2) m]
    by (auto simp: wp_def zoomE_def at_view_def available_tests_def split: sum.split cong: option.case_cong)
qed

lemma stays_at_open [stays_rules]: "stays at_view (at_open m)"
  by (intro stays_zoom_gm stays_rules)

lemma stays_at_control [stays_rules]: "stays at_view (at_control m)"
  by (intro stays_zoom_gm stays_rules)

lemma stays_with_on_serial: "(\<And>s g. f (at_on_serial_update g s) = f s) \<Longrightarrow> stays f (with_on_serial m)"
  unfolding stays_def keeps_def
  by (auto simp: with_on_serial_def wp_def split: option.splits prod.splits sum.splits)

lemma stays_on_linux: "(\<And>s g. f (at_linux_update g s) = f s) \<Longrightarrow> stays f (on_linux m)"
  unfolding stays_def keeps_def
  by (auto simp: on_linux_def wp_def split: option.splits prod.splits sum.splits)

lemma stays_put_view [stays_rules]:
  "stays at_view (putE (at_on_serial_update f))" "stays at_view (putE (at_linux_update f'))"
  "stays at_view (putE (at_success_update g))" "stays at_view (putE (at_error_update g))"
  "stays at_view (putE (at_mac_update h))" "stays at_view (putE (at_uid_update k))"
  "stays at_view (putE (at_tested_update g))"
  by (rule stays_putE; simp)+

lemma stays_view_serial [stays_rules]: "stays at_view (with_on_serial m)"
  by (rule stays_with_on_serial) simp

lemma stays_view_linux [stays_rules]: "stays at_view (on_linux m)"
  by (rule stays_on_linux) simp

lemma stays_at_check [stays_rules]: "stays at_view (at_check ret operation)"
  unfolding at_check_def by (intro stays_rules stays_putE) simp

lemma stays_at_assert [stays_rules]: "stays at_view (at_assert ret operation)"
  unfolding at_assert_def by (intro stays_rules)

lemma stays_autotest_checker [stays_rules]: "stays at_view m \<Longrightarrow> stays at_view (autotest_checker required m)"
  unfolding autotest_checker_def by (intro stays_rules)

lemma stays_control_node_checker [stays_rules]: "stays f m \<Longrightarrow> stays f (control_node_checker required m)"
  unfolding control_node_checker_def by (intro stays_rules)

lemma stays_on_call [stays_rules]: "stays at_view (on_call E cmd)"
  unfolding on_call_def on_serial_send_command_def by (intro stays_rules)

lemma stays_case_prod [stays_rules]: "(\<And>a b. stays f (g a b)) \<Longrightarrow> stays f (case x of (a, b) \<Rightarrow> g a b)"
  by (cases x) simp

lemma stays_case_list [stays_rules]:
  "stays f m \<Longrightarrow> (\<And>a as. stays f (g a as)) \<Longrightarrow> stays f (case xs of [] \<Rightarrow> m | a # as \<Rightarrow> g a as)"
  by (cases xs) simp_all

lemma stays_run_test [stays_rules]: "stays at_view (run_test E n cmd parse)"
  by (induction n) (auto intro!: stays_rules)

lemma stays_send_packets [stays_rules]: "stays at_view (send_packets E n cmd)"
  by (induction n) (auto intro!: stays_rules)

lemma stays_blink_leds [stays_rules]: "stays at_view (blink_leds E ls)"
  by (induction ls) (auto intro!: stays_rules)

lemma stays_pps_poll [stays_rules]: "stays at_view (pps_poll E end_time n)"
  by (induction n) (auto intro!: stays_rules)

lemma stays_at_protocol [stays_rules]: "stays at_view (at_protocol m)"
  unfolding at_protocol_def by (intro stays_rules)

lemma stays_measures [stays_rules]:
  "stays at_view reset_measures" "stays at_view (get_measures E)"
  unfolding reset_measures_def get_measures_def read_measures_def by (intro stays_rules)+

lemma stays_open_node_start [stays_rules]: "stays at_view (open_node_start E)"
  unfolding open_node_start_def by (intro stays_rules)

lemma stays_py_check_output [stays_rules]: "stays f (py_check_output E args)"
  unfolding py_check_output_def by (intro stays_rules) (auto intro!: stays_rules split: output_outcome.split)

lemma stays_get_local_mac_addr [stays_rules]: "stays f (get_local_mac_addr E)"
  unfolding get_local_mac_addr_def by (intro stays_rules)

lemma stays_setup_control_node [stays_rules]: "stays at_view (setup_control_node E)"
  unfolding setup_control_node_def by (intro stays_rules)

lemma stays_setup_open_node [stays_rules]: "stays at_view (setup_open_node E)"
  unfolding setup_open_node_def by (intro stays_rules)

lemma stays_setup_linux_open_node [stays_rules]: "stays at_view (setup_linux_open_node E)"
  unfolding setup_linux_open_node_def
  by (intro stays_rules stays_putE) (auto intro!: stays_rules split: exc.splits)

lemma stays_setup_open_node_connection [stays_rules]: "stays at_view (setup_open_node_connection E)"
  unfolding setup_open_node_connection_def by (intro stays_rules)

lemma stays_test_on_cn [stays_rules]: "stays at_view (test_on_cn E num cn_command on_cmd args)"
  unfolding test_on_cn_def Let_def by (intro stays_rules)

lemma stays_dc_consumption [stays_rules]: "stays f (dc_consumption period)"
  unfolding dc_consumption_def by (intro stays_rules)

lemma stays_set_result_leds [stays_rules]: "stays at_view (set_result_leds E blink)"
  unfolding set_result_leds_def set_results_leds_def control_node_leds_blink_def
  by (intro stays_rules) (auto intro!: stays_rules split: if_splits)

lemma stays_on_serial_stop [stays_rules]: "stays at_view (on_serial_stop E)"
  unfolding on_serial_stop_def by (intro stays_rules) (auto intro!: stays_rules split: if_splits)

lemma stays_at_teardown [stays_rules]: "stays at_view (at_teardown E blink)"
  unfolding at_teardown_def teardown_open_node_def by (intro stays_rules)

lemmas test_defs =
  check_echo_def check_get_time_def at_get_uid_def set_leds_off_and_on_def test_flash_def test_pressure_def
  test_light_def test_xyz_sensor_def test_magneto_def test_gyro_def test_accelero_def test_pps_open_node_def
  test_gps_def test_gpio_def test_i2c_def test_radio_ping_pong_def test_radio_with_rssi_def test_consumption_dc_def
  test_consumption_batt_def test_leds_with_consumption_def on_serial_send_command_def

lemma stays_all_tests: "m \<in> set (all_tests E channel flash gps) \<Longrightarrow> stays at_view m"
  unfolding all_tests_def set_simps insert_iff empty_iff test_defs
  by (elim disjE; simp only:; (intro stays_rules)?)

lemma stays_run_tests: "(\<And>m. m \<in> set tests \<Longrightarrow> stays at_view m) \<Longrightarrow> stays at_view (run_tests ret_val tests)"
  by (induction tests arbitrary: ret_val) (auto intro!: stays_rules split: if_splits)

lemma stays_auto_tests: "stays at_view (auto_tests E channel blink flash gps)"
  unfolding auto_tests_def by (intro stays_rules stays_run_tests stays_all_tests)

end
