(* ===== verification/Autotest_Results.thy ===== *)
theory Autotest_Results
  imports Autotest
begin

text \<open>
  What the autotests of \<^verbatim>\<open>gateway_code/autotest/autotest.py\<close> establish: which checks a return
  value of 0 stands for, what they leave alone, and how they end when the setup fails.
\<close>

section \<open>Lemmas: checks that succeeded stay listed\<close>

definition grows :: "'a at_act \<Rightarrow> bool" where
  "grows m \<longleftrightarrow> (\<forall>operation. keeps (\<lambda>s _. operation \<in> set (at_success s)) m)"

named_theorems grow_rules \<open>calls that only add to the list of successes\<close>

lemma growsI: "(\<And>operation. keeps (\<lambda>s _. operation \<in> set (at_success s)) m) \<Longrightarrow> grows m"
  by (simp add: grows_def)

lemma growsD: "grows m \<Longrightarrow> keeps (\<lambda>s _. operation \<in> set (at_success s)) m"
  by (simp add: grows_def)

lemma grows_run: "grows m \<Longrightarrow> operation \<in> set (at_success s) \<Longrightarrow> m s w = (r, s', w') \<Longrightarrow> operation \<in> set (at_success s')"
  using keeps_run [OF growsD, of m operation] by blast

lemma grows_stays: "stays at_success m \<Longrightarrow> grows m"
  by (intro growsI keepsI wpI) (metis stays_run)+

lemma grows_basic [grow_rules]:
  "grows (retE a)" "grows (raiseE e)" "grows (getE f)" "grows (askE g)" "grows (emitE E ev)" "grows (py_sleep E ms)"
  by (intro grows_stays stays_rules)+

lemma grows_zoom_gm [grow_rules]: "grows (zoomE at_gm at_gm_update m)"
  by (rule grows_stays, rule stays_zoomE) simp

lemma grows_with_on_serial [grow_rules]: "grows (with_on_serial c)"
  by (rule grows_stays, rule stays_with_on_serial) simp

lemma grows_on_linux [grow_rules]: "grows (on_linux c)"
  by (rule grows_stays, rule stays_on_linux) simp

lemma grows_put [grow_rules]:
  "grows (putE (at_on_serial_update f))" "grows (putE (at_linux_update f'))" "grows (putE (at_error_update g))"
  "grows (putE (at_mac_update h))" "grows (putE (at_uid_update k))" "grows (putE (at_tested_update g))"
  by (rule grows_stays, rule stays_putE, simp)+

lemma grows_bindE [grow_rules]: "grows m \<Longrightarrow> (\<And>a. grows (f a)) \<Longrightarrow> grows (bindE m f)"
  by (simp add: grows_def keeps_bindE)

lemma grows_thenE [grow_rules]: "grows m \<Longrightarrow> grows n \<Longrightarrow> grows (thenE m n)"
  by (simp add: grows_def keeps_thenE)

lemma grows_tryE [grow_rules]: "grows m \<Longrightarrow> (\<And>e k. h e = Some k \<Longrightarrow> grows k) \<Longrightarrow> grows (tryE m h)"
  unfolding grows_def by (auto intro: keeps_tryE)

lemma grows_finallyE [grow_rules]: "grows m \<Longrightarrow> grows n \<Longrightarrow> grows (finallyE m n)"
  by (simp add: grows_def keeps_finallyE)

lemma grows_if [grow_rules]: "grows m \<Longrightarrow> grows n \<Longrightarrow> grows (if b then m else n)"
  by simp

lemma grows_case_option [grow_rules]:
  "grows n \<Longrightarrow> (\<And>a. grows (g a)) \<Longrightarrow> grows (case x of None \<Rightarrow> n | Some a \<Rightarrow> g a)"
  by (cases x) auto

lemma grows_case_sum [grow_rules]:
  "(\<And>a. grows (g a)) \<Longrightarrow> (\<And>b. grows (h b)) \<Longrightarrow> grows (case x of Inl a \<Rightarrow> g a | Inr b \<Rightarrow> h b)"
  by (cases x) auto

lemma grows_case_prod [grow_rules]: "(\<And>a b. grows (g a b)) \<Longrightarrow> grows (case x of (a, b) \<Rightarrow> g a b)"
  by (cases x) simp

lemma grows_case_list [grow_rules]:
  "grows m \<Longrightarrow> (\<And>a as. grows (g a as)) \<Longrightarrow> grows (case xs of [] \<Rightarrow> m | a # as \<Rightarrow> g a as)"
  by (cases xs) simp_all

lemma grows_ignoreE [grow_rules]: "grows m \<Longrightarrow> grows (ignoreE m)"
  by (simp add: grows_def keeps_ignoreE)

lemma grows_sum_rets_Nil [grow_rules]: "grows (sum_rets [])"
  by (simp add: grows_def keeps_sum_rets_Nil)

lemma grows_sum_rets_Cons [grow_rules]: "grows m \<Longrightarrow> grows (sum_rets ms) \<Longrightarrow> grows (sum_rets (m # ms))"
  by (simp add: grows_def keeps_sum_rets_Cons)

lemma grows_at_check [grow_rules]: "grows (at_check ret operation)"
  by (auto simp: grows_def keeps_def at_check_def wp_simps)

lemma grows_at_assert [grow_rules]: "grows (at_assert ret operation)"
  unfolding at_assert_def by (intro grow_rules)

lemma grows_autotest_checker [grow_rules]: "grows m \<Longrightarrow> grows (autotest_checker required m)"
  unfolding autotest_checker_def by (intro grow_rules)

lemma grows_control_node_checker [grow_rules]: "grows m \<Longrightarrow> grows (control_node_checker required m)"
  unfolding control_node_checker_def by (intro grow_rules)

lemma grows_on_call [grow_rules]: "grows (on_call E cmd)"
  unfolding on_call_def on_serial_send_command_def by (intro grow_rules)

lemma grows_run_test [grow_rules]: "grows (run_test E n cmd parse)"
  by (induction n) (auto intro!: grow_rules)

lemma grows_send_packets [grow_rules]: "grows (send_packets E n cmd)"
  by (induction n) (auto intro!: grow_rules)

lemma grows_blink_leds [grow_rules]: "grows (blink_leds E ls)"
  by (induction ls) (auto intro!: grow_rules)

lemma grows_pps_poll [grow_rules]: "grows (pps_poll E end_time n)"
  by (induction n) (auto intro!: grow_rules)

lemma grows_at_protocol [grow_rules]: "grows (at_protocol m)"
  unfolding at_protocol_def by (intro grow_rules)

lemma grows_measures [grow_rules]: "grows reset_measures" "grows (get_measures E)"
  unfolding reset_measures_def get_measures_def read_measures_def by (intro grow_rules)+

lemma grows_open_node_start [grow_rules]: "grows (open_node_start E)"
  unfolding open_node_start_def by (intro grow_rules)

lemma grows_get_local_mac_addr [grow_rules]: "grows (get_local_mac_addr E)"
  by (intro grows_stays stays_rules)

lemma grows_setup_control_node [grow_rules]: "grows (setup_control_node E)"
  unfolding setup_control_node_def by (intro grow_rules)

lemma grows_setup_open_node [grow_rules]: "grows (setup_open_node E)"
  unfolding setup_open_node_def by (intro grow_rules)

lemma grows_put_serial: "grows (putE (\<lambda>s. s\<lparr>at_on_serial := f s\<rparr>))"
  by (rule grows_stays, rule stays_putE) simp

lemma grows_setup_linux_open_node [grow_rules]: "grows (setup_linux_open_node E)"
  unfolding setup_linux_open_node_def
  by (intro grow_rules grows_put_serial) (auto intro!: grow_rules split: exc.splits)

lemma grows_setup_open_node_connection [grow_rules]: "grows (setup_open_node_connection E)"
  unfolding setup_open_node_connection_def by (intro grow_rules)

lemma grows_test_on_cn [grow_rules]: "grows (test_on_cn E num cn_command on_cmd args)"
  unfolding test_on_cn_def Let_def by (intro grow_rules)

lemma grows_dc_consumption [grow_rules]: "grows (dc_consumption period)"
  by (intro grows_stays stays_rules)

lemma grows_all_tests: "m \<in> set (all_tests E channel flash gps) \<Longrightarrow> grows m"
  unfolding all_tests_def set_simps insert_iff empty_iff test_defs
  by (elim disjE; simp only:; (intro grow_rules)?)

section \<open>Lemmas: the poll of the GPS ends\<close>

text \<open>A command to the board takes time and comes to an end.\<close>

lemma on_call_later: "on_call E cmd s w = (r, s', w') \<Longrightarrow> now w \<le> now w' \<and> r \<noteq> Inl Blocked"
  by (auto simp: on_call_def on_serial_send_command_def with_on_serial_def conn_send_command_def conn_writeline_def
      conn_readline_def on_fd_def at_check_def Let_def thenE_def bindE_def getE_def putE_def askE_def emitE_def retE_def
      raiseE_def log_event_def split: option.splits prod.splits sum.splits if_splits)

lemma wp_on_call:
  assumes "\<And>x s' w'. now w \<le> now w' \<Longrightarrow> Q x s' w'" and "\<And>e s' w'. e \<noteq> Blocked \<Longrightarrow> R e s' w'"
  shows "wp (on_call E cmd) Q R s w"
  by (rule wpI) (use assms on_call_later in blast)+

text \<open>The turns that \<open>test_pps_open_node\<close> gives to the loop are enough.\<close>

lemma int_at_error: "int_at i ws = Inl e \<Longrightarrow> e \<noteq> Blocked"
  by (auto simp: int_at_def word_at_def split: sum.splits option.splits if_splits)

lemma pps_poll_ends:
  "end_time - now w \<le> 5000 * int n \<Longrightarrow>
   wp (pps_poll E end_time (Suc n)) (\<lambda>_ _ _. True) (\<lambda>e _ _. e \<noteq> Blocked) s w"
proof (induction n arbitrary: s w)
  have check: "wp (bindE (at_check ret operation) (\<lambda>r. retE (b, r))) (\<lambda>_ _ _. True) (\<lambda>e _ _. e \<noteq> Blocked) s w"
    for ret operation b s w
    by (simp add: wp_simps at_check_def)
  {
    case 0
    then show ?case using check by (simp add: wp_simps)
  next
    case (Suc n)
    show ?case
    proof (cases "now w < end_time")
      case False
      then show ?thesis using check by (simp add: wp_simps)
    next
      case True
      let ?w1 = "log_event E (Sleep 5000) w"
      have step: "wp (case ra of (ret, answer) \<Rightarrow>
            if ret \<noteq> 0 then bindE (at_check 1 ''test_pps_get'') (\<lambda>r. retE (True, r))
            else case int_at 2 (the answer) of
              Inl e \<Rightarrow> raiseE e
            | Inr pps_count \<Rightarrow>
                if pps_count > 2 then bindE (at_check 0 ''test_pps_open_node'') (\<lambda>r. retE (False, r))
                else pps_poll E end_time (Suc n)) (\<lambda>_ _ _. True) (\<lambda>e _ _. e \<noteq> Blocked) s2 w2"
        if "now ?w1 \<le> now w2" for ra s2 w2
        using check Suc.IH [of w2 s2] Suc.prems that int_at_error
        by (auto simp: log_event_def wp_raiseE split: prod.split sum.split simp del: pps_poll.simps)
      show ?thesis
        unfolding pps_poll.simps(2) [of E end_time "Suc n"] using True
        by (simp add: wp_bindE wp_thenE wp_askE py_sleep_def wp_emitE del: pps_poll.simps) (rule wp_on_call, erule step, simp)
    qed
  }
qed

lemma test_pps_ends:
  assumes "0 \<le> timeout" and "test_pps_open_node E timeout s w = (r, s', w')"
  shows "r \<noteq> Inl Blocked"
proof -
  have "1000 * timeout \<le> 5000 * (timeout div 5 + 1)"
  proof -
    define q m where "q = timeout div 5" and "m = timeout mod 5"
    then have "timeout = 5 * q + m" "m < 5" by simp_all
    then show ?thesis unfolding q_def [symmetric] by simp
  qed
  with assms(1) have turns: "(t + 1000 * timeout) - t \<le> 5000 * int (Suc (nat (timeout div 5)))" for t
    by (simp add: pos_imp_zdiv_nonneg_iff)
  have "wp (test_pps_open_node E timeout) (\<lambda>_ _ _. True) (\<lambda>e _ _. e \<noteq> Blocked) s w"
    unfolding test_pps_open_node_def wp_bindE
  proof (rule wp_on_call, goal_cases)
    case (1 x s1 w1)
    let ?poll = "pps_poll E (now w1 + 1000 * timeout) (nat (timeout div 5) + 2)"
    have "wp ?poll (\<lambda>_ _ _. True) (\<lambda>e _ _. e \<noteq> Blocked) s1 w1"
      using pps_poll_ends [OF turns] unfolding add_2_eq_Suc' .
    then have "wp ?poll
        (\<lambda>x. wp (case x of (returned, r) \<Rightarrow> if returned then retE r else thenE (on_call E [''test_pps_stop'']) (retE r))
               (\<lambda>_ _ _. True) (\<lambda>e _ _. e \<noteq> Blocked)) (\<lambda>e _ _. e \<noteq> Blocked) s1 w1"
      by (rule wp_conseq) (auto simp: wp_thenE wp_retE intro!: wp_on_call split: prod.split)
    then show ?case
      by (cases x) (simp add: wp_bindE wp_askE at_check_def wp_thenE wp_putE wp_retE del: pps_poll.simps)
  qed simp
  with assms(2) show ?thesis by (auto simp: wp_def)
qed

section \<open>Lemmas: no test returns a negative number\<close>

definition no_signals :: "env \<Rightarrow> bool" where
  "no_signals E \<longleftrightarrow> (\<forall>w args n. e_call E w args = CallExit n \<longrightarrow> 0 \<le> n)"

lemma nonneg_thenE [nonneg_rules]: "nonneg n \<Longrightarrow> nonneg (thenE m n)"
  unfolding thenE_def by (rule nonneg_bindE)

lemma nonneg_raiseE [nonneg_rules]: "nonneg (raiseE e)"
  by (simp add: nonneg_def wp_simps)

lemma nonneg_ignoreE [nonneg_rules]: "nonneg (ignoreE m)"
  by (simp add: ignoreE_def nonneg_rules)

lemma nonneg_case_option [nonneg_rules]:
  "nonneg n \<Longrightarrow> (\<And>a. nonneg (g a)) \<Longrightarrow> nonneg (case x of None \<Rightarrow> n | Some a \<Rightarrow> g a)"
  by (cases x) auto

lemma nonneg_case_sum [nonneg_rules]:
  "(\<And>a. nonneg (g a)) \<Longrightarrow> (\<And>b. nonneg (h b)) \<Longrightarrow> nonneg (case x of Inl a \<Rightarrow> g a | Inr b \<Rightarrow> h b)"
  by (cases x) auto

lemma nonneg_case_prod [nonneg_rules]: "(\<And>a b. nonneg (g a b)) \<Longrightarrow> nonneg (case x of (a, b) \<Rightarrow> g a b)"
  by (cases x) simp

lemma nonneg_at_check [nonneg_rules]: "nonneg (at_check ret operation)"
  unfolding at_check_def by (intro nonneg_rules) simp

lemma nonneg_checkers [nonneg_rules]:
  "nonneg m \<Longrightarrow> nonneg (autotest_checker required m)" "nonneg m \<Longrightarrow> nonneg (control_node_checker required m)"
  unfolding autotest_checker_def control_node_checker_def by (intro nonneg_rules; simp)+

lemma nonneg_send_cmd [nonneg_rules]: "nonneg (send_cmd sender cmd)"
  unfolding send_cmd_def by (intro nonneg_rules) simp

lemma nonneg_cn_dispatch: "nonneg a \<Longrightarrow> nonneg b \<Longrightarrow> nonneg c \<Longrightarrow> nonneg (cn_dispatch a b c)"
  by (auto simp: nonneg_def wp_cn_dispatch split: control_node.split)

lemma nonneg_at_protocol [nonneg_rules]: "nonneg m \<Longrightarrow> nonneg (at_protocol m)"
  unfolding at_protocol_def by (intro nonneg_zoomE nonneg_cn_dispatch nonneg_rules)

lemma nonneg_config [nonneg_rules]: "nonneg (config_radio sender r)" "nonneg (config_consumption sender conso)"
  unfolding config_radio_def config_radio_measure_def config_radio_sniffer_def stop_radio_def config_consumption_def
  by (intro nonneg_rules)+

lemma nonneg_run_args: "no_signals E \<Longrightarrow> nonneg (run_args E args)"
  by (auto simp: nonneg_def no_signals_def run_args_def wp_simps split: option.split call_outcome.split)

lemma nonneg_start_stop [nonneg_rules]: "nonneg (start_stop sender command p)"
  by (cases p) (simp_all add: start_stop_def nonneg_rules)

lemma nonneg_bindE_sign: "nonneg m \<Longrightarrow> (\<And>a. 0 \<le> a \<Longrightarrow> nonneg (f a)) \<Longrightarrow> nonneg (bindE m f)"
  by (subst nonneg_def) (auto simp: wp_simps intro!: wpI dest: nonneg_run)

lemma nonneg_ci_open_start: "nonneg (ci_open_start E pwr)"
proof -
  have "nonneg (iotlab_open E ''start'' pwr)"
    unfolding iotlab_open_def
    by (rule nonneg_bindE, rule nonneg_bindE_sign, rule nonneg_start_stop, rule nonneg_thenE, rule nonneg_retE)
  then show ?thesis by (auto simp: ci_open_start_def intro!: nonneg_rules split: cn_kind.split)
qed

lemma nonneg_cp_open_start: "no_signals E \<Longrightarrow> nonneg (cp_open_start E)"
  unfolding cp_open_start_def rpi3_open_def
  by (rule nonneg_bindE_sign, rule nonneg_run_args, assumption, rule nonneg_thenE, rule nonneg_retE)

lemma nonneg_open_node_start [nonneg_rules]: "no_signals E \<Longrightarrow> nonneg (open_node_start E)"
  unfolding open_node_start_def cn_open_start_def
  by (intro nonneg_rules nonneg_zoomE nonneg_cn_dispatch nonneg_ci_open_start nonneg_cp_open_start)

lemma nonneg_test_leds [nonneg_rules]: "no_signals E \<Longrightarrow> nonneg (test_leds_with_consumption E)"
  unfolding test_leds_with_consumption_def
  by (intro nonneg_checkers nonneg_thenE, rule nonneg_bindE, rule nonneg_bindE_sign, (intro nonneg_rules; assumption)[1],
      rule nonneg_bindE, rule nonneg_bindE_sign) (intro nonneg_rules; simp)+

lemma nonneg_all_tests:
  assumes "no_signals E" and "m \<in> set (all_tests E channel flash gps)"
  shows "nonneg m"
  using assms(2) unfolding all_tests_def set_simps insert_iff empty_iff test_gyro_def test_magneto_def test_accelero_def
    test_xyz_sensor_def test_gpio_def test_i2c_def test_on_cn_def Let_def test_radio_ping_pong_def
    test_radio_with_rssi_def test_consumption_dc_def test_consumption_batt_def test_pressure_def test_light_def
    test_flash_def test_gps_def
  by (elim disjE; simp only:; intro nonneg_rules order.refl assms(1))

lemma grows_set_result_leds [grow_rules]: "grows (set_result_leds E blink)"
  unfolding set_result_leds_def set_results_leds_def control_node_leds_blink_def
  by (intro grow_rules) (auto intro!: grow_rules split: if_splits)

lemma grows_at_teardown: "grows (at_teardown E blink)"
  unfolding at_teardown_def teardown_open_node_def on_serial_stop_def
  by (intro grow_rules) (auto intro!: grow_rules split: if_splits)

section \<open>Lemmas: what the checks that passed have in common\<close>

text \<open>
  An operation is listed as a success whenever the call ends normally, or ends with 0 on a board
  that has the tests.
\<close>

definition noting :: "string \<Rightarrow> 'a at_act \<Rightarrow> bool" where
  "noting operation m \<longleftrightarrow> (\<forall>s w r s' w'. m s w = (Inr r, s', w') \<longrightarrow> operation \<in> set (at_success s'))"

definition has_tests :: "string list \<Rightarrow> autotest \<Rightarrow> bool" where
  "has_tests required s \<longleftrightarrow> (\<forall>available. available_tests s = Some available \<longrightarrow> set required \<subseteq> set available)"

definition notes_zero :: "string list \<Rightarrow> string \<Rightarrow> int at_act \<Rightarrow> bool" where
  "notes_zero required operation m \<longleftrightarrow>
     (\<forall>s w s' w'. has_tests required s \<longrightarrow> m s w = (Inr 0, s', w') \<longrightarrow> operation \<in> set (at_success s'))"

lemma has_tests_Nil [simp]: "has_tests [] s"
  by (simp add: has_tests_def)

lemma has_tests_stays: "stays at_view m \<Longrightarrow> m s w = (r, s', w') \<Longrightarrow> has_tests required s' = has_tests required s"
  by (drule (1) stays_run) (simp add: at_view_def has_tests_def)

lemma noting_bindE: "(\<And>a. noting operation (f a)) \<Longrightarrow> noting operation (bindE m f)"
  unfolding noting_def by (auto simp: bindE_def split: prod.splits sum.splits)

lemma noting_thenE: "noting operation n \<Longrightarrow> noting operation (thenE m n)"
  unfolding thenE_def by (rule noting_bindE)

lemma noting_at_assert: "noting operation (at_assert ret operation)"
  by (auto simp: noting_def at_assert_def at_check_def bindE_def thenE_def putE_def retE_def raiseE_def split: if_splits)

lemma notes_zero_ignoreE: "noting operation m \<Longrightarrow> notes_zero [] operation (ignoreE m)"
  unfolding noting_def notes_zero_def
  by (clarsimp simp: ignoreE_def bindE_def thenE_def retE_def split: prod.splits sum.splits) blast

lemma notes_zero_bindE: "(\<And>a. notes_zero [] operation (f a)) \<Longrightarrow> notes_zero [] operation (bindE m f)"
  unfolding notes_zero_def by (auto simp: bindE_def split: prod.splits sum.splits)

lemma notes_zero_at_check: "notes_zero [] operation (at_check ret operation)"
  by (auto simp: notes_zero_def at_check_def bindE_def thenE_def putE_def retE_def)

lemma notes_zero_checker:
  assumes "notes_zero [] operation m"
  shows "notes_zero required operation (autotest_checker required m)"
  unfolding notes_zero_def
proof (intro allI impI)
  fix s s' and w w' :: world
  assume *: "has_tests required s" "autotest_checker required m s w = (Inr 0, s', w')"
  then obtain available where "available_tests s = Some available"
    by (auto simp: autotest_checker_def bindE_def getE_def raiseE_def split: option.splits)
  moreover from this *(1) have "object_attr_has available required"
    by (auto simp: has_tests_def object_attr_has_def list_all_iff)
  ultimately obtain s1 w1 where "m s1 w1 = (Inr 0, s', w')"
    using *(2) by (auto simp: autotest_checker_def bindE_def getE_def thenE_def putE_def)
  with assms show "operation \<in> set (at_success s')" by (auto simp: notes_zero_def)
qed

lemmas notes_rules =
  noting_bindE noting_thenE noting_at_assert notes_zero_ignoreE notes_zero_bindE notes_zero_at_check notes_zero_checker

lemma run_tests_Cons_run:
  assumes "run_tests n (m # ms) s w = (Inr r, s', w')"
  shows "(\<exists>k s1 w1. m s w = (Inr k, s1, w1) \<and> run_tests (n + k) ms s1 w1 = (Inr r, s', w'))
       \<or> m s w = (Inl FatalErr, s', w') \<and> r = n + 1"
  using assms
  by (auto simp: bindE_def tryE_def retE_def split: prod.splits sum.splits if_splits option.splits)

lemma run_tests_ge:
  assumes "run_tests n ms s w = (Inr r, s', w')" and "\<forall>m\<in>set ms. nonneg m"
  shows "n \<le> r"
  using assms
proof (induction ms arbitrary: n s w)
  case (Cons m ms)
  from run_tests_Cons_run [OF Cons.prems(1)] show ?case
  proof
    assume "\<exists>k s1 w1. m s w = (Inr k, s1, w1) \<and> run_tests (n + k) ms s1 w1 = (Inr r, s', w')"
    then obtain k s1 w1 where "m s w = (Inr k, s1, w1)" "run_tests (n + k) ms s1 w1 = (Inr r, s', w')" by blast
    moreover from this(1) have "0 \<le> k" using Cons.prems(2) by (auto dest: nonneg_run)
    ultimately show ?thesis using Cons.IH [of "n + k" s1 w1] Cons.prems(2) by simp
  qed simp
qed (simp add: retE_def)

lemma run_tests_keeps:
  assumes "run_tests n ms s w = (Inr r, s', w')" and "\<forall>m\<in>set ms. grows m" and "operation \<in> set (at_success s)"
  shows "operation \<in> set (at_success s')"
  using assms
proof (induction ms arbitrary: n s w)
  case (Cons m ms)
  from Cons.prems(2) have m: "grows m" by simp
  from run_tests_Cons_run [OF Cons.prems(1)] show ?case
  proof
    assume "\<exists>k s1 w1. m s w = (Inr k, s1, w1) \<and> run_tests (n + k) ms s1 w1 = (Inr r, s', w')"
    then obtain k s1 w1 where k: "m s w = (Inr k, s1, w1)" "run_tests (n + k) ms s1 w1 = (Inr r, s', w')" by blast
    from Cons.IH [OF k(2)] Cons.prems(2) grows_run [OF m Cons.prems(3) k(1)] show ?thesis by simp
  qed (use grows_run [OF m Cons.prems(3)] in blast)
qed (simp add: retE_def)

text \<open>Running the tests to a sum of 0 has run each of them to 0.\<close>

lemma run_tests_zero:
  assumes "run_tests n ms s w = (Inr 0, s', w')" and "0 \<le> n"
    and "\<forall>m\<in>set ms. nonneg m" and "\<forall>m\<in>set ms. grows m"
    and "m \<in> set ms" and "\<forall>m\<in>set ms. stays at_view m" and "has_tests required s"
    and "notes_zero required operation m"
  shows "operation \<in> set (at_success s')"
  using assms(1-7)
proof (induction ms arbitrary: n s w)
  case (Cons a ms)
  from run_tests_Cons_run [OF Cons.prems(1)] Cons.prems(2)
  obtain k s1 w1 where k: "a s w = (Inr k, s1, w1)" and rest: "run_tests (n + k) ms s1 w1 = (Inr 0, s', w')" by auto
  from k Cons.prems(3) have "0 \<le> k" by (auto dest: nonneg_run)
  moreover have "n + k \<le> 0" using run_tests_ge [OF rest] Cons.prems(3) by simp
  ultimately have "k = 0" using Cons.prems(2) by linarith
  show ?case
  proof (cases "m \<in> set ms")
    case True
    moreover have "has_tests required s1" using has_tests_stays [of a, OF _ k] Cons.prems(6,7) by simp
    ultimately show ?thesis using Cons.IH [OF rest] Cons.prems(2-4,6) \<open>0 \<le> k\<close> by simp
  next
    case False
    with Cons.prems(5) k \<open>k = 0\<close> assms(8) Cons.prems(7) have "operation \<in> set (at_success s1)" by (auto simp: notes_zero_def)
    with run_tests_keeps [OF rest] Cons.prems(4) show ?thesis by simp
  qed
qed simp

lemma auto_tests_run:
  assumes "auto_tests E channel blink flash gps s w = (Inr res, s', w')"
  obtains n s1 w1 ret where
    "run_tests 0 (all_tests E channel flash gps) (s\<lparr>at_tested := []\<rparr>) w = (Inr n, s1, w1)"
    "at_teardown E (blink \<and> n = 0) s1 w1 = (Inr ret, s', w')" "ar_ret res = n + ret" "ar_success res = at_success s'"
  using assms
  by (auto simp: auto_tests_def bindE_def thenE_def putE_def getE_def split: prod.splits sum.splits)

text \<open>A return value of 0 is made of zeros only.\<close>

lemma auto_tests_noted:
  assumes "no_signals E" and "auto_tests E channel blink flash gps s w = (Inr res, s', w')" and "ar_ret res = 0"
  shows "''teardown'' \<in> set (ar_success res)
    \<and> (\<forall>m required operation. m \<in> set (all_tests E channel flash gps) \<longrightarrow> has_tests required s
          \<longrightarrow> notes_zero required operation m \<longrightarrow> operation \<in> set (ar_success res))"
proof -
  let ?tests = "all_tests E channel flash gps" and ?s = "s\<lparr>at_tested := []\<rparr>"
  obtain n s1 w1 ret where run: "run_tests 0 ?tests ?s w = (Inr n, s1, w1)"
    and down: "at_teardown E (blink \<and> n = 0) s1 w1 = (Inr ret, s', w')"
    and res: "ar_ret res = n + ret" "ar_success res = at_success s'"
    using assms(2) by (rule auto_tests_run)
  have sign: "\<forall>m\<in>set ?tests. nonneg m" and grow: "\<forall>m\<in>set ?tests. grows m" and stay: "\<forall>m\<in>set ?tests. stays at_view m"
    using nonneg_all_tests [OF assms(1)] grows_all_tests stays_all_tests by blast+
  have end_sign: "nonneg (at_teardown E (blink \<and> n = 0))"
    and note_end: "notes_zero [] ''teardown'' (at_teardown E (blink \<and> n = 0))"
    unfolding at_teardown_def by (intro nonneg_rules notes_rules)+
  from nonneg_run [OF end_sign down] run_tests_ge [OF run sign] assms(3) res(1)
  have zero: "n = 0" and "ret = 0" by linarith+
  with note_end down have teardown: "''teardown'' \<in> set (at_success s')"
    unfolding notes_zero_def by (metis has_tests_Nil)
  have "operation \<in> set (at_success s')"
    if m: "m \<in> set ?tests" and tests: "has_tests required s" and note_m: "notes_zero required operation m"
    for m required operation
  proof -
    from tests have "has_tests required ?s" by (simp add: has_tests_def available_tests_def cong: option.case_cong)
    then have "operation \<in> set (at_success s1)"
      using run_tests_zero [OF run [unfolded zero] order.refl sign grow m stay _ note_m] by simp
    then show ?thesis by (rule grows_run [OF grows_at_teardown _ down])
  qed
  with teardown res(2) show ?thesis by simp
qed

lemma tests_listed:
  "ignoreE (setup_control_node E) \<in> set (all_tests E channel flash gps)"
  "ignoreE (check_echo E) \<in> set (all_tests E channel flash gps)"
  "ignoreE (check_get_time E) \<in> set (all_tests E channel flash gps)"
  "bindE (open_node_start E) (\<lambda>ret. at_check ret ''switch_to_dc'') \<in> set (all_tests E channel flash gps)"
  "test_gyro E \<in> set (all_tests E channel flash gps)" "test_magneto E \<in> set (all_tests E channel flash gps)"
  "test_accelero E \<in> set (all_tests E channel flash gps)" "test_pressure E \<in> set (all_tests E channel flash gps)"
  by (simp_all add: all_tests_def)

lemma sensors_noted:
  "notes_zero [''get_gyro''] ''get_gyro'' (test_gyro E)"
  "notes_zero [''get_magneto''] ''get_magneto'' (test_magneto E)"
  "notes_zero [''get_accelero''] ''get_accelero'' (test_accelero E)"
  "notes_zero [''get_pressure''] ''test_pressure'' (test_pressure E)"
  unfolding test_gyro_def test_magneto_def test_accelero_def test_pressure_def test_xyz_sensor_def
  by (intro notes_rules)+

lemma basics_noted:
  "notes_zero [] ''setup_cn_connection'' (ignoreE (setup_control_node E))"
  "notes_zero [] ''on_serial_echo'' (ignoreE (check_echo E))"
  "notes_zero [] ''on_serial_get_time'' (ignoreE (check_get_time E))"
  "notes_zero [] ''switch_to_dc'' (bindE (open_node_start E) (\<lambda>ret. at_check ret ''switch_to_dc''))"
  unfolding setup_control_node_def check_echo_def check_get_time_def by (intro notes_rules)+

section \<open>A board that passes\<close>

definition zig_reply :: "world \<Rightarrow> string option" where
  "zig_reply w =
     (case rev (trace w) of
        SockWrite t # _ \<Rightarrow>
          Some ((if t = ''echo HELLO WORLD'' @ [CHR 0x0A] then ''HELLO WORLD'' else ''ACK get_time 100'') @ [CHR 0x0A])
      | _ \<Rightarrow> None)"

definition zig_env :: env where
  "zig_env = working_env\<lparr>e_output := (\<lambda>_ _. Output ''01:23:45:67:89:ab''), e_sock_read := zig_reply\<rparr>"

definition zig_avrdude :: avrdude where
  "zig_avrdude =
     \<lparr>av_tty = ''/dev/iotlab/ttyON_ZIGDUINO'', av_baudrate = 57600, av_model = ''atmega128rfa1'',
      av_programmer = ''arduino''\<rparr>"

definition zig_node :: avr_node where
  "zig_node =
     \<lparr>an_class = NodeZigduino zig_env, an_redirect = ExternalProcess_init [''socat''],
      an_avrdude = zig_avrdude\<rparr>"

definition zig_tests :: autotest where
  "zig_tests =
     \<lparr>at_gm = m3_manager (OnZigduino zig_node) (CnNo (ControlNodeNo_init ''zigduino-1'' default_profile)),
      at_on_class = NodeZigduino zig_env, at_cn_class = ControlClass ClassNo, at_linux_on_class = None,
      at_on_serial = None, at_linux = None, at_success = [], at_error = [], at_mac = [], at_uid = None, at_tested = []\<rparr>"

lemma zig_env_fields [simp]:
  "e_output zig_env w args = Output ''01:23:45:67:89:ab''" "e_sock_read zig_env = zig_reply"
  "e_exists zig_env w p = True" "e_connect zig_env w h n = None" "e_sock_write zig_env w t = None"
  "e_call zig_env w args = CallExit 0" "e_abspath zig_env p = p" "e_open zig_env w p = None"
  "e_serial zig_env w p = None" "e_termios zig_env w p = None" "e_started zig_env w c = True" "e_alive zig_env w c = False"
  "e_static_dir zig_env = ''/static''"
  by (simp_all add: zig_env_def working_env_def)

text \<open>The board and its classes, before the setup and with the connection of the tests.\<close>

definition zig_made :: "avr_node \<Rightarrow> bool" where
  "zig_made n \<longleftrightarrow> an_class n = NodeZigduino zig_env \<and> an_avrdude n = zig_avrdude"

definition zig_board :: "autotest \<Rightarrow> bool" where
  "zig_board s \<longleftrightarrow> at_on_class s = NodeZigduino zig_env \<and> at_cn_class s = ControlClass ClassNo \<and> at_linux_on_class s = None
     \<and> (\<exists>c. gm_control_node (at_gm s) = CnNo c)
     \<and> (\<exists>n. gm_open_node (at_gm s) = OnZigduino n \<and> zig_made n)"

definition zig_idle :: "autotest \<Rightarrow> bool" where
  "zig_idle s \<longleftrightarrow> zig_board s \<and> (\<forall>n. gm_open_node (at_gm s) = OnZigduino n \<longrightarrow> \<not> xp_live (an_redirect n))"

definition zig_on :: "autotest \<Rightarrow> bool" where
  "zig_on s \<longleftrightarrow> zig_board s \<and> (\<exists>c. at_on_serial s = Some c \<and> oc_open c)"

text \<open>From P the call returns 0 and gets to Q, in every world.\<close>

definition zeros :: "(autotest \<Rightarrow> bool) \<Rightarrow> int at_act \<Rightarrow> (autotest \<Rightarrow> bool) \<Rightarrow> bool" where
  "zeros P m Q \<longleftrightarrow> (\<forall>s w. P s \<longrightarrow> wp m (\<lambda>r s' _. r = 0 \<and> Q s') (\<lambda>_ _ _. False) s w)"

lemma zig_board_features: "zig_board s \<Longrightarrow> class_FEATURES (at_cn_class s) = Some []"
  "zig_board s \<Longrightarrow> available_tests s = Some [''echo'', ''get_time'']"
  by (simp_all add: zig_board_def available_tests_def board_defs)

lemma zig_control_checker: "zig_board s \<Longrightarrow> required \<noteq> [] \<Longrightarrow> wp (control_node_checker required m) Q R s w = Q 0 s w"
  by (cases required) (simp_all add: control_node_checker_def wp_simps object_attr_has_def zig_board_features)

lemma zig_autotest_checker:
  "zig_board s \<Longrightarrow> \<not> set required \<subseteq> {''echo'', ''get_time''} \<Longrightarrow> wp (autotest_checker required m) Q R s w = Q 0 s w"
  by (auto simp: autotest_checker_def wp_simps object_attr_has_def list_all_iff zig_board_features)

lemma zig_board_frame [simp]:
  "zig_board (at_tested_update f s) = zig_board s" "zig_board (at_success_update f s) = zig_board s"
  "zig_board (at_on_serial_update g s) = zig_board s" "zig_board (at_mac_update h s) = zig_board s"
  by (simp_all add: zig_board_def)

definition zig_answer :: "string list \<Rightarrow> string list" where
  "zig_answer cmd =
     (if py_join '' '' cmd = ''echo HELLO WORLD'' then [''HELLO'', ''WORLD''] else [''ACK'', ''get_time'', ''100''])"

lemma zig_on_frame [simp]:
  "zig_on (at_tested_update f s) = zig_on s" "zig_on (at_success_update f s) = zig_on s"
  by (simp_all add: zig_on_def)

lemma zig_send:
  assumes "zig_on s"
    and "\<And>s' w'. zig_on s' \<Longrightarrow>
      Q (Some (zig_answer cmd)) s' w'"
  shows "wp (on_serial_send_command zig_env cmd) Q R s w"
proof -
  let ?t = "py_join '' '' cmd @ [CHR 0x0A]"
  let ?w = "log_event zig_env (SockWrite ?t) w"
  obtain c where c: "at_on_serial s = Some c" "oc_open c" using assms(1) by (auto simp: zig_on_def)
  have "conn_send_command zig_env cmd c w
     = (Inr (case zig_reply ?w of None \<Rightarrow> None | Some line \<Rightarrow> line_words line), c,
        log_event zig_env (SockRead (zig_reply ?w)) ?w)"
    using conn_send_command_run [of c zig_env w cmd] c(2) by simp
  moreover have "zig_reply ?w =
      Some ((if ?t = ''echo HELLO WORLD'' @ [CHR 0x0A] then ''HELLO WORLD'' else ''ACK get_time 100'') @ [CHR 0x0A])"
    by (simp add: zig_reply_def log_event_def)
  moreover have "line_words (''HELLO WORLD'' @ [CHR 0x0A]) = Some [''HELLO'', ''WORLD'']"
    "line_words (''ACK get_time 100'' @ [CHR 0x0A]) = Some [''ACK'', ''get_time'', ''100'']" by code_simp+
  ultimately have "\<exists>w'. conn_send_command zig_env cmd c w = (Inr (Some (zig_answer cmd)), c, w')"
    by (simp add: zig_answer_def)
  then obtain w' where "conn_send_command zig_env cmd c w = (Inr (Some (zig_answer cmd)), c, w')" ..
  moreover have "zig_on (at_tested_update f s\<lparr>at_on_serial := Some c\<rparr>)" for f
    using assms(1) c by (simp add: zig_on_def)
  ultimately show ?thesis
    using c assms(2) by (simp add: on_serial_send_command_def wp_def with_on_serial_def thenE_def bindE_def putE_def)
qed

lemma zig_call:
  assumes "zig_on s" and "\<And>s' w'. zig_on s' \<Longrightarrow> Q (0, Some [''ACK'', ''get_time'', ''100'']) s' w'"
  shows "wp (on_call zig_env [''get_time'']) Q R s w"
  unfolding on_call_def wp_bindE
  by (rule zig_send [OF assms(1)]) (simp add: assms(2) wp_simps zig_answer_def)

lemma zig_start:
  assumes "\<And>w'. zig_reply w' = None \<Longrightarrow> Q 0 (c\<lparr>oc_open := True\<rparr>) w'"
  shows "wp (conn_start zig_env) Q R c w"
  using assms by (simp add: conn_start_def wp_simps numeral_eq_Suc create_connection_def zig_reply_def log_event_def)

lemma zig_stop_redirection:
  assumes "\<And>w'. Q 0 (s\<lparr>xp_run := False, xp_live := False\<rparr>) w'"
  shows "wp (xp_stop zig_env) Q R s w"
  using assms by (simp add: wp_def xp_stop_run stop_loop.simps)

lemma zig_setup_control_node: "zeros zig_idle (ignoreE (setup_control_node zig_env)) zig_idle"
proof -
  have "mac_ok ''01:23:45:67:89:ab''" and strip: "py_strip ''01:23:45:67:89:ab'' = ''01:23:45:67:89:ab''" by code_simp+
  then show ?thesis
    by (auto simp: zeros_def zig_idle_def zig_board_def setup_control_node_def wp_simps cn_autotest_setup_def
        get_local_mac_addr_def py_check_output_def at_check_def at_assert_def tst_ok_def)
qed

lemma zig_get_time: 
  assumes "zig_on s" and "\<And>s' w'. zig_on s' \<Longrightarrow> Q (replicate n True) s' w'"
  shows "wp (run_test zig_env n [''get_time''] (\<lambda>x. map_sum id py_isdigit (word_at 2 x))) Q R s w"
  using assms
proof (induction n arbitrary: Q s w)
  case (Suc n)
  have "word_at 2 [''ACK'', ''get_time'', ''100''] = Inr ''100''" "py_isdigit ''100''" by code_simp+
  then show ?case
    by (auto simp: wp_simps intro!: zig_call [OF Suc.prems(1)] Suc.IH [unfolded id_def] Suc.prems(2) [simplified])
qed (simp add: wp_simps)

lemma zig_check_get_time: "zeros zig_on (ignoreE (check_get_time zig_env)) zig_on"
  unfolding zeros_def check_get_time_def
  by (auto simp: wp_simps at_assert_def at_check_def tst_ok_def list_ex_iff intro!: zig_call zig_get_time)

lemma zig_check_echo: "zeros zig_on (ignoreE (check_echo zig_env)) zig_on"
  unfolding zeros_def check_echo_def
  by (auto simp: wp_simps at_assert_def at_check_def tst_ok_def zig_answer_def intro!: zig_send)

lemma zig_open_node_start: "zig_board s \<Longrightarrow> wp (open_node_start zig_env) Q R s w = Q 0 s w"
  by (simp add: open_node_start_def zig_control_checker)

lemma zig_avrdude_args:
  "avrdude_args zig_avrdude '' -D -U /static/zigduino_autotest.elf''
   = Some [''avrdude'', ''-p'', ''atmega128rfa1'', ''-P'', ''/dev/iotlab/ttyON_ZIGDUINO'', ''-c'', ''arduino'', ''-b'',
           ''57600'', ''-D'', ''-U'', ''/static/zigduino_autotest.elf'']"
proof -
  have "str_int 57600 = ''57600''" by (simp add: str_int_def str_nat_def str_base.simps digit_char_def)
  then show ?thesis by (simp add: avrdude_args_def zig_avrdude_def shlex_split_def sh_space_def)
qed

lemma zig_avrdude_flash:
  assumes "\<And>w'. Q 0 zig_avrdude w'"
  shows "wp (avrdude_flash zig_env ''/static/zigduino_autotest.elf'') Q R zig_avrdude w"
  unfolding avrdude_flash_def ioerror_is_1_def abspath_def avrdude_call_cmd_def
  using assms zig_avrdude_args by (simp add: run_args_def py_call_def wp_simps)

lemma zig_tty:
  "(\<And>w'. Q 0 s w') \<Longrightarrow> wp (wait_tty zig_env tty timeout) Q R s w"
  "(\<And>r w'. Q r s w') \<Longrightarrow> wp (wait_no_tty zig_env tty timeout) Q R s w"
  by (rule wp_wait_tty, simp) (rule wp_wait_no_tty)

lemma zig_dtr: "(\<And>w'. Q 0 s w') \<Longrightarrow> wp (disable_dtr zig_env tty) Q R s w"
  by (simp add: disable_dtr_def with_serial_def wp_simps)

lemma zig_do_flash:
  assumes "zig_made n" and "\<And>w'. Q 0 (n\<lparr>an_avrdude := zig_avrdude\<rparr>) w'"
  shows "wp (zigduino_do_flash zig_env (Some ''/static/zigduino_autotest.elf'') False 0 False) Q R n w"
proof -
  from assms(1) have "an_avrdude n = zig_avrdude" by (simp add: zig_made_def)
  with assms(2) show ?thesis
    unfolding zigduino_do_flash_def
    by (auto simp: wp_simps fw_or_idle_def intro!: zig_tty zig_avrdude_flash)
qed

lemma zig_node_setup:
  assumes "zig_made n" and "\<not> xp_live (an_redirect n)" and "\<And>n' w'. zig_made n' \<Longrightarrow> Q 0 n' w'"
  shows "wp (zigduino_setup zig_env (Some ''/static/zigduino_autotest.elf'')) Q R n w"
  using assms unfolding zigduino_setup_def
  by (auto simp: wp_simps xp_start_def zig_made_def intro!: zig_tty zig_do_flash zig_dtr)

lemma zig_open_setup:
  assumes "zig_made n" and "\<not> xp_live (an_redirect n)" and "\<And>n' w'. zig_made n' \<Longrightarrow> Q 0 (OnZigduino n') w'"
  shows "wp (open_setup zig_env (Some ''/static/zigduino_autotest.elf'')) Q R (OnZigduino n) w"
proof -
  from assms(3) have "wp (zigduino_setup zig_env (Some ''/static/zigduino_autotest.elf''))
      (\<lambda>r n'. Q r (OnZigduino n')) (\<lambda>e n'. R e (OnZigduino n')) n w"
    by (intro zig_node_setup assms(1,2))
  then show ?thesis by (auto simp: open_setup_def open_dispatch_def wp_def liftE_def split: prod.splits sum.splits)
qed


lemma zig_connect:
  assumes "at_on_serial s = Some c"
    and "\<And>c' w'. zig_reply w' = None \<Longrightarrow> oc_open c' \<Longrightarrow> Q 0 (s\<lparr>at_on_serial := Some c'\<rparr>) w'"
  shows "wp (with_on_serial (conn_start zig_env)) Q R s w"
proof -
  have "wp (conn_start zig_env) (\<lambda>r c w'. r = 0 \<and> oc_open c \<and> zig_reply w' = None) (\<lambda>_ _ _. False) c w"
    by (rule zig_start) simp
  then obtain c' w' where "conn_start zig_env c w = (Inr 0, c', w')" "oc_open c'" "zig_reply w' = None"
    by (auto simp: wp_def split: prod.splits sum.splits)
  with assms show ?thesis by (simp add: wp_def with_on_serial_def)
qed

lemma zig_setup_connection: "zeros zig_idle (ignoreE (setup_open_node_connection zig_env)) zig_on"
  unfolding zeros_def
proof (intro allI impI)
  fix s and w :: world assume "zig_idle s"
  then have board: "zig_board s" and idle: "\<And>n. gm_open_node (at_gm s) = OnZigduino n \<Longrightarrow> \<not> xp_live (an_redirect n)"
    by (auto simp: zig_idle_def)
  obtain n where n: "gm_open_node (at_gm s) = OnZigduino n" "zig_made n" using board by (auto simp: zig_board_def)
  have made: "zig_board (s\<lparr>at_gm := at_gm s\<lparr>gm_open_node := OnZigduino n'\<rparr>\<rparr>)" if "zig_made n'" for n'
    using board that by (simp add: zig_board_def)
  have fw: "at_linux_on_class s = None" "b_FW_AUTOTEST (at_on_class s) = Some ''/static/zigduino_autotest.elf''"
    using board by (simp_all add: zig_board_def board_defs static_path_def)
  have "wp (setup_open_node zig_env) (\<lambda>r s' w'. r = 0 \<and> zig_on s' \<and> zig_reply w' = None) (\<lambda>_ _ _. False) s w"
    unfolding setup_open_node_def wp_bindE wp_getE fw option.case wp_sum_rets_Cons wp_zoomE n(1)
    by (rule zig_open_setup [OF n(2) idle [OF n(1)]])
      (auto simp: at_check_def wp_simps made zig_on_def intro!: zig_connect)
  then show "wp (ignoreE (setup_open_node_connection zig_env)) (\<lambda>r s' _. r = 0 \<and> zig_on s') (\<lambda>_ _ _. False) s w"
    unfolding setup_open_node_connection_def
    by (simp add: wp_simps zig_open_node_start board fw, elim wp_conseq)
      (auto simp: zig_on_def wp_def with_on_serial_def conn_empty_def on_fd_def bindE_def getE_def retE_def empty_loop.simps)
qed

lemma zig_skip:
  assumes "\<And>s w. zig_board s \<Longrightarrow> wp m (\<lambda>r s' _. r = 0 \<and> s' = s) (\<lambda>_ _ _. False) s w"
  shows "zeros zig_on m zig_on"
  unfolding zeros_def by (intro allI impI) (rule wp_conseq [OF assms], auto simp: zig_on_def)

lemma zig_sleep: "zeros zig_on (ignoreE (py_sleep zig_env 1000)) zig_on"
  by (rule zig_skip) (simp add: wp_simps)

lemma zig_switch: "zeros zig_on (bindE (open_node_start zig_env) (\<lambda>ret. at_check ret ''switch_to_dc'')) zig_on"
  by (simp add: zeros_def wp_simps zig_on_def zig_open_node_start at_check_def)

lemma zig_on_board: "zig_on s \<Longrightarrow> zig_board s"
  by (simp add: zig_on_def)

lemma zig_rest:
  assumes "m \<in> set (drop 3 (all_tests zig_env channel flash gps))"
  shows "zeros zig_on m zig_on"
proof -
  have "m = ignoreE (py_sleep zig_env 1000) \<or> m = ignoreE (check_echo zig_env) \<or> m = ignoreE (check_get_time zig_env)
      \<or> m = bindE (open_node_start zig_env) (\<lambda>ret. at_check ret ''switch_to_dc'')
      \<or> (\<forall>s w Q R. zig_board s \<longrightarrow> wp m Q R s w = Q 0 s w)"
    using assms unfolding all_tests_def drop_Suc_Cons drop_0 numeral_3_eq_3 set_simps insert_iff empty_iff test_defs
      set_leds_off_and_on_def
    by (elim disjE; simp only: simp_thms zig_autotest_checker zig_control_checker; simp add: wp_ignoreE zig_autotest_checker zig_control_checker)
  then show ?thesis
  proof (elim disjE)
    assume "\<forall>s w Q R. zig_board s \<longrightarrow> wp m Q R s w = Q 0 s w"
    then show ?thesis by (simp add: zeros_def zig_on_board)
  qed (simp_all only: zig_sleep zig_check_echo zig_check_get_time zig_switch)
qed


lemma zeros_run_tests:
  assumes "zeros P m Q" and "P s" and "\<And>s' w'. Q s' \<Longrightarrow> wp (run_tests n ms) A B s' w'"
  shows "wp (run_tests n (m # ms)) A B s w"
proof -
  have "wp m (\<lambda>r s' _. r = 0 \<and> Q s') (\<lambda>_ _ _. False) s w" using assms(1,2) by (simp add: zeros_def)
  with assms(3) show ?thesis by (auto simp: wp_simps elim!: wp_conseq)
qed

lemma zeros_run_all_tests:
  "(\<And>m. m \<in> set ms \<Longrightarrow> zeros P m P) \<Longrightarrow> P s \<Longrightarrow> wp (run_tests n ms) (\<lambda>r s' _. r = n \<and> P s') (\<lambda>_ _ _. False) s w"
proof (induction ms arbitrary: s w)
  case (Cons m ms)
  show ?case by (rule zeros_run_tests [where P = P and Q = P]) (use Cons in simp_all)
qed (simp add: wp_simps)

lemma zig_batt: "zeros zig_idle test_consumption_batt zig_idle"
  by (simp add: zeros_def zig_idle_def test_consumption_batt_def zig_control_checker)

lemma zig_serial_stop:
  assumes "zig_on s" and "\<And>w'. Q 0 (s\<lparr>at_on_serial := None\<rparr>) w'"
  shows "wp (on_serial_stop zig_env) Q R s w"
proof -
  obtain c where "at_on_serial s = Some c" "oc_open c" using assms(1) by (auto simp: zig_on_def)
  with assms(2) show ?thesis
    by (simp add: wp_def on_serial_stop_def finallyE_def tryE_def thenE_def bindE_def with_on_serial_def conn_stop_def
        on_fd_def getE_def putE_def py_sleep_def emitE_def retE_def)
qed

lemma zig_redirection_stop:
  assumes "\<And>x w'. Q 0 (OnZigduino (n\<lparr>an_redirect := x\<rparr>)) w'"
  shows "wp (open_redirection_stop zig_env) Q R (OnZigduino n) w"
proof -
  have "wp (zoomE an_redirect an_redirect_update (xp_stop zig_env)) (\<lambda>r n'. Q r (OnZigduino n'))
      (\<lambda>e n'. R e (OnZigduino n')) n w"
    unfolding wp_zoomE by (rule zig_stop_redirection) (rule assms)
  then show ?thesis by (auto simp: open_redirection_stop_def open_redirection_def open_dispatch_def wp_def liftE_def split: prod.splits sum.splits)
qed

lemma zig_teardown: "zeros zig_on (at_teardown zig_env True) zig_board"
proof (unfold zeros_def, intro allI impI)
  fix s and w :: world assume s: "zig_on s"
  then obtain n c where n: "gm_open_node (at_gm s) = OnZigduino n" "gm_control_node (at_gm s) = CnNo c"
    by (auto simp: zig_on_def zig_board_def)
  have made: "zig_board (s\<lparr>at_on_serial := None, at_gm := at_gm s\<lparr>gm_open_node := OnZigduino (n\<lparr>an_redirect := x\<rparr>),
      gm_control_node := CnNo c\<rparr>\<rparr>)" for x
    using zig_on_board [OF s] n by (auto simp: zig_board_def zig_made_def)
  show "wp (at_teardown zig_env True) (\<lambda>r s' _. r = 0 \<and> zig_board s') (\<lambda>_ _ _. False) s w"
    unfolding at_teardown_def wp_bindE wp_sum_rets_Cons zig_open_node_start [OF zig_on_board [OF s]] set_result_leds_def
    using n by (auto simp: zig_autotest_checker [OF zig_on_board [OF s]] teardown_open_node_def wp_simps at_check_def
        cn_autotest_teardown_def made intro!: zig_serial_stop [OF s] zig_redirection_stop)
qed

lemma zig_tests_idle: "zig_idle (zig_tests\<lparr>at_tested := []\<rparr>)"
  by (auto simp: zig_idle_def zig_board_def zig_tests_def m3_manager_def zig_made_def zig_node_def ExternalProcess_init_def)

lemma zig_tests_pass: "wp (auto_tests zig_env None True False False) (\<lambda>r _ _. ar_ret r = 0) (\<lambda>_ _ _. False) zig_tests w"
proof -
  let ?t = "all_tests zig_env None False False" and ?s = "zig_tests\<lparr>at_tested := []\<rparr>"
  have split: "?t = ignoreE (setup_control_node zig_env) # test_consumption_batt
      # ignoreE (setup_open_node_connection zig_env) # drop 3 ?t"
    by (simp add: all_tests_def numeral_3_eq_3)
  have "wp (run_tests 0 ?t) (\<lambda>r s _. r = 0 \<and> zig_on s) (\<lambda>_ _ _. False) ?s w"
    by (subst split, rule zeros_run_tests [OF zig_setup_control_node zig_tests_idle],
        rule zeros_run_tests [OF zig_batt], assumption, rule zeros_run_tests [OF zig_setup_connection], assumption,
        rule zeros_run_all_tests [OF zig_rest])
  moreover have "wp (at_teardown zig_env True) (\<lambda>r _ _. r = 0) (\<lambda>_ _ _. False) s w" if "zig_on s" for s w
    using zig_teardown that unfolding zeros_def by (blast intro: wp_conseq)
  ultimately show ?thesis by (auto simp: auto_tests_def wp_simps elim!: wp_conseq)
qed

section \<open>Properties\<close>



lemma stays_read_config [stays_rules]: "stays f (read_config E key)"
  unfolding read_config_def Let_def by (intro stays_rules)

lemma stays_read_config_default [stays_rules]: "stays f (read_config_default E key dflt)"
  unfolding read_config_default_def by (intro stays_rules) (auto intro!: stays_rules split: exc.splits)

lemma stays_open_node_class [stays_rules]: "stays f (open_node_class E t)"
  unfolding open_node_class_def verify_def verify_firmware_def
  by (intro stays_rules) (auto intro!: stays_rules split: node_class.split)

lemma stays_control_node_class [stays_rules]: "stays f (control_node_class E t)"
  unfolding control_node_class_def by (intro stays_rules)

lemma stays_BoardConfig_init [stays_rules]: "stays f (BoardConfig_init E)"
  unfolding BoardConfig_init_def by (intro stays_rules)

text \<open>The call fails while the configuration is read, or it runs the tests of a new object.\<close>

lemma gm_auto_tests_body_cases:
  assumes "gm_auto_tests_body E channel blink flash gps s w = (r, s', w')"
  obtains (unread) e where "AutoTestManager_init E s s w = (Inl e, s, w')" and "s' = s"
  | (tested) mgr w1 mgr' where "AutoTestManager_init E s s w = (Inr mgr, s, w1)" and "at_gm mgr = s"
      and "auto_tests E channel blink flash gps mgr w1 = (r, mgr', w')" and "s' = at_gm mgr'"
proof -
  obtain x s1 w1 where init: "AutoTestManager_init E s s w = (x, s1, w1)" by (cases "AutoTestManager_init E s s w")
  have "stays id (AutoTestManager_init E s)" unfolding AutoTestManager_init_def by (intro stays_rules)
  from stays_run [OF this init] have s1: "s1 = s" by simp
  show thesis
  proof (cases x)
    case (Inl e)
    with assms init s1 show thesis by (intro unread [of e]) (simp_all add: gm_auto_tests_body_def bindE_def)
  next
    case (Inr mgr)
    then have "at_gm mgr = s"
      using init by (auto simp: AutoTestManager_init_def bindE_def retE_def split: prod.splits sum.splits)
    moreover obtain mgr' where "auto_tests E channel blink flash gps mgr w1 = (r, mgr', w')" "s' = at_gm mgr'"
      using assms init Inr by (auto simp: gm_auto_tests_body_def bindE_def split: prod.splits)
    ultimately show thesis using init Inr s1 by (intro tested) simp_all
  qed
qed

lemma stays_gm_auto_tests_body:
  "stays exp_view (gm_auto_tests_body E channel blink flash gps)"
  "stays gm_rlock (gm_auto_tests_body E channel blink flash gps)"
proof -
  have "exp_view s' = exp_view s \<and> gm_rlock s' = gm_rlock s"
    if run: "gm_auto_tests_body E channel blink flash gps s w = (r, s', w')" for s w r s' w'
    using run
  proof (cases rule: gm_auto_tests_body_cases)
    case (tested mgr w1 mgr')
    with stays_run [OF stays_auto_tests tested(3)] show ?thesis by (simp add: at_view_def)
  qed simp
  then show "stays exp_view (gm_auto_tests_body E channel blink flash gps)"
    "stays gm_rlock (gm_auto_tests_body E channel blink flash gps)"
    by (auto intro!: stays_keeps keepsI wpI)
qed

lemma gm_auto_tests_free:
  assumes "gm_rlock s = None" and "gm_auto_tests E t channel blink flash gps s w = (r, s', w')"
  shows "exp_view s' = exp_view s \<and> (r \<noteq> Inl Blocked \<longrightarrow> gm_rlock s' = None)"
proof -
  from gm_sync_free [OF holds_lock_stays [OF stays_gm_auto_tests_body(2)] assms(1) assms(2) [unfolded gm_auto_tests_def]]
  obtain s1 where s1: "gm_auto_tests_body E channel blink flash gps (s\<lparr>gm_rlock := Some (t, Suc 0)\<rparr>) w = (r, s1, w')"
    "exp_view s' = exp_view s1" "r \<noteq> Inl Blocked \<longrightarrow> gm_rlock s' = None" .
  from stays_run [OF stays_gm_auto_tests_body(1) s1(1)] s1(2,3) show ?thesis by simp
qed

text \<open>C17: the autotests leave the experiments alone.  A call that gets the lock runs to its end without
  touching the experiment that the manager has (whether one runs, its owner, files, log and
  expiry) and gives the lock back whatever happens, unless it never returns; a call while
  another thread is in a method of the manager raises EWOULDBLOCK at once and changes nothing.\<close>

theorem auto_tests_isolated:
  assumes "gm_auto_tests E t channel blink flash gps s w = (r, s', w')" and "map_option fst (gm_rlock s) \<noteq> Some t"
  shows "exp_view s' = exp_view s
       \<and> (gm_rlock s = None \<longrightarrow> r \<noteq> Inl Blocked \<longrightarrow> gm_rlock s' = None)
       \<and> (gm_rlock s \<noteq> None \<longrightarrow> r = Inl (EnvironmentErr EWOULDBLOCK) \<and> s' = s \<and> w' = w)"
proof (cases "gm_rlock s")
  case None
  with gm_auto_tests_free [OF None assms(1)] show ?thesis by simp
next
  case (Some l)
  obtain t' n where l: "l = (t', n)" by (cases l)
  with Some assms(2) have busy: "gm_rlock s = Some (t', n)" "t' \<noteq> t" by auto
  from assms(1) Some show ?thesis by (simp add: gm_auto_tests_def gm_sync_busy [OF busy])
qed

theorem auto_tests_isolated_witness:
  "\<exists>r s' w'. gm_auto_tests m3_env 1 None False False False running_manager world0 = (r, s', w')
     \<and> gm_running s' \<and> gm_timer s' = Some (60, 2, ''u'') \<and> (r \<noteq> Inl Blocked \<longrightarrow> gm_rlock s' = None)"
proof -
  obtain r s' w' where run: "gm_auto_tests m3_env 1 None False False False running_manager world0 = (r, s', w')"
    by (metis prod.collapse)
  have free: "gm_rlock running_manager = None" by (simp add: running_manager_def m3_manager_def)
  then have "map_option fst (gm_rlock running_manager) \<noteq> Some 1" by simp
  from auto_tests_isolated [OF run this] free run show ?thesis
    by (auto simp: exp_view_def running_manager_def)
qed

lemma stays_on_serial_setup: "stays at_on_serial (setup_control_node E)" "stays at_on_serial (open_node_start E)"
  unfolding setup_control_node_def at_assert_def at_check_def open_node_start_def
  by (intro stays_rules stays_zoomE stays_putE; simp)+

text \<open>C39: a setup of the control node that fails.  On a board with LEDs, the teardown that follows uses
  the connection to the open node, which was never made, and raises AttributeError: the caller gets
  an exception instead of the result, and the control node, whose serial interface may have been
  started, is left as it is.\<close>

theorem auto_tests_setup_failed:
  assumes "setup_control_node E (s\<lparr>at_tested := []\<rparr>) w = (Inl FatalErr, s1, w1)"
    and "open_node_start E s1 w1 = (Inr n, s2, w2)"
    and "at_on_serial s = None" and "available_tests s = Some available" and "{''leds_off'', ''leds_blink''} \<subseteq> set available"
  shows "\<exists>s'. auto_tests E channel blink flash gps s w = (Inl AttributeErr, s', w2) \<and> at_gm s' = at_gm s2"
proof -
  have "at_on_serial s2 = None"
    using stays_run [OF stays_on_serial_setup(1) assms(1)] stays_run [OF stays_on_serial_setup(2) assms(2)] assms(3) by simp
  moreover have "available_tests s2 = Some available"
    using stays_run [OF stays_setup_control_node assms(1)] stays_run [OF stays_open_node_start assms(2)] assms(4)
    by (simp add: at_view_def available_tests_def cong: option.case_cong)
  ultimately have "\<exists>s'. set_result_leds E b s2 w2 = (Inl AttributeErr, s', w2) \<and> at_gm s' = at_gm s2" for b
    using assms(5)
    by (auto simp: set_result_leds_def set_results_leds_def autotest_checker_def object_attr_has_def on_call_def
        on_serial_send_command_def with_on_serial_def bindE_def getE_def thenE_def putE_def tryE_def raiseE_def)
  then obtain s' where s': "set_result_leds E False s2 w2 = (Inl AttributeErr, s', w2)" "at_gm s' = at_gm s2" by blast
  have "run_tests 0 (all_tests E channel flash gps) (s\<lparr>at_tested := []\<rparr>) w = (Inr 1, s1, w1)"
    using assms(1) by (simp add: all_tests_def ignoreE_def bindE_def thenE_def tryE_def retE_def)
  with s' assms(2) show ?thesis
    by (simp add: auto_tests_def at_teardown_def sum_rets.simps bindE_def thenE_def putE_def)
qed

theorem auto_tests_setup_failed_witness:
  "\<exists>s' w'. auto_tests working_env None False False False
       \<lparr>at_gm = m3_manager (OnOpenOCD m3_open_node) (CnNo (ControlNodeNo_init ''m3-1'' default_profile)),
        at_on_class = NodeM3 working_env, at_cn_class = ControlClass ClassNo, at_linux_on_class = None,
        at_on_serial = None, at_linux = None, at_success = [], at_error = [], at_mac = [], at_uid = None, at_tested = []\<rparr>
       world0 = (Inl AttributeErr, s', w')"
proof -
  let ?s = "\<lparr>at_gm = m3_manager (OnOpenOCD m3_open_node) (CnNo (ControlNodeNo_init ''m3-1'' default_profile)),
        at_on_class = NodeM3 working_env, at_cn_class = ControlClass ClassNo, at_linux_on_class = None,
        at_on_serial = None, at_linux = None, at_success = [], at_error = [], at_mac = [], at_uid = None, at_tested = []\<rparr>"
  have "\<not> mac_ok []" "py_strip [] = []" by code_simp+
  moreover have "e_output working_env v args = Output []" for v args by (simp add: working_env_def)
  ultimately have "\<exists>s1 w1. setup_control_node working_env (?s\<lparr>at_tested := []\<rparr>) world0 = (Inl FatalErr, s1, w1)
      \<and> at_cn_class s1 = ControlClass ClassNo"
    by (simp add: setup_control_node_def cn_autotest_setup_def cn_dispatch_def m3_manager_def zoomE_def liftE_def
        get_local_mac_addr_def py_check_output_def at_assert_def at_check_def tst_ok_def bindE_def thenE_def putE_def
        retE_def raiseE_def askE_def emitE_def)
  then obtain s1 w1 where fatal: "setup_control_node working_env (?s\<lparr>at_tested := []\<rparr>) world0 = (Inl FatalErr, s1, w1)"
    and cn: "at_cn_class s1 = ControlClass ClassNo" by blast
  from cn have start: "open_node_start working_env s1 w1 = (Inr 0, s1, w1)"
    by (simp add: open_node_start_def control_node_checker_def bindE_def getE_def object_attr_has_def retE_def)
  have "available_tests ?s = b_AUTOTEST_AVAILABLE (NodeM3 working_env)" by (simp add: available_tests_def)
  then have "\<exists>available. available_tests ?s = Some available \<and> {''leds_off'', ''leds_blink''} \<subseteq> set available"
    by (simp add: board_defs)
  then obtain available where "available_tests ?s = Some available" "{''leds_off'', ''leds_blink''} \<subseteq> set available" by blast
  from auto_tests_setup_failed [OF fatal start _ this, of None False False False] show ?thesis by auto
qed

end
