(* ===== verification/Rest_Server.thy ===== *)
theory Rest_Server
  imports Autotest_Results
begin

text \<open>
  Model of \<^verbatim>\<open>gateway_code/rest_server.py\<close>: the routes that the server registers for a board, the
  handlers with the decoding of their arguments, and the answer to a request that finds the manager
  busy.  The web framework is not modelled: a request is a record of what the handlers read of
  it, and a handler is called with the parts of its path.
\<close>

section \<open>Requests and answers\<close>

record upload =
  up_filename :: string
  up_file :: string

text \<open>
  A query field that is not there reads as the empty string.  A file that is not there is None: a
  KeyError, or a ValueError without a multipart body, which the handlers treat alike.  \<open>request.json\<close>
  is the value None without a JSON body; a body that is not JSON is a ValueError, here None.
\<close>

record request =
  rq_query :: "string \<Rightarrow> string"
  rq_files :: "string \<Rightarrow> upload option"
  rq_json :: "pyval option"

datatype rest_answer =
    AnsRet int                      \<comment> \<open>\<open>{'ret': ret}\<close>\<close>
  | AnsError int string             \<comment> \<open>\<open>{'ret': ret, 'error': message}\<close>\<close>
  | AnsInvalid string               \<comment> \<open>\<open>{'ret': 1, 'success': [], 'errors': [message]}\<close>\<close>
  | AnsTests autotest_result
  | AnsUnavailable                  \<comment> \<open>status 503\<close>

type_synonym rest_act = "(gateway_manager, rest_answer) act"

section \<open>Files of a request\<close>

text \<open>\<open>_extract_profile\<close>; None is the ValueError of \<open>json.loads\<close>\<close>

definition extract_profile :: "env \<Rightarrow> request \<Rightarrow> pyval option" where
  "extract_profile E rq =
     (case rq_files rq ''profile'' of None \<Rightarrow> Some PNone | Some prof \<Rightarrow> e_json E (up_file prof))"

text \<open>
  \<open>_extract_firmware\<close> and the rest of the handler, which gets the name of the temporary file.  The file
  is removed when it is closed, or when the last reference to it goes as the handler ends.
\<close>

definition extract_firmware :: "env \<Rightarrow> request \<Rightarrow> (string option \<Rightarrow> ('s, 'a) act) \<Rightarrow> ('s, 'a) act" where
  "extract_firmware E rq body =
     (case rq_files rq ''firmware'' of
        None \<Rightarrow> body None
      | Some firm \<Rightarrow>
          bindE (askE (\<lambda>w. e_tempname E w (''--'' @ up_filename firm))) (\<lambda>name.
          bindE (askE (\<lambda>w. e_create E w name)) (\<lambda>r.
            case r of
              Some n \<Rightarrow> raiseE (OSErr n)
            | None \<Rightarrow>
                thenE (emitE E (CreateFile name))
                (finallyE (body (Some name)) (emitE E (RemoveFile name))))))"

section \<open>Handlers\<close>

definition answer_ret :: "int gm_act \<Rightarrow> rest_act" where
  "answer_ret m = bindE m (\<lambda>ret. retE (AnsRet ret))"

definition query_timeout :: "request \<Rightarrow> int" where
  "query_timeout rq = (case py_int (rq_query rq ''timeout'') of None \<Rightarrow> 0 | Some n \<Rightarrow> max 0 n)"

definition rest_exp_start :: "env \<Rightarrow> thread \<Rightarrow> request \<Rightarrow> string \<Rightarrow> int \<Rightarrow> rest_act" where
  "rest_exp_start E t rq user exp_id =
     extract_firmware E rq (\<lambda>firmware.
       case extract_profile E rq of
         None \<Rightarrow> retE (AnsRet 1)
       | Some prof \<Rightarrow> answer_ret (exp_start E t user exp_id firmware prof (query_timeout rq)))"

definition rest_exp_stop :: "env \<Rightarrow> thread \<Rightarrow> rest_act" where
  "rest_exp_stop E t = answer_ret (exp_stop E t)"

definition rest_exp_update_profile :: "env \<Rightarrow> thread \<Rightarrow> request \<Rightarrow> rest_act" where
  "rest_exp_update_profile E t rq =
     (case rq_json rq of
        None \<Rightarrow> retE (AnsRet 1)
      | Some prof \<Rightarrow> answer_ret (exp_update_profile E t prof))"

definition query_binary :: "request \<Rightarrow> exc + bool" where
  "query_binary rq =
     (let binary_value = rq_query rq ''binary'' in if binary_value = [] then Inr False else booleanize (PStr binary_value))"

definition query_offset :: "request \<Rightarrow> exc + int" where
  "query_offset rq =
     (let offset_value = rq_query rq ''offset'' in
      if offset_value = [] then Inr 0
      else case py_int offset_value of None \<Rightarrow> Inl ValueErr | Some n \<Rightarrow> Inr n)"

definition rest_open_flash :: "env \<Rightarrow> thread \<Rightarrow> request \<Rightarrow> rest_act" where
  "rest_open_flash E t rq =
     (case query_binary rq of
        Inl e \<Rightarrow> raiseE e
      | Inr binary \<Rightarrow>
          (case query_offset rq of
             Inl e \<Rightarrow> raiseE e
           | Inr offset \<Rightarrow>
               extract_firmware E rq (\<lambda>firmware.
                 if firmware = None then retE (AnsError 1 (''Wrong file args: required '' @ [CHR 0x27] @ ''firmware'' @ [CHR 0x27]))
                 else answer_ret (node_flash E t ''open'' firmware binary offset))))"

definition rest_open_flash_idle :: "env \<Rightarrow> thread \<Rightarrow> rest_act" where
  "rest_open_flash_idle E t = answer_ret (node_flash E t ''open'' None False 0)"

definition rest_open_soft_reset :: "env \<Rightarrow> thread \<Rightarrow> rest_act" where
  "rest_open_soft_reset E t = answer_ret (node_soft_reset E t ''open'')"

definition rest_open_start :: "env \<Rightarrow> thread \<Rightarrow> rest_act" where
  "rest_open_start E t = answer_ret (open_power_start E t None)"

definition rest_open_stop :: "env \<Rightarrow> thread \<Rightarrow> rest_act" where
  "rest_open_stop E t = answer_ret (open_power_stop E t None)"

definition rest_open_debug_start :: "env \<Rightarrow> thread \<Rightarrow> rest_act" where
  "rest_open_debug_start E t = answer_ret (gm_open_debug_start E t)"

definition rest_open_debug_stop :: "env \<Rightarrow> thread \<Rightarrow> rest_act" where
  "rest_open_debug_stop E t = answer_ret (gm_open_debug_stop E t)"

text \<open>The arguments of the autotests; \<open>bool(s and int(s))\<close> is False for an empty string.\<close>

definition query_channel :: "request \<Rightarrow> string + int option" where
  "query_channel rq =
     (let channel_str = rq_query rq ''channel'' in
      if channel_str = [] then Inr None
      else if py_isdigit channel_str then
        (case py_int channel_str of
           Some n \<Rightarrow> if 11 \<le> n \<and> n < 27 then Inr (Some n) else Inl ''invalid_channel''
         | None \<Rightarrow> Inl ''invalid_channel'')
      else Inl ''invalid_channel'')"

definition query_flag :: "request \<Rightarrow> string \<Rightarrow> string \<Rightarrow> string + bool" where
  "query_flag rq name message =
     (let flag_str = rq_query rq name in
      if flag_str = [] then Inr False
      else case py_int flag_str of None \<Rightarrow> Inl message | Some n \<Rightarrow> Inr (n \<noteq> 0))"

definition auto_tests_args :: "request \<Rightarrow> string option \<Rightarrow> string + (int option \<times> bool \<times> bool \<times> bool)" where
  "auto_tests_args rq mode =
     (if mode \<noteq> None \<and> mode \<noteq> Some ''blink'' then Inl ''invalid_mode''
      else case query_channel rq of
        Inl m \<Rightarrow> Inl m
      | Inr channel \<Rightarrow>
          (case query_flag rq ''gps'' ''invalid_gps_option'' of
             Inl m \<Rightarrow> Inl m
           | Inr gps \<Rightarrow>
               (case query_flag rq ''flash'' ''invalid_flash_option'' of
                  Inl m \<Rightarrow> Inl m
                | Inr flash \<Rightarrow> Inr (channel, mode = Some ''blink'', flash, gps))))"

definition rest_auto_tests :: "env \<Rightarrow> thread \<Rightarrow> request \<Rightarrow> string option \<Rightarrow> rest_act" where
  "rest_auto_tests E t rq mode =
     (case auto_tests_args rq mode of
        Inl message \<Rightarrow> retE (AnsInvalid message)
      | Inr (channel, blink, flash, gps) \<Rightarrow>
          bindE (gm_auto_tests E t channel blink flash gps) (\<lambda>ret_dict. retE (AnsTests ret_dict)))"

definition rest_sleep :: "env \<Rightarrow> thread \<Rightarrow> int \<Rightarrow> rest_act" where
  "rest_sleep E t secs = answer_ret (gm_sleep E t secs)"

definition rest_status :: "env \<Rightarrow> thread \<Rightarrow> rest_act" where
  "rest_status E t = answer_ret (gm_status E t)"

section \<open>Routes\<close>

text \<open>The handlers, with the arguments that are in the path.\<close>

datatype rest_route =
    RExpStart string int | RExpStop | RStatus | RExpUpdate | ROpenStart | ROpenStop | RAutoTests "string option"
  | RSleep int | ROpenFlash | ROpenFlashIdle | ROpenReset | ROpenDebugStart | ROpenDebugStop

fun rest_handler :: "env \<Rightarrow> thread \<Rightarrow> request \<Rightarrow> rest_route \<Rightarrow> rest_act" where
  "rest_handler E t rq (RExpStart user exp_id) = rest_exp_start E t rq user exp_id"
| "rest_handler E t rq RExpStop = rest_exp_stop E t"
| "rest_handler E t rq RStatus = rest_status E t"
| "rest_handler E t rq RExpUpdate = rest_exp_update_profile E t rq"
| "rest_handler E t rq ROpenStart = rest_open_start E t"
| "rest_handler E t rq ROpenStop = rest_open_stop E t"
| "rest_handler E t rq (RAutoTests mode) = rest_auto_tests E t rq mode"
| "rest_handler E t rq (RSleep secs) = rest_sleep E t secs"
| "rest_handler E t rq ROpenFlash = rest_open_flash E t rq"
| "rest_handler E t rq ROpenFlashIdle = rest_open_flash_idle E t"
| "rest_handler E t rq ROpenReset = rest_open_soft_reset E t"
| "rest_handler E t rq ROpenDebugStart = rest_open_debug_start E t"
| "rest_handler E t rq ROpenDebugStop = rest_open_debug_stop E t"

text \<open>\<open>_cb_wrap\<close>: every handler is registered inside it\<close>

definition cb_wrap :: "rest_act \<Rightarrow> rest_act" where
  "cb_wrap func =
     tryE func (\<lambda>e. if environment_errno e = Some EWOULDBLOCK then Some (retE AnsUnavailable) else None)"

definition rest_call :: "env \<Rightarrow> thread \<Rightarrow> request \<Rightarrow> rest_route \<Rightarrow> rest_act" where
  "rest_call E t rq r = cb_wrap (rest_handler E t rq r)"

text \<open>The methods of the open node classes, and of the control node classes, that a route may depend on.\<close>

fun board_methods :: "board_kind \<Rightarrow> string list" where
  "board_methods KOpenOCD = [''flash'', ''reset'', ''debug_start'', ''debug_stop'']"
| "board_methods KEdbg = [''flash'', ''reset'', ''debug_start'', ''debug_stop'']"
| "board_methods KLeonardo = [''flash'', ''reset'']"
| "board_methods KZigduino = [''flash'', ''reset'']"
| "board_methods KFirefly = [''flash'', ''reset'']"
| "board_methods KA8 = []"
| "board_methods KRpi3 = []"
| "board_methods KPycom = [''flash'', ''reset'']"
| "board_methods KLora = [''flash'', ''reset'']"
| "board_methods KRtlSdr = [''flash'', ''reset'']"

fun class_methods :: "node_class \<Rightarrow> string list" where
  "class_methods (OpenClass _) = []"
| "class_methods (ControlClass ClassNo) = []"
| "class_methods (ControlClass _) = [''open_start'', ''open_stop'']"

text \<open>A route is its path, its method and the name of its handler.\<close>

type_synonym route = "string \<times> string \<times> string"

definition cond_route :: "string list \<Rightarrow> string \<Rightarrow> route \<Rightarrow> route list" where
  "cond_route methods func route = (if func \<in> set methods then [route] else [])"

definition app_routing :: "board_config \<Rightarrow> route list" where
  "app_routing cfg =
     (let on = board_methods (b_kind (bc_board_class cfg)); cn = class_methods (bc_cn_class cfg) in
      [(''/exp/start/<exp_id:int>/<user>'', ''POST'', ''exp_start''),
       (''/exp/stop'', ''DELETE'', ''exp_stop''),
       (''/status'', ''GET'', ''status''),
       (''/exp/update'', ''POST'', ''exp_update_profile'')]
      @ cond_route cn ''open_start'' (''/open/start'', ''PUT'', ''open_start'')
      @ cond_route cn ''open_stop'' (''/open/stop'', ''PUT'', ''open_stop'')
      @ [(''/autotest'', ''PUT'', ''auto_tests''),
         (''/autotest/<mode>'', ''PUT'', ''auto_tests''),
         (''/sleep/<seconds:int>'', ''GET'', ''sleep'')]
      @ cond_route on ''flash'' (''/open/flash'', ''POST'', ''open_flash'')
      @ cond_route on ''flash'' (''/open/flash/idle'', ''PUT'', ''open_flash_idle'')
      @ cond_route on ''reset'' (''/open/reset'', ''PUT'', ''open_soft_reset'')
      @ cond_route on ''debug_start'' (''/open/debug/start'', ''PUT'', ''open_debug_start'')
      @ cond_route on ''debug_stop'' (''/open/debug/stop'', ''PUT'', ''open_debug_stop''))"

fun handler_name :: "rest_route \<Rightarrow> string" where
  "handler_name (RExpStart _ _) = ''exp_start''"
| "handler_name RExpStop = ''exp_stop''"
| "handler_name RStatus = ''status''"
| "handler_name RExpUpdate = ''exp_update_profile''"
| "handler_name ROpenStart = ''open_start''"
| "handler_name ROpenStop = ''open_stop''"
| "handler_name (RAutoTests _) = ''auto_tests''"
| "handler_name (RSleep _) = ''sleep''"
| "handler_name ROpenFlash = ''open_flash''"
| "handler_name ROpenFlashIdle = ''open_flash_idle''"
| "handler_name ROpenReset = ''open_soft_reset''"
| "handler_name ROpenDebugStart = ''open_debug_start''"
| "handler_name ROpenDebugStop = ''open_debug_stop''"

definition registered :: "route list \<Rightarrow> rest_route \<Rightarrow> bool" where
  "registered routes r = list_ex (\<lambda>(_, _, name). name = handler_name r) routes"

definition GatewayRest_init :: "env \<Rightarrow> ('s, route list) act" where
  "GatewayRest_init E = bindE (BoardConfig_init E) (\<lambda>cfg. retE (app_routing cfg))"

text \<open>\<open>_main\<close> up to the call of \<open>run\<close>: make the manager, set it up, make the server\<close>

definition rest_main :: "env \<Rightarrow> thread \<Rightarrow> ('s, gateway_manager \<times> route list) act" where
  "rest_main E t =
     bindE (GatewayManager_init E) (\<lambda>gm s w.
       case gm_setup E t gm w of
         (Inl e, _, w') \<Rightarrow> (Inl e, s, w')
       | (Inr _, gm', w') \<Rightarrow> bindE (GatewayRest_init E) (\<lambda>routes. retE (gm', routes)) s w')"

section \<open>A request as a call of the manager\<close>

text \<open>
  What a request comes to: an answer or an exception that depends on the request only, or one call
  of the manager.
\<close>

datatype rest_plan = PlanAnswer rest_answer | PlanValueErr | PlanCall gm_op | PlanTests "int option" bool bool bool

definition plan_profile :: "pyval option \<Rightarrow> (pyval \<Rightarrow> gm_op) \<Rightarrow> rest_plan" where
  "plan_profile p op = (case p of None \<Rightarrow> PlanAnswer (AnsRet 1) | Some v \<Rightarrow> PlanCall (op v))"

fun plan_of :: "env \<Rightarrow> request \<Rightarrow> rest_route \<Rightarrow> string option \<Rightarrow> rest_plan" where
  "plan_of E rq (RExpStart user exp_id) fw =
     plan_profile (extract_profile E rq) (\<lambda>p. GmStart user exp_id fw p (query_timeout rq))"
| "plan_of E rq RExpStop fw = PlanCall GmStop"
| "plan_of E rq RStatus fw = PlanCall GmStatus"
| "plan_of E rq RExpUpdate fw = plan_profile (rq_json rq) GmUpdate"
| "plan_of E rq ROpenStart fw = PlanCall (GmPowerStart None)"
| "plan_of E rq ROpenStop fw = PlanCall (GmPowerStop None)"
| "plan_of E rq (RAutoTests mode) fw =
     (case auto_tests_args rq mode of
        Inl m \<Rightarrow> PlanAnswer (AnsInvalid m)
      | Inr (channel, blink, flash, gps) \<Rightarrow> PlanTests channel blink flash gps)"
| "plan_of E rq (RSleep secs) fw = PlanCall (GmSleep secs)"
| "plan_of E rq ROpenFlash fw =
     (case (query_binary rq, query_offset rq) of
        (Inl _, _) \<Rightarrow> PlanValueErr
      | (_, Inl _) \<Rightarrow> PlanValueErr
      | (Inr binary, Inr offset) \<Rightarrow>
          if fw = None then PlanAnswer (AnsError 1 (''Wrong file args: required '' @ [CHR 0x27] @ ''firmware'' @ [CHR 0x27]))
          else PlanCall (GmFlash ''open'' fw binary offset))"
| "plan_of E rq ROpenFlashIdle fw = PlanCall (GmFlash ''open'' None False 0)"
| "plan_of E rq ROpenReset fw = PlanCall (GmReset ''open'')"
| "plan_of E rq ROpenDebugStart fw = PlanCall GmDebugStart"
| "plan_of E rq ROpenDebugStop fw = PlanCall GmDebugStop"

text \<open>Whether the firmware of the request is saved first.\<close>

definition rest_upload :: "request \<Rightarrow> rest_route \<Rightarrow> bool" where
  "rest_upload rq r =
     (case r of
        RExpStart _ _ \<Rightarrow> True
      | ROpenFlash \<Rightarrow> \<not> isl (query_binary rq) \<and> \<not> isl (query_offset rq)
      | _ \<Rightarrow> False)"

fun run_plan :: "env \<Rightarrow> thread \<Rightarrow> rest_plan \<Rightarrow> rest_act" where
  "run_plan E t (PlanAnswer a) = retE a"
| "run_plan E t PlanValueErr = raiseE ValueErr"
| "run_plan E t (PlanCall op) = answer_ret (gm_run E t op)"
| "run_plan E t (PlanTests channel blink flash gps) =
     bindE (gm_auto_tests E t channel blink flash gps) (\<lambda>d. retE (AnsTests d))"

lemma query_errors: "query_binary rq = Inl e \<Longrightarrow> e = ValueErr" "query_offset rq = Inl e \<Longrightarrow> e = ValueErr"
  by (auto simp: query_binary_def query_offset_def Let_def split: if_splits option.splits)

lemma rest_handler_plan:
  "rest_handler E t rq r =
     (if rest_upload rq r then extract_firmware E rq (\<lambda>fw. run_plan E t (plan_of E rq r fw))
      else run_plan E t (plan_of E rq r None))"
proof (cases r)
  case (RExpStart user exp_id)
  have "(case extract_profile E rq of
         None \<Rightarrow> retE (AnsRet 1)
       | Some prof \<Rightarrow> answer_ret (exp_start E t user exp_id fw prof (query_timeout rq)))
      = run_plan E t (plan_of E rq r fw)" for fw
    by (simp add: RExpStart plan_profile_def split: option.split)
  then show ?thesis by (simp add: RExpStart rest_exp_start_def rest_upload_def)
next
  case ROpenFlash
  show ?thesis
  proof (cases "query_binary rq"; cases "query_offset rq")
    fix b n assume q: "query_binary rq = Inr b" "query_offset rq = Inr n"
    then have "(if fw = None then retE (AnsError 1 (''Wrong file args: required '' @ [CHR 0x27] @ ''firmware'' @ [CHR 0x27]))
                else answer_ret (node_flash E t ''open'' fw b n)) = run_plan E t (plan_of E rq r fw)" for fw
      by (simp add: ROpenFlash)
    with q show ?thesis by (simp add: ROpenFlash rest_open_flash_def rest_upload_def)
  qed (auto simp: ROpenFlash rest_open_flash_def rest_upload_def dest: query_errors)
next
  case (RAutoTests mode)
  then show ?thesis by (simp add: rest_auto_tests_def rest_upload_def split: sum.split prod.split)
next
  case RExpUpdate
  then show ?thesis by (simp add: rest_exp_update_profile_def rest_upload_def plan_profile_def split: option.split)
qed (simp_all add: rest_upload_def rest_exp_stop_def rest_status_def rest_open_start_def
    rest_open_stop_def rest_sleep_def rest_open_flash_idle_def rest_open_soft_reset_def rest_open_debug_start_def
    rest_open_debug_stop_def)

section \<open>Lemmas: one request\<close>

text \<open>What \<open>_cb_wrap\<close> makes of the result of a handler.\<close>

fun wrapped :: "exc + rest_answer \<Rightarrow> exc + rest_answer" where
  "wrapped (Inl e) = (if environment_errno e = Some EWOULDBLOCK then Inr AnsUnavailable else Inl e)"
| "wrapped (Inr a) = Inr a"

lemma cb_wrap_run: "cb_wrap m s w = (case m s w of (x, s', w') \<Rightarrow> (wrapped x, s', w'))"
  by (auto simp: cb_wrap_def tryE_def retE_def split: prod.split sum.split)

lemma wrapped_Blocked [simp]: "wrapped x = Inl Blocked \<longleftrightarrow> x = Inl Blocked"
  by (cases x) auto

text \<open>
  A request is refused before anything is done, or its plan is run, with the temporary file
  around it.
\<close>

definition around :: "env \<Rightarrow> string option \<Rightarrow> world \<Rightarrow> world" where
  "around E fw w = (case fw of None \<Rightarrow> w | Some f \<Rightarrow> log_event E (CreateFile f) w)"

definition after :: "env \<Rightarrow> string option \<Rightarrow> world \<Rightarrow> world" where
  "after E fw w = (case fw of None \<Rightarrow> w | Some f \<Rightarrow> log_event E (RemoveFile f) w)"

lemma extract_firmware_run:
  "(\<exists>n. \<forall>s. extract_firmware E rq body s w = (Inl (OSErr n), s, w))
   \<or> (\<exists>fw. \<forall>s. extract_firmware E rq body s w =
        (case body fw s (around E fw w) of
           (x, s', w') \<Rightarrow> (x, s', if x = Inl Blocked then w' else after E fw w')))"
proof (cases "rq_files rq ''firmware''")
  case None
  then have "\<forall>s. extract_firmware E rq body s w =
      (case body None s (around E None w) of
         (x, s', w') \<Rightarrow> (x, s', if x = Inl Blocked then w' else after E None w'))"
    by (simp add: extract_firmware_def around_def after_def split: prod.split)
  then show ?thesis by blast
next
  case (Some firm)
  let ?f = "e_tempname E w (''--'' @ up_filename firm)"
  show ?thesis
  proof (cases "e_create E w ?f")
    case None
    with Some have "\<forall>s. extract_firmware E rq body s w =
        (case body (Some ?f) s (around E (Some ?f) w) of
           (x, s', w') \<Rightarrow> (x, s', if x = Inl Blocked then w' else after E (Some ?f) w'))"
      by (simp add: extract_firmware_def around_def after_def bindE_def askE_def thenE_def emitE_def finallyE_def
          split: prod.split sum.split)
    then show ?thesis by blast
  next
    case (Some n)
    with \<open>rq_files rq ''firmware'' = _\<close> show ?thesis
      by (simp add: extract_firmware_def bindE_def askE_def raiseE_def)
  qed
qed

lemma rest_call_cases:
  obtains (refused) n where "\<And>s. rest_call E t rq r s w = (wrapped (Inl (OSErr n)), s, w)"
  | (served) fw where "\<And>s. rest_call E t rq r s w =
      (case run_plan E t (plan_of E rq r fw) s (around E fw w) of
         (x, s', w') \<Rightarrow> (wrapped x, s', if x = Inl Blocked then w' else after E fw w'))"
proof (cases "rest_upload rq r")
  case True
  from extract_firmware_run [of E rq "\<lambda>fw. run_plan E t (plan_of E rq r fw)" w] show thesis
  proof
    assume "\<exists>n. \<forall>s. extract_firmware E rq (\<lambda>fw. run_plan E t (plan_of E rq r fw)) s w = (Inl (OSErr n), s, w)"
    then obtain n where "\<forall>s. extract_firmware E rq (\<lambda>fw. run_plan E t (plan_of E rq r fw)) s w = (Inl (OSErr n), s, w)" ..
    with True show thesis
      by (intro refused [of n]) (simp_all add: rest_call_def cb_wrap_run rest_handler_plan)
  next
    assume "\<exists>fw. \<forall>s. extract_firmware E rq (\<lambda>fw. run_plan E t (plan_of E rq r fw)) s w =
        (case run_plan E t (plan_of E rq r fw) s (around E fw w) of
           (x, s', w') \<Rightarrow> (x, s', if x = Inl Blocked then w' else after E fw w'))"
    then obtain fw where "\<forall>s. extract_firmware E rq (\<lambda>fw. run_plan E t (plan_of E rq r fw)) s w =
        (case run_plan E t (plan_of E rq r fw) s (around E fw w) of
           (x, s', w') \<Rightarrow> (x, s', if x = Inl Blocked then w' else after E fw w'))" ..
    with True show thesis
      by (intro served [of fw]) (simp add: rest_call_def cb_wrap_run rest_handler_plan split: prod.split)
  qed
next
  case False
  then show thesis
    by (intro served [of None]) (simp add: rest_call_def cb_wrap_run rest_handler_plan around_def after_def split: prod.split)
qed

section \<open>The running server\<close>

text \<open>
  The server after its start, before which no command was sent to the control node: requests on
  registered routes one after the other, the timer of an experiment, and time that goes by.
\<close>

inductive rest_reach :: "env \<Rightarrow> route list \<Rightarrow> gateway_manager \<Rightarrow> world \<Rightarrow> bool" for E where
  up: "cn_log w = [] \<Longrightarrow> rest_main E t () w = (Inr (gm, routes), u, w') \<Longrightarrow> rest_reach E routes gm w'"
| request: "rest_reach E routes gm w \<Longrightarrow> registered routes r \<Longrightarrow> rest_call E t rq r gm w = (x, gm', w')
    \<Longrightarrow> x \<noteq> Inl Blocked \<Longrightarrow> rest_reach E routes gm' w'"
| timer: "rest_reach E routes gm w \<Longrightarrow> timeout_exp_stop E t exp_id user gm w = (x, gm', w') \<Longrightarrow> x \<noteq> Inl Blocked
    \<Longrightarrow> rest_reach E routes gm' w'"
| time: "rest_reach E routes gm w \<Longrightarrow> now w \<le> n \<Longrightarrow> rest_reach E routes gm (w\<lparr>now := n\<rparr>)"

lemma run_plan_ok:
  assumes "run_plan E t p s w = (y, s', w')" and "gm_inv s" and "gm_rlock s = None"
  shows "gm_inv s' \<and> (y \<noteq> Inl Blocked \<longrightarrow> gm_rlock s' = None)"
proof (cases p)
  case (PlanCall op)
  then obtain z where z: "gm_run E t op s w = (z, s', w')" "y = Inl Blocked \<longleftrightarrow> z = Inl Blocked"
    using assms(1) by (auto simp: answer_ret_def bindE_def retE_def split: prod.splits sum.splits)
  with gm_call_outcome [OF assms(2,3) z(1)] show ?thesis by blast
next
  case (PlanTests channel blink flash gps)
  then obtain z where z: "gm_auto_tests E t channel blink flash gps s w = (z, s', w')" "y = Inl Blocked \<longleftrightarrow> z = Inl Blocked"
    using assms(1) by (auto simp: bindE_def retE_def split: prod.splits sum.splits)
  from gm_auto_tests_free [OF assms(3) z(1)] gm_inv_view [of s' s] assms(2) z(2) show ?thesis by blast
qed (use assms in \<open>auto simp: retE_def raiseE_def\<close>)

lemma rest_call_ok:
  assumes "rest_call E t rq r s w = (x, s', w')" and "gm_inv s" and "gm_rlock s = None"
  shows "gm_inv s' \<and> (x \<noteq> Inl Blocked \<longrightarrow> gm_rlock s' = None)"
proof (cases rule: rest_call_cases [of E t rq r w])
  case (served fw)
  obtain y s1 w1 where y: "run_plan E t (plan_of E rq r fw) s (around E fw w) = (y, s1, w1)"
    by (cases "run_plan E t (plan_of E rq r fw) s (around E fw w)")
  with served [of s] assms(1) run_plan_ok [OF y assms(2,3)] show ?thesis by auto
qed (use assms in auto)

lemma rest_main_ok:
  assumes "rest_main E t () w = (Inr (gm, routes), u, w')"
  shows "gm_inv gm \<and> gm_rlock gm = None \<and> (\<exists>cfg. routes = app_routing cfg)"
proof -
  obtain gm0 w1 where init: "GatewayManager_init E () w = (Inr gm0, (), w1)"
    using assms by (auto simp: rest_main_def bindE_def split: prod.splits sum.splits)
  with assms obtain r w2 where ready: "gm_setup E t gm0 w1 = (Inr r, gm, w2)"
    by (auto simp: rest_main_def bindE_def retE_def split: prod.splits sum.splits)
  from init ready assms have "\<exists>cfg. routes = app_routing cfg"
    by (auto simp: rest_main_def bindE_def retE_def GatewayRest_init_def split: prod.splits sum.splits)
  with GatewayManager_init_idle [OF init] gm_call_outcome [OF _ _ gm_setup_flash [OF ready]] show ?thesis by simp
qed

lemma rest_reach_ok: "rest_reach E routes gm w \<Longrightarrow> gm_inv gm \<and> gm_rlock gm = None \<and> (\<exists>cfg. routes = app_routing cfg)"
proof (induction rule: rest_reach.induct)
  case (up w t gm routes u w')
  then show ?case by (intro rest_main_ok)
next
  case (request routes gm w r t rq x gm' w')
  then show ?case using rest_call_ok [OF request(3)] by blast
next
  case (timer routes gm w t exp_id user x gm' w')
  then have "\<exists>z. gm_run E t (GmTimeout exp_id user) gm w = (z, gm', w') \<and> (z = Inl Blocked \<longleftrightarrow> x = Inl Blocked)"
    by (auto simp: ignoreE_def bindE_def retE_def split: sum.splits)
  then obtain z where "gm_run E t (GmTimeout exp_id user) gm w = (z, gm', w')" "z \<noteq> Inl Blocked" using timer(3) by blast
  with gm_call_outcome [OF _ _ this(1)] timer.IH show ?case by simp
qed simp

lemma run_plan_busy:
  assumes "gm_rlock s = Some (t', n)" and "t' \<noteq> t"
  shows "run_plan E t p s w =
     (case p of PlanAnswer a \<Rightarrow> (Inr a, s, w) | PlanValueErr \<Rightarrow> (Inl ValueErr, s, w)
      | _ \<Rightarrow> (Inl (EnvironmentErr EWOULDBLOCK), s, w))"
  by (cases p) (simp_all add: retE_def raiseE_def answer_ret_def bindE_def gm_run_busy [OF assms] gm_auto_tests_def
      gm_sync_busy [OF assms])

section \<open>Properties\<close>

text \<open>C1: the server keeps the manager consistent.  Whatever requests arrive on the registered routes,
  with whatever arguments and files, and however they end, and whenever the timer of an
  experiment fires: between two of them the lock of the manager is free, the one log handler is that
  of the experiment, nothing is left of an experiment that is not running, and the timer belongs
  to the running experiment.\<close>

theorem rest_consistent:
  assumes "rest_reach E routes gm w"
  shows "gm_rlock gm = None
     \<and> gm_handlers gm = (case gm_user_log gm of None \<Rightarrow> [] | Some h \<Rightarrow> [h])
     \<and> (\<not> gm_running gm \<longrightarrow> gm_exp_id gm = None \<and> gm_user gm = None \<and> gm_exp_files gm = []
                          \<and> gm_user_log gm = None \<and> gm_timer gm = None)
     \<and> (gm_running gm \<longrightarrow> gm_exp_id gm \<noteq> None \<and> gm_user gm \<noteq> None)
     \<and> (\<forall>d i u. gm_timer gm = Some (d, i, u) \<longrightarrow> d \<noteq> 0 \<and> gm_exp_id gm = Some i \<and> gm_user gm = Some u)"
  using rest_reach_ok [OF assms] by (auto simp: gm_inv_def)

lemma m3_rest_main:
  "\<exists>on c w. rest_main m3_env t () world0 = (Inr (m3_manager on (CnIotlab c), app_routing m3_config), (), w)"
proof -
  obtain on c where made: "GatewayManager_init m3_env () world0 = (Inr (m3_manager on (CnIotlab c)), (), world0)"
    and oo: "openocd_ok (ci_openocd c) [''/static/iot-lab.cfg'', ''/static/iot-lab-cn.cfg'']"
      "oo_debug (ci_openocd c) = None"
    using m3_manager_made by blast
  obtain w where "gm_setup m3_env t (m3_manager on (CnIotlab c)) world0 = (Inr 0, m3_manager on (CnIotlab c), w)"
    using m3_manager_setup [OF oo] by blast
  with made have "rest_main m3_env t () world0 = (Inr (m3_manager on (CnIotlab c), app_routing m3_config), (), w)"
    by (simp add: rest_main_def bindE_def GatewayRest_init_def m3_env_config retE_def)
  then show ?thesis by blast
qed

theorem rest_consistent_witness:
  "\<exists>gm w. rest_reach m3_env (app_routing m3_config) gm w \<and> registered (app_routing m3_config) ROpenDebugStart
     \<and> gm_rlock gm = None \<and> gm_handlers gm = (case gm_user_log gm of None \<Rightarrow> [] | Some h \<Rightarrow> [h])"
proof -
  obtain gm w where "rest_main m3_env 0 () world0 = (Inr (gm, app_routing m3_config), (), w)" using m3_rest_main by blast
  then have reach: "rest_reach m3_env (app_routing m3_config) gm w" by (rule rest_reach.up [rotated]) (simp add: world0_def)
  moreover have "registered (app_routing m3_config) ROpenDebugStart"
    by (simp add: registered_def app_routing_def cond_route_def m3_config_def board_defs)
  ultimately show ?thesis using rest_consistent [OF reach] by blast
qed

text \<open>C5: a request while another one is in the manager.  It changes nothing of the manager, leaves
  no file behind and waits for nothing: it is answered with status 503, unless the
  request alone decides the answer.\<close>

theorem rest_busy:
  assumes "gm_rlock s = Some (t', n)" and "t' \<noteq> t" and "rest_call E t rq r s w = (x, s', w')"
  shows "s' = s
     \<and> (\<exists>f. trace w' \<in> {trace w, trace w @ [CreateFile f, RemoveFile f]})
     \<and> (x = Inr AnsUnavailable \<or> (\<forall>s2. fst (rest_call E t rq r s2 w) = x))"
proof (cases rule: rest_call_cases [of E t rq r w])
  case (served fw)
  let ?p = "plan_of E rq r fw"
  note busy = run_plan_busy [OF assms(1,2), of E ?p "around E fw w"]
  have "s' = s" "w' = after E fw (around E fw w)"
    using served [of s] assms(3) busy by (auto split: rest_plan.splits)
  moreover have "\<exists>f. trace (after E fw (around E fw w)) \<in> {trace w, trace w @ [CreateFile f, RemoveFile f]}"
    by (cases fw) (simp_all add: around_def after_def log_event_def)
  moreover have "x = Inr AnsUnavailable \<or> (\<forall>s2. fst (rest_call E t rq r s2 w) = x)"
  proof (cases ?p)
    case (PlanAnswer a)
    with served assms(3) show ?thesis by (simp add: retE_def)
  next
    case PlanValueErr
    with served assms(3) show ?thesis by (simp add: raiseE_def)
  qed (use served [of s] assms(3) busy in simp_all)
  ultimately show ?thesis by simp
qed (use assms in simp)

definition plain_request :: request where
  "plain_request = \<lparr>rq_query = (\<lambda>_. []), rq_files = (\<lambda>_. None), rq_json = Some PNone\<rparr>"

theorem rest_busy_witness:
  "\<exists>x s' w'. rest_call m3_env 1 (plain_request\<lparr>rq_files := \<lambda>_. Some \<lparr>up_filename = ''fw.elf'', up_file = []\<rparr>\<rparr>)
       (RExpStart ''u'' 3) (running_manager\<lparr>gm_rlock := Some (2, 1)\<rparr>) world0 = (x, s', w')
     \<and> s' = running_manager\<lparr>gm_rlock := Some (2, 1)\<rparr>
     \<and> (\<exists>f. trace w' \<in> {[], [CreateFile f, RemoveFile f]})"
proof -
  obtain x s' w' where run: "rest_call m3_env 1 (plain_request\<lparr>rq_files := \<lambda>_. Some \<lparr>up_filename = ''fw.elf'', up_file = []\<rparr>\<rparr>)
      (RExpStart ''u'' 3) (running_manager\<lparr>gm_rlock := Some (2, 1)\<rparr>) world0 = (x, s', w')"
    by (metis prod.collapse)
  have "gm_rlock (running_manager\<lparr>gm_rlock := Some (2, 1)\<rparr>) = Some (2, 1)" "(2 :: thread) \<noteq> 1" by simp_all
  from rest_busy [OF this run] run show ?thesis by (simp add: world0_def)
qed

text \<open>C8: starting an experiment over the network.  A start that is answered with a return value, on a
  consistent manager that is free, leaves the requested experiment running, with an expiry exactly
  when the query has a timeout that is a positive integer, or it was refused, the answer is 1
  and there is no experiment.  A profile that is not JSON is answered with 1 and stops
  nothing: the experiment of before goes on.\<close>

theorem rest_exp_start_expiry:
  assumes "gm_inv s" and "gm_rlock s = None"
    and "rest_call E t rq (RExpStart user exp_id) s w = (Inr (AnsRet n), s', w')"
  shows "if extract_profile E rq = None then n = 1 \<and> abs_exp s' = abs_exp s
         else abs_exp s' = Running exp_id user (\<exists>k>0. py_int (rq_query rq ''timeout'') = Some k)
              \<or> n = 1 \<and> abs_exp s' = Idle"
proof (cases rule: rest_call_cases [of E t rq "RExpStart user exp_id" w])
  case (refused m)
  then show ?thesis using assms(3) by (simp split: if_splits)
next
  case (served fw)
  show ?thesis
  proof (cases "extract_profile E rq")
    case None
    with served [of s] assms(3) show ?thesis by (simp add: plan_profile_def retE_def)
  next
    case (Some p)
    let ?op = "GmStart user exp_id fw p (query_timeout rq)"
    obtain y s1 w1 where y: "gm_run E t ?op s (around E fw w) = (y, s1, w1)" by (cases "gm_run E t ?op s (around E fw w)")
    with served [of s] assms(3) Some have "y = Inr n" "s1 = s'"
      by (auto simp: plan_profile_def answer_ret_def bindE_def retE_def simp del: gm_run.simps split: sum.splits if_splits)
    with gm_call_outcome [OF assms(1,2) y] have "abs_exp s' = Running exp_id user (query_timeout rq \<noteq> 0) \<or> n = 1 \<and> abs_exp s' = Idle"
      by simp
    moreover have "query_timeout rq \<noteq> 0 \<longleftrightarrow> (\<exists>k>0. py_int (rq_query rq ''timeout'') = Some k)"
      by (auto simp: query_timeout_def max_def split: option.split)
    ultimately show ?thesis using Some by auto
  qed
qed

theorem rest_exp_start_expiry_witness:
  "\<exists>s' w'. rest_call m3_env 1 (plain_request\<lparr>rq_files := \<lambda>_. Some \<lparr>up_filename = ''p.json'', up_file = ''{''\<rparr>\<rparr>)
       (RExpStart ''v'' 3) running_manager world0 = (Inr (AnsRet 1), s', w') \<and> abs_exp s' = Running 2 ''u'' True"
proof -
  let ?rq = "plain_request\<lparr>rq_files := \<lambda>_. Some \<lparr>up_filename = ''p.json'', up_file = ''{''\<rparr>\<rparr>"
  have env: "e_json m3_env x = None" "e_create m3_env v p = None" for x v p by (simp_all add: m3_env_def working_env_def)
  have prof: "extract_profile m3_env ?rq = None" by (simp add: extract_profile_def env)
  then have "\<exists>s' w'. rest_call m3_env 1 ?rq (RExpStart ''v'' 3) running_manager world0 = (Inr (AnsRet 1), s', w')"
    by (simp add: rest_call_def cb_wrap_run rest_exp_start_def extract_firmware_def env bindE_def askE_def thenE_def
        emitE_def finallyE_def retE_def)
  then obtain s' w' where run: "rest_call m3_env 1 ?rq (RExpStart ''v'' 3) running_manager world0 = (Inr (AnsRet 1), s', w')"
    by blast
  have "gm_inv running_manager" "gm_rlock running_manager = None" "abs_exp running_manager = Running 2 ''u'' True"
    by (simp_all add: running_manager_def m3_manager_def gm_inv_def abs_exp_def)
  with rest_exp_start_expiry [OF _ _ run] run prof show ?thesis by auto
qed

lemma query_channel_ok:
  "query_channel rq = Inr channel \<Longrightarrow>
   channel = None \<and> rq_query rq ''channel'' = []
   \<or> (\<exists>c. channel = Some c \<and> py_int (rq_query rq ''channel'') = Some c \<and> 11 \<le> c \<and> c \<le> 26)"
  unfolding query_channel_def Let_def by (cases "py_int (rq_query rq ''channel'')") (auto split: if_splits)


end
