(* ===== verification/Gateway_Power.thy ===== *)
theory Gateway_Power
  imports Rest_Server
begin

text \<open>
  The power of the open node, through the whole program.  The control node object remembers whether
  the open node is started or stopped; the board itself only knows the commands that it acknowledged.
  The lemmas here carry the invariant that both agree, which is proved of every method of the control
  node in \<open>Control_Nodes\<close>, through the gateway manager, the autotests and the REST server.
\<close>

section \<open>The invariant\<close>

text \<open>Only the M3 control nodes have a command channel.\<close>

fun cn_power :: "control_node \<Rightarrow> world \<Rightarrow> bool" where
  "cn_power (CnIotlab c) w = power_inv c w"
| "cn_power (CnRpi3 c) w = True"
| "cn_power (CnNo c) w = True"

text \<open>The invariant of an object that holds the control node, found by \<open>v\<close>.\<close>

definition mirror :: "('s \<Rightarrow> control_node) \<Rightarrow> 's \<Rightarrow> world \<Rightarrow> bool" where
  "mirror v s w = cn_power (v s) w"

definition at_node :: "autotest \<Rightarrow> control_node" where
  "at_node s = gm_control_node (at_gm s)"

named_theorems power_rules \<open>calls that keep the mirror of the power\<close>

lemma cn_power_log: "cn_power c w \<Longrightarrow> cn_log w' = cn_log w \<Longrightarrow> cn_power c w'"
  by (cases c) (simp_all add: power_inv_def)

lemma keeps_runI: "(\<And>s w r s' w'. I s w \<Longrightarrow> m s w = (r, s', w') \<Longrightarrow> I s' w') \<Longrightarrow> keeps I m"
  by (rule keepsI, rule wpI) blast+

lemma power_quiet:
  assumes "stays v m" and "silent m"
  shows "keeps (mirror v) m"
proof (rule keeps_runI)
  fix s r s' and w w' :: world
  assume "mirror v s w" and run: "m s w = (r, s', w')"
  with stays_run [OF assms(1) run] show "mirror v s' w'"
    using cn_power_log [OF _ silent_run [OF assms(2) run]] by (simp add: mirror_def)
qed

lemma power_put: "(\<And>s. v (g s) = v s) \<Longrightarrow> keeps (mirror v) (putE g)"
  by (intro power_quiet stays_putE silent_rules)

lemma power_emit [power_rules]: "cn_cmds [ev] = [] \<Longrightarrow> keeps (mirror v) (emitE E ev)"
  by (intro power_quiet stays_rules silent_emitE)

lemma power_zoom:
  assumes "keeps (mirror v) m" and "\<And>s. u s = v (sel s)" and "\<And>s c. sel (upd (\<lambda>_. c) s) = c"
  shows "keeps (mirror u) (zoomE sel upd m)"
proof (rule keeps_runI)
  fix s r s' and w w' :: world
  assume inv: "mirror u s w" and run: "zoomE sel upd m s w = (r, s', w')"
  obtain r1 c w1 where m: "m (sel s) w = (r1, c, w1)" by (cases "m (sel s) w")
  from inv have "mirror v (sel s) w" by (simp add: mirror_def assms(2))
  from keeps_run [OF assms(1) this m] run m show "mirror u s' w'" by (auto simp: zoomE_def mirror_def assms(2,3))
qed

lemma power_case_prod [power_rules]: "(\<And>a b. keeps I (g a b)) \<Longrightarrow> keeps I (case x of (a, b) \<Rightarrow> g a b)"
  by (cases x) simp

lemma power_case_list [power_rules]:
  "keeps I m \<Longrightarrow> (\<And>a as. keeps I (g a as)) \<Longrightarrow> keeps I (case xs of [] \<Rightarrow> m | a # as \<Rightarrow> g a as)"
  by (cases xs) simp_all

section \<open>The control node behind its interface\<close>

lemma power_dispatch:
  assumes "keeps power_inv a"
  shows "keeps (mirror (\<lambda>c. c)) (cn_dispatch a b c)"
proof (rule keeps_runI)
  fix s r s' and w w' :: world
  assume inv: "mirror (\<lambda>c. c) s w" and run: "cn_dispatch a b c s w = (r, s', w')"
  show "mirror (\<lambda>c. c) s' w'"
  proof (cases s)
    case (CnIotlab x)
    with run obtain x' where "a x w = (r, x', w')" "s' = CnIotlab x'"
      by (auto simp: cn_dispatch_def liftE_def split: prod.splits)
    with inv CnIotlab keeps_run [OF assms] show ?thesis by (auto simp: mirror_def)
  qed (use run in \<open>auto simp: cn_dispatch_def liftE_def mirror_def split: prod.splits\<close>)
qed

lemmas power_inv_ops =
  power_inv_run [of _ "OpStart exp_id files" for exp_id files, simplified]
  power_inv_run [of _ OpStop, simplified]
  power_inv_run [of _ "OpStartExperiment p" for p, simplified]
  power_inv_run [of _ OpStopExperiment, simplified]
  power_inv_run [of _ OpAutotestSetup, simplified]
  power_inv_run [of _ "OpAutotestTeardown b" for b, simplified]

lemma power_cn [power_rules]:
  "keeps (mirror (\<lambda>c. c)) (cn_start E exp_id files)" "keeps (mirror (\<lambda>c. c)) (cn_stop E)"
  "keeps (mirror (\<lambda>c. c)) (cn_start_experiment E prof)" "keeps (mirror (\<lambda>c. c)) (cn_stop_experiment E)"
  "keeps (mirror (\<lambda>c. c)) (cn_configure_profile E prof)" "keeps (mirror (\<lambda>c. c)) (cn_flash E fw binary offset)"
  "keeps (mirror (\<lambda>c. c)) (cn_open_start E pwr)" "keeps (mirror (\<lambda>c. c)) (cn_open_stop E pwr)"
  "keeps (mirror (\<lambda>c. c)) (cn_reset E)" "keeps (mirror (\<lambda>c. c)) (cn_status E)"
  "keeps (mirror (\<lambda>c. c)) (cn_autotest_setup E)" "keeps (mirror (\<lambda>c. c)) (cn_autotest_teardown E stop_on)"
  unfolding cn_start_def cn_stop_def cn_start_experiment_def cn_stop_experiment_def cn_configure_profile_def
    cn_flash_def cn_open_start_def cn_open_stop_def cn_reset_def cn_status_def cn_autotest_setup_def cn_autotest_teardown_def
  by (rule power_dispatch, rule power_inv_ops power_inv_rules power_inv_status)+

lemma power_on_control [power_rules]: "keeps (mirror (\<lambda>c. c)) m \<Longrightarrow> keeps (mirror gm_control_node) (on_control m)"
  by (erule power_zoom) simp_all

lemma power_on_open [power_rules]: "silent m \<Longrightarrow> keeps (mirror gm_control_node) (on_open m)"
  by (intro power_quiet stays_zoomE silent_rules) simp_all

section \<open>The gateway manager\<close>

lemma power_gm_put [power_rules]:
  "keeps (mirror gm_control_node) (putE (gm_timer_update f1))"
  "keeps (mirror gm_control_node) (putE (gm_user_log_update f2))"
  "keeps (mirror gm_control_node) (putE (gm_exp_files_update f3))"
  "keeps (mirror gm_control_node) (putE (gm_rlock_update f4))"
  "keeps (mirror gm_control_node) (putE (gm_handlers_update f5))"
  "keeps (mirror gm_control_node) (putE (\<lambda>s. s\<lparr>gm_exp_files := [], gm_exp_id := None, gm_user := None, gm_running := False\<rparr>))"
  "keeps (mirror gm_control_node) (putE (\<lambda>s. s\<lparr>gm_running := True, gm_exp_id := Some exp_id, gm_user := Some user\<rparr>))"
  by (rule power_put, simp)+

lemma silent_files [silent_rules]:
  "silent (create_user_file E path)" "silent (clean_user_file E path)" "silent (user_logger E path)"
  unfolding create_user_file_def clean_user_file_def user_logger_def
  by (intro silent_rules silent_emitE; simp)+

lemma silent_elf [silent_rules]: "silent (is_compatible_with_node E fw target)"
  unfolding is_compatible_with_node_def elf_target_def
  by (intro silent_rules) (auto intro!: silent_rules split: elf_outcome.split if_splits)

lemma power_file [power_rules]:
  "keeps (mirror v) (create_user_file E path)" "keeps (mirror v) (clean_user_file E path)"
  by (intro power_quiet stays_rules silent_rules)+

lemma power_create_files [power_rules]: "keeps (mirror v) (create_files E files)"
  by (induction E files rule: create_files.induct) (auto intro!: keeps_rules power_file)

lemma power_cleanup [power_rules]: "keeps (mirror v) (cleanup_user_exp_files E files)"
  by (induction E files rule: cleanup_user_exp_files.induct) (auto intro!: keeps_rules power_file)

lemma power_make_dirs [power_rules]: "keeps (mirror v) (make_dirs E ds)"
  by (induction ds) (auto intro!: keeps_rules power_emit)

lemma power_leaves [power_rules]:
  "keeps (mirror v) (user_logger E path)" "keeps (mirror v) (is_compatible_with_node E fw target)"
  "keeps (mirror v) (wait_tty E tty timeout)" "keeps (mirror v) (wait_no_tty E tty timeout)"
  "keeps (mirror v) (py_sleep E ms)"
  by (intro power_quiet stays_rules silent_rules)+

lemma power_gm_sync [power_rules]:
  "keeps (mirror gm_control_node) m \<Longrightarrow> keeps (mirror gm_control_node) (gm_sync t m)"
  unfolding gm_sync_def synchronous_def release_lock_def by (intro keeps_rules power_rules)

lemma power_nodes [power_rules]:
  "keeps (mirror gm_control_node) (exp_stop_nodes E)" "keeps (mirror gm_control_node) (exp_run_nodes E exp_id fw prof)"
  unfolding exp_stop_nodes_def exp_run_nodes_def power_cycle_def
  by (intro keeps_rules power_rules silent_rules)+

lemma power_exp_stop [power_rules]: "keeps (mirror gm_control_node) (exp_stop E t)"
  unfolding exp_stop_def exp_stop_body_def exp_stop_timer_def remove_handler_def
  by (intro keeps_rules power_rules) simp

lemma power_exp_start [power_rules]: "keeps (mirror gm_control_node) (exp_start E t user exp_id fw pdict timeout)"
  unfolding exp_start_def exp_start_body_def exp_start_new_def exp_launch_def exp_prepare_def add_handler_def
    create_user_exp_folders_def create_user_exp_files_def
  by (intro keeps_rules power_rules) simp

lemma power_timeout [power_rules]: "keeps (mirror gm_control_node) (timeout_exp_stop E t exp_id user)"
  unfolding timeout_exp_stop_def timeout_exp_stop_body_def
  by (intro keeps_rules power_rules) (auto intro!: keeps_rules split: if_splits)

lemma power_gm_run [power_rules]: "keeps (mirror gm_control_node) (gm_run E t op)"
  by (cases op)
     (simp_all only: gm_run.simps exp_update_profile_def open_power_start_def open_power_stop_def gm_open_debug_start_def
        gm_open_debug_stop_def node_soft_reset_def node_flash_def gm_status_def gm_sleep_def,
      (intro keeps_rules power_rules silent_rules)+)

section \<open>The autotests\<close>

lemma power_at_control [power_rules]: "keeps (mirror (\<lambda>c. c)) m \<Longrightarrow> keeps (mirror at_node) (at_control m)"
  by (rule power_zoom [OF power_on_control]) (simp_all add: at_node_def)

lemma power_at_open [power_rules]: "silent m \<Longrightarrow> keeps (mirror at_node) (at_open m)"
  by (rule power_zoom [OF power_on_open]) (simp_all add: at_node_def)

lemma power_at_protocol [power_rules]: "keeps power_inv m \<Longrightarrow> keeps (mirror at_node) (at_protocol m)"
  unfolding at_protocol_def by (intro power_at_control power_dispatch)

lemma power_at_put [power_rules]:
  "keeps (mirror at_node) (putE (at_on_serial_update f1))" "keeps (mirror at_node) (putE (at_linux_update f2))"
  "keeps (mirror at_node) (putE (at_success_update f3))" "keeps (mirror at_node) (putE (at_error_update f4))"
  "keeps (mirror at_node) (putE (at_mac_update f5))" "keeps (mirror at_node) (putE (at_uid_update f6))"
  "keeps (mirror at_node) (putE (at_tested_update f7))"
  "keeps (mirror at_node) (putE (\<lambda>s. s\<lparr>at_on_serial := f8 s\<rparr>))"
  by (rule power_put, simp add: at_node_def)+

lemma silent_with_on_serial: "silent m \<Longrightarrow> silent (with_on_serial m)"
  by (rule silentI, rule keeps_runI)
     (auto simp: with_on_serial_def dest: silent_run split: option.splits prod.splits)

lemma silent_on_linux: "silent m \<Longrightarrow> silent (on_linux m)"
  by (rule silentI, rule keeps_runI)
     (auto simp: on_linux_def dest: silent_run split: option.splits prod.splits)

lemma power_with_on_serial [power_rules]: "silent m \<Longrightarrow> keeps (mirror at_node) (with_on_serial m)"
  by (intro power_quiet stays_with_on_serial silent_with_on_serial) (simp_all add: at_node_def)

lemma power_on_linux [power_rules]: "silent m \<Longrightarrow> keeps (mirror at_node) (on_linux m)"
  by (intro power_quiet stays_on_linux silent_on_linux) (simp_all add: at_node_def)

text \<open>What the tests do through the connections is no command of the control node.\<close>

lemma silent_py_check_output [silent_rules]: "silent (py_check_output E args)"
  unfolding py_check_output_def
  by (intro silent_rules) (auto intro!: silent_rules silent_emitE split: output_outcome.split)

lemma empty_loop_log:
  assumes "empty_loop E w = Some w'"
  shows "cn_log w' = cn_log w"
  using assms
proof (rule empty_loop.raw_induct [where P = "\<lambda>E w w'. cn_log w' = cn_log w", rotated])
  fix f E w w'
  assume IH: "\<And>E w w'. f E w = Some w' \<Longrightarrow> cn_log w' = cn_log w"
    and "(let r = e_sock_read E w; w' = log_event E (SockRead r) w in
      case (case r of None \<Rightarrow> None | Some line \<Rightarrow> line_words line) of None \<Rightarrow> Some w' | Some _ \<Rightarrow> f E w') = Some w'"
  then show "cn_log w' = cn_log w" by (auto simp: Let_def dest!: IH split: option.splits)
qed

lemma expect_loop_log:
  assumes "expect_loop E port pattern end_time buff w = Some y"
  shows "cn_log (snd y) = cn_log w"
  using assms
proof (rule expect_loop.raw_induct [where P = "\<lambda>E port pattern end_time buff w y. cn_log (snd y) = cn_log w", rotated])
  fix f E port pattern end_time buff w y
  assume IH: "\<And>E port pattern end_time buff w y. f E port pattern end_time buff w = Some y \<Longrightarrow> cn_log (snd y) = cn_log w"
    and "(case e_port_read E w port of
        None \<Rightarrow> Some ([], w)
      | Some bytes \<Rightarrow>
          (let w' = log_event E (SerialRead port bytes) w in
           if (case end_time of None \<Rightarrow> False | Some t \<Rightarrow> t \<le> now w') then Some ([], w')
           else if bytes = [] then f E port pattern end_time buff w'
           else (let buff' = last_line buff @ bytes in
                 case rx_search pattern buff' of
                   Some m \<Rightarrow> Some (m, w')
                 | None \<Rightarrow> f E port pattern end_time buff' w'))) = Some y"
  then show "cn_log (snd y) = cn_log w" by (auto simp: Let_def dest!: IH split: option.splits if_splits)
qed

lemma silent_expect [silent_rules]: "silent (expect E port pattern timeout)"
  by (rule silentI, rule keeps_runI)
     (auto simp: expect_def raiseE_def dest: expect_loop_log split: if_splits option.splits prod.splits)

lemma silent_create_connection [silent_rules]: "silent (create_connection E host port)"
  unfolding create_connection_def by (intro silent_rules silent_emitE) simp

lemma silent_try_connect [silent_rules]: "silent (try_connect E host port n)"
  by (induction n) (auto intro!: silent_rules split: if_splits)

lemma silent_on_fd [silent_rules]: "silent m \<Longrightarrow> silent (on_fd m)"
  unfolding on_fd_def by (intro silent_rules)

lemma silent_conn [silent_rules]:
  "silent (conn_start E)" "silent (conn_stop E)" "silent (conn_send_command E cmd)"
  unfolding conn_start_def conn_stop_def conn_send_command_def conn_writeline_def conn_readline_def Let_def
  by (intro silent_rules silent_emitE; auto intro!: silent_rules split: if_splits)+

lemma silent_conn_empty [silent_rules]: "silent (conn_empty E)"
  unfolding conn_empty_def
  by (intro silent_on_fd silentI keeps_runI) (auto dest: empty_loop_log split: option.splits)

lemma silent_open_port [silent_rules]: "silent (open_port E url)"
  unfolding open_port_def by (intro silent_rules silent_emitE) simp

lemma silent_expect_try_connect [silent_rules]: "silent (expect_try_connect E url n)"
  by (induction n) (auto intro!: silent_rules split: if_splits)

lemma silent_console [silent_rules]:
  "silent (SerialExpectForSocket_init E host port)" "silent (expect_socket_close E)" "silent (expect_send E tty data)"
  unfolding SerialExpectForSocket_init_def expect_socket_close_def expect_send_def
  by (intro silent_rules; simp)+

lemma silent_ssh_run [silent_rules]: "silent (ssh_run E command)"
  unfolding ssh_run_def by (intro silent_rules)

lemma silent_linux [silent_rules]:
  "silent (linux_connection_start E)" "silent (linux_get_mac_addr E)" "silent (linux_flash E)"
  unfolding linux_connection_start_def get_ip_addr_def linux_get_mac_addr_def linux_flash_def
  by (intro silent_rules; auto intro!: silent_rules split: if_splits)+

lemma silent_open_boot [silent_rules]:
  "silent (open_setup_nodebug E)" "silent (open_wait_booted E timeout)" "silent (open_redirection_stop E)"
  unfolding open_setup_nodebug_def open_wait_booted_def open_redirection_stop_def open_redirection_def wait_booted_def
  by (intro silent_rules; auto intro!: silent_rules split: exc.splits)+

lemma power_measures [power_rules]:
  "keeps (mirror at_node) reset_measures" "keeps (mirror at_node) (get_measures E)"
proof -
  have "keeps power_inv (putE (ci_serial_update (cs_measures_update (\<lambda>_. []))))"
    by (simp add: keeps_def wp_simps power_inv_def)
  then show "keeps (mirror at_node) reset_measures"
    unfolding reset_measures_def by (intro power_at_control power_dispatch)
  have "keeps power_inv (emitE E CnMeasures)"
    by (simp add: keeps_def wp_simps power_inv_def)
  then show "keeps (mirror at_node) (get_measures E)"
    unfolding get_measures_def read_measures_def
    by (intro keeps_rules power_at_control power_dispatch power_inv_serial silent_rules)
qed

lemma power_at_check [power_rules]:
  "keeps (mirror at_node) (at_check ret operation)" "keeps (mirror at_node) (at_assert ret operation)"
  unfolding at_check_def at_assert_def by (cases "ret = 0"; simp; intro keeps_rules power_rules)+

lemma power_checkers [power_rules]:
  "keeps (mirror at_node) m \<Longrightarrow> keeps (mirror at_node) (autotest_checker required m)"
  "keeps (mirror at_node) m \<Longrightarrow> keeps (mirror at_node) (control_node_checker required m)"
  unfolding autotest_checker_def control_node_checker_def by (intro keeps_rules power_rules; assumption)+

lemma power_on_call [power_rules]:
  "keeps (mirror at_node) (on_serial_send_command E cmd)" "keeps (mirror at_node) (on_call E cmd)"
  unfolding on_call_def on_serial_send_command_def by (intro keeps_rules power_rules silent_rules)+

lemma power_run_test [power_rules]: "keeps (mirror at_node) (run_test E n cmd parse)"
  by (induction n) (auto intro!: keeps_rules power_rules)

lemma power_send_packets [power_rules]: "keeps (mirror at_node) (send_packets E n cmd)"
  by (induction n) (auto intro!: keeps_rules power_rules)

lemma power_blink_leds [power_rules]: "keeps (mirror at_node) (blink_leds E ls)"
  by (induction ls) (auto intro!: keeps_rules power_rules)

lemma power_pps_poll [power_rules]: "keeps (mirror at_node) (pps_poll E end_time n)"
  by (induction n) (auto intro!: keeps_rules power_rules)

lemma power_open_node_start [power_rules]: "keeps (mirror at_node) (open_node_start E)"
  unfolding open_node_start_def by (intro power_rules)

lemma power_local_mac [power_rules]: "keeps (mirror v) (get_local_mac_addr E)"
  unfolding get_local_mac_addr_def by (intro power_quiet stays_rules silent_rules)

lemma power_setup [power_rules]:
  "keeps (mirror at_node) (setup_control_node E)" "keeps (mirror at_node) (setup_open_node E)"
  unfolding setup_control_node_def setup_open_node_def by (intro keeps_rules power_rules silent_rules)+

lemma power_setup_linux [power_rules]: "keeps (mirror at_node) (setup_linux_open_node E)"
  unfolding setup_linux_open_node_def
  by (intro keeps_rules power_rules silent_rules) (auto intro!: power_at_check split: exc.splits)

lemma power_setup_connection [power_rules]: "keeps (mirror at_node) (setup_open_node_connection E)"
  unfolding setup_open_node_connection_def by (intro keeps_rules power_rules silent_rules)

lemma power_dc_consumption [power_rules]: "keeps (mirror at_node) (dc_consumption period)"
  unfolding dc_consumption_def by (intro keeps_rules)

lemma power_test_on_cn [power_rules]:
  "hd cn_command \<notin> {''start'', ''stop''} \<Longrightarrow> cn_command \<noteq> []
   \<Longrightarrow> keeps (mirror at_node) (test_on_cn E num cn_command on_cmd args)"
  unfolding test_on_cn_def Let_def
  by (intro keeps_rules power_rules power_inv_send_cmd) (auto simp: power_cmd_def)

lemma power_test [power_rules]:
  "keeps (mirror at_node) (test_gpio E)" "keeps (mirror at_node) (test_i2c E)"
  "keeps (mirror at_node) (test_radio_ping_pong E channel)"
  unfolding test_gpio_def test_i2c_def test_radio_ping_pong_def by (intro keeps_rules power_rules; simp)+

lemma power_test_radio [power_rules]: "keeps (mirror at_node) (test_radio_with_rssi E channel)"
  unfolding test_radio_with_rssi_def by (intro keeps_rules power_rules power_inv_config_radio)

lemma power_test_consumption [power_rules]:
  "keeps (mirror at_node) (test_consumption_dc E)" "keeps (mirror at_node) test_consumption_batt"
  "keeps (mirror at_node) (test_leds_with_consumption E)"
  unfolding test_consumption_dc_def test_consumption_batt_def test_leds_with_consumption_def
  by (intro keeps_rules power_rules power_inv_config_consumption)+

lemma power_test_open [power_rules]:
  "keeps (mirror at_node) (check_echo E)" "keeps (mirror at_node) (check_get_time E)" "keeps (mirror at_node) (at_get_uid E)"
  "keeps (mirror at_node) (set_leds_off_and_on E)" "keeps (mirror at_node) (test_flash E flash)"
  "keeps (mirror at_node) (test_pressure E)" "keeps (mirror at_node) (test_light E)"
  "keeps (mirror at_node) (test_gyro E)" "keeps (mirror at_node) (test_magneto E)" "keeps (mirror at_node) (test_accelero E)"
  "keeps (mirror at_node) (test_gps E gps)"
  unfolding check_echo_def check_get_time_def at_get_uid_def set_leds_off_and_on_def test_flash_def test_pressure_def
    test_light_def test_gyro_def test_magneto_def test_accelero_def test_xyz_sensor_def test_gps_def test_pps_open_node_def
  by (intro keeps_rules power_rules)+

lemma power_result_leds [power_rules]: "keeps (mirror at_node) (set_result_leds E blink)"
  unfolding set_result_leds_def set_results_leds_def control_node_leds_blink_def
  by (intro keeps_rules power_rules power_inv_led_time) (auto intro!: keeps_rules split: if_splits)

lemma power_serial_stop [power_rules]: "keeps (mirror at_node) (on_serial_stop E)"
  unfolding on_serial_stop_def
  by (intro keeps_rules power_rules silent_rules) (auto intro!: keeps_rules split: if_splits)

lemma power_teardown [power_rules]: "keeps (mirror at_node) (at_teardown E blink)"
  unfolding at_teardown_def teardown_open_node_def by (intro keeps_rules power_rules silent_rules)

lemma power_run_tests:
  "(\<And>m. m \<in> set tests \<Longrightarrow> keeps (mirror at_node) m) \<Longrightarrow> keeps (mirror at_node) (run_tests n tests)"
  by (induction tests arbitrary: n) (auto intro!: keeps_rules split: if_splits)

lemma power_auto_tests: "keeps (mirror at_node) (auto_tests E channel blink flash gps)"
proof -
  have "keeps (mirror at_node) (run_tests 0 (all_tests E channel flash gps))"
    unfolding all_tests_def by (rule power_run_tests) (auto intro!: keeps_rules power_rules)
  then show ?thesis unfolding auto_tests_def by (intro keeps_rules power_rules)
qed

lemma silent_read_config [silent_rules]: "silent (read_config E key)"
  unfolding read_config_def Let_def by (intro silent_rules)

lemma silent_read_config_default [silent_rules]: "silent (read_config_default E key dflt)"
  unfolding read_config_default_def by (intro silent_rules) (auto intro!: silent_rules split: exc.splits)

lemma silent_open_node_class [silent_rules]: "silent (open_node_class E t)"
  unfolding open_node_class_def verify_def verify_firmware_def
  by (intro silent_rules) (auto intro!: silent_rules split: node_class.split)

lemma silent_BoardConfig_init [silent_rules]: "silent (BoardConfig_init E)"
  unfolding BoardConfig_init_def control_node_class_def
  by (intro silent_rules) (auto intro!: silent_rules split: list.split)

lemma power_gm_auto_tests [power_rules]: "keeps (mirror gm_control_node) (gm_auto_tests E t channel blink flash gps)"
proof -
  have init: "silent (AutoTestManager_init E s)" for s unfolding AutoTestManager_init_def by (intro silent_rules)
  have "keeps (mirror gm_control_node) (gm_auto_tests_body E channel blink flash gps)"
  proof (rule keeps_runI)
    fix s r s' and w w' :: world
    assume inv: "mirror gm_control_node s w" and run: "gm_auto_tests_body E channel blink flash gps s w = (r, s', w')"
    from run show "mirror gm_control_node s' w'"
    proof (cases rule: gm_auto_tests_body_cases)
      case (unread e)
      with inv silent_run [OF init unread(1)] show ?thesis by (auto simp: mirror_def intro: cn_power_log)
    next
      case (tested mgr w1 mgr')
      with inv silent_run [OF init tested(1)] have "mirror at_node mgr w1"
        by (auto simp: mirror_def at_node_def intro: cn_power_log)
      from keeps_run [OF power_auto_tests this tested(3)] tested(4) show ?thesis
        by (simp add: mirror_def at_node_def)
    qed
  qed
  then show ?thesis unfolding gm_auto_tests_def by (rule power_gm_sync)
qed

section \<open>The server\<close>

lemma cn_log_around [simp]: "cn_log (around E fw w) = cn_log w" "cn_log (after E fw w) = cn_log w"
  by (cases fw; simp add: around_def after_def)+

lemma power_run_plan: "keeps (mirror gm_control_node) (run_plan E t p)"
  by (cases p) (simp_all only: run_plan.simps answer_ret_def, (intro keeps_rules power_rules)+)

lemma power_rest_call:
  assumes "rest_call E t rq r s w = (x, s', w')" and "mirror gm_control_node s w"
  shows "mirror gm_control_node s' w'"
proof (cases rule: rest_call_cases [of E t rq r w])
  case (refused n)
  with assms show ?thesis by simp
next
  case (served fw)
  obtain y s1 w1 where run: "run_plan E t (plan_of E rq r fw) s (around E fw w) = (y, s1, w1)"
    by (cases "run_plan E t (plan_of E rq r fw) s (around E fw w)")
  have "mirror gm_control_node s (around E fw w)"
    using assms(2) cn_power_log [of _ w "around E fw w"] by (simp add: mirror_def)
  from keeps_run [OF power_run_plan this run] served [of s] assms(1) run show ?thesis
    by (auto simp: mirror_def intro: cn_power_log split: if_splits)
qed

lemma silent_from_cmdline [silent_rules]: "silent (from_cmdline c)"
  unfolding from_cmdline_def by (intro silent_rules)

lemma silent_process_init [silent_rules]:
  "silent (default_redirection b)" "silent (RtlTcp_init port freq)"
  "silent (Mosquitto_init port)" "silent (LoraGatewayBridge_init E)"
  unfolding default_redirection_def SerialRedirection_init_def RtlTcp_init_def Mosquitto_init_def LoraGatewayBridge_init_def
  by (intro silent_rules)+

lemma silent_lora_pkt_fwd_pid [silent_rules]: "silent (lora_pkt_fwd_pid E)"
  unfolding lora_pkt_fwd_pid_def by (intro silent_rules) (auto intro!: silent_rules split: output_outcome.split)

lemma silent_start_lora_loop [silent_rules]: "silent (start_lora_loop E n)"
  by (induction n) (auto intro!: silent_rules silent_emitE)

lemma silent_OpenOCD_init [silent_rules]: "silent (OpenOCD_init E reset path cfg opts)"
  unfolding OpenOCD_init_def openocd_config_def abspath_def Let_def by (intro silent_rules)

lemma silent_open_node_init [silent_rules]: "silent (open_node_init E c)"
  unfolding open_node_init_def lift_init_def NodeOpenOCD_init_def NodeEdbg_init_def NodeLeonardo_init_def
    NodeZigduino_init_def NodeFirefly_init_def NodeLinux_init_def NodePycom_init_def NodeLoraGateway_init_def
    NodeRtlSdr_init_def SerialRedirection_init_def start_lora_pkt_fwd_def
  by (cases "b_kind c"; simp; intro silent_rules)

lemma silent_control_node_init [silent_rules]: "silent (control_node_init E c node_id dflt)"
  unfolding control_node_init_def lift_init_def ControlNodeIotlab_init_def ControlNodeRpi3_init_def MjpgStreamer_init_def
  by (auto intro!: silent_rules silent_emitE split: node_class.split cn_class.split)

lemma silent_GatewayManager_init: "silent (GatewayManager_init E)"
  unfolding GatewayManager_init_def by (intro silent_rules)

lemma power_made:
  assumes "GatewayManager_init E () w = (Inr gm, u, w')" and "cn_log w = []"
  shows "mirror gm_control_node gm w'"
proof -
  have "cn_log w' = []" using silent_run [OF silent_GatewayManager_init assms(1)] assms(2) by simp
  moreover have "ci_open_node_state c = ''stop''" if "gm_control_node gm = CnIotlab c" for c
    using assms(1) that unfolding GatewayManager_init_def control_node_init_def ControlNodeIotlab_init_def
      ControlNodeRpi3_init_def lift_init_def
    by (elim bindE_InrE) (auto simp: retE_def raiseE_def split: option.splits node_class.splits cn_class.splits elim!: bindE_InrE)
  ultimately show ?thesis
    by (cases "gm_control_node gm") (simp_all add: mirror_def power_inv_def last_power_def)
qed

lemma power_rest_main:
  assumes "rest_main E t () w = (Inr (gm, routes), u, w')" and "cn_log w = []"
  shows "mirror gm_control_node gm w'"
proof -
  obtain gm0 w1 where init: "GatewayManager_init E () w = (Inr gm0, (), w1)"
    using assms(1) unfolding rest_main_def by (elim bindE_InrE) auto
  with assms(1) obtain r w2 where ready: "gm_setup E t gm0 w1 = (Inr r, gm, w2)"
    and rest: "bindE (GatewayRest_init E) (\<lambda>routes. retE (gm, routes)) () w2 = (Inr (gm, routes), u, w')"
    unfolding rest_main_def by (auto simp: bindE_def retE_def split: prod.splits sum.splits)
  from keeps_run [OF power_gm_run power_made [OF init assms(2)] gm_setup_flash [OF ready]]
  have "mirror gm_control_node gm w2" .
  moreover have "silent (bindE (GatewayRest_init E) (\<lambda>routes. retE (gm, routes)))"
    unfolding GatewayRest_init_def by (intro silent_rules)
  from silent_run [OF this rest] have "cn_log w' = cn_log w2" .
  ultimately show ?thesis by (auto simp: mirror_def intro: cn_power_log)
qed

lemma power_rest_reach: "rest_reach E routes gm w \<Longrightarrow> mirror gm_control_node gm w"
proof (induction rule: rest_reach.induct)
  case (up w t gm routes u w')
  then show ?case using power_rest_main by blast
next
  case (request routes gm w r t rq x gm' w')
  then show ?case by (intro power_rest_call [OF request(3)])
next
  case (timer routes gm w t exp_id user x gm' w')
  then show ?case by (intro keeps_run [OF power_timeout _ timer(2)])
next
  case (time routes gm w n)
  then show ?case by (auto simp: mirror_def intro: cn_power_log)
qed

end
