(* ===== verification/Cli.thy ===== *)
theory Cli
  imports Gateway_Power
begin

text \<open>
  The command line programs of \<^verbatim>\<open>gateway_code/utils/cli\<close>: resetting, flashing and debugging a
  node, and running the serial redirection, the SDR server or the camera server until Ctrl+C.
  The parsed options are an argument; what is printed is the second part of a result.
\<close>

section \<open>Logs on stderr\<close>

text \<open>The state of a program is the list of the handlers of the logger.\<close>

type_synonym 'a cli_act = "(string list, 'a) act"

definition register_stderr_logger :: "unit cli_act" where
  "register_stderr_logger = putE (\<lambda>hs. if ''stderr'' \<in> set hs then hs else hs @ [''stderr''])"

definition unregister_stderr_logger :: "unit cli_act" where
  "unregister_stderr_logger = putE (remove1 ''stderr'')"

definition log_to_stderr :: "'a cli_act \<Rightarrow> 'a cli_act" where
  "log_to_stderr func = finallyE (thenE register_stderr_logger func) unregister_stderr_logger"

text \<open>A call on an object that only the program holds.\<close>

definition with_object :: "('n, 'a) act \<Rightarrow> 'n \<Rightarrow> ('s, 'a) act" where
  "with_object m n = (\<lambda>s w. case m n w of (r, _, w') \<Rightarrow> (r, s, w'))"

section \<open>Until Ctrl+C\<close>

text \<open>\<open>signal.pause()\<close>: the signal that ends it raises KeyboardInterrupt, or nothing\<close>

definition signal_pause :: "env \<Rightarrow> ('s, unit) act" where
  "signal_pause E = bindE (askE (e_pause E)) (\<lambda>interrupt. if interrupt then raiseE KeyboardInterrupt else retE ())"

definition except_interrupt :: "('s, unit) act \<Rightarrow> ('s, unit) act" where
  "except_interrupt m = tryE m (\<lambda>e. if e = KeyboardInterrupt then Some (retE ()) else None)"

text \<open>The \<open>try\<close> statement that the three servers have in common.\<close>

definition until_interrupt :: "env \<Rightarrow> ('s, int) act \<Rightarrow> ('s, int) act \<Rightarrow> ('s, unit) act" where
  "until_interrupt E start stop =
     finallyE (except_interrupt (thenE start (signal_pause E))) (thenE stop (retE ()))"

definition rtl_tcp_main :: "env \<Rightarrow> int \<Rightarrow> int \<Rightarrow> unit cli_act" where
  "rtl_tcp_main E port frequency =
     log_to_stderr (bindE (RtlTcp_init port frequency) (with_object (until_interrupt E (xp_start E) (xp_stop E))))"

definition mjpg_streamer_main :: "env \<Rightarrow> int \<Rightarrow> unit cli_act" where
  "mjpg_streamer_main E port =
     log_to_stderr (bindE (MjpgStreamer_init E port) (with_object (until_interrupt E (xp_start E) (xp_stop E))))"

text \<open>The Linux open node when there is one, else the open node.\<close>

definition get_open_node :: "env \<Rightarrow> board_config \<Rightarrow> ('s, open_node) act" where
  "get_open_node E cfg =
     open_node_init E (case bc_linux_on_class cfg of Some linux \<Rightarrow> linux | None \<Rightarrow> bc_board_class cfg)"

definition serial_redirection_main :: "env \<Rightarrow> unit cli_act" where
  "serial_redirection_main E =
     log_to_stderr
       (bindE (BoardConfig_init E) (\<lambda>cfg.
        bindE (get_open_node E cfg)
          (with_object (until_interrupt E (open_redirection (xp_start E)) (open_redirection (xp_stop E))))))"

section \<open>Nodes and options of the programmer\<close>

datatype cli_node = CliOpen open_node | CliControl control_node

definition cli_dispatch :: "(open_node, 'a) act \<Rightarrow> (control_node, 'a) act \<Rightarrow> (cli_node, 'a) act" where
  "cli_dispatch a b = (\<lambda>s w. case s of CliOpen x \<Rightarrow> liftE CliOpen a x w | CliControl x \<Rightarrow> liftE CliControl b x w)"

text \<open>
  The parsed options.  \<open>--control-node\<close> is declared for gateways with an M3 control node and no Linux
  open node only: on the others the attribute \<open>cn\<close> does not exist.
\<close>

record cli_opts =
  co_quiet :: bool
  co_cn :: "bool option"
  co_firmware :: "string option"
  co_bin :: bool
  co_offset :: int

definition setup_parser :: "board_config \<Rightarrow> cli_opts \<Rightarrow> bool" where
  "setup_parser cfg opts \<longleftrightarrow> (co_cn opts \<noteq> None \<longleftrightarrow> cn_type_of cfg = ''iotlab'' \<and> bc_linux_on_class cfg = None)"

definition opts_control_node :: "cli_opts \<Rightarrow> bool" where
  "opts_control_node opts = (case co_cn opts of Some cn \<Rightarrow> cn | None \<Rightarrow> False)"

text \<open>The control node is made without a default profile; \<open>dflt\<close> stands for it, and no command here looks at it.\<close>

definition get_node :: "env \<Rightarrow> profile \<Rightarrow> board_config \<Rightarrow> bool \<Rightarrow> ('s, cli_node) act" where
  "get_node E dflt cfg control_node =
     (if control_node
      then bindE (control_node_init E (bc_cn_class cfg) (bc_node_id cfg) dflt) (\<lambda>n. retE (CliControl n))
      else bindE (get_open_node E cfg) (\<lambda>n. retE (CliOpen n)))"

fun cli_TYPE :: "cli_node \<Rightarrow> string" where
  "cli_TYPE (CliOpen n) = b_TYPE (open_class n)"
| "cli_TYPE (CliControl n) = cn_type n"

text \<open>\<open>node.programmer is not None\<close>\<close>

fun has_programmer :: "cli_node \<Rightarrow> bool" where
  "has_programmer (CliControl (CnIotlab _)) = True"
| "has_programmer (CliControl _) = False"
| "has_programmer (CliOpen (OnOpenOCD _)) = True"
| "has_programmer (CliOpen (OnEdbg _)) = True"
| "has_programmer (CliOpen (OnLeonardo _)) = True"
| "has_programmer (CliOpen (OnZigduino _)) = True"
| "has_programmer (CliOpen (OnFirefly _)) = True"
| "has_programmer (CliOpen _) = False"

definition print_result :: "int \<Rightarrow> string \<Rightarrow> string \<Rightarrow> string" where
  "print_result ret cmd node =
     (if ret = 0 then cmd @ '' OK''
      else if ret = -1 then ''error: '' @ cmd @ '' not supported for board '' @ node
      else if ret = -2 then ''error: '' @ cmd @ '' too few arguments''
      else cmd @ '' KO: '' @ str_int ret) @ [CHR 0x0A]"

section \<open>Reset\<close>

definition reset_node :: "env \<Rightarrow> (cli_node, int) act" where
  "reset_node E =
     bindE (getE has_programmer) (\<lambda>programmer.
       if programmer then cli_dispatch (open_reset E) (cn_reset E) else retE (- 1))"

definition cli_reset :: "env \<Rightarrow> profile \<Rightarrow> cli_opts \<Rightarrow> (int \<times> string) cli_act" where
  "cli_reset E dflt opts =
     log_to_stderr
       (bindE (BoardConfig_init E) (\<lambda>cfg.
        bindE (get_node E dflt cfg (opts_control_node opts)) (\<lambda>node.
        bindE (with_object (reset_node E) node) (\<lambda>ret.
          retE (ret, print_result ret ''reset'' (cli_TYPE node))))))"

section \<open>Flash\<close>

text \<open>
  The firmware: the environment variable \<open>FW\<close>, for the open node only, with two names that stand for
  the firmwares of its class, or else the argument.
\<close>

definition class_firmware :: "string option \<Rightarrow> exc + string" where
  "class_firmware attr = (case attr of None \<Rightarrow> Inl AttributeErr | Some path \<Rightarrow> Inr path)"

definition env_firmware :: "board_class \<Rightarrow> string \<Rightarrow> exc + string" where
  "env_firmware c fw =
     (case (if fw = ''idle'' then class_firmware (b_FW_IDLE c) else Inr fw) of
        Inl e \<Rightarrow> Inl e
      | Inr f \<Rightarrow> if f = ''autotest'' then class_firmware (b_FW_AUTOTEST c) else Inr f)"

definition cli_firmware :: "env \<Rightarrow> cli_opts \<Rightarrow> cli_node \<Rightarrow> exc + string option" where
  "cli_firmware E opts node =
     (case (e_getenv E ''FW'', node) of
        (Some fw, CliOpen n) \<Rightarrow> map_sum id Some (env_firmware (open_class n) fw)
      | _ \<Rightarrow> Inr (co_firmware opts))"

text \<open>The result is the return value and what was printed; None is the text of an exception.\<close>

definition flash_node :: "env \<Rightarrow> cli_opts \<Rightarrow> (cli_node, int \<times> string option) act" where
  "flash_node E opts =
     bindE (getE id) (\<lambda>node.
       case cli_firmware E opts node of
         Inl e \<Rightarrow> raiseE e
       | Inr None \<Rightarrow> retE (- 2, Some (print_result (- 2) ''flash'' []))
       | Inr (Some firmware) \<Rightarrow>
           if \<not> has_programmer node then retE (- 1, Some (print_result (- 1) ''flash'' (cli_TYPE node)))
           else
             bindE (tryE (bindE (abspath E firmware) (\<lambda>p. retE (Some p)))
                         (\<lambda>e. case e of IOErr _ \<Rightarrow> Some (retE None) | _ \<Rightarrow> None)) (\<lambda>path.
               case path of
                 None \<Rightarrow> retE (1, None)
               | Some p \<Rightarrow>
                   bindE (cli_dispatch (open_flash E (Some p) (co_bin opts) (co_offset opts))
                                       (cn_flash E (Some p) (co_bin opts) (co_offset opts))) (\<lambda>ret.
                     retE (ret, Some (print_result ret ''flash'' (cli_TYPE node))))))"

definition cli_flash :: "env \<Rightarrow> profile \<Rightarrow> cli_opts \<Rightarrow> (int \<times> string option) cli_act" where
  "cli_flash E dflt opts =
     log_to_stderr
       (bindE (BoardConfig_init E) (\<lambda>cfg.
        bindE (get_node E dflt cfg (opts_control_node opts)) (with_object (flash_node E opts))))"

section \<open>Debug\<close>

definition debug_wait :: "env \<Rightarrow> (open_node, int) act" where
  "debug_wait E =
     bindE (open_debug_start E) (\<lambda>ret.
       if ret \<noteq> 0 then retE ret
       else thenE (finallyE (except_interrupt (signal_pause E)) (thenE (open_debug_stop E) (retE ()))) (retE 0))"

text \<open>\<open>hasattr\<close> of the two methods; the control nodes have neither\<close>

fun has_debug :: "cli_node \<Rightarrow> bool" where
  "has_debug (CliOpen n) = (set [''debug_start'', ''debug_stop''] \<subseteq> set (board_methods (b_kind (open_class n))))"
| "has_debug (CliControl _) = False"

definition debug_node :: "env \<Rightarrow> (cli_node, int) act" where
  "debug_node E =
     bindE (getE has_debug) (\<lambda>debug.
       if debug then cli_dispatch (debug_wait E) (raiseE AttributeErr) else retE (- 1))"

definition cli_debug :: "env \<Rightarrow> profile \<Rightarrow> cli_opts \<Rightarrow> (int \<times> string) cli_act" where
  "cli_debug E dflt opts =
     log_to_stderr
       (bindE (BoardConfig_init E) (\<lambda>cfg.
        bindE (get_node E dflt cfg (opts_control_node opts)) (\<lambda>node.
        bindE (with_object (debug_node E) node) (\<lambda>ret.
          retE (ret, print_result ret ''debug'' (cli_TYPE node))))))"

section \<open>Lemmas\<close>

lemma log_to_stderr_run:
  assumes "func (hs @ [''stderr'']) w = (r, hs @ [''stderr''], w')" and "''stderr'' \<notin> set hs" and "r \<noteq> Inl Blocked"
  shows "log_to_stderr func hs w = (r, hs, w')"
  using assms
  by (auto simp: log_to_stderr_def register_stderr_logger_def unregister_stderr_logger_def finallyE_def thenE_def
      bindE_def putE_def remove1_append split: sum.split)

lemma pause_run: "except_interrupt (signal_pause E) s w = (Inr (), s, w)"
  by (simp add: except_interrupt_def signal_pause_def tryE_def bindE_def askE_def raiseE_def retE_def)

lemma server_run:
  assumes "thread_ends E (xp_cmd p) k" and "\<not> xp_live p"
  shows "\<exists>w'. until_interrupt E (xp_start E) (xp_stop E) p w = (Inr (), p\<lparr>xp_run := False, xp_live := False\<rparr>, w')
     \<and> \<not> e_alive E w' (xp_cmd p)"
proof -
  let ?w1 = "log_event E (ThreadStart (py_join '' '' (xp_cmd p))) w"
  have start: "except_interrupt (thenE (xp_start E) (signal_pause E)) p w = (Inr (), p\<lparr>xp_run := True, xp_live := True\<rparr>, ?w1)"
    using assms(2)
    by (simp add: except_interrupt_def signal_pause_def xp_start_def tryE_def thenE_def bindE_def putE_def getE_def
        emitE_def askE_def raiseE_def retE_def)
  obtain w' where "stop_loop E (xp_cmd p) 0 ?w1 = Some (Inr (), w')"
    using stop_loop_returns [OF assms(1), of 0 20 ?w1] by auto
  moreover from stop_loop_outcome [OF this] have "\<not> e_alive E w' (xp_cmd p)" by (auto simp: stop_outcome_def)
  moreover from calculation(1) have "thenE (xp_stop E) (retE ()) (p\<lparr>xp_run := True, xp_live := True\<rparr>) ?w1
      = (Inr (), p\<lparr>xp_run := False, xp_live := False\<rparr>, w')"
    by (simp add: thenE_def bindE_def retE_def xp_stop_run)
  ultimately show ?thesis by (simp add: until_interrupt_def finallyE_def start)
qed

definition rtl_tcp_argv :: "int \<Rightarrow> int \<Rightarrow> string list" where
  "rtl_tcp_argv port frequency =
     [''/usr/bin/rtl_tcp'', ''-a'', ''0.0.0.0'', ''-p'', str_int port, ''-f'', str_int frequency]"

lemma rtl_tcp_cmdline:
  "shlex_split (''/usr/bin/rtl_tcp -a 0.0.0.0 -p '' @ str_int port @ '' -f '' @ str_int frequency)
   = Some (rtl_tcp_argv port frequency)"
  unfolding shlex_split_def rtl_tcp_argv_def
  by (simp add: sh_space_def str_int_plain shlex_plain_space [of "str_int port"] shlex_plain_end [of "str_int frequency"])

lemma openocd_debug_start_fresh:
  assumes "openocd_ok oo opts" and "oo_debug oo = None"
  shows "openocd_debug_start E oo w =
     (case e_popen E w (openocd_argv oo opts [''reset halt'']) of
        PopenFails n \<Rightarrow> (Inl (OSErr n), oo, w)
      | Started pid \<Rightarrow>
          (Inr 0, oo\<lparr>oo_debug := Some pid\<rparr>, log_event E (Spawn (openocd_argv oo opts [''reset halt''])) w))"
proof -
  have "openocd_debug_stop E oo w = (Inr 0, oo, w)" using assms(2) by (cases oo) (simp add: openocd_debug_stop_run)
  moreover have "openocd_args oo OPENOCD_DEBUG = Some (openocd_argv oo opts [''reset halt''])"
    using openocd_args_exact [OF assms(1), of "[''reset halt'']"] by (simp add: OPENOCD_DEBUG_def)
  ultimately show ?thesis
    by (simp add: openocd_debug_start_def thenE_def bindE_def getE_def askE_def emitE_def putE_def
        retE_def raiseE_def split: popen_outcome.split)
qed

text \<open>With the options of its parser, a command for the control node is for one that has a programmer.\<close>

lemma control_node_programmable:
  assumes "setup_parser cfg opts" and "opts_control_node opts"
    and "get_node E dflt cfg (opts_control_node opts) s w = (Inr n, s', w')"
  shows "has_programmer n"
proof -
  have "cn_type_of cfg = ''iotlab''"
    using assms(1,2) by (auto simp: setup_parser_def opts_control_node_def split: option.splits)
  with assms(2,3) show ?thesis
    by (auto simp: get_node_def control_node_init_def lift_init_def raiseE_def retE_def elim!: bindE_InrE
        split: node_class.splits cn_class.splits)
qed

text \<open>\<open>flash OK\<close> is printed only for a firmware that could be read and that the node was flashed with.\<close>

lemma flash_node_ok:
  assumes "flash_node E opts node w = (Inr (0, out), node', w')"
  shows "\<exists>firmware. cli_firmware E opts node = Inr (Some firmware) \<and> has_programmer node
     \<and> e_open E w (e_abspath E firmware) = None
     \<and> cli_dispatch (open_flash E (Some (e_abspath E firmware)) (co_bin opts) (co_offset opts))
          (cn_flash E (Some (e_abspath E firmware)) (co_bin opts) (co_offset opts)) node w = (Inr 0, node', w')
     \<and> out = Some (print_result 0 ''flash'' (cli_TYPE node))"
  using assms
  by (auto simp: flash_node_def bindE_def getE_def raiseE_def retE_def tryE_def abspath_def Let_def askE_def
      split: sum.splits option.splits if_splits prod.splits)

section \<open>Properties\<close>





end
