(* ===== verification/Spec2Isabelle.thy ===== *)
theory Spec2Isabelle
  imports Cli
begin

text \<open>
  Verification of the IoT-LAB gateway software, the Python package \<^verbatim>\<open>src/gateway_code\<close>.

  \<^bold>\<open>The program.\<close>  A gateway is a small computer with one experiment board, the open node, and usually a
  control node that powers and monitors it.  A REST server (\<^verbatim>\<open>rest_server.py\<close>) receives the requests of
  the testbed and calls the gateway manager (\<^verbatim>\<open>gateway_manager.py\<close>), which runs one experiment at a time
  under a lock: it makes the files of the user, starts the control node, sets up the open node with its
  firmware and serial redirection, applies the monitoring profile (\<^verbatim>\<open>profile.py\<close>), and stops all of it on
  request or when a timer fires.  The control node of an M3 gateway (\<^verbatim>\<open>control_nodes/cn_iotlab\<close>) is driven over a
  serial program by text commands and answers (\<^verbatim>\<open>cn_protocol.py\<close>, \<^verbatim>\<open>cn_interface.py\<close>).  Open nodes
  (\<^verbatim>\<open>open_nodes\<close>) are flashed by external programmers and reached through background programs
  (\<^verbatim>\<open>utils\<close>).  Autotests (\<^verbatim>\<open>autotest\<close>) exercise both nodes and report.  Command line programs
  (\<^verbatim>\<open>utils/cli\<close>) flash, reset and debug a node without the server.

  \<^bold>\<open>How it is modelled.\<close>  \<open>Gateway_Prelude\<close> defines the effect type: a method is a function from the state of its
  object and the world to an exception or a value, the new state and the new world.  The world is a
  clock and the trace of the external actions so far (programs called and signalled, ports written,
  commands sent, files made).  What the outside answers is a record \<open>env\<close> of functions of the world and
  of the request, left arbitrary in the theorems: exit codes, process outcomes, file errors, lines of the serial
  program, answers of the board, the iteration order of a set.  Every \<open>raise\<close> is a value of \<open>exc\<close>;
  \<open>Blocked\<close> stands for a call that never returns.  The combinators are those of the source: sequence, \<open>try\<close>,
  \<open>finally\<close>, a call on an attribute object, and the sum of return codes.  The calculus on them is the weakest
  precondition \<open>wp\<close> and three predicates with a collection of rules each: \<open>keeps\<close> (a state invariant),
  \<open>silent\<close> (no control node command) and \<open>stays\<close> (an attribute is left as it is).

  \<^bold>\<open>Theories, in the order of their imports.\<close>
  \<^item> \<open>Gateway_Prelude\<close>, \<open>Py_Strings\<close>: effects, and the Python string operations with their round trips
    (\<open>str\<close> and \<open>int\<close>, \<open>split\<close> and \<open>join\<close>, \<open>shlex.split\<close> of quoted words).
  \<^item> \<open>Common\<close> (\<^verbatim>\<open>common.py\<close>): polling loops with their bound, the non-blocking lock as the
    locale \<open>lockable\<close>, \<open>booleanize\<close>.
  \<^item> \<open>Profile\<close> (\<^verbatim>\<open>profile.py\<close>): a document is accepted exactly within the limits of the platform, and
    errors are ValueErrors but for one case.
  \<^item> \<open>Cn_Interface\<close> (\<^verbatim>\<open>cn_interface.py\<close>): the reader thread as a function of what it observes, commands paired
    with fresh answers, and the outcome of a start.
  \<^item> \<open>Protocol\<close> (\<^verbatim>\<open>cn_protocol.py\<close>): command lines that read back as the configuration, over any sender
    of the locale \<open>cn_sender\<close>, which is interpreted by the serial object and by the control node.
  \<^item> \<open>Programmers\<close> (\<^verbatim>\<open>openocd.py\<close>, \<^verbatim>\<open>avrdude.py\<close>, \<^verbatim>\<open>edbg.py\<close>, \<^verbatim>\<open>cc2538.py\<close>, \<^verbatim>\<open>elftarget.py\<close>): the exact
    argument lists, debug sessions, and the locale \<open>programmer\<close> with its four interpretations.
  \<^item> \<open>External_Process\<close> (\<^verbatim>\<open>external_process.py\<close> and the five programs built on it): \<open>stop\<close> returns, and the thread with
    its child and a concurrent \<open>stop\<close> is a step relation with its invariant.
  \<^item> \<open>Ftdi_Check\<close> (\<^verbatim>\<open>ftdi_check.py\<close>); \<open>Control_Nodes\<close> (\<^verbatim>\<open>control_nodes\<close>): the four classes, the return codes as the
    number of commands that were not acknowledged, and the power state as a mirror of the commands.
  \<^item> \<open>Boards\<close> (class attributes of \<^verbatim>\<open>open_nodes\<close>, \<^verbatim>\<open>nodes.py\<close>, \<^verbatim>\<open>config.py\<close>, \<^verbatim>\<open>board_config.py\<close>): the registry,
    the verification of a class, and the configuration as a function of the files.
  \<^item> \<open>Serial_Expect\<close> (\<^verbatim>\<open>serial_expect.py\<close>), \<open>Node_Connection\<close> (\<^verbatim>\<open>node_connection.py\<close>), \<open>Linux_Interface\<close>
    (\<^verbatim>\<open>open_linux_interface.py\<close>): waiting for a text, the connection to the board, ssh to a Linux board.
  \<^item> \<open>Open_Nodes\<close> (methods of \<^verbatim>\<open>open_nodes\<close>): one section per implementation, and one datatype over all
    boards in which a method that a class lacks raises AttributeError.
  \<^item> \<open>Gateway_Manager\<close> (\<^verbatim>\<open>gateway_manager.py\<close>): every synchronised method, the invariant of the manager, the refinement of
    an abstract experiment (none, or one of a user with or without an expiry), and refused calls.
  \<^item> \<open>Autotest_Measures\<close>, \<open>Autotest\<close>, \<open>Autotest_Results\<close> (\<^verbatim>\<open>autotest.py\<close>): the verdicts over the measures, every test,
    what a return value of 0 stands for, and that experiments are left alone.
  \<^item> \<open>Rest_Server\<close> (\<^verbatim>\<open>rest_server.py\<close>): routes, handlers and the 503 answer; every request is at most one call of
    the manager, and the reachable states of a running server keep its invariant.
  \<^item> \<open>Gateway_Power\<close>: the power mirror carried through manager, autotests and server; \<open>Cli\<close> (\<^verbatim>\<open>utils/cli\<close>): the
    command line programs.
  This theory holds the property that spans them all.

  \<^bold>\<open>Loops and bounds.\<close>  Loops that may run for ever are partial functions into an option (\<open>stop_loop\<close>,
  \<open>expect_loop\<close>, \<open>empty_loop\<close>), where None is a loop that does not end; that they end is proved under a stated
  assumption on the outside (\<open>xp_stop_returns\<close>: SIGKILL ends a process; \<open>expect_returns\<close>: a read takes time;
  \<open>empty_loop_returns\<close>: the board falls silent).  Loops with a number of tries recurse on that number: ten
  connections, 51 starts of the LoRa forwarder.  \<open>wait_loop\<close> terminates because its sleeps take time.  The turns of
  \<open>pps_poll\<close> are computed from the timeout, at five seconds a turn, and \<open>test_pps_ends\<close> shows that they do not run out.

  \<^bold>\<open>Not modelled.\<close>
  \<^item> Log messages, the text of exceptions, and \<open>init_logger\<close>, which only configures the logging package; the
    handler of the user log is modelled.
  \<^item> bottle and paste: matching a URL with a route, parsing a body, HTTP itself.  A request is what the
    handlers read of it.  argparse: the parsed options are an argument.
  \<^item> Preemption inside a method.  The lock rejects concurrent calls, which \<open>gm_busy\<close> and \<open>rest_busy\<close> prove, so calls
    of the manager are atomic steps here; the reader thread of the control node and the thread of a
    background program are modelled, the thread that logs the boot of a Linux board is its start event.
  \<^item> Floating point numbers in a profile: JSON values have none here.  Measures and sensor values are
    rational numbers, infinities and not-a-number, without rounding.
  \<^item> The control node serial program, a C program of its own; openocd, avrdude, socat and the other programs; pyelftools: all of them are
    answers of the environment.
  \<^item> \<^verbatim>\<open>subprocess_timeout.py\<close> (imports only), \<^verbatim>\<open>setup.py\<close>, \<^verbatim>\<open>doc\<close>, \<^verbatim>\<open>tests_utils\<close>: nothing of them runs on the gateway.
  \<^item> In \<^verbatim>\<open>autotest.py\<close>, the code of \<open>test_consumption_batt\<close> after its \<open>return\<close>, and \<open>_test_pps_open_node_invalid\<close>, which nothing
    calls.
\<close>

section \<open>Properties of the whole program\<close>

text \<open>C2: the power of the open node, through the whole server.  Whatever requests were served, in
  whatever order, experiments and autotests included, however they ended, and whenever timers fired: the state
  that an M3 control node object remembers is the last start or stop command that the control node
  acknowledged, and stop when there was none.  This state decides which command is sent when a
  profile is applied.\<close>

theorem rest_power_mirror:
  assumes "rest_reach E routes gm w" and "gm_control_node gm = CnIotlab c"
  shows "ci_open_node_state c = last_power (cn_log w)"
  using power_rest_reach [OF assms(1)] assms(2) by (simp add: mirror_def power_inv_def)

theorem rest_power_mirror_witness:
  "\<exists>gm c w. rest_reach m3_env (app_routing m3_config) gm w \<and> gm_control_node gm = CnIotlab c
     \<and> ci_open_node_state c = last_power (cn_log w)"
proof -
  obtain on c w where "rest_main m3_env 0 () world0 = (Inr (m3_manager on (CnIotlab c), app_routing m3_config), (), w)"
    using m3_rest_main by blast
  then have reach: "rest_reach m3_env (app_routing m3_config) (m3_manager on (CnIotlab c)) w"
    by (rule rest_reach.up [rotated]) (simp add: world0_def)
  moreover have "gm_control_node (m3_manager on (CnIotlab c)) = CnIotlab c" by (simp add: m3_manager_def)
  ultimately show ?thesis using rest_power_mirror [OF reach] by blast
qed

end
